(* ===== verification/Go_Prelude.thy ===== *)
theory Go_Prelude
  imports Main "HOL-Library.Word"
begin

text \<open>
  The prelude of the student-cafe development: the Go types and the parts of Go's standard
  library (\<open>strconv\<close>, \<open>strings\<close>, \<open>fmt\<close>, \<open>time\<close>) that the services under \<open>src/practicals\<close>
  use, with the collections of simplification rules the component theories share.

  Machine integers keep their width. \<open>uint\<close> and \<open>int\<close> are 64 bits wide (every image of the
  repository is built for a 64-bit platform), \<open>uint32\<close> and \<open>int32\<close> are the widths of the
  protobuf messages. Signed values are words read with \<open>sint\<close>. A \<open>float64\<close> is its IEEE-754
  bit pattern: the services decode, copy, store and encode prices and never compute with them.
\<close>

named_theorems go_conv \<comment> \<open>conversions between Go integer types\<close>
named_theorems handler \<comment> \<open>definitions of handlers, unfolded when a handler is executed\<close>
named_theorems model \<comment> \<open>model-to-message conversions\<close>

type_synonym uint = "64 word"
type_synonym uint32 = "32 word"
type_synonym goint = "64 word"
type_synonym int32 = "32 word"
type_synonym float64 = "64 word"

subsection \<open>Outcomes\<close>

text \<open>
  A Go function of type \<open>(T, error)\<close> returns a value or an error; a nil dereference panics.
  An error is a gRPC status error (code and message) or any other error with its text.
\<close>

datatype code =
    OK | Canceled | Unknown | InvalidArgument | DeadlineExceeded | NotFound | AlreadyExists
  | PermissionDenied | ResourceExhausted | FailedPrecondition | Aborted | OutOfRange
  | Unimplemented | Internal | Unavailable | DataLoss | Unauthenticated

datatype goerror = StatusError code string | PlainError string

datatype 'a outcome = Return 'a | Error goerror | Panic

fun outcome_ok :: "'a outcome \<Rightarrow> bool" where
  "outcome_ok (Return _) = True"
| "outcome_ok (Error _) = False"
| "outcome_ok Panic = False"

lemma outcome_okE [elim!]:
  assumes "outcome_ok x"
  obtains v where "x = Return v"
  using assms by (cases x) auto

lemma map_le_Some: "m \<subseteq>\<^sub>m m' \<Longrightarrow> m k = Some d \<Longrightarrow> m' k = Some d"
  by (metis domI map_le_def)

subsection \<open>Integer conversions\<close>

definition uint32_of_uint :: "uint \<Rightarrow> uint32" where
  "uint32_of_uint x = ucast x"

definition uint_of_uint32 :: "uint32 \<Rightarrow> uint" where
  "uint_of_uint32 x = ucast x"

definition int32_of_uint32 :: "uint32 \<Rightarrow> int32" where
  "int32_of_uint32 x = ucast x"

definition int32_of_int :: "goint \<Rightarrow> int32" where
  "int32_of_int x = ucast x"

definition int_of_int32 :: "int32 \<Rightarrow> goint" where
  "int_of_int32 x = scast x"

lemma uint32_of_uint_of_uint32 [simp]: "uint32_of_uint (uint_of_uint32 x) = x"
  by (simp add: uint32_of_uint_def uint_of_uint32_def ucast_up_ucast_id is_up)

lemma unat_uint_of_uint32 [go_conv]: "unat (uint_of_uint32 x) = unat x"
  by (simp add: uint_of_uint32_def unsigned_ucast_eq take_bit_eq_mod unsigned_less [THEN order_less_trans])

lemma unat_uint32_of_uint [go_conv]: "unat (uint32_of_uint x) = unat x mod 2 ^ 32"
  by (simp add: uint32_of_uint_def unsigned_ucast_eq take_bit_eq_mod)

lemma uint_of_uint32_bound: "unat (uint_of_uint32 x) < 2 ^ 32"
  using unsigned_less [of x] by (simp add: go_conv)

text \<open>Truncating an identifier to 32 bits loses nothing exactly when it fits.\<close>

lemma uint32_roundtrip_iff: "uint_of_uint32 (uint32_of_uint x) = x \<longleftrightarrow> unat x < 2 ^ 32"
proof
  assume "uint_of_uint32 (uint32_of_uint x) = x"
  then show "unat x < 2 ^ 32" using uint_of_uint32_bound [of "uint32_of_uint x"] by simp
next
  assume "unat x < 2 ^ 32"
  then show "uint_of_uint32 (uint32_of_uint x) = x"
    by (simp add: word_unat_eq_iff go_conv)
qed

lemma uint_of_uint32_inject [simp]: "uint_of_uint32 x = uint_of_uint32 y \<longleftrightarrow> x = y"
  by (metis uint32_of_uint_of_uint32)

lemma int32_of_int_of_int32 [simp]: "int32_of_int (int_of_int32 x) = x"
  by (rule bit_word_eqI) (simp add: int32_of_int_def int_of_int32_def bit_simps)

lemma sint_int_of_int32 [go_conv]: "sint (int_of_int32 x) = sint x"
  by (simp add: int_of_int32_def sint_up_scast is_up)

lemma int32_of_uint32_id [go_conv]: "int32_of_uint32 x = x"
  by (simp add: int32_of_uint32_def)

subsection \<open>Decimal numerals: \<open>fmt\<close>'s \<open>%d\<close> and \<open>strconv.ParseUint\<close>\<close>

definition digit_char :: "nat \<Rightarrow> char" where
  "digit_char d = ''0123456789'' ! d"

definition digit_val :: "char \<Rightarrow> nat option" where
  "digit_val c = (let n = of_char c in if 48 \<le> n \<and> n \<le> 57 then Some (n - 48) else None)"

fun dec_of_nat :: "nat \<Rightarrow> string" where
  "dec_of_nat n =
     (if n < 10 then [digit_char n] else dec_of_nat (n div 10) @ [digit_char (n mod 10)])"

declare dec_of_nat.simps [simp del]

fun parse_digits :: "nat \<Rightarrow> string \<Rightarrow> nat option" where
  "parse_digits acc [] = Some acc"
| "parse_digits acc (c # cs) =
     (case digit_val c of None \<Rightarrow> None | Some d \<Rightarrow> parse_digits (10 * acc + d) cs)"

text \<open>\<open>ParseUint bits s\<close> is \<open>strconv.ParseUint(s, 10, bits)\<close>; \<open>None\<close> is its error.\<close>

definition ParseUint :: "nat \<Rightarrow> string \<Rightarrow> nat option" where
  "ParseUint bits s =
     (if s = [] then None
      else case parse_digits 0 s of
             None \<Rightarrow> None
           | Some n \<Rightarrow> if n < 2 ^ bits then Some n else None)"

lemma digit_val_digit_char [simp]: "d < 10 \<Longrightarrow> digit_val (digit_char d) = Some d"
  by (auto simp: digit_val_def digit_char_def less_Suc_eq numeral_eq_Suc)

lemma parse_digits_append:
  "parse_digits a (xs @ ys) =
     (case parse_digits a xs of None \<Rightarrow> None | Some b \<Rightarrow> parse_digits b ys)"
  by (induction a xs rule: parse_digits.induct) (auto split: option.splits)

lemma parse_digits_dec_of_nat [simp]: "parse_digits 0 (dec_of_nat n) = Some n"
proof (induction n rule: dec_of_nat.induct)
  case (1 n)
  show ?case
  proof (cases "n < 10")
    case True
    then show ?thesis by (subst dec_of_nat.simps) simp
  next
    case False
    with "1.IH" have "parse_digits 0 (dec_of_nat (n div 10)) = Some (n div 10)" by simp
    with False show ?thesis by (subst dec_of_nat.simps) (simp add: parse_digits_append)
  qed
qed

lemma dec_of_nat_nonempty [simp]: "dec_of_nat n \<noteq> []"
  by (subst dec_of_nat.simps) simp

lemma ParseUint_dec_of_nat: "ParseUint bits (dec_of_nat n) = (if n < 2 ^ bits then Some n else None)"
  by (simp add: ParseUint_def)

lemma ParseUint_bound: "ParseUint bits s = Some n \<Longrightarrow> n < 2 ^ bits"
  by (auto simp: ParseUint_def split: if_splits option.splits)

lemma dec_of_nat_inject [simp]: "dec_of_nat m = dec_of_nat n \<longleftrightarrow> m = n"
  by (metis option.inject parse_digits_dec_of_nat)

lemma dec_of_nat_digits: "c \<in> set (dec_of_nat n) \<Longrightarrow> digit_val c \<noteq> None"
proof (induction n rule: dec_of_nat.induct)
  case (1 n)
  show ?case
  proof (cases "n < 10")
    case True
    with "1.prems" show ?thesis by (subst (asm) dec_of_nat.simps) auto
  next
    case False
    with "1.prems" have "c \<in> set (dec_of_nat (n div 10)) \<or> c = digit_char (n mod 10)"
      by (subst (asm) dec_of_nat.simps) auto
    with False "1.IH" show ?thesis by auto
  qed
qed

definition fmt_uint :: "'a::len word \<Rightarrow> string" where
  "fmt_uint w = dec_of_nat (unat w)"

lemma fmt_uint_inject [simp]: "fmt_uint v = fmt_uint w \<longleftrightarrow> v = w"
  by (simp add: fmt_uint_def word_unat_eq_iff)

subsection \<open>\<open>strings.TrimPrefix\<close>, \<open>strings.Split\<close> and \<open>strings.Join\<close>\<close>

definition TrimPrefix :: "string \<Rightarrow> string \<Rightarrow> string" where
  "TrimPrefix s p = (if take (length p) s = p then drop (length p) s else s)"

fun Split :: "string \<Rightarrow> char \<Rightarrow> string list" where
  "Split [] c = [[]]"
| "Split (x # xs) c =
     (if x = c then [] # Split xs c
      else case Split xs c of [] \<Rightarrow> [[x]] | y # ys \<Rightarrow> (x # y) # ys)"

fun Join :: "string list \<Rightarrow> string \<Rightarrow> string" where
  "Join [] sep = []"
| "Join [x] sep = x"
| "Join (x # y # ys) sep = x @ sep @ Join (y # ys) sep"

lemma TrimPrefix_append [simp]: "TrimPrefix (p @ s) p = s"
  by (simp add: TrimPrefix_def)

lemma Split_nonempty [simp]: "Split s c \<noteq> []"
  by (induction s c rule: Split.induct) (auto split: list.splits)

lemma Join_Cons: "xs \<noteq> [] \<Longrightarrow> Join (x # xs) sep = x @ sep @ Join xs sep"
  by (cases xs) auto

lemma Join_Split [simp]: "Join (Split s c) [c] = s"
proof (induction s c rule: Split.induct)
  case (2 x xs c)
  then show ?case
    by (cases "Split xs c"; cases "tl (Split xs c)") (auto simp: Join_Cons)
qed simp

lemma Split_no_sep [simp]: "c \<notin> set s \<Longrightarrow> Split s c = [s]"
  by (induction s c rule: Split.induct) auto

lemma Split_append_sep [simp]: "c \<notin> set s \<Longrightarrow> Split (s @ c # t) c = s # Split t c"
  by (induction s) auto

lemma Split_Join:
  "xs \<noteq> [] \<Longrightarrow> (\<forall>x\<in>set xs. c \<notin> set x) \<Longrightarrow> Split (Join xs [c]) c = xs"
  by (induction xs "[c]" rule: Join.induct) auto

lemma Split_segments: "x \<in> set (Split s c) \<Longrightarrow> c \<notin> set x"
  by (induction s c arbitrary: x rule: Split.induct) (auto split: list.splits if_splits)

subsection \<open>Sequences of requests\<close>

text \<open>A client that sends a list of requests one after the other.\<close>

fun run_requests :: "('q \<Rightarrow> 's \<Rightarrow> 'x \<times> 's) \<Rightarrow> 'q list \<Rightarrow> 's \<Rightarrow> 'x list \<times> 's" where
  "run_requests f [] s = ([], s)"
| "run_requests f (q # qs) s =
     (case f q s of (x, s1) \<Rightarrow> (case run_requests f qs s1 of (xs, s2) \<Rightarrow> (x # xs, s2)))"

text \<open>A relation between states that every request keeps, and that composes, holds along the sequence.\<close>

lemma run_requests_induct:
  assumes "run_requests f qs s = (xs, s')" and "\<And>s. R s s"
    and "\<And>q s x s1 s2. f q s = (x, s1) \<Longrightarrow> R s1 s2 \<Longrightarrow> R s s2"
  shows "R s s'"
  using assms(1)
proof (induction qs arbitrary: s xs)
  case Nil
  with assms(2) show ?case by simp
next
  case (Cons q qs)
  obtain x s1 where x: "f q s = (x, s1)" by fastforce
  with Cons.prems obtain ys where "run_requests f qs s1 = (ys, s')" by (auto split: prod.splits)
  from assms(3) [OF x Cons.IH [OF this]] show ?case .
qed

lemma run_requests_inv:
  assumes "run_requests f qs s = (xs, s')" and "P s" and "\<And>q s x s'. f q s = (x, s') \<Longrightarrow> P s \<Longrightarrow> P s'"
  shows "P s'"
  using run_requests_induct [where R = "\<lambda>s s'. P s \<longrightarrow> P s'", OF assms(1)] assms(2,3) by blast

end
