(* ===== verification/Go_Json.thy ===== *)
theory Go_Json
  imports Go_Prelude
begin

text \<open>
  The parts of \<open>encoding/json\<close>, \<open>net/http\<close> and \<open>time\<close> the handlers use.

  A request body is the first JSON value \<open>json.NewDecoder(r.Body).Decode\<close> reads, or \<open>None\<close>
  when the bytes are no JSON value (\<open>Decode\<close> then returns a syntax error or \<open>io.EOF\<close>). A JSON
  number token is kept as what the decoder distinguishes: an integer literal, the literal
  \<open>-0\<close>, or a literal with a fraction or an exponent, given by the \<open>float64\<close> it parses to
  (\<open>None\<close> when it is out of range).

  \<open>Decode\<close> does not stop at a value of the wrong type: it records the error, leaves the field
  as it was and goes on, so a decoder here returns whether it succeeded together with the
  value, and a caller that ignores the error sees the partly decoded value.
\<close>

datatype json =
    JNull | JBool bool | JInt int | JNegZero | JReal "float64 option" | JStr string
  | JArr "json list" | JObj "(string \<times> json) list"

type_synonym request_body = "json option"
type_synonym 'a decoder = "json \<Rightarrow> 'a \<Rightarrow> bool \<times> 'a"

subsection \<open>Decoding\<close>

fun dec_string :: "string decoder" where
  "dec_string (JStr s) old = (True, s)"
| "dec_string JNull old = (True, old)"
| "dec_string _ old = (False, old)"

fun dec_bool :: "bool decoder" where
  "dec_bool (JBool b) old = (True, b)"
| "dec_bool JNull old = (True, old)"
| "dec_bool _ old = (False, old)"

fun dec_uint :: "'a::len word decoder" where
  "dec_uint (JInt i) old =
     (if 0 \<le> i \<and> i < 2 ^ LENGTH('a) then (True, word_of_int i) else (False, old))"
| "dec_uint JNull old = (True, old)"
| "dec_uint _ old = (False, old)"

fun dec_int :: "'a::len word decoder" where
  "dec_int (JInt i) old =
     (if - (2 ^ (LENGTH('a) - 1)) \<le> i \<and> i < 2 ^ (LENGTH('a) - 1)
      then (True, word_of_int i) else (False, old))"
| "dec_int JNegZero old = (True, 0)"
| "dec_int JNull old = (True, old)"
| "dec_int _ old = (False, old)"

text \<open>The double nearest to an integer literal, ties to even; \<open>None\<close> when it overflows.\<close>

fun ilog2 :: "int \<Rightarrow> nat" where
  "ilog2 n = (if n < 2 then 0 else Suc (ilog2 (n div 2)))"

declare ilog2.simps [simp del]

definition round_shift :: "int \<Rightarrow> nat \<Rightarrow> int" where
  "round_shift n sh =
     (let q = n div 2 ^ sh; r = n mod 2 ^ sh; half = 2 ^ sh div 2
      in if sh \<noteq> 0 \<and> (half < r \<or> r = half \<and> odd q) then q + 1 else q)"

definition float64_magnitude :: "int \<Rightarrow> int option" where
  "float64_magnitude n =
     (if n = 0 then Some 0
      else let k = ilog2 n;
               q = (if k \<le> 52 then n * 2 ^ (52 - k) else round_shift n (k - 52));
               bits = int (k + 1023) * 2 ^ 52 + (q - 2 ^ 52)
           in if bits < 2047 * 2 ^ 52 then Some bits else None)"

definition float64_of_int :: "int \<Rightarrow> float64 option" where
  "float64_of_int i =
     (case float64_magnitude \<bar>i\<bar> of
        None \<Rightarrow> None
      | Some b \<Rightarrow> Some (word_of_int (if i < 0 then 2 ^ 63 + b else b)))"

fun dec_float64 :: "float64 decoder" where
  "dec_float64 (JInt i) old =
     (case float64_of_int i of None \<Rightarrow> (False, old) | Some b \<Rightarrow> (True, b))"
| "dec_float64 JNegZero old = (True, 2 ^ 63)"
| "dec_float64 (JReal (Some b)) old = (True, b)"
| "dec_float64 JNull old = (True, old)"
| "dec_float64 _ old = (False, old)"

text \<open>
  A struct decoder is a list of JSON names with the decoders of their fields. A member's name
  selects the field of the same name, else a field whose name is equal up to letter case; a
  member that selects no field is ignored.
\<close>

definition fold_char :: "char \<Rightarrow> char" where
  "fold_char c =
     (case map_of (zip ''ABCDEFGHIJKLMNOPQRSTUVWXYZ'' ''abcdefghijklmnopqrstuvwxyz'') c of
        Some l \<Rightarrow> l
      | None \<Rightarrow> c)"

text \<open>
  Two runes outside ASCII fold to ASCII letters: the long s (bytes \<open>C5 BF\<close>) and the Kelvin sign
  (bytes \<open>E2 84 AA\<close>).
\<close>

fun json_fold :: "string \<Rightarrow> string" where
  "json_fold (a # b # c # s) =
     (if a = CHR 0xE2 \<and> b = CHR 0x84 \<and> c = CHR 0xAA then CHR ''k'' # json_fold s
      else if a = CHR 0xC5 \<and> b = CHR 0xBF then CHR ''s'' # json_fold (c # s)
      else fold_char a # json_fold (b # c # s))"
| "json_fold [a, b] =
     (if a = CHR 0xC5 \<and> b = CHR 0xBF then ''s'' else [fold_char a, fold_char b])"
| "json_fold [a] = [fold_char a]"
| "json_fold [] = []"

definition lookup_field :: "(string \<times> 's decoder) list \<Rightarrow> string \<Rightarrow> 's decoder option" where
  "lookup_field fs k =
     (case map_of fs k of
        Some d \<Rightarrow> Some d
      | None \<Rightarrow> map_of (map (\<lambda>(n, d). (json_fold n, d)) fs) (json_fold k))"

fun dec_members :: "(string \<times> 's decoder) list \<Rightarrow> (string \<times> json) list \<Rightarrow> 's \<Rightarrow> bool \<times> 's" where
  "dec_members fs [] s = (True, s)"
| "dec_members fs ((k, v) # ms) s =
     (case lookup_field fs k of
        None \<Rightarrow> dec_members fs ms s
      | Some d \<Rightarrow>
          (case d v s of (ok1, s1) \<Rightarrow>
             (case dec_members fs ms s1 of (ok2, s2) \<Rightarrow> (ok1 \<and> ok2, s2))))"

fun dec_struct :: "(string \<times> 's decoder) list \<Rightarrow> 's decoder" where
  "dec_struct fs (JObj ms) s = dec_members fs ms s"
| "dec_struct fs JNull s = (True, s)"
| "dec_struct fs _ s = (False, s)"

text \<open>
  An array is decoded into the elements the slice already has (it has some only when a body
  repeats the member's name) and into zero values after those. Elements that an earlier, longer
  array left behind the end of the slice are not modelled: it takes a body that names the same
  member three times to see them.
\<close>

fun dec_elems :: "'a decoder \<Rightarrow> 'a \<Rightarrow> 'a list \<Rightarrow> json list \<Rightarrow> bool \<times> 'a list" where
  "dec_elems d z olds [] = (True, [])"
| "dec_elems d z olds (v # vs) =
     (case d v (case olds of [] \<Rightarrow> z | x # _ \<Rightarrow> x) of (ok1, x) \<Rightarrow>
        (case dec_elems d z (tl olds) vs of (ok2, xs) \<Rightarrow> (ok1 \<and> ok2, x # xs)))"

fun dec_slice :: "'a decoder \<Rightarrow> 'a \<Rightarrow> 'a list decoder" where
  "dec_slice d z (JArr vs) old = dec_elems d z old vs"
| "dec_slice d z JNull old = (True, [])"
| "dec_slice d z _ old = (False, old)"

text \<open>A slice that can be nil: \<open>null\<close> makes it nil, an empty array does not.\<close>

fun dec_slice_or_nil :: "'a decoder \<Rightarrow> 'a \<Rightarrow> 'a list option decoder" where
  "dec_slice_or_nil d z (JArr vs) old =
     (case dec_elems d z (case old of None \<Rightarrow> [] | Some xs \<Rightarrow> xs) vs of (ok, xs) \<Rightarrow> (ok, Some xs))"
| "dec_slice_or_nil d z JNull old = (True, None)"
| "dec_slice_or_nil d z _ old = (False, old)"

text \<open>A field decoder, from the field's decoder, selector and update.\<close>

definition field :: "'a decoder \<Rightarrow> ('s \<Rightarrow> 'a) \<Rightarrow> ('a \<Rightarrow> 's \<Rightarrow> 's) \<Rightarrow> 's decoder" where
  "field d sel upd v s = (case d v (sel s) of (ok, x) \<Rightarrow> (ok, upd x s))"

definition Decode :: "(string \<times> 's decoder) list \<Rightarrow> 's \<Rightarrow> request_body \<Rightarrow> bool \<times> 's" where
  "Decode fs zero body = (case body of None \<Rightarrow> (False, zero) | Some j \<Rightarrow> dec_struct fs j zero)"

subsection \<open>Encoding\<close>

text \<open>
  \<open>Encode\<close> of a value fails, and writes nothing, when it holds a NaN or an infinity; the
  encoders of values with prices therefore return an option.
\<close>

definition float_finite :: "float64 \<Rightarrow> bool" where
  "float_finite b \<longleftrightarrow> (unat b div 2 ^ 52) mod 2 ^ 11 \<noteq> 2047"

definition float_is_zero :: "float64 \<Rightarrow> bool" where
  "float_is_zero b \<longleftrightarrow> b = 0 \<or> b = 2 ^ 63"

definition enc_float64 :: "float64 \<Rightarrow> json option" where
  "enc_float64 b = (if float_finite b then Some (JReal (Some b)) else None)"

definition enc_uint :: "'a::len word \<Rightarrow> json" where
  "enc_uint w = JInt (Word.uint w)"

definition enc_int :: "'a::len word \<Rightarrow> json" where
  "enc_int w = JInt (sint w)"

text \<open>A slice that is not nil (as \<open>Find\<close> leaves it): \<open>[]\<close> when it has no element.\<close>

definition enc_array :: "('a \<Rightarrow> json option) \<Rightarrow> 'a list \<Rightarrow> json option" where
  "enc_array enc xs = map_option JArr (those (map enc xs))"

text \<open>A member with the \<open>omitempty\<close> option.\<close>

definition omitempty :: "string \<Rightarrow> bool \<Rightarrow> json \<Rightarrow> (string \<times> json) list" where
  "omitempty k zero v = (if zero then [] else [(k, v)])"

subsection \<open>HTTP responses\<close>

datatype payload = PText string | PJson json | PEmpty

record response =
  status :: nat
  content_type :: string
  payload :: payload

abbreviation "StatusOK \<equiv> 200 :: nat"
abbreviation "StatusCreated \<equiv> 201 :: nat"
abbreviation "StatusBadRequest \<equiv> 400 :: nat"
abbreviation "StatusUnauthorized \<equiv> 401 :: nat"
abbreviation "StatusForbidden \<equiv> 403 :: nat"
abbreviation "StatusNotFound \<equiv> 404 :: nat"
abbreviation "StatusConflict \<equiv> 409 :: nat"
abbreviation "StatusPreconditionFailed \<equiv> 412 :: nat"
abbreviation "StatusInternalServerError \<equiv> 500 :: nat"
abbreviation "StatusNotImplemented \<equiv> 501 :: nat"
abbreviation "StatusServiceUnavailable \<equiv> 503 :: nat"

definition newline :: string where
  "newline = [CHR 0x0A]"

definition http_Error :: "string \<Rightarrow> nat \<Rightarrow> response" where
  "http_Error msg st =
     \<lparr>status = st, content_type = ''text/plain; charset=utf-8'', payload = PText (msg @ newline)\<rparr>"

definition json_reply :: "nat \<Rightarrow> json option \<Rightarrow> response" where
  "json_reply st j =
     \<lparr>status = st, content_type = ''application/json'',
      payload = (case j of None \<Rightarrow> PEmpty | Some v \<Rightarrow> PJson v)\<rparr>"

lemma status_http_Error [simp]: "status (http_Error m st) = st"
  by (simp add: http_Error_def)

lemma status_json_reply [simp]: "status (json_reply st j) = st"
  by (simp add: json_reply_def)

lemma http_Error_neq_json_reply [simp]: "http_Error m st \<noteq> json_reply st' j"
  by (simp add: http_Error_def json_reply_def)

subsection \<open>Time\<close>

text \<open>
  A \<open>time.Time\<close> by the civil fields its \<open>Format\<close> reads: the offset of its zone is in
  minutes east of UTC.
\<close>

record gotime =
  year :: nat
  month :: nat
  day :: nat
  hour :: nat
  minute :: nat
  second :: nat
  nanosecond :: nat
  offset :: int

definition zero_time :: gotime where
  "zero_time =
     \<lparr>year = 1, month = 1, day = 1, hour = 0, minute = 0, second = 0, nanosecond = 0, offset = 0\<rparr>"

definition pad :: "nat \<Rightarrow> nat \<Rightarrow> string" where
  "pad k n = (let d = dec_of_nat n in replicate (k - length d) (CHR ''0'') @ d)"

definition format_zone :: "int \<Rightarrow> string" where
  "format_zone off =
     (if off = 0 then ''Z''
      else (if off < 0 then ''-'' else ''+'')
           @ pad 2 (nat \<bar>off\<bar> div 60) @ '':'' @ pad 2 (nat \<bar>off\<bar> mod 60))"

definition format_seconds :: "gotime \<Rightarrow> string" where
  "format_seconds t =
     pad 4 (year t) @ ''-'' @ pad 2 (month t) @ ''-'' @ pad 2 (day t) @ ''T''
     @ pad 2 (hour t) @ '':'' @ pad 2 (minute t) @ '':'' @ pad 2 (second t)"

text \<open>\<open>t.Format(time.RFC3339)\<close>\<close>

definition Format_RFC3339 :: "gotime \<Rightarrow> string" where
  "Format_RFC3339 t = format_seconds t @ format_zone (offset t)"

text \<open>The layout of a \<open>time.Time\<close> in JSON: nanoseconds without trailing zeros.\<close>

definition format_nanos :: "nat \<Rightarrow> string" where
  "format_nanos ns =
     (if ns = 0 then [] else CHR ''.'' # rev (dropWhile (\<lambda>c. c = CHR ''0'') (rev (pad 9 ns))))"

definition Format_RFC3339Nano :: "gotime \<Rightarrow> string" where
  "Format_RFC3339Nano t = format_seconds t @ format_nanos (nanosecond t) @ format_zone (offset t)"

lemma Format_RFC3339_drops_nanos:
  "Format_RFC3339 (t\<lparr>nanosecond := n\<rparr>) = Format_RFC3339 t"
  by (simp add: Format_RFC3339_def format_seconds_def)

end
