(* ===== verification/Gorm.thy ===== *)
theory Gorm
  imports Go_Json
begin

text \<open>
  GORM and the database behind it are not part of the repository: a database handle (the
  \<open>database.DB\<close> of every service) is a parameter of the model, a record of the operations the
  services call together with the state they act on and a view \<open>gRows\<close> of the live rows of the
  service's table. What the services rely on are the laws named below; they state GORM's
  documented behaviour:

  \<^item> \<open>Create\<close> runs in a transaction: it inserts the whole row or changes nothing. A zero primary
    key is replaced by a fresh one, a non-zero one is used as it is; an existing key is an
    error. A row with \<open>DeletedAt\<close> set is not among the live rows.
  \<^item> \<open>First\<close> with a primary key returns the live row with that key, \<open>ErrRecordNotFound\<close> when
    there is none, or another error; \<open>Find\<close> returns every live row once, in no particular
    order. Neither changes the table.

  \<open>cols\<close> selects the columns that survive storage unchanged (time stamps lose precision in
  Postgres and associations come back in any order). A \<open>float64\<close> column is an unlimited \<open>numeric\<close>: the
  driver writes the shortest decimal that denotes the number, which reads back as the same bits,
  except that \<open>numeric\<close> has no minus zero; the laws are for prices other than minus zero.
\<close>

subsection \<open>Interface\<close>

record gorm_model =
  ID :: uint
  CreatedAt :: gotime
  UpdatedAt :: gotime
  DeletedAt :: "gotime option"

datatype gorm_error = ErrRecordNotFound | DBError string

fun gorm_error_text :: "gorm_error \<Rightarrow> string" where
  "gorm_error_text ErrRecordNotFound = ''record not found''"
| "gorm_error_text (DBError m) = m"

record ('s, 'r) gorm =
  gState :: 's
  gCreate :: "'r \<Rightarrow> 's \<Rightarrow> (gorm_error + 'r) \<times> 's"
  gFirst :: "uint \<Rightarrow> 's \<Rightarrow> (gorm_error + 'r) \<times> 's"
  gFind :: "'s \<Rightarrow> (gorm_error + 'r list) \<times> 's"
  gRows :: "'s \<Rightarrow> uint \<Rightarrow> 'r option"

definition DB_Create :: "'r \<Rightarrow> ('s, 'r) gorm \<Rightarrow> (gorm_error + 'r) \<times> ('s, 'r) gorm" where
  "DB_Create r D = (case gCreate D r (gState D) of (x, s) \<Rightarrow> (x, D\<lparr>gState := s\<rparr>))"

definition DB_First :: "uint \<Rightarrow> ('s, 'r) gorm \<Rightarrow> (gorm_error + 'r) \<times> ('s, 'r) gorm" where
  "DB_First k D = (case gFirst D k (gState D) of (x, s) \<Rightarrow> (x, D\<lparr>gState := s\<rparr>))"

definition DB_Find :: "('s, 'r) gorm \<Rightarrow> (gorm_error + 'r list) \<times> ('s, 'r) gorm" where
  "DB_Find D = (case gFind D (gState D) of (x, s) \<Rightarrow> (x, D\<lparr>gState := s\<rparr>))"

definition contents :: "('s, 'r) gorm \<Rightarrow> uint \<Rightarrow> 'r option" where
  "contents D = gRows D (gState D)"

subsection \<open>Laws\<close>

definition gorm_create_law :: "('a gorm_model_scheme \<Rightarrow> 'd) \<Rightarrow> ('s, 'a gorm_model_scheme) gorm \<Rightarrow> bool" where
  "gorm_create_law cols D \<longleftrightarrow>
     (\<forall>r s. case gCreate D r s of
        (Inl e, s') \<Rightarrow> gRows D s' = gRows D s
      | (Inr r', s') \<Rightarrow>
          ID r' \<noteq> 0 \<and> (ID r \<noteq> 0 \<longrightarrow> ID r' = ID r) \<and> gRows D s (ID r') = None \<and> cols r' = cols r \<and>
          (if DeletedAt r = None
           then \<exists>t. cols t = cols r \<and> gRows D s' = (gRows D s)(ID r' \<mapsto> t)
           else gRows D s' = gRows D s))"

definition gorm_first_law :: "('a gorm_model_scheme \<Rightarrow> 'd) \<Rightarrow> ('s, 'a gorm_model_scheme) gorm \<Rightarrow> bool" where
  "gorm_first_law cols D \<longleftrightarrow>
     (\<forall>k s. case gFirst D k s of (x, s') \<Rightarrow>
        gRows D s' = gRows D s \<and>
        (case x of
           Inl ErrRecordNotFound \<Rightarrow> gRows D s k = None
         | Inl (DBError _) \<Rightarrow> True
         | Inr r \<Rightarrow> ID r = k \<and> (\<exists>t. gRows D s k = Some t \<and> cols r = cols t)))"

definition gorm_find_law :: "('a gorm_model_scheme \<Rightarrow> 'd) \<Rightarrow> ('s, 'a gorm_model_scheme) gorm \<Rightarrow> bool" where
  "gorm_find_law cols D \<longleftrightarrow>
     (\<forall>s. case gFind D s of (x, s') \<Rightarrow>
        gRows D s' = gRows D s \<and>
        (case x of
           Inl _ \<Rightarrow> True
         | Inr rs \<Rightarrow> distinct (map ID rs) \<and> ID ` set rs = dom (gRows D s) \<and>
             (\<forall>r \<in> set rs. \<exists>t. gRows D s (ID r) = Some t \<and> cols r = cols t)))"

definition gorm_ok :: "('a gorm_model_scheme \<Rightarrow> 'd) \<Rightarrow> ('s, 'a gorm_model_scheme) gorm \<Rightarrow> bool" where
  "gorm_ok cols D \<longleftrightarrow> gorm_create_law cols D \<and> gorm_first_law cols D \<and> gorm_find_law cols D"

text \<open>A column with a unique constraint: inserting a value it already holds is an error.\<close>

definition gorm_unique :: "('r \<Rightarrow> 'c) \<Rightarrow> ('s, 'r) gorm \<Rightarrow> bool" where
  "gorm_unique col D \<longleftrightarrow>
     (\<forall>r s k t. gRows D s k = Some t \<longrightarrow> col t = col r \<longrightarrow>
        (\<exists>m s'. gCreate D r s = (Inl (DBError m), s')))"

text \<open>A database that answers: no call fails for a reason other than a missing row.\<close>

definition gorm_up :: "('s, 'r) gorm \<Rightarrow> bool" where
  "gorm_up D \<longleftrightarrow> (\<forall>k s m. fst (gFirst D k s) \<noteq> Inl (DBError m)) \<and> (\<forall>s e. fst (gFind D s) \<noteq> Inl e)"

subsection \<open>Consequences for a handle\<close>

lemma DB_ops_keep:
  "DB_Create r D = (x, D') \<Longrightarrow> D' = D\<lparr>gState := gState D'\<rparr>"
  "DB_First k D = (y, D') \<Longrightarrow> D' = D\<lparr>gState := gState D'\<rparr>"
  "DB_Find D = (z, D') \<Longrightarrow> D' = D\<lparr>gState := gState D'\<rparr>"
  by (auto simp: DB_Create_def DB_First_def DB_Find_def split: prod.splits)

lemma gorm_state_ops [simp]:
  "gCreate (D\<lparr>gState := s\<rparr>) = gCreate D" "gFirst (D\<lparr>gState := s\<rparr>) = gFirst D"
  "gFind (D\<lparr>gState := s\<rparr>) = gFind D" "gRows (D\<lparr>gState := s\<rparr>) = gRows D"
  by simp_all

lemma gorm_ok_state [simp]: "gorm_ok cols (D\<lparr>gState := s\<rparr>) \<longleftrightarrow> gorm_ok cols D"
  unfolding gorm_ok_def gorm_create_law_def gorm_first_law_def gorm_find_law_def gorm_state_ops
  by (rule refl)

lemma gorm_unique_state [simp]: "gorm_unique col (D\<lparr>gState := s\<rparr>) \<longleftrightarrow> gorm_unique col D"
  by (simp add: gorm_unique_def)

lemma gorm_up_state [simp]: "gorm_up (D\<lparr>gState := s\<rparr>) \<longleftrightarrow> gorm_up D"
  by (simp add: gorm_up_def)

text \<open>A database whose lookups fail still obeys the laws.\<close>

lemma gorm_ok_down:
  assumes "gorm_ok cols D"
  shows "gorm_ok cols (D\<lparr>gFirst := \<lambda>_ s. (Inl (DBError m), s)\<rparr>)"
proof -
  let ?D = "D\<lparr>gFirst := \<lambda>_ s. (Inl (DBError m), s)\<rparr>"
  have sel: "gCreate ?D = gCreate D" "gFind ?D = gFind D" "gRows ?D = gRows D"
    "gFirst ?D = (\<lambda>_ s. (Inl (DBError m), s))" by simp_all
  from assms show ?thesis
    unfolding gorm_ok_def gorm_create_law_def gorm_first_law_def gorm_find_law_def sel
    by (auto simp only: prod.case sum.case gorm_error.case)
qed

lemma DB_ops_ok:
  "DB_Create r D = (x, D') \<Longrightarrow> gorm_ok cols D' \<longleftrightarrow> gorm_ok cols D"
  "DB_First k D = (y, D') \<Longrightarrow> gorm_ok cols D' \<longleftrightarrow> gorm_ok cols D"
  "DB_Find D = (z, D') \<Longrightarrow> gorm_ok cols D' \<longleftrightarrow> gorm_ok cols D"
  by (metis DB_ops_keep gorm_ok_state)+

lemma DB_ops_unique:
  "DB_Create r D = (x, D') \<Longrightarrow> gorm_unique col D' \<longleftrightarrow> gorm_unique col D"
  "DB_First k D = (y, D') \<Longrightarrow> gorm_unique col D' \<longleftrightarrow> gorm_unique col D"
  "DB_Find D = (z, D') \<Longrightarrow> gorm_unique col D' \<longleftrightarrow> gorm_unique col D"
  by (metis DB_ops_keep gorm_unique_state)+

lemma DB_ops_up:
  "DB_Create r D = (x, D') \<Longrightarrow> gorm_up D' \<longleftrightarrow> gorm_up D"
  "DB_First k D = (y, D') \<Longrightarrow> gorm_up D' \<longleftrightarrow> gorm_up D"
  "DB_Find D = (z, D') \<Longrightarrow> gorm_up D' \<longleftrightarrow> gorm_up D"
  by (metis DB_ops_keep gorm_up_state)+

lemma DB_Create_Inl:
  assumes "gorm_ok cols D" and "DB_Create r D = (Inl e, D')"
  shows "contents D' = contents D"
proof -
  from assms(2) obtain s where s: "gCreate D r (gState D) = (Inl e, s)" and D': "D' = D\<lparr>gState := s\<rparr>"
    by (auto simp: DB_Create_def split: prod.splits)
  from assms(1) have "gorm_create_law cols D" by (simp add: gorm_ok_def)
  from this [unfolded gorm_create_law_def, rule_format, where r = r and s = "gState D"] s D' show ?thesis
    by (simp add: contents_def)
qed

lemma DB_Create_law:
  assumes "gorm_ok cols D" and "DB_Create r D = (Inr r', D')"
  shows "ID r' \<noteq> 0 \<and> (ID r \<noteq> 0 \<longrightarrow> ID r' = ID r) \<and> contents D (ID r') = None \<and> cols r' = cols r \<and>
    (if DeletedAt r = None
     then \<exists>t. cols t = cols r \<and> contents D' = (contents D)(ID r' \<mapsto> t)
     else contents D' = contents D)"
proof -
  from assms(2) obtain s where s: "gCreate D r (gState D) = (Inr r', s)" and D': "D' = D\<lparr>gState := s\<rparr>"
    by (auto simp: DB_Create_def split: prod.splits)
  from assms(1) have "gorm_create_law cols D" by (simp add: gorm_ok_def)
  from this [unfolded gorm_create_law_def, rule_format, where r = r and s = "gState D"] s D' show ?thesis
    by (simp add: contents_def)
qed

text \<open>\<open>Create\<close> only adds to a table.\<close>

lemma DB_Create_extends:
  assumes "gorm_ok cols D" and "DB_Create r D = (x, D')"
  shows "contents D \<subseteq>\<^sub>m contents D'"
proof (cases x)
  case (Inl e)
  with assms show ?thesis by (auto dest: DB_Create_Inl)
next
  case (Inr r')
  with DB_Create_law [OF assms(1)] assms(2) show ?thesis
    by (fastforce simp: map_le_def split: if_splits)
qed

lemma DB_Create_Inr:
  assumes "gorm_ok cols D" and "DB_Create r D = (Inr r', D')" and "DeletedAt r = None"
  obtains t where "ID r' \<noteq> 0" and "contents D (ID r') = None" and "cols r' = cols r"
    and "cols t = cols r" and "contents D' = (contents D)(ID r' \<mapsto> t)"
  using DB_Create_law [OF assms(1,2)] assms(3) by auto

lemma DB_First_law:
  assumes "gorm_ok cols D" and "DB_First k D = (x, D')"
  shows "contents D' = contents D \<and>
    (case x of
       Inl ErrRecordNotFound \<Rightarrow> contents D k = None
     | Inl (DBError _) \<Rightarrow> True
     | Inr r \<Rightarrow> ID r = k \<and> (\<exists>t. contents D k = Some t \<and> cols r = cols t))"
proof -
  from assms(2) obtain s where s: "gFirst D k (gState D) = (x, s)" and D': "D' = D\<lparr>gState := s\<rparr>"
    by (auto simp: DB_First_def split: prod.splits)
  from assms(1) have "gorm_first_law cols D" by (simp add: gorm_ok_def)
  from this [unfolded gorm_first_law_def, rule_format, where k = k and s = "gState D"] s D' show ?thesis
    unfolding contents_def by simp
qed

lemma DB_First_frame:
  "gorm_ok cols D \<Longrightarrow> DB_First k D = (x, D') \<Longrightarrow> contents D' = contents D"
  by (simp add: DB_First_law)

lemma DB_First_Inr:
  assumes "gorm_ok cols D" and "DB_First k D = (Inr r, D')"
  obtains t where "ID r = k" and "contents D k = Some t" and "cols r = cols t"
  using DB_First_law [OF assms] by auto

lemma DB_First_missing:
  "gorm_ok cols D \<Longrightarrow> DB_First k D = (Inl ErrRecordNotFound, D') \<Longrightarrow> contents D k = None"
  using DB_First_law by fastforce

lemma DB_First_up:
  assumes "gorm_ok cols D" and "gorm_up D"
  shows "DB_First k D = (x, D') \<Longrightarrow>
    (case contents D k of None \<Rightarrow> x = Inl ErrRecordNotFound | Some t \<Rightarrow> \<exists>r. x = Inr r \<and> cols r = cols t \<and> ID r = k)"
proof -
  assume x: "DB_First k D = (x, D')"
  then have "x = fst (gFirst D k (gState D))" by (auto simp: DB_First_def split: prod.splits)
  with assms(2) have "\<And>m. x \<noteq> Inl (DBError m)" by (simp add: gorm_up_def)
  with DB_First_law [OF assms(1) x] show ?thesis
    by (auto split: sum.splits gorm_error.splits option.splits)
qed

lemma DB_Find_law:
  assumes "gorm_ok cols D" and "DB_Find D = (x, D')"
  shows "contents D' = contents D \<and>
    (case x of
       Inl _ \<Rightarrow> True
     | Inr rs \<Rightarrow> distinct (map ID rs) \<and> ID ` set rs = dom (contents D) \<and>
         (\<forall>r \<in> set rs. \<exists>t. contents D (ID r) = Some t \<and> cols r = cols t))"
proof -
  from assms(2) obtain s where s: "gFind D (gState D) = (x, s)" and D': "D' = D\<lparr>gState := s\<rparr>"
    by (auto simp: DB_Find_def split: prod.splits)
  from assms(1) have "gorm_find_law cols D" by (simp add: gorm_ok_def)
  from this [unfolded gorm_find_law_def, rule_format, of "gState D"] s D' show ?thesis
    unfolding contents_def by simp
qed

lemma DB_Find_frame:
  "gorm_ok cols D \<Longrightarrow> DB_Find D = (x, D') \<Longrightarrow> contents D' = contents D"
  by (simp add: DB_Find_law)

text \<open>A successful \<open>Find\<close> lists every live row exactly once.\<close>

lemma DB_Find_rows:
  assumes "gorm_ok cols D" and "DB_Find D = (Inr rs, D')" and rows: "\<And>k. rows k = map_option f (contents D k)"
    and f: "\<And>r t. cols r = cols t \<Longrightarrow> f r = f t"
  shows "distinct (map ID rs)" and "set (map ID rs) = dom rows" and "r \<in> set rs \<Longrightarrow> the (rows (ID r)) = f r"
proof -
  from DB_Find_law [OF assms(1,2)] have *: "distinct (map ID rs)" "ID ` set rs = dom (contents D)"
    "\<And>r. r \<in> set rs \<Longrightarrow> \<exists>t. contents D (ID r) = Some t \<and> cols r = cols t" by auto
  show "distinct (map ID rs)" by (rule *(1))
  show "set (map ID rs) = dom rows" using *(2) by (auto simp: rows dom_def)
  assume "r \<in> set rs"
  with *(3) obtain t where "contents D (ID r) = Some t" "cols r = cols t" by blast
  with f [of r t] show "the (rows (ID r)) = f r" by (simp add: rows)
qed

lemma DB_Create_unique:
  assumes "gorm_unique col D" and "contents D k = Some t" and "col t = col r"
  shows "\<exists>m D'. DB_Create r D = (Inl (DBError m), D')"
proof -
  from assms obtain m s' where "gCreate D r (gState D) = (Inl (DBError m), s')"
    unfolding gorm_unique_def contents_def by blast
  then show ?thesis by (auto simp: DB_Create_def)
qed

end
