(* ===== verification/Gorm_Memory.thy ===== *)
theory Gorm_Memory
  imports Gorm
begin

text \<open>
  A concrete table that satisfies the laws of \<open>Gorm\<close>: a list of rows and the next free key,
  kept in memory, the way the test suites of the services run against an in-memory SQLite
  database. It is the instance at which the theorems about database handles are evaluated.
  \<open>prep k r\<close> is the row as inserted under key \<open>k\<close>; \<open>clash\<close> is a unique constraint.
\<close>

type_synonym 'r mem = "uint \<times> 'r list"

definition mem_rows :: "'a gorm_model_scheme mem \<Rightarrow> uint \<Rightarrow> 'a gorm_model_scheme option" where
  "mem_rows s k = find (\<lambda>r. ID r = k \<and> DeletedAt r = None) (snd s)"

definition mem_create ::
  "(uint \<Rightarrow> 'a gorm_model_scheme \<Rightarrow> 'a gorm_model_scheme)
   \<Rightarrow> ('a gorm_model_scheme \<Rightarrow> 'a gorm_model_scheme \<Rightarrow> bool)
   \<Rightarrow> 'a gorm_model_scheme \<Rightarrow> 'a gorm_model_scheme mem
   \<Rightarrow> (gorm_error + 'a gorm_model_scheme) \<times> 'a gorm_model_scheme mem" where
  "mem_create prep clash r s =
     (let k = (if ID r = 0 then fst s else ID r)
      in if k = 0 \<or> k \<in> ID ` set (snd s) \<or> (\<exists>x \<in> set (snd s). clash r x)
         then (Inl (DBError ''constraint violated''), s)
         else (Inr (prep k r), (if ID r = 0 then fst s + 1 else fst s, prep k r # snd s)))"

definition mem_first :: "uint \<Rightarrow> 'a gorm_model_scheme mem
   \<Rightarrow> (gorm_error + 'a gorm_model_scheme) \<times> 'a gorm_model_scheme mem" where
  "mem_first k s = (case mem_rows s k of None \<Rightarrow> (Inl ErrRecordNotFound, s) | Some r \<Rightarrow> (Inr r, s))"

definition mem_live :: "'a gorm_model_scheme mem \<Rightarrow> uint list" where
  "mem_live s = remdups (map ID (filter (\<lambda>r. DeletedAt r = None) (snd s)))"

definition mem_find :: "'a gorm_model_scheme mem
   \<Rightarrow> (gorm_error + 'a gorm_model_scheme list) \<times> 'a gorm_model_scheme mem" where
  "mem_find s = (Inr (map (\<lambda>k. the (mem_rows s k)) (mem_live s)), s)"

definition mem_gorm ::
  "(uint \<Rightarrow> 'a gorm_model_scheme \<Rightarrow> 'a gorm_model_scheme)
   \<Rightarrow> ('a gorm_model_scheme \<Rightarrow> 'a gorm_model_scheme \<Rightarrow> bool)
   \<Rightarrow> ('a gorm_model_scheme mem, 'a gorm_model_scheme) gorm" where
  "mem_gorm prep clash =
     \<lparr>gState = (1, []), gCreate = mem_create prep clash, gFirst = mem_first,
      gFind = mem_find, gRows = mem_rows\<rparr>"

lemmas mem_defs =
  mem_gorm_def mem_create_def mem_first_def mem_find_def mem_live_def mem_rows_def

lemma mem_rows_Some: "mem_rows s k = Some r \<Longrightarrow> ID r = k \<and> DeletedAt r = None \<and> r \<in> set (snd s)"
  by (auto simp: mem_rows_def find_Some_iff in_set_conv_nth)

lemma mem_rows_live: "k \<in> set (mem_live s) \<longleftrightarrow> (\<exists>r. mem_rows s k = Some r)"
proof -
  have "mem_rows s k = None \<longleftrightarrow> k \<notin> set (mem_live s)"
    by (auto simp: mem_rows_def mem_live_def find_None_iff)
  then show ?thesis by auto
qed

lemma mem_live_IDs: "map ID (map (\<lambda>k. the (mem_rows s k)) (mem_live s)) = mem_live s"
  unfolding map_map by (rule map_idI) (auto simp: mem_rows_live dest: mem_rows_Some)

lemma mem_rows_Cons:
  "ID x = k \<Longrightarrow> mem_rows (n, x # t) = (if DeletedAt x = None then (mem_rows (m, t))(k \<mapsto> x) else mem_rows (m, t))"
  by (auto simp: mem_rows_def fun_eq_iff)

lemma mem_rows_fresh: "k \<notin> ID ` set t \<Longrightarrow> mem_rows (n, t) k = None"
  by (auto simp: mem_rows_def find_None_iff)

lemma mem_gorm_create_law:
  assumes prep: "\<And>k r. ID (prep k r) = k \<and> DeletedAt (prep k r) = DeletedAt r \<and> cols (prep k r) = cols r"
  shows "gorm_create_law cols (mem_gorm prep clash)"
proof -
  have *: "case mem_create prep clash r (n, t) of
        (Inl e, s') \<Rightarrow> mem_rows s' = mem_rows (n, t)
      | (Inr r', s') \<Rightarrow>
          ID r' \<noteq> 0 \<and> (ID r \<noteq> 0 \<longrightarrow> ID r' = ID r) \<and> mem_rows (n, t) (ID r') = None \<and> cols r' = cols r \<and>
          (if DeletedAt r = None
           then \<exists>x. cols x = cols r \<and> mem_rows s' = (mem_rows (n, t))(ID r' \<mapsto> x)
           else mem_rows s' = mem_rows (n, t))" for r n t
  proof -
    define k where "k = (if ID r = 0 then n else ID r)"
    have "mem_rows (m, prep k r # t) = (if DeletedAt r = None then (mem_rows (n, t))(k \<mapsto> prep k r) else mem_rows (n, t))" for m
      using mem_rows_Cons [of "prep k r" k m t n] prep by simp
    moreover have "mem_create prep clash r (n, t) =
        (if k = 0 \<or> k \<in> ID ` set t \<or> (\<exists>x \<in> set t. clash r x)
         then (Inl (DBError ''constraint violated''), (n, t))
         else (Inr (prep k r), (if ID r = 0 then n + 1 else n, prep k r # t)))"
      by (simp add: mem_create_def Let_def k_def)
    moreover have "ID r \<noteq> 0 \<longrightarrow> k = ID r" by (simp add: k_def)
    ultimately show ?thesis using prep by (auto simp: mem_rows_fresh)
  qed
  show ?thesis
    unfolding gorm_create_law_def mem_gorm_def gorm.select_convs
    using * by (simp add: split_paired_all)
qed

lemma mem_gorm_ok:
  assumes prep: "\<And>k r. ID (prep k r) = k \<and> DeletedAt (prep k r) = DeletedAt r \<and> cols (prep k r) = cols r"
  shows "gorm_ok cols (mem_gorm prep clash)"
proof -
  have "gorm_first_law cols (mem_gorm prep clash)"
    unfolding gorm_first_law_def mem_gorm_def gorm.select_convs mem_first_def
    by (auto split: option.splits dest: mem_rows_Some)
  moreover have "gorm_find_law cols (mem_gorm prep clash)"
  proof -
    have "ID ` set (map (\<lambda>k. the (mem_rows s k)) (mem_live s)) = dom (mem_rows s)"
      for s :: "'a gorm_model_scheme mem"
      using mem_live_IDs [of s] by (auto simp: mem_rows_live dom_def simp flip: set_map)
    moreover have "\<exists>t. mem_rows s (ID r) = Some t \<and> cols r = cols t"
      if "r \<in> set (map (\<lambda>k. the (mem_rows s k)) (mem_live s))" for r s
      using that by (auto simp: mem_rows_live) (metis mem_rows_Some)
    moreover have "distinct (mem_live s)" for s :: "'a gorm_model_scheme mem"
      by (simp add: mem_live_def)
    ultimately show ?thesis
      unfolding gorm_find_law_def mem_gorm_def gorm.select_convs mem_find_def
      by (simp add: mem_live_IDs del: map_map set_map)
  qed
  ultimately show ?thesis
    using mem_gorm_create_law [where cols = cols, OF prep] by (simp add: gorm_ok_def)
qed

lemma mem_gorm_up: "gorm_up (mem_gorm prep clash)"
  by (auto simp: gorm_up_def mem_defs split: option.splits)

end
