(* ===== verification/Cafe_Protos.thy ===== *)
theory Cafe_Protos
  imports Go_Prelude
begin

text \<open>
  The protobuf messages and the gRPC stubs of \<open>student-cafe-protos/gen/go\<close>: one record per
  message, the client interfaces as records of functions, the client stubs over a connection,
  and the server side (\<open>ServiceDesc\<close> tables and their unary handlers).

  A connection (\<open>grpc.ClientConnInterface\<close>) is a parameter: a function that takes a full method
  name and a request and returns a reply or an error, over the state \<open>'w\<close> of everything the
  caller does not own. Repeated fields hold no nil element (the wire format has none); a
  singular message field is an option, \<open>None\<close> for a nil pointer.
\<close>

subsection \<open>Messages\<close>

record UserProto =
  user_id :: uint32
  user_name :: string
  user_email :: string
  user_is_cafe_owner :: bool
  user_created_at :: string
  user_updated_at :: string

record CreateUserRequest =
  cu_name :: string
  cu_email :: string
  cu_is_cafe_owner :: bool

record CreateUserResponse = cu_user :: "UserProto option"
record GetUserRequest = gu_id :: uint32
record GetUserResponse = gu_user :: "UserProto option"
record GetUsersResponse = gus_users :: "UserProto list"

record MenuItemProto =
  mi_id :: uint32
  mi_name :: string
  mi_description :: string
  mi_price :: float64
  mi_created_at :: string
  mi_updated_at :: string

record GetMenuItemRequest = gm_id :: uint32
record GetMenuItemResponse = gm_menu_item :: "MenuItemProto option"
record GetMenuResponse = gms_menu_items :: "MenuItemProto list"

record CreateMenuItemRequest =
  cm_name :: string
  cm_description :: string
  cm_price :: float64

record CreateMenuItemResponse = cm_menu_item :: "MenuItemProto option"

record OrderItemProto =
  oi_id :: uint32
  oi_order_id :: uint32
  oi_menu_item_id :: uint32
  oi_quantity :: int32
  oi_price :: float64
  oi_created_at :: string
  oi_updated_at :: string

record OrderProto =
  o_id :: uint32
  o_user_id :: uint32
  o_status :: string
  o_order_items :: "OrderItemProto list"
  o_created_at :: string
  o_updated_at :: string

record OrderItemRequest =
  oir_menu_item_id :: uint32
  oir_quantity :: int32

record CreateOrderRequest =
  co_user_id :: uint32
  co_items :: "OrderItemRequest list"

record CreateOrderResponse = co_order :: "OrderProto option"
record GetOrdersResponse = gos_orders :: "OrderProto list"
record GetOrderRequest = go_id :: uint32
record GetOrderResponse = go_order :: "OrderProto option"

text \<open>Any message on the wire; the three requests without fields carry \<open>unit\<close>.\<close>

datatype msg =
    M_CreateUserRequest CreateUserRequest | M_CreateUserResponse CreateUserResponse
  | M_GetUserRequest GetUserRequest | M_GetUserResponse GetUserResponse
  | M_GetUsersRequest unit | M_GetUsersResponse GetUsersResponse
  | M_GetMenuItemRequest GetMenuItemRequest | M_GetMenuItemResponse GetMenuItemResponse
  | M_GetMenuRequest unit | M_GetMenuResponse GetMenuResponse
  | M_CreateMenuItemRequest CreateMenuItemRequest | M_CreateMenuItemResponse CreateMenuItemResponse
  | M_CreateOrderRequest CreateOrderRequest | M_CreateOrderResponse CreateOrderResponse
  | M_GetOrdersRequest unit | M_GetOrdersResponse GetOrdersResponse
  | M_GetOrderRequest GetOrderRequest | M_GetOrderResponse GetOrderResponse

type_synonym 'w ClientConn = "string \<Rightarrow> msg \<Rightarrow> 'w \<Rightarrow> (goerror + msg) \<times> 'w"

subsection \<open>Client interfaces\<close>

record 'w UserServiceClient =
  uc_CreateUser :: "CreateUserRequest \<Rightarrow> 'w \<Rightarrow> (goerror + CreateUserResponse) \<times> 'w"
  uc_GetUser :: "GetUserRequest \<Rightarrow> 'w \<Rightarrow> (goerror + GetUserResponse) \<times> 'w"
  uc_GetUsers :: "unit \<Rightarrow> 'w \<Rightarrow> (goerror + GetUsersResponse) \<times> 'w"

record 'w MenuServiceClient =
  mc_GetMenuItem :: "GetMenuItemRequest \<Rightarrow> 'w \<Rightarrow> (goerror + GetMenuItemResponse) \<times> 'w"
  mc_GetMenu :: "unit \<Rightarrow> 'w \<Rightarrow> (goerror + GetMenuResponse) \<times> 'w"
  mc_CreateMenuItem :: "CreateMenuItemRequest \<Rightarrow> 'w \<Rightarrow> (goerror + CreateMenuItemResponse) \<times> 'w"

record 'w OrderServiceClient =
  oc_CreateOrder :: "CreateOrderRequest \<Rightarrow> 'w \<Rightarrow> (goerror + CreateOrderResponse) \<times> 'w"
  oc_GetOrders :: "unit \<Rightarrow> 'w \<Rightarrow> (goerror + GetOrdersResponse) \<times> 'w"
  oc_GetOrder :: "GetOrderRequest \<Rightarrow> 'w \<Rightarrow> (goerror + GetOrderResponse) \<times> 'w"

subsection \<open>Client stubs\<close>

text \<open>
  A stub allocates the reply (\<open>out := new(T)\<close>), invokes the method by its full name and returns
  \<open>nil, err\<close> or the reply. \<open>invoke\<close> is that common body: \<open>out\<close> reads the reply message, and a
  reply of another type leaves the zero message.
\<close>

definition invoke :: "'w ClientConn \<Rightarrow> string \<Rightarrow> msg \<Rightarrow> (msg \<Rightarrow> 'p) \<Rightarrow> 'w \<Rightarrow> (goerror + 'p) \<times> 'w" where
  "invoke cc meth inp out w =
     (case cc meth inp w of
        (Inl e, w') \<Rightarrow> (Inl e, w')
      | (Inr m, w') \<Rightarrow> (Inr (out m), w'))"

definition userServiceClient_CreateUser ::
  "'w ClientConn \<Rightarrow> CreateUserRequest \<Rightarrow> 'w \<Rightarrow> (goerror + CreateUserResponse) \<times> 'w" where
  "userServiceClient_CreateUser cc inp =
     invoke cc ''/user.v1.UserService/CreateUser'' (M_CreateUserRequest inp)
       (\<lambda>m. case m of M_CreateUserResponse p \<Rightarrow> p | _ \<Rightarrow> \<lparr>cu_user = None\<rparr>)"

definition userServiceClient_GetUser ::
  "'w ClientConn \<Rightarrow> GetUserRequest \<Rightarrow> 'w \<Rightarrow> (goerror + GetUserResponse) \<times> 'w" where
  "userServiceClient_GetUser cc inp =
     invoke cc ''/user.v1.UserService/GetUser'' (M_GetUserRequest inp)
       (\<lambda>m. case m of M_GetUserResponse p \<Rightarrow> p | _ \<Rightarrow> \<lparr>gu_user = None\<rparr>)"

definition userServiceClient_GetUsers ::
  "'w ClientConn \<Rightarrow> unit \<Rightarrow> 'w \<Rightarrow> (goerror + GetUsersResponse) \<times> 'w" where
  "userServiceClient_GetUsers cc inp =
     invoke cc ''/user.v1.UserService/GetUsers'' (M_GetUsersRequest inp)
       (\<lambda>m. case m of M_GetUsersResponse p \<Rightarrow> p | _ \<Rightarrow> \<lparr>gus_users = []\<rparr>)"

definition NewUserServiceClient :: "'w ClientConn \<Rightarrow> 'w UserServiceClient" where
  "NewUserServiceClient cc =
     \<lparr>uc_CreateUser = userServiceClient_CreateUser cc,
      uc_GetUser = userServiceClient_GetUser cc,
      uc_GetUsers = userServiceClient_GetUsers cc\<rparr>"

definition menuServiceClient_GetMenuItem ::
  "'w ClientConn \<Rightarrow> GetMenuItemRequest \<Rightarrow> 'w \<Rightarrow> (goerror + GetMenuItemResponse) \<times> 'w" where
  "menuServiceClient_GetMenuItem cc inp =
     invoke cc ''/menu.v1.MenuService/GetMenuItem'' (M_GetMenuItemRequest inp)
       (\<lambda>m. case m of M_GetMenuItemResponse p \<Rightarrow> p | _ \<Rightarrow> \<lparr>gm_menu_item = None\<rparr>)"

definition menuServiceClient_GetMenu ::
  "'w ClientConn \<Rightarrow> unit \<Rightarrow> 'w \<Rightarrow> (goerror + GetMenuResponse) \<times> 'w" where
  "menuServiceClient_GetMenu cc inp =
     invoke cc ''/menu.v1.MenuService/GetMenu'' (M_GetMenuRequest inp)
       (\<lambda>m. case m of M_GetMenuResponse p \<Rightarrow> p | _ \<Rightarrow> \<lparr>gms_menu_items = []\<rparr>)"

definition menuServiceClient_CreateMenuItem ::
  "'w ClientConn \<Rightarrow> CreateMenuItemRequest \<Rightarrow> 'w \<Rightarrow> (goerror + CreateMenuItemResponse) \<times> 'w" where
  "menuServiceClient_CreateMenuItem cc inp =
     invoke cc ''/menu.v1.MenuService/CreateMenuItem'' (M_CreateMenuItemRequest inp)
       (\<lambda>m. case m of M_CreateMenuItemResponse p \<Rightarrow> p | _ \<Rightarrow> \<lparr>cm_menu_item = None\<rparr>)"

definition NewMenuServiceClient :: "'w ClientConn \<Rightarrow> 'w MenuServiceClient" where
  "NewMenuServiceClient cc =
     \<lparr>mc_GetMenuItem = menuServiceClient_GetMenuItem cc,
      mc_GetMenu = menuServiceClient_GetMenu cc,
      mc_CreateMenuItem = menuServiceClient_CreateMenuItem cc\<rparr>"

definition orderServiceClient_CreateOrder ::
  "'w ClientConn \<Rightarrow> CreateOrderRequest \<Rightarrow> 'w \<Rightarrow> (goerror + CreateOrderResponse) \<times> 'w" where
  "orderServiceClient_CreateOrder cc inp =
     invoke cc ''/order.v1.OrderService/CreateOrder'' (M_CreateOrderRequest inp)
       (\<lambda>m. case m of M_CreateOrderResponse p \<Rightarrow> p | _ \<Rightarrow> \<lparr>co_order = None\<rparr>)"

definition orderServiceClient_GetOrders ::
  "'w ClientConn \<Rightarrow> unit \<Rightarrow> 'w \<Rightarrow> (goerror + GetOrdersResponse) \<times> 'w" where
  "orderServiceClient_GetOrders cc inp =
     invoke cc ''/order.v1.OrderService/GetOrders'' (M_GetOrdersRequest inp)
       (\<lambda>m. case m of M_GetOrdersResponse p \<Rightarrow> p | _ \<Rightarrow> \<lparr>gos_orders = []\<rparr>)"

definition orderServiceClient_GetOrder ::
  "'w ClientConn \<Rightarrow> GetOrderRequest \<Rightarrow> 'w \<Rightarrow> (goerror + GetOrderResponse) \<times> 'w" where
  "orderServiceClient_GetOrder cc inp =
     invoke cc ''/order.v1.OrderService/GetOrder'' (M_GetOrderRequest inp)
       (\<lambda>m. case m of M_GetOrderResponse p \<Rightarrow> p | _ \<Rightarrow> \<lparr>go_order = None\<rparr>)"

definition NewOrderServiceClient :: "'w ClientConn \<Rightarrow> 'w OrderServiceClient" where
  "NewOrderServiceClient cc =
     \<lparr>oc_CreateOrder = orderServiceClient_CreateOrder cc,
      oc_GetOrders = orderServiceClient_GetOrders cc,
      oc_GetOrder = orderServiceClient_GetOrder cc\<rparr>"

subsection \<open>Server interfaces\<close>

record 's UserServiceServer =
  us_CreateUser :: "CreateUserRequest \<Rightarrow> 's \<Rightarrow> CreateUserResponse outcome \<times> 's"
  us_GetUser :: "GetUserRequest \<Rightarrow> 's \<Rightarrow> GetUserResponse outcome \<times> 's"
  us_GetUsers :: "unit \<Rightarrow> 's \<Rightarrow> GetUsersResponse outcome \<times> 's"

record 's MenuServiceServer =
  ms_GetMenuItem :: "GetMenuItemRequest \<Rightarrow> 's \<Rightarrow> GetMenuItemResponse outcome \<times> 's"
  ms_GetMenu :: "unit \<Rightarrow> 's \<Rightarrow> GetMenuResponse outcome \<times> 's"
  ms_CreateMenuItem :: "CreateMenuItemRequest \<Rightarrow> 's \<Rightarrow> CreateMenuItemResponse outcome \<times> 's"

record 's OrderServiceServer =
  os_CreateOrder :: "CreateOrderRequest \<Rightarrow> 's \<Rightarrow> CreateOrderResponse outcome \<times> 's"
  os_GetOrders :: "unit \<Rightarrow> 's \<Rightarrow> GetOrdersResponse outcome \<times> 's"
  os_GetOrder :: "GetOrderRequest \<Rightarrow> 's \<Rightarrow> GetOrderResponse outcome \<times> 's"

text \<open>
  A server that embeds the \<open>Unimplemented\<close> server answers \<open>Unimplemented\<close> for a method it does
  not override.
\<close>

definition UnimplementedUserServiceServer :: "'s UserServiceServer" where
  "UnimplementedUserServiceServer =
     \<lparr>us_CreateUser = (\<lambda>_ s. (Error (StatusError Unimplemented ''method CreateUser not implemented''), s)),
      us_GetUser = (\<lambda>_ s. (Error (StatusError Unimplemented ''method GetUser not implemented''), s)),
      us_GetUsers = (\<lambda>_ s. (Error (StatusError Unimplemented ''method GetUsers not implemented''), s))\<rparr>"

definition UnimplementedMenuServiceServer :: "'s MenuServiceServer" where
  "UnimplementedMenuServiceServer =
     \<lparr>ms_GetMenuItem = (\<lambda>_ s. (Error (StatusError Unimplemented ''method GetMenuItem not implemented''), s)),
      ms_GetMenu = (\<lambda>_ s. (Error (StatusError Unimplemented ''method GetMenu not implemented''), s)),
      ms_CreateMenuItem = (\<lambda>_ s. (Error (StatusError Unimplemented ''method CreateMenuItem not implemented''), s))\<rparr>"

definition UnimplementedOrderServiceServer :: "'s OrderServiceServer" where
  "UnimplementedOrderServiceServer =
     \<lparr>os_CreateOrder = (\<lambda>_ s. (Error (StatusError Unimplemented ''method CreateOrder not implemented''), s)),
      os_GetOrders = (\<lambda>_ s. (Error (StatusError Unimplemented ''method GetOrders not implemented''), s)),
      os_GetOrder = (\<lambda>_ s. (Error (StatusError Unimplemented ''method GetOrder not implemented''), s))\<rparr>"

subsection \<open>Method handlers and service descriptors\<close>

text \<open>
  A generated handler decodes the request, returns the decoding error as it is, and calls the
  method directly when no interceptor is installed, else through the interceptor.
  \<open>dec\<close> is the result of decoding the request bytes.
\<close>

type_synonym 's rpc_method = "msg \<Rightarrow> 's \<Rightarrow> msg outcome \<times> 's"
type_synonym 's interceptor = "string \<Rightarrow> msg \<Rightarrow> 's rpc_method \<Rightarrow> 's \<Rightarrow> msg outcome \<times> 's"
type_synonym 's method_handler = "goerror + msg \<Rightarrow> 's interceptor option \<Rightarrow> 's \<Rightarrow> msg outcome \<times> 's"
type_synonym 's service_desc = "string \<times> (string \<times> 's method_handler) list"

definition unary_handler :: "string \<Rightarrow> 's rpc_method \<Rightarrow> 's method_handler" where
  "unary_handler full_method call dec interceptor s =
     (case dec of
        Inl e \<Rightarrow> (Error e, s)
      | Inr inp \<Rightarrow>
          (case interceptor of
             None \<Rightarrow> call inp s
           | Some icp \<Rightarrow> icp full_method inp call s))"

definition UserService_CreateUser_Handler :: "'s UserServiceServer \<Rightarrow> 's method_handler" where
  "UserService_CreateUser_Handler srv =
     unary_handler ''/user.v1.UserService/CreateUser''
       (\<lambda>m s. case us_CreateUser srv (case m of M_CreateUserRequest q \<Rightarrow> q | _ \<Rightarrow> \<lparr>cu_name = [], cu_email = [], cu_is_cafe_owner = False\<rparr>) s of
          (x, s') \<Rightarrow> (map_outcome M_CreateUserResponse x, s'))"

definition UserService_GetUser_Handler :: "'s UserServiceServer \<Rightarrow> 's method_handler" where
  "UserService_GetUser_Handler srv =
     unary_handler ''/user.v1.UserService/GetUser''
       (\<lambda>m s. case us_GetUser srv (case m of M_GetUserRequest q \<Rightarrow> q | _ \<Rightarrow> \<lparr>gu_id = 0\<rparr>) s of
          (x, s') \<Rightarrow> (map_outcome M_GetUserResponse x, s'))"

definition UserService_GetUsers_Handler :: "'s UserServiceServer \<Rightarrow> 's method_handler" where
  "UserService_GetUsers_Handler srv =
     unary_handler ''/user.v1.UserService/GetUsers''
       (\<lambda>m s. case us_GetUsers srv (case m of M_GetUsersRequest q \<Rightarrow> q | _ \<Rightarrow> ()) s of
          (x, s') \<Rightarrow> (map_outcome M_GetUsersResponse x, s'))"

definition UserService_ServiceDesc :: "'s UserServiceServer \<Rightarrow> 's service_desc" where
  "UserService_ServiceDesc srv =
     (''user.v1.UserService'',
      [(''CreateUser'', UserService_CreateUser_Handler srv),
       (''GetUser'', UserService_GetUser_Handler srv),
       (''GetUsers'', UserService_GetUsers_Handler srv)])"

definition MenuService_GetMenuItem_Handler :: "'s MenuServiceServer \<Rightarrow> 's method_handler" where
  "MenuService_GetMenuItem_Handler srv =
     unary_handler ''/menu.v1.MenuService/GetMenuItem''
       (\<lambda>m s. case ms_GetMenuItem srv (case m of M_GetMenuItemRequest q \<Rightarrow> q | _ \<Rightarrow> \<lparr>gm_id = 0\<rparr>) s of
          (x, s') \<Rightarrow> (map_outcome M_GetMenuItemResponse x, s'))"

definition MenuService_GetMenu_Handler :: "'s MenuServiceServer \<Rightarrow> 's method_handler" where
  "MenuService_GetMenu_Handler srv =
     unary_handler ''/menu.v1.MenuService/GetMenu''
       (\<lambda>m s. case ms_GetMenu srv (case m of M_GetMenuRequest q \<Rightarrow> q | _ \<Rightarrow> ()) s of
          (x, s') \<Rightarrow> (map_outcome M_GetMenuResponse x, s'))"

definition MenuService_CreateMenuItem_Handler :: "'s MenuServiceServer \<Rightarrow> 's method_handler" where
  "MenuService_CreateMenuItem_Handler srv =
     unary_handler ''/menu.v1.MenuService/CreateMenuItem''
       (\<lambda>m s. case ms_CreateMenuItem srv (case m of M_CreateMenuItemRequest q \<Rightarrow> q | _ \<Rightarrow> \<lparr>cm_name = [], cm_description = [], cm_price = 0\<rparr>) s of
          (x, s') \<Rightarrow> (map_outcome M_CreateMenuItemResponse x, s'))"

definition MenuService_ServiceDesc :: "'s MenuServiceServer \<Rightarrow> 's service_desc" where
  "MenuService_ServiceDesc srv =
     (''menu.v1.MenuService'',
      [(''GetMenuItem'', MenuService_GetMenuItem_Handler srv),
       (''GetMenu'', MenuService_GetMenu_Handler srv),
       (''CreateMenuItem'', MenuService_CreateMenuItem_Handler srv)])"

definition OrderService_CreateOrder_Handler :: "'s OrderServiceServer \<Rightarrow> 's method_handler" where
  "OrderService_CreateOrder_Handler srv =
     unary_handler ''/order.v1.OrderService/CreateOrder''
       (\<lambda>m s. case os_CreateOrder srv (case m of M_CreateOrderRequest q \<Rightarrow> q | _ \<Rightarrow> \<lparr>co_user_id = 0, co_items = []\<rparr>) s of
          (x, s') \<Rightarrow> (map_outcome M_CreateOrderResponse x, s'))"

definition OrderService_GetOrders_Handler :: "'s OrderServiceServer \<Rightarrow> 's method_handler" where
  "OrderService_GetOrders_Handler srv =
     unary_handler ''/order.v1.OrderService/GetOrders''
       (\<lambda>m s. case os_GetOrders srv (case m of M_GetOrdersRequest q \<Rightarrow> q | _ \<Rightarrow> ()) s of
          (x, s') \<Rightarrow> (map_outcome M_GetOrdersResponse x, s'))"

definition OrderService_GetOrder_Handler :: "'s OrderServiceServer \<Rightarrow> 's method_handler" where
  "OrderService_GetOrder_Handler srv =
     unary_handler ''/order.v1.OrderService/GetOrder''
       (\<lambda>m s. case os_GetOrder srv (case m of M_GetOrderRequest q \<Rightarrow> q | _ \<Rightarrow> \<lparr>go_id = 0\<rparr>) s of
          (x, s') \<Rightarrow> (map_outcome M_GetOrderResponse x, s'))"

definition OrderService_ServiceDesc :: "'s OrderServiceServer \<Rightarrow> 's service_desc" where
  "OrderService_ServiceDesc srv =
     (''order.v1.OrderService'',
      [(''CreateOrder'', OrderService_CreateOrder_Handler srv),
       (''GetOrders'', OrderService_GetOrders_Handler srv),
       (''GetOrder'', OrderService_GetOrder_Handler srv)])"

text \<open>
  The server finds the handler of a call by its full name, \<open>/<service>/<method>\<close>.
\<close>

definition find_method :: "'s service_desc \<Rightarrow> string \<Rightarrow> 's method_handler option" where
  "find_method desc full_method =
     map_of (map (\<lambda>(n, h). (''/'' @ fst desc @ ''/'' @ n, h)) (snd desc)) full_method"

lemmas stub_defs =
  invoke_def
  userServiceClient_CreateUser_def userServiceClient_GetUser_def userServiceClient_GetUsers_def
  menuServiceClient_GetMenuItem_def menuServiceClient_GetMenu_def menuServiceClient_CreateMenuItem_def
  orderServiceClient_CreateOrder_def orderServiceClient_GetOrders_def orderServiceClient_GetOrder_def
  NewUserServiceClient_def NewMenuServiceClient_def NewOrderServiceClient_def

lemmas desc_defs =
  find_method_def UserService_ServiceDesc_def MenuService_ServiceDesc_def OrderService_ServiceDesc_def

lemmas method_handler_defs =
  unary_handler_def
  UserService_CreateUser_Handler_def UserService_GetUser_Handler_def UserService_GetUsers_Handler_def
  MenuService_GetMenuItem_Handler_def MenuService_GetMenu_Handler_def MenuService_CreateMenuItem_Handler_def
  OrderService_CreateOrder_Handler_def OrderService_GetOrders_Handler_def OrderService_GetOrder_Handler_def

end
