(* ===== verification/Service_Contract.thy ===== *)
theory Service_Contract
  imports Go_Prelude
begin

text \<open>
  What the gateway and the order service rely on when they call a service that keeps records:
  the contract of \<open>Create\<close> and \<open>Get\<close>, stated as locales over any state, and what every client
  gets from it. The user, menu and order servers interpret them.

  \<open>rows s\<close> is the abstract content of the service: the data stored under each 64-bit key. A
  response carries a 32-bit key and the data; \<open>created\<close> and \<open>got\<close> read them off the responses
  of \<open>create\<close> and \<open>get\<close>.
\<close>

definition keys_fit :: "(uint \<Rightarrow> 'd option) \<Rightarrow> bool" where
  "keys_fit m \<longleftrightarrow> (\<forall>k. m k \<noteq> None \<longrightarrow> unat k < 2 ^ 32)"

lemma keys_fit_mono: "keys_fit m' \<Longrightarrow> m \<subseteq>\<^sub>m m' \<Longrightarrow> keys_fit m"
  by (auto simp: keys_fit_def map_le_def dom_def)

locale record_service =
  fixes ok :: "'s \<Rightarrow> bool"
    and rows :: "'s \<Rightarrow> uint \<Rightarrow> 'd option"
    and create :: "'q \<Rightarrow> 's \<Rightarrow> 'p outcome \<times> 's"
    and get :: "uint32 \<Rightarrow> 's \<Rightarrow> 'g outcome \<times> 's"
    and created :: "'p \<Rightarrow> (uint32 \<times> 'd) option"
    and got :: "'g \<Rightarrow> (uint32 \<times> 'd) option"
  assumes create_keeps: "ok s \<Longrightarrow> create q s = (x, s') \<Longrightarrow> ok s'"
    and create_fails: "ok s \<Longrightarrow> create q s = (x, s') \<Longrightarrow> \<not> outcome_ok x \<Longrightarrow> rows s' = rows s"
    and create_adds: "ok s \<Longrightarrow> create q s = (Return p, s') \<Longrightarrow>
      \<exists>k d. created p = Some (uint32_of_uint k, d) \<and> k \<noteq> 0 \<and> rows s k = None \<and>
        rows s' = (rows s)(k \<mapsto> d)"
    and get_keeps: "ok s \<Longrightarrow> get i s = (y, s') \<Longrightarrow> ok s' \<and> rows s' = rows s"
    and get_found: "ok s \<Longrightarrow> get i s = (Return g, s') \<Longrightarrow>
      \<exists>d. got g = Some (i, d) \<and> rows s (uint_of_uint32 i) = Some d"
begin

lemma create_grows:
  assumes "ok s" and "create q s = (x, s')"
  shows "rows s \<subseteq>\<^sub>m rows s'"
proof (cases "outcome_ok x")
  case True
  then obtain p where "x = Return p" by auto
  with create_adds [OF assms(1), of q p s'] assms(2) obtain k d where
    "rows s k = None" and "rows s' = (rows s)(k \<mapsto> d)" by auto
  then show ?thesis by (auto simp: map_le_def)
next
  case False
  with create_fails [OF assms] show ?thesis by simp
qed

lemma run_keeps:
  "ok s \<Longrightarrow> run_requests create qs s = (xs, s') \<Longrightarrow> ok s' \<and> rows s \<subseteq>\<^sub>m rows s'"
proof (induction qs arbitrary: s xs)
  case Nil
  then show ?case by simp
next
  case (Cons q qs)
  obtain x s1 where x: "create q s = (x, s1)" by fastforce
  with Cons.prems obtain ys where "run_requests create qs s1 = (ys, s')"
    by (auto split: prod.splits)
  with Cons.IH create_keeps [OF Cons.prems(1) x] have "ok s' \<and> rows s1 \<subseteq>\<^sub>m rows s'" by blast
  with create_grows [OF Cons.prems(1) x] show ?case by (blast intro: map_le_trans)
qed

text \<open>Every record a client was told was created is stored, under the key it was given.\<close>

lemma run_stored:
  assumes "ok s" and "run_requests create qs s = (xs, s')" and "Return p \<in> set xs"
  shows "\<exists>k d. created p = Some (uint32_of_uint k, d) \<and> rows s k = None \<and> rows s' k = Some d"
  using assms
proof (induction qs arbitrary: s xs)
  case Nil
  then show ?case by simp
next
  case (Cons q qs)
  obtain x s1 where x: "create q s = (x, s1)" by fastforce
  with Cons.prems obtain ys where ys: "run_requests create qs s1 = (ys, s')" and xs: "xs = x # ys"
    by (auto split: prod.splits)
  have ok1: "ok s1" using create_keeps [OF Cons.prems(1) x] .
  show ?case
  proof (cases "x = Return p")
    case True
    with create_adds [OF Cons.prems(1), of q p s1] x obtain k d where
      *: "created p = Some (uint32_of_uint k, d)" "rows s k = None" "rows s1 = (rows s)(k \<mapsto> d)" by auto
    then have "rows s' k = Some d" using run_keeps [OF ok1 ys] by (auto simp: map_le_def)
    with * show ?thesis by blast
  next
    case False
    with xs Cons.prems(3) have "Return p \<in> set ys" by auto
    with Cons.IH [OF ok1 ys] obtain k d where
      *: "created p = Some (uint32_of_uint k, d)" "rows s1 k = None" "rows s' k = Some d" by auto
    have "rows s k = None"
      using create_grows [OF Cons.prems(1) x] \<open>rows s1 k = None\<close>
      by (auto simp: map_le_def dom_def)
    with * show ?thesis by blast
  qed
qed

text \<open>Reading a created record back, after any number of further requests, gives its data.\<close>

lemma get_after_create:
  assumes "ok s" and c: "create q s = (Return p, s1)" and r: "run_requests create qs s1 = (xs, s2)"
    and "keys_fit (rows s2)" and "created p = Some (i, d)" and g: "get i s2 = (Return g, s3)"
  shows "got g = Some (i, d)"
proof -
  from create_adds [OF assms(1) c] assms(5) obtain k where
    k: "i = uint32_of_uint k" "rows s1 = (rows s)(k \<mapsto> d)" by auto
  have ok1: "ok s1" using create_keeps [OF assms(1) c] .
  have ok2: "ok s2" and le: "rows s1 \<subseteq>\<^sub>m rows s2" using run_keeps [OF ok1 r] by auto
  from k le have s2: "rows s2 k = Some d" by (auto simp: map_le_def)
  with assms(4) have "uint_of_uint32 i = k" using k(1) by (auto simp: keys_fit_def uint32_roundtrip_iff)
  with get_found [OF ok2 g] s2 show ?thesis by auto
qed

text \<open>Two records created in one run never share a key, as long as the keys fit.\<close>

lemma run_keys_distinct:
  assumes "ok s" and "run_requests create qs s = (xs, s')" and "keys_fit (rows s')"
    and "i < j" and "j < length xs" and "xs ! i = Return p" and "xs ! j = Return p'"
  shows "map_option fst (created p) \<noteq> map_option fst (created p')"
  using assms
proof (induction qs arbitrary: s xs i j)
  case Nil
  then show ?case by simp
next
  case (Cons q qs)
  obtain x s1 where x: "create q s = (x, s1)" by fastforce
  with Cons.prems obtain ys where ys: "run_requests create qs s1 = (ys, s')" and xs: "xs = x # ys"
    by (auto split: prod.splits)
  have ok1: "ok s1" using create_keeps [OF Cons.prems(1) x] .
  obtain j' where j: "j = Suc j'" using \<open>i < j\<close> by (cases j) auto
  show ?case
  proof (cases i)
    case 0
    with Cons.prems xs have "x = Return p" by simp
    with create_adds [OF Cons.prems(1), of q p s1] x obtain k d where
      k: "created p = Some (uint32_of_uint k, d)" "rows s1 k = Some d" by auto
    from Cons.prems xs j have "Return p' \<in> set ys" by (metis Suc_less_eq length_Cons nth_Cons_Suc nth_mem)
    with run_stored [OF ok1 ys] obtain k' d' where
      k': "created p' = Some (uint32_of_uint k', d')" "rows s1 k' = None" "rows s' k' = Some d'" by blast
    from k run_keeps [OF ok1 ys] have "rows s' k = Some d" by (auto dest: map_le_Some)
    with k' Cons.prems(3) have "unat k < 2 ^ 32" "unat k' < 2 ^ 32" by (auto simp: keys_fit_def)
    moreover have "k \<noteq> k'" using k k' by auto
    ultimately have "uint32_of_uint k \<noteq> uint32_of_uint k'" by (metis uint32_roundtrip_iff)
    with k k' show ?thesis by simp
  next
    case (Suc i')
    with Cons.prems xs j show ?thesis using Cons.IH [OF ok1 ys Cons.prems(3), of i' j'] by simp
  qed
qed

end

text \<open>
  A service whose \<open>NotFound\<close> can be trusted: it is answered only when nothing is stored under
  the key.
\<close>

locale precise_service = record_service +
  assumes get_missing: "ok s \<Longrightarrow> get i s = (Error (StatusError NotFound m), s') \<Longrightarrow>
      rows s (uint_of_uint32 i) = None"
begin

lemma created_never_missing:
  assumes "ok s" and c: "create q s = (Return p, s1)" and r: "run_requests create qs s1 = (xs, s2)"
    and "keys_fit (rows s2)" and "created p = Some (i, d)"
  shows "get i s2 \<noteq> (Error (StatusError NotFound m), s3)"
proof
  assume g: "get i s2 = (Error (StatusError NotFound m), s3)"
  from create_adds [OF assms(1) c] assms(5) obtain k where
    k: "i = uint32_of_uint k" "rows s1 = (rows s)(k \<mapsto> d)" by auto
  have ok1: "ok s1" using create_keeps [OF assms(1) c] .
  from k run_keeps [OF ok1 r] have "rows s2 k = Some d" by (auto simp: map_le_def)
  moreover with assms(4) have "uint_of_uint32 i = k"
    using k(1) by (auto simp: keys_fit_def uint32_roundtrip_iff)
  ultimately show False using get_missing [OF _ g] run_keeps [OF ok1 r] by simp
qed

end

text \<open>
  A service that lists its records: the list holds every stored record, and has no two entries
  for one key.
\<close>

locale listing_service = record_service +
  fixes list :: "'s \<Rightarrow> 'l outcome \<times> 's"
    and listed :: "'l \<Rightarrow> (uint32 \<times> 'd) list"
  assumes list_keeps: "ok s \<Longrightarrow> list s = (z, s') \<Longrightarrow> ok s' \<and> rows s' = rows s"
    and list_all: "ok s \<Longrightarrow> list s = (Return l, s') \<Longrightarrow>
      \<exists>ks. distinct ks \<and> set ks = dom (rows s) \<and> listed l = map (\<lambda>k. (uint32_of_uint k, the (rows s k))) ks"
begin

lemma list_complete:
  assumes "ok s" and c: "create q s = (Return p, s1)" and r: "run_requests create qs s1 = (xs, s2)"
    and l: "list s2 = (Return l, s3)"
  shows "\<exists>i d. created p = Some (i, d) \<and> (i, d) \<in> set (listed l)"
proof -
  from create_adds [OF assms(1) c] obtain k d where
    k: "created p = Some (uint32_of_uint k, d)" "rows s1 = (rows s)(k \<mapsto> d)" by auto
  have ok1: "ok s1" using create_keeps [OF assms(1) c] .
  have ok2: "ok s2" and "rows s1 \<subseteq>\<^sub>m rows s2" using run_keeps [OF ok1 r] by auto
  with k have s2: "rows s2 k = Some d" by (auto simp: map_le_def)
  from list_all [OF ok2 l] obtain ks where ks: "set ks = dom (rows s2)"
    "listed l = map (\<lambda>k. (uint32_of_uint k, the (rows s2 k))) ks" by blast
  from s2 ks(1) have "k \<in> set ks" by auto
  then have "(uint32_of_uint k, the (rows s2 k)) \<in> set (listed l)" unfolding ks(2) by simp
  then have "(uint32_of_uint k, d) \<in> set (listed l)" using s2 by simp
  with k show ?thesis by blast
qed

lemma list_size:
  assumes "ok s" and "list s = (Return l, s')"
  shows "length (listed l) = card (dom (rows s))"
proof -
  from list_all [OF assms] obtain ks where "distinct ks" "set ks = dom (rows s)"
    "listed l = map (\<lambda>k. (uint32_of_uint k, the (rows s k))) ks" by blast
  with distinct_card [of ks] show ?thesis by simp
qed

lemma list_exact:
  assumes "ok s" and "list s = (Return l, s')"
  shows "set (listed l) = {(uint32_of_uint k, d) | k d. rows s k = Some d}"
proof -
  from list_all [OF assms] obtain ks where "set ks = dom (rows s)"
    "listed l = map (\<lambda>k. (uint32_of_uint k, the (rows s k))) ks" by blast
  then show ?thesis by (force simp: dom_def)
qed

end

end
