(* ===== verification/User_Service.thy ===== *)
theory User_Service
  imports Gorm_Memory Cafe_Protos Service_Contract
begin

text \<open>
  The gRPC user service (\<open>practical6-example/user-service\<close>): the \<open>User\<close> model
  (\<open>models/user.go\<close>), the server's three methods and \<open>modelToProto\<close> (\<open>grpc/server.go\<close>). The
  state of the service is its database handle.
\<close>

subsection \<open>Model and operations\<close>

record User = gorm_model +
  Name :: string
  Email :: string
  IsCafeOwner :: bool

type_synonym 's user_db = "('s, User) gorm"

definition user_modelToProto :: "User \<Rightarrow> UserProto" where
  "user_modelToProto user =
     \<lparr>user_id = uint32_of_uint (ID user),
      user_name = Name user,
      user_email = Email user,
      user_is_cafe_owner = IsCafeOwner user,
      user_created_at = Format_RFC3339 (CreatedAt user),
      user_updated_at = Format_RFC3339 (UpdatedAt user)\<rparr>"

definition UserServer_CreateUser ::
  "CreateUserRequest \<Rightarrow> 's user_db \<Rightarrow> CreateUserResponse outcome \<times> 's user_db" where
  "UserServer_CreateUser req db =
     (let user = \<lparr>ID = 0, CreatedAt = zero_time, UpdatedAt = zero_time, DeletedAt = None,
                  Name = cu_name req, Email = cu_email req, IsCafeOwner = cu_is_cafe_owner req\<rparr>
      in case DB_Create user db of
           (Inl err, db') \<Rightarrow>
             (Error (StatusError Internal (''failed to create user: '' @ gorm_error_text err)), db')
         | (Inr user', db') \<Rightarrow> (Return \<lparr>cu_user = Some (user_modelToProto user')\<rparr>, db'))"

definition UserServer_GetUser ::
  "GetUserRequest \<Rightarrow> 's user_db \<Rightarrow> GetUserResponse outcome \<times> 's user_db" where
  "UserServer_GetUser req db =
     (case DB_First (uint_of_uint32 (gu_id req)) db of
        (Inl ErrRecordNotFound, db') \<Rightarrow> (Error (StatusError NotFound ''user not found''), db')
      | (Inl err, db') \<Rightarrow>
          (Error (StatusError Internal (''failed to get user: '' @ gorm_error_text err)), db')
      | (Inr user, db') \<Rightarrow> (Return \<lparr>gu_user = Some (user_modelToProto user)\<rparr>, db'))"

definition UserServer_GetUsers ::
  "unit \<Rightarrow> 's user_db \<Rightarrow> GetUsersResponse outcome \<times> 's user_db" where
  "UserServer_GetUsers req db =
     (case DB_Find db of
        (Inl err, db') \<Rightarrow>
          (Error (StatusError Internal (''failed to get users: '' @ gorm_error_text err)), db')
      | (Inr users, db') \<Rightarrow> (Return \<lparr>gus_users = map user_modelToProto users\<rparr>, db'))"

definition NewUserServer :: "'s user_db UserServiceServer" where
  "NewUserServer =
     \<lparr>us_CreateUser = UserServer_CreateUser,
      us_GetUser = UserServer_GetUser,
      us_GetUsers = UserServer_GetUsers\<rparr>"

lemmas UserServer_defs [handler] =
  UserServer_CreateUser_def UserServer_GetUser_def UserServer_GetUsers_def

subsection \<open>The stored data\<close>

text \<open>The columns of a user, and the same data as a response carries it.\<close>

definition user_cols :: "User \<Rightarrow> string \<times> string \<times> bool" where
  "user_cols u = (Name u, Email u, IsCafeOwner u)"

definition user_rows :: "'s user_db \<Rightarrow> uint \<Rightarrow> (string \<times> string \<times> bool) option" where
  "user_rows db k = map_option user_cols (contents db k)"

definition proto_user_data :: "UserProto \<Rightarrow> uint32 \<times> string \<times> string \<times> bool" where
  "proto_user_data u = (user_id u, user_name u, user_email u, user_is_cafe_owner u)"

lemma user_rows_cong: "contents db' = contents db \<Longrightarrow> user_rows db' = user_rows db"
  by (simp add: user_rows_def fun_eq_iff)

lemma user_rows_upd:
  "contents db' = (contents db)(k \<mapsto> t) \<Longrightarrow> user_rows db' = (user_rows db)(k \<mapsto> user_cols t)"
  by (simp add: user_rows_def fun_eq_iff)

lemma proto_user_data_model [simp]:
  "proto_user_data (user_modelToProto u) = (uint32_of_uint (ID u), user_cols u)"
  by (simp add: proto_user_data_def user_modelToProto_def user_cols_def)

subsection \<open>The methods, branch by branch\<close>

lemma CreateUser_keeps_ok:
  "UserServer_CreateUser req db = (x, db') \<Longrightarrow> gorm_ok user_cols db' \<longleftrightarrow> gorm_ok user_cols db"
  by (auto simp: UserServer_CreateUser_def Let_def DB_ops_ok split: prod.splits sum.splits)

lemma CreateUser_Return:
  assumes "gorm_ok user_cols db" and "UserServer_CreateUser req db = (Return p, db')"
  shows "\<exists>k u. cu_user p = Some u \<and> k \<noteq> 0 \<and> user_rows db k = None \<and>
    proto_user_data u = (uint32_of_uint k, cu_name req, cu_email req, cu_is_cafe_owner req) \<and>
    user_rows db' = (user_rows db)(k \<mapsto> (cu_name req, cu_email req, cu_is_cafe_owner req))"
proof -
  define row where "row = \<lparr>ID = 0, CreatedAt = zero_time, UpdatedAt = zero_time, DeletedAt = None,
    Name = cu_name req, Email = cu_email req, IsCafeOwner = cu_is_cafe_owner req\<rparr>"
  from assms(2) obtain r where c: "DB_Create row db = (Inr r, db')"
    and p: "p = \<lparr>cu_user = Some (user_modelToProto r)\<rparr>"
    by (auto simp: UserServer_CreateUser_def Let_def row_def split: prod.splits sum.splits)
  have "DeletedAt row = None" by (simp add: row_def)
  from DB_Create_Inr [OF assms(1) c this] obtain t where
    t: "ID r \<noteq> 0" "contents db (ID r) = None" "user_cols r = user_cols row"
      "user_cols t = user_cols row" "contents db' = (contents db)(ID r \<mapsto> t)" .
  have "user_cols row = (cu_name req, cu_email req, cu_is_cafe_owner req)"
    by (simp add: user_cols_def row_def)
  with t p show ?thesis
    by (intro exI [where x = "ID r"] exI [where x = "user_modelToProto r"])
      (simp add: user_rows_upd, simp add: user_rows_def)
qed

lemma CreateUser_Error:
  assumes "gorm_ok user_cols db" and "UserServer_CreateUser req db = (x, db')" and "\<not> outcome_ok x"
  shows "user_rows db' = user_rows db \<and> (\<exists>m. x = Error (StatusError Internal m))"
  using assms
  by (auto simp: UserServer_CreateUser_def Let_def dest: DB_Create_Inl
      intro: user_rows_cong split: prod.splits sum.splits)

lemma GetUser_frame:
  assumes "gorm_ok user_cols db" and "UserServer_GetUser req db = (x, db')"
  shows "gorm_ok user_cols db' \<and> user_rows db' = user_rows db"
  using assms
  by (auto simp: UserServer_GetUser_def DB_ops_ok dest: DB_First_frame
      intro: user_rows_cong split: prod.splits sum.splits gorm_error.splits)

lemma GetUser_Return:
  assumes "gorm_ok user_cols db" and "UserServer_GetUser req db = (Return p, db')"
  shows "\<exists>u d. gu_user p = Some u \<and> user_rows db (uint_of_uint32 (gu_id req)) = Some d \<and>
    proto_user_data u = (gu_id req, d)"
proof -
  from assms(2) obtain r where f: "DB_First (uint_of_uint32 (gu_id req)) db = (Inr r, db')"
    and p: "p = \<lparr>gu_user = Some (user_modelToProto r)\<rparr>"
    by (auto simp: UserServer_GetUser_def split: prod.splits sum.splits gorm_error.splits)
  from DB_First_Inr [OF assms(1) f] obtain t where
    "ID r = uint_of_uint32 (gu_id req)" "contents db (uint_of_uint32 (gu_id req)) = Some t"
    "user_cols r = user_cols t" .
  with p show ?thesis by (simp add: user_rows_def)
qed

lemma GetUser_NotFound:
  assumes "gorm_ok user_cols db" and "UserServer_GetUser req db = (Error (StatusError NotFound m), db')"
  shows "user_rows db (uint_of_uint32 (gu_id req)) = None"
  using assms
  by (auto simp: UserServer_GetUser_def user_rows_def dest: DB_First_missing
      split: prod.splits sum.splits gorm_error.splits)

interpretation user_srv: precise_service
  "gorm_ok user_cols" user_rows UserServer_CreateUser
  "\<lambda>i. UserServer_GetUser \<lparr>gu_id = i\<rparr>"
  "\<lambda>p. map_option proto_user_data (cu_user p)" "\<lambda>p. map_option proto_user_data (gu_user p)"
proof (unfold_locales, goal_cases)
  case (1 s q x s')
  then show ?case by (simp add: CreateUser_keeps_ok)
next
  case (2 s q x s')
  then show ?case using CreateUser_Error by blast
next
  case (3 s q p s')
  then show ?case using CreateUser_Return [OF 3] by auto
next
  case (4 s i y s')
  then show ?case using GetUser_frame by blast
next
  case (5 s i g s')
  then show ?case using GetUser_Return [OF 5] by auto
next
  case (6 s i m s')
  then show ?case using GetUser_NotFound [OF 6] by simp
qed

subsection \<open>Listing\<close>

lemma GetUsers_frame:
  assumes "gorm_ok user_cols db" and "UserServer_GetUsers req db = (x, db')"
  shows "gorm_ok user_cols db' \<and> user_rows db' = user_rows db"
  using assms
  by (auto simp: UserServer_GetUsers_def DB_ops_ok dest: DB_Find_frame
      intro: user_rows_cong split: prod.splits sum.splits)

lemma GetUsers_Return:
  assumes "gorm_ok user_cols db" and "UserServer_GetUsers req db = (Return p, db')"
  shows "\<exists>ks. distinct ks \<and> set ks = dom (user_rows db) \<and>
    map proto_user_data (gus_users p) = map (\<lambda>k. (uint32_of_uint k, the (user_rows db k))) ks"
proof -
  from assms(2) obtain rs where f: "DB_Find db = (Inr rs, db')" and p: "p = \<lparr>gus_users = map user_modelToProto rs\<rparr>"
    by (auto simp: UserServer_GetUsers_def split: prod.splits sum.splits)
  note rs = DB_Find_rows [OF assms(1) f, where rows = "user_rows db" and f = "user_cols"]
  show ?thesis
    by (rule exI [where x = "map ID rs"]) (use rs p in \<open>simp add: user_rows_def\<close>)
qed

interpretation user_list: listing_service
  "gorm_ok user_cols" user_rows UserServer_CreateUser
  "\<lambda>i. UserServer_GetUser \<lparr>gu_id = i\<rparr>"
  "\<lambda>p. map_option proto_user_data (cu_user p)" "\<lambda>p. map_option proto_user_data (gu_user p)"
  "UserServer_GetUsers ()" "\<lambda>l. map proto_user_data (gus_users l)"
  by unfold_locales (use GetUsers_frame GetUsers_Return in blast)+

subsection \<open>A table in memory\<close>

definition user_prep :: "uint \<Rightarrow> User \<Rightarrow> User" where
  "user_prep k r = r\<lparr>ID := k\<rparr>"

definition same_email :: "User \<Rightarrow> User \<Rightarrow> bool" where
  "same_email r x \<longleftrightarrow> Email r = Email x"

definition user_mem :: "User mem user_db" where
  "user_mem = mem_gorm user_prep same_email"

lemma user_mem_ok [simp]: "gorm_ok user_cols user_mem"
  unfolding user_mem_def
  by (rule mem_gorm_ok) (simp add: user_prep_def user_cols_def)

lemma user_mem_up [simp]: "gorm_up user_mem"
  by (simp add: user_mem_def mem_gorm_up)

lemma user_mem_sels [simp]:
  "gState user_mem = (1, [])" "gCreate user_mem = mem_create user_prep same_email"
  "gFirst user_mem = mem_first" "gFind user_mem = mem_find" "gRows user_mem = mem_rows"
  by (simp_all add: user_mem_def mem_gorm_def)

lemma user_mem_unique [simp]: "gorm_unique Email user_mem"
  unfolding gorm_unique_def user_mem_def mem_gorm_def gorm.select_convs
  by (auto simp: mem_create_def same_email_def Let_def split_paired_all dest!: mem_rows_Some)
    (metis snd_conv)+

lemma CreateUser_up:
  "UserServer_CreateUser req db = (x, db') \<Longrightarrow> gorm_up db' \<longleftrightarrow> gorm_up db"
  by (auto simp: UserServer_CreateUser_def Let_def DB_ops_up split: prod.splits sum.splits)

lemma run_CreateUser_up: "run_requests UserServer_CreateUser qs db = (xs, db') \<Longrightarrow> gorm_up db' \<longleftrightarrow> gorm_up db"
  by (induction qs arbitrary: db xs) (auto dest: CreateUser_up split: prod.splits)

lemma GetUser_live:
  assumes "gorm_ok user_cols db" "gorm_up db" "user_rows db (uint_of_uint32 i) \<noteq> None"
  shows "\<exists>p db'. UserServer_GetUser \<lparr>gu_id = i\<rparr> db = (Return p, db')"
proof -
  obtain x db' where f: "DB_First (uint_of_uint32 i) db = (x, db')" by fastforce
  from assms(3) obtain t where "contents db (uint_of_uint32 i) = Some t"
    by (auto simp: user_rows_def)
  with DB_First_up [OF assms(1,2) f] show ?thesis
    using f by (auto simp: UserServer_GetUser_def)
qed

subsection \<open>Properties\<close>

definition alice_req :: CreateUserRequest where
  "alice_req = \<lparr>cu_name = ''Alice'', cu_email = ''alice@cafe'', cu_is_cafe_owner = True\<rparr>"

definition bob_req :: CreateUserRequest where
  "bob_req = \<lparr>cu_name = ''Bob'', cu_email = ''bob@cafe'', cu_is_cafe_owner = False\<rparr>"

lemmas user_eval =
  UserServer_CreateUser_def UserServer_GetUser_def UserServer_GetUsers_def Let_def
  DB_Create_def DB_First_def DB_Find_def
  mem_create_def mem_first_def mem_find_def mem_live_def mem_rows_def user_prep_def same_email_def

definition users_ab :: "User mem user_db" where
  "users_ab = snd (run_requests UserServer_CreateUser [alice_req, bob_req] user_mem)"

lemma run_ab:
  "\<exists>p q. run_requests UserServer_CreateUser [alice_req, bob_req] user_mem = ([Return p, Return q], users_ab)"
  by (simp add: users_ab_def user_eval alice_req_def bob_req_def)

lemma users_ab_fit: "keys_fit (user_rows users_ab)"
  by (auto simp: keys_fit_def users_ab_def user_eval alice_req_def bob_req_def user_rows_def contents_def
      split: if_splits)

text \<open>
  A user who was created is read back with the name, email and role of the request, under
  the identifier of the reply, after any number of further creations, as long as the
  identifiers fit the 32 bits of the messages and the database answers.
\<close>

theorem user_read_back:
  assumes "gorm_ok user_cols db" and "gorm_up db"
    and "UserServer_CreateUser q db = (Return p, db1)"
    and "run_requests UserServer_CreateUser qs db1 = (xs, db2)" and "keys_fit (user_rows db2)"
  shows "\<exists>u g u' db3. cu_user p = Some u \<and>
    UserServer_GetUser \<lparr>gu_id = user_id u\<rparr> db2 = (Return g, db3) \<and> gu_user g = Some u' \<and>
    proto_user_data u' = (user_id u, cu_name q, cu_email q, cu_is_cafe_owner q)"
proof -
  from CreateUser_Return [OF assms(1,3)] obtain k u where
    u: "cu_user p = Some u" "proto_user_data u = (uint32_of_uint k, cu_name q, cu_email q, cu_is_cafe_owner q)"
      "user_rows db1 = (user_rows db)(k \<mapsto> (cu_name q, cu_email q, cu_is_cafe_owner q))" by blast
  have ok1: "gorm_ok user_cols db1" using CreateUser_keeps_ok [OF assms(3)] assms(1) by blast
  have ok2: "gorm_ok user_cols db2" and le: "user_rows db1 \<subseteq>\<^sub>m user_rows db2"
    using user_srv.run_keeps [OF ok1 assms(4)] by auto
  have up2: "gorm_up db2" using CreateUser_up [OF assms(3)] run_CreateUser_up [OF assms(4)] assms(2) by blast
  have k: "user_rows db2 k = Some (cu_name q, cu_email q, cu_is_cafe_owner q)"
    using map_le_Some [OF le] u(3) by simp
  with assms(5) have "unat k < 2 ^ 32" unfolding keys_fit_def by blast
  then have key: "uint_of_uint32 (user_id u) = k"
    using u(2) by (simp add: proto_user_data_def uint32_roundtrip_iff)
  with GetUser_live [OF ok2 up2, of "user_id u"] k obtain g db3 where
    g: "UserServer_GetUser \<lparr>gu_id = user_id u\<rparr> db2 = (Return g, db3)" by auto
  from GetUser_Return [OF ok2 g] k key u(1) g show ?thesis by auto
qed

theorem user_read_back_witness:
  "\<exists>p db1 u g u' db3. UserServer_CreateUser alice_req user_mem = (Return p, db1) \<and> cu_user p = Some u \<and>
    UserServer_GetUser \<lparr>gu_id = user_id u\<rparr> users_ab = (Return g, db3) \<and> gu_user g = Some u' \<and>
    proto_user_data u' = (user_id u, ''Alice'', ''alice@cafe'', True)"
proof -
  obtain p q where r: "run_requests UserServer_CreateUser [alice_req, bob_req] user_mem = ([Return p, Return q], users_ab)"
    using run_ab by blast
  then obtain db1 where c: "UserServer_CreateUser alice_req user_mem = (Return p, db1)"
    "run_requests UserServer_CreateUser [bob_req] db1 = ([Return q], users_ab)"
    by (auto split: prod.splits)
  from user_read_back [OF user_mem_ok user_mem_up c users_ab_fit] c(1) show ?thesis
    by (auto simp: alice_req_def)
qed

text \<open>Two users created in one run never share an identifier, as long as the identifiers fit 32 bits.\<close>

theorem user_ids_distinct:
  assumes "gorm_ok user_cols db" and "run_requests UserServer_CreateUser qs db = (xs, db')"
    and "keys_fit (user_rows db')" and "i < j" and "j < length xs" and "xs ! i = Return p" and "xs ! j = Return q"
  shows "map_option user_id (cu_user p) \<noteq> map_option user_id (cu_user q)"
  using user_srv.run_keys_distinct [OF assms]
  by (cases "cu_user p"; cases "cu_user q") (auto simp: proto_user_data_def)

theorem user_ids_distinct_witness:
  "\<exists>p q. run_requests UserServer_CreateUser [alice_req, bob_req] user_mem = ([Return p, Return q], users_ab) \<and>
    map_option user_id (cu_user p) \<noteq> map_option user_id (cu_user q)"
proof -
  obtain p q where r: "run_requests UserServer_CreateUser [alice_req, bob_req] user_mem = ([Return p, Return q], users_ab)"
    using run_ab by blast
  from user_ids_distinct [OF user_mem_ok r users_ab_fit, of 0 1 p q] r show ?thesis by auto
qed

text \<open>
  \<open>GetUsers\<close> answers with exactly the stored users: every one of them, nothing else, one entry
  for each.
\<close>

theorem users_listed:
  assumes "gorm_ok user_cols db" and "UserServer_GetUsers () db = (Return l, db')"
  shows "set (map proto_user_data (gus_users l)) = {(uint32_of_uint k, d) | k d. user_rows db k = Some d} \<and>
    length (gus_users l) = card (dom (user_rows db)) \<and> user_rows db' = user_rows db"
  using user_list.list_exact [OF assms] user_list.list_size [OF assms] user_list.list_keeps [OF assms] by simp

theorem users_listed_witness:
  "\<exists>l db'. UserServer_GetUsers () users_ab = (Return l, db') \<and>
    set (map proto_user_data (gus_users l)) = {(uint32_of_uint k, d) | k d. user_rows users_ab k = Some d} \<and>
    length (gus_users l) = card (dom (user_rows users_ab))"
proof -
  obtain p q where r: "run_requests UserServer_CreateUser [alice_req, bob_req] user_mem = ([Return p, Return q], users_ab)"
    using run_ab by blast
  have ok: "gorm_ok user_cols users_ab" using user_srv.run_keeps [OF user_mem_ok r] by simp
  obtain l db' where l: "UserServer_GetUsers () users_ab = (Return l, db')"
    by (auto simp: users_ab_def user_eval alice_req_def bob_req_def)
  from users_listed [OF ok l] l show ?thesis by blast
qed

text \<open>
  C40: An email that is already registered is refused by the unique constraint of the model and
  changes nothing; the service reports the refusal with the code \<open>Internal\<close>.
\<close>

theorem duplicate_email_internal:
  assumes "gorm_ok user_cols db" and "gorm_unique Email db" and "user_rows db k = Some (n, cu_email q, b)"
  shows "\<exists>m db'. UserServer_CreateUser q db = (Error (StatusError Internal m), db') \<and> user_rows db' = user_rows db"
proof -
  define row where "row = \<lparr>ID = 0, CreatedAt = zero_time, UpdatedAt = zero_time, DeletedAt = None,
    Name = cu_name q, Email = cu_email q, IsCafeOwner = cu_is_cafe_owner q\<rparr>"
  from assms(3) obtain t where t: "contents db k = Some t" "Email t = Email row"
    by (auto simp: user_rows_def user_cols_def row_def)
  from DB_Create_unique [OF assms(2) t(1), of row] t(2) obtain m db' where
    c: "DB_Create row db = (Inl (DBError m), db')" by metis
  with DB_Create_Inl [OF assms(1) c] show ?thesis
    by (auto simp: UserServer_CreateUser_def row_def intro: user_rows_cong)
qed

theorem duplicate_email_internal_witness:
  "\<exists>m db'. UserServer_CreateUser (alice_req\<lparr>cu_name := ''Eve''\<rparr>) users_ab = (Error (StatusError Internal m), db') \<and>
    user_rows db' = user_rows users_ab"
proof -
  obtain p q where r: "run_requests UserServer_CreateUser [alice_req, bob_req] user_mem = ([Return p, Return q], users_ab)"
    using run_ab by blast
  have ok: "gorm_ok user_cols users_ab" using user_srv.run_keeps [OF user_mem_ok r] by simp
  have "users_ab = user_mem\<lparr>gState := gState users_ab\<rparr>"
    by (simp add: users_ab_def user_eval alice_req_def bob_req_def)
  then have uq: "gorm_unique Email users_ab" by (metis gorm_unique_state user_mem_unique)
  have row: "user_rows users_ab 1 = Some (''Alice'', cu_email (alice_req\<lparr>cu_name := ''Eve''\<rparr>), True)"
    by (simp add: users_ab_def user_eval alice_req_def bob_req_def user_rows_def contents_def user_cols_def)
  from duplicate_email_internal [OF ok uq row] show ?thesis .
qed

end
