(* ===== verification/Menu_Service.thy ===== *)
theory Menu_Service
  imports Gorm_Memory Cafe_Protos Service_Contract
begin

text \<open>
  The gRPC menu service (\<open>practical6-example/menu-service\<close>): the \<open>MenuItem\<close> model
  (\<open>models/menu.go\<close>), the server's three methods and \<open>modelToProto\<close> (\<open>grpc/server.go\<close>). The
  state of the service is its database handle.
\<close>

subsection \<open>Model and operations\<close>

record MenuItem = gorm_model +
  ItemName :: string
  Description :: string
  Price :: float64

type_synonym 's menu_db = "('s, MenuItem) gorm"

definition menu_modelToProto :: "MenuItem \<Rightarrow> MenuItemProto" where
  "menu_modelToProto item =
     \<lparr>mi_id = uint32_of_uint (ID item),
      mi_name = ItemName item,
      mi_description = Description item,
      mi_price = Price item,
      mi_created_at = Format_RFC3339 (CreatedAt item),
      mi_updated_at = Format_RFC3339 (UpdatedAt item)\<rparr>"

definition MenuServer_GetMenuItem ::
  "GetMenuItemRequest \<Rightarrow> 's menu_db \<Rightarrow> GetMenuItemResponse outcome \<times> 's menu_db" where
  "MenuServer_GetMenuItem req db =
     (case DB_First (uint_of_uint32 (gm_id req)) db of
        (Inl ErrRecordNotFound, db') \<Rightarrow> (Error (StatusError NotFound ''menu item not found''), db')
      | (Inl err, db') \<Rightarrow>
          (Error (StatusError Internal (''failed to get menu item: '' @ gorm_error_text err)), db')
      | (Inr item, db') \<Rightarrow> (Return \<lparr>gm_menu_item = Some (menu_modelToProto item)\<rparr>, db'))"

definition MenuServer_GetMenu ::
  "unit \<Rightarrow> 's menu_db \<Rightarrow> GetMenuResponse outcome \<times> 's menu_db" where
  "MenuServer_GetMenu req db =
     (case DB_Find db of
        (Inl err, db') \<Rightarrow>
          (Error (StatusError Internal (''failed to get menu: '' @ gorm_error_text err)), db')
      | (Inr items, db') \<Rightarrow> (Return \<lparr>gms_menu_items = map menu_modelToProto items\<rparr>, db'))"

definition MenuServer_CreateMenuItem ::
  "CreateMenuItemRequest \<Rightarrow> 's menu_db \<Rightarrow> CreateMenuItemResponse outcome \<times> 's menu_db" where
  "MenuServer_CreateMenuItem req db =
     (let item = \<lparr>ID = 0, CreatedAt = zero_time, UpdatedAt = zero_time, DeletedAt = None,
                  ItemName = cm_name req, Description = cm_description req, Price = cm_price req\<rparr>
      in case DB_Create item db of
           (Inl err, db') \<Rightarrow>
             (Error (StatusError Internal (''failed to create menu item: '' @ gorm_error_text err)), db')
         | (Inr item', db') \<Rightarrow> (Return \<lparr>cm_menu_item = Some (menu_modelToProto item')\<rparr>, db'))"

definition NewMenuServer :: "'s menu_db MenuServiceServer" where
  "NewMenuServer =
     \<lparr>ms_GetMenuItem = MenuServer_GetMenuItem,
      ms_GetMenu = MenuServer_GetMenu,
      ms_CreateMenuItem = MenuServer_CreateMenuItem\<rparr>"

lemmas MenuServer_defs [handler] =
  MenuServer_GetMenuItem_def MenuServer_GetMenu_def MenuServer_CreateMenuItem_def

subsection \<open>The stored data\<close>

definition menu_cols :: "MenuItem \<Rightarrow> string \<times> string \<times> float64" where
  "menu_cols i = (ItemName i, Description i, Price i)"

definition menu_rows :: "'s menu_db \<Rightarrow> uint \<Rightarrow> (string \<times> string \<times> float64) option" where
  "menu_rows db k = map_option menu_cols (contents db k)"

definition proto_menu_data :: "MenuItemProto \<Rightarrow> uint32 \<times> string \<times> string \<times> float64" where
  "proto_menu_data i = (mi_id i, mi_name i, mi_description i, mi_price i)"

lemma menu_rows_cong: "contents db' = contents db \<Longrightarrow> menu_rows db' = menu_rows db"
  by (simp add: menu_rows_def fun_eq_iff)

lemma menu_rows_upd:
  "contents db' = (contents db)(k \<mapsto> t) \<Longrightarrow> menu_rows db' = (menu_rows db)(k \<mapsto> menu_cols t)"
  by (simp add: menu_rows_def fun_eq_iff)

lemma proto_menu_data_model [simp]:
  "proto_menu_data (menu_modelToProto i) = (uint32_of_uint (ID i), menu_cols i)"
  by (simp add: proto_menu_data_def menu_modelToProto_def menu_cols_def)

subsection \<open>The methods, branch by branch\<close>

lemma CreateMenuItem_keeps_ok:
  "MenuServer_CreateMenuItem req db = (x, db') \<Longrightarrow> gorm_ok menu_cols db' \<longleftrightarrow> gorm_ok menu_cols db"
  by (auto simp: MenuServer_CreateMenuItem_def Let_def DB_ops_ok split: prod.splits sum.splits)

lemma CreateMenuItem_Return:
  assumes "gorm_ok menu_cols db" and "MenuServer_CreateMenuItem req db = (Return p, db')"
  shows "\<exists>k i. cm_menu_item p = Some i \<and> k \<noteq> 0 \<and> menu_rows db k = None \<and>
    proto_menu_data i = (uint32_of_uint k, cm_name req, cm_description req, cm_price req) \<and>
    menu_rows db' = (menu_rows db)(k \<mapsto> (cm_name req, cm_description req, cm_price req))"
proof -
  define row where "row = \<lparr>ID = 0, CreatedAt = zero_time, UpdatedAt = zero_time, DeletedAt = None,
    ItemName = cm_name req, Description = cm_description req, Price = cm_price req\<rparr>"
  from assms(2) obtain r where c: "DB_Create row db = (Inr r, db')"
    and p: "p = \<lparr>cm_menu_item = Some (menu_modelToProto r)\<rparr>"
    by (auto simp: MenuServer_CreateMenuItem_def Let_def row_def split: prod.splits sum.splits)
  have "DeletedAt row = None" by (simp add: row_def)
  from DB_Create_Inr [OF assms(1) c this] obtain t where
    t: "ID r \<noteq> 0" "contents db (ID r) = None" "menu_cols r = menu_cols row"
      "menu_cols t = menu_cols row" "contents db' = (contents db)(ID r \<mapsto> t)" .
  have "menu_cols row = (cm_name req, cm_description req, cm_price req)"
    by (simp add: menu_cols_def row_def)
  with t p show ?thesis
    by (intro exI [where x = "ID r"] exI [where x = "menu_modelToProto r"])
      (simp add: menu_rows_upd, simp add: menu_rows_def)
qed

lemma CreateMenuItem_Error:
  assumes "gorm_ok menu_cols db" and "MenuServer_CreateMenuItem req db = (x, db')" and "\<not> outcome_ok x"
  shows "menu_rows db' = menu_rows db \<and> (\<exists>m. x = Error (StatusError Internal m))"
  using assms
  by (auto simp: MenuServer_CreateMenuItem_def Let_def dest: DB_Create_Inl
      intro: menu_rows_cong split: prod.splits sum.splits)

lemma GetMenuItem_frame:
  assumes "gorm_ok menu_cols db" and "MenuServer_GetMenuItem req db = (x, db')"
  shows "gorm_ok menu_cols db' \<and> menu_rows db' = menu_rows db"
  using assms
  by (auto simp: MenuServer_GetMenuItem_def DB_ops_ok dest: DB_First_frame
      intro: menu_rows_cong split: prod.splits sum.splits gorm_error.splits)

lemma GetMenuItem_Return:
  assumes "gorm_ok menu_cols db" and "MenuServer_GetMenuItem req db = (Return p, db')"
  shows "\<exists>i d. gm_menu_item p = Some i \<and> menu_rows db (uint_of_uint32 (gm_id req)) = Some d \<and>
    proto_menu_data i = (gm_id req, d)"
proof -
  from assms(2) obtain r where f: "DB_First (uint_of_uint32 (gm_id req)) db = (Inr r, db')"
    and p: "p = \<lparr>gm_menu_item = Some (menu_modelToProto r)\<rparr>"
    by (auto simp: MenuServer_GetMenuItem_def split: prod.splits sum.splits gorm_error.splits)
  from DB_First_Inr [OF assms(1) f] obtain t where
    "ID r = uint_of_uint32 (gm_id req)" "contents db (uint_of_uint32 (gm_id req)) = Some t"
    "menu_cols r = menu_cols t" .
  with p show ?thesis by (simp add: menu_rows_def)
qed

lemma GetMenuItem_NotFound:
  assumes "gorm_ok menu_cols db" and "MenuServer_GetMenuItem req db = (Error (StatusError NotFound m), db')"
  shows "menu_rows db (uint_of_uint32 (gm_id req)) = None"
  using assms
  by (auto simp: MenuServer_GetMenuItem_def menu_rows_def dest: DB_First_missing
      split: prod.splits sum.splits gorm_error.splits)

interpretation menu_srv: precise_service
  "gorm_ok menu_cols" menu_rows MenuServer_CreateMenuItem
  "\<lambda>i. MenuServer_GetMenuItem \<lparr>gm_id = i\<rparr>"
  "\<lambda>p. map_option proto_menu_data (cm_menu_item p)" "\<lambda>p. map_option proto_menu_data (gm_menu_item p)"
proof (unfold_locales, goal_cases)
  case (1 s q x s')
  then show ?case by (simp add: CreateMenuItem_keeps_ok)
next
  case (2 s q x s')
  then show ?case using CreateMenuItem_Error by blast
next
  case (3 s q p s')
  then show ?case using CreateMenuItem_Return [OF 3] by auto
next
  case (4 s i y s')
  then show ?case using GetMenuItem_frame by blast
next
  case (5 s i g s')
  then show ?case using GetMenuItem_Return [OF 5] by auto
next
  case (6 s i m s')
  then show ?case using GetMenuItem_NotFound [OF 6] by simp
qed

subsection \<open>Listing\<close>

lemma GetMenu_frame:
  assumes "gorm_ok menu_cols db" and "MenuServer_GetMenu req db = (x, db')"
  shows "gorm_ok menu_cols db' \<and> menu_rows db' = menu_rows db"
  using assms
  by (auto simp: MenuServer_GetMenu_def DB_ops_ok dest: DB_Find_frame
      intro: menu_rows_cong split: prod.splits sum.splits)

lemma GetMenu_Return:
  assumes "gorm_ok menu_cols db" and "MenuServer_GetMenu req db = (Return p, db')"
  shows "\<exists>ks. distinct ks \<and> set ks = dom (menu_rows db) \<and>
    map proto_menu_data (gms_menu_items p) = map (\<lambda>k. (uint32_of_uint k, the (menu_rows db k))) ks"
proof -
  from assms(2) obtain rs where f: "DB_Find db = (Inr rs, db')" and p: "p = \<lparr>gms_menu_items = map menu_modelToProto rs\<rparr>"
    by (auto simp: MenuServer_GetMenu_def split: prod.splits sum.splits)
  note rs = DB_Find_rows [OF assms(1) f, where rows = "menu_rows db" and f = "menu_cols"]
  show ?thesis
    by (rule exI [where x = "map ID rs"]) (use rs p in \<open>simp add: menu_rows_def\<close>)
qed

interpretation menu_list: listing_service
  "gorm_ok menu_cols" menu_rows MenuServer_CreateMenuItem
  "\<lambda>i. MenuServer_GetMenuItem \<lparr>gm_id = i\<rparr>"
  "\<lambda>p. map_option proto_menu_data (cm_menu_item p)" "\<lambda>p. map_option proto_menu_data (gm_menu_item p)"
  "MenuServer_GetMenu ()" "\<lambda>l. map proto_menu_data (gms_menu_items l)"
  by unfold_locales (use GetMenu_frame GetMenu_Return in blast)+

subsection \<open>A table in memory\<close>

definition menu_prep :: "uint \<Rightarrow> MenuItem \<Rightarrow> MenuItem" where
  "menu_prep k r = r\<lparr>ID := k\<rparr>"

definition menu_mem :: "MenuItem mem menu_db" where
  "menu_mem = mem_gorm menu_prep (\<lambda>_ _. False)"

lemma menu_mem_ok [simp]: "gorm_ok menu_cols menu_mem"
  unfolding menu_mem_def
  by (rule mem_gorm_ok) (simp add: menu_prep_def menu_cols_def)

lemma menu_mem_up [simp]: "gorm_up menu_mem"
  by (simp add: menu_mem_def mem_gorm_up)

lemma menu_mem_sels [simp]:
  "gState menu_mem = (1, [])" "gCreate menu_mem = mem_create menu_prep (\<lambda>_ _. False)"
  "gFirst menu_mem = mem_first" "gFind menu_mem = mem_find" "gRows menu_mem = mem_rows"
  by (simp_all add: menu_mem_def mem_gorm_def)

lemma CreateMenuItem_up:
  "MenuServer_CreateMenuItem req db = (x, db') \<Longrightarrow> gorm_up db' \<longleftrightarrow> gorm_up db"
  by (auto simp: MenuServer_CreateMenuItem_def Let_def DB_ops_up split: prod.splits sum.splits)

lemma run_CreateMenuItem_up:
  "run_requests MenuServer_CreateMenuItem qs db = (xs, db') \<Longrightarrow> gorm_up db' \<longleftrightarrow> gorm_up db"
  by (induction qs arbitrary: db xs) (auto dest: CreateMenuItem_up split: prod.splits)

lemma GetMenuItem_live:
  assumes "gorm_ok menu_cols db" "gorm_up db" "menu_rows db (uint_of_uint32 i) \<noteq> None"
  shows "\<exists>p db'. MenuServer_GetMenuItem \<lparr>gm_id = i\<rparr> db = (Return p, db')"
proof -
  obtain x db' where f: "DB_First (uint_of_uint32 i) db = (x, db')" by fastforce
  from assms(3) obtain t where "contents db (uint_of_uint32 i) = Some t"
    by (auto simp: menu_rows_def)
  with DB_First_up [OF assms(1,2) f] show ?thesis
    using f by (auto simp: MenuServer_GetMenuItem_def)
qed

subsection \<open>Properties\<close>

definition tea_req :: CreateMenuItemRequest where
  "tea_req = \<lparr>cm_name = ''Tea'', cm_description = ''green'', cm_price = 0x4004000000000000\<rparr>"

lemmas menu_eval =
  MenuServer_CreateMenuItem_def MenuServer_GetMenuItem_def MenuServer_GetMenu_def Let_def
  DB_Create_def DB_First_def DB_Find_def
  mem_create_def mem_first_def mem_find_def mem_live_def mem_rows_def menu_prep_def

definition menu_tea :: "MenuItem mem menu_db" where
  "menu_tea = snd (MenuServer_CreateMenuItem tea_req menu_mem)"

lemma create_tea: "\<exists>p. MenuServer_CreateMenuItem tea_req menu_mem = (Return p, menu_tea)"
  by (simp add: menu_tea_def menu_eval tea_req_def)

lemma menu_tea_fit: "keys_fit (menu_rows menu_tea)"
  by (auto simp: keys_fit_def menu_tea_def menu_eval tea_req_def menu_rows_def contents_def split: if_splits)

text \<open>
  A menu item that was created is read back with the name, description and price of the
  request, bit for bit, under the identifier of the reply, after any number of further
  creations, as long as the identifiers fit 32 bits and the database answers.
\<close>

theorem menu_item_read_back:
  assumes "gorm_ok menu_cols db" and "gorm_up db"
    and "MenuServer_CreateMenuItem q db = (Return p, db1)"
    and "run_requests MenuServer_CreateMenuItem qs db1 = (xs, db2)" and "keys_fit (menu_rows db2)"
  shows "\<exists>u g u' db3. cm_menu_item p = Some u \<and>
    MenuServer_GetMenuItem \<lparr>gm_id = mi_id u\<rparr> db2 = (Return g, db3) \<and> gm_menu_item g = Some u' \<and>
    proto_menu_data u' = (mi_id u, cm_name q, cm_description q, cm_price q)"
proof -
  from CreateMenuItem_Return [OF assms(1,3)] obtain k u where
    u: "cm_menu_item p = Some u" "proto_menu_data u = (uint32_of_uint k, cm_name q, cm_description q, cm_price q)"
      "menu_rows db1 = (menu_rows db)(k \<mapsto> (cm_name q, cm_description q, cm_price q))" by blast
  have ok1: "gorm_ok menu_cols db1" using CreateMenuItem_keeps_ok [OF assms(3)] assms(1) by blast
  have ok2: "gorm_ok menu_cols db2" and le: "menu_rows db1 \<subseteq>\<^sub>m menu_rows db2"
    using menu_srv.run_keeps [OF ok1 assms(4)] by auto
  have up2: "gorm_up db2"
    using CreateMenuItem_up [OF assms(3)] run_CreateMenuItem_up [OF assms(4)] assms(2) by blast
  have k: "menu_rows db2 k = Some (cm_name q, cm_description q, cm_price q)"
    using map_le_Some [OF le] u(3) by simp
  with assms(5) have "unat k < 2 ^ 32" unfolding keys_fit_def by blast
  then have key: "uint_of_uint32 (mi_id u) = k"
    using u(2) by (simp add: proto_menu_data_def uint32_roundtrip_iff)
  with GetMenuItem_live [OF ok2 up2, of "mi_id u"] k obtain g db3 where
    g: "MenuServer_GetMenuItem \<lparr>gm_id = mi_id u\<rparr> db2 = (Return g, db3)" by auto
  from GetMenuItem_Return [OF ok2 g] k key u(1) g show ?thesis by auto
qed

theorem menu_item_read_back_witness:
  "\<exists>p u g u' db3. MenuServer_CreateMenuItem tea_req menu_mem = (Return p, menu_tea) \<and> cm_menu_item p = Some u \<and>
    MenuServer_GetMenuItem \<lparr>gm_id = mi_id u\<rparr> menu_tea = (Return g, db3) \<and> gm_menu_item g = Some u' \<and>
    proto_menu_data u' = (mi_id u, ''Tea'', ''green'', 0x4004000000000000)"
proof -
  obtain p where c: "MenuServer_CreateMenuItem tea_req menu_mem = (Return p, menu_tea)" using create_tea by blast
  from menu_item_read_back [OF menu_mem_ok menu_mem_up c _ menu_tea_fit, of "[]"] c show ?thesis
    by (auto simp: tea_req_def)
qed

text \<open>\<open>GetMenu\<close> answers with exactly the stored items, one entry for each.\<close>

theorem menu_listed:
  assumes "gorm_ok menu_cols db" and "MenuServer_GetMenu () db = (Return l, db')"
  shows "set (map proto_menu_data (gms_menu_items l)) = {(uint32_of_uint k, d) | k d. menu_rows db k = Some d} \<and>
    length (gms_menu_items l) = card (dom (menu_rows db)) \<and> menu_rows db' = menu_rows db"
  using menu_list.list_exact [OF assms] menu_list.list_size [OF assms] menu_list.list_keeps [OF assms] by simp

theorem menu_listed_witness:
  "\<exists>l db'. MenuServer_GetMenu () menu_tea = (Return l, db') \<and>
    set (map proto_menu_data (gms_menu_items l)) = {(uint32_of_uint k, d) | k d. menu_rows menu_tea k = Some d} \<and>
    length (gms_menu_items l) = card (dom (menu_rows menu_tea))"
proof -
  obtain p where "MenuServer_CreateMenuItem tea_req menu_mem = (Return p, menu_tea)" using create_tea by blast
  from CreateMenuItem_keeps_ok [OF this] have ok: "gorm_ok menu_cols menu_tea" by simp
  obtain l db' where l: "MenuServer_GetMenu () menu_tea = (Return l, db')"
    by (auto simp: menu_tea_def menu_eval tea_req_def)
  from menu_listed [OF ok l] l show ?thesis by blast
qed

end
