(* ===== verification/Order_Service.thy ===== *)
theory Order_Service
  imports Gorm_Memory Cafe_Protos Service_Contract "HOL-Library.Multiset"
begin

text \<open>
  The gRPC order service (\<open>practical6-example/order-service\<close>): the \<open>Order\<close> and \<open>OrderItem\<close>
  models (\<open>models/order.go\<close>) and the server with its clients of the user and menu services
  (\<open>grpc/server.go\<close>). The state of the service is the state \<open>'w\<close> behind its clients together
  with its own database handle; on that handle \<open>First\<close> and \<open>Find\<close> are the calls through
  \<open>Preload("OrderItems")\<close>. \<open>err_text\<close> is the \<open>Error()\<close> method of an error a client returns,
  which \<open>%v\<close> prints.
\<close>

subsection \<open>Models and operations\<close>

record OrderItem = gorm_model +
  OrderID :: uint
  MenuItemID :: uint
  Quantity :: goint
  ItemPrice :: float64

record Order = gorm_model +
  UserID :: uint
  Status :: string
  OrderItems :: "OrderItem list"

type_synonym 's order_db = "('s, Order) gorm"

record 'w OrderServer =
  UserClient :: "'w UserServiceClient"
  MenuClient :: "'w MenuServiceClient"

definition new_order_item :: "uint \<Rightarrow> goint \<Rightarrow> float64 \<Rightarrow> OrderItem" where
  "new_order_item mid q p =
     \<lparr>ID = 0, CreatedAt = zero_time, UpdatedAt = zero_time, DeletedAt = None,
      OrderID = 0, MenuItemID = mid, Quantity = q, ItemPrice = p\<rparr>"

definition new_order :: "uint \<Rightarrow> OrderItem list \<Rightarrow> Order" where
  "new_order uid items =
     \<lparr>ID = 0, CreatedAt = zero_time, UpdatedAt = zero_time, DeletedAt = None,
      UserID = uid, Status = ''pending'', OrderItems = items\<rparr>"

definition item_modelToProto :: "OrderItem \<Rightarrow> OrderItemProto" where
  "item_modelToProto item =
     \<lparr>oi_id = uint32_of_uint (ID item),
      oi_order_id = uint32_of_uint (OrderID item),
      oi_menu_item_id = uint32_of_uint (MenuItemID item),
      oi_quantity = int32_of_int (Quantity item),
      oi_price = ItemPrice item,
      oi_created_at = Format_RFC3339 (CreatedAt item),
      oi_updated_at = Format_RFC3339 (UpdatedAt item)\<rparr>"

definition order_modelToProto :: "Order \<Rightarrow> OrderProto" where
  "order_modelToProto order =
     \<lparr>o_id = uint32_of_uint (ID order),
      o_user_id = uint32_of_uint (UserID order),
      o_status = Status order,
      o_order_items = map item_modelToProto (OrderItems order),
      o_created_at = Format_RFC3339 (CreatedAt order),
      o_updated_at = Format_RFC3339 (UpdatedAt order)\<rparr>"

text \<open>The loop over \<open>req.Items\<close>; a reply without a menu item is a nil dereference.\<close>

fun OrderServer_items ::
  "(goerror \<Rightarrow> string) \<Rightarrow> 'w MenuServiceClient \<Rightarrow> OrderItemRequest list \<Rightarrow> OrderItem list \<Rightarrow> 'w
   \<Rightarrow> OrderItem list outcome \<times> 'w" where
  "OrderServer_items err_text mc [] acc w = (Return acc, w)"
| "OrderServer_items err_text mc (item # items) acc w =
     (case mc_GetMenuItem mc \<lparr>gm_id = oir_menu_item_id item\<rparr> w of
        (Inl err, w') \<Rightarrow>
          (Error (StatusError InvalidArgument
             (''menu item '' @ fmt_uint (oir_menu_item_id item) @ '' not found: '' @ err_text err)), w')
      | (Inr resp, w') \<Rightarrow>
          (case gm_menu_item resp of
             None \<Rightarrow> (Panic, w')
           | Some menuItem \<Rightarrow>
               OrderServer_items err_text mc items
                 (acc @ [new_order_item (uint_of_uint32 (oir_menu_item_id item))
                           (int_of_int32 (oir_quantity item)) (mi_price menuItem)]) w'))"

definition OrderServer_CreateOrder ::
  "(goerror \<Rightarrow> string) \<Rightarrow> 'w OrderServer \<Rightarrow> CreateOrderRequest \<Rightarrow> 'w \<times> 's order_db
   \<Rightarrow> CreateOrderResponse outcome \<times> ('w \<times> 's order_db)" where
  "OrderServer_CreateOrder err_text srv req st =
     (case st of (w, db) \<Rightarrow>
      case uc_GetUser (UserClient srv) \<lparr>gu_id = co_user_id req\<rparr> w of
        (Inl err, w1) \<Rightarrow>
          (Error (StatusError InvalidArgument (''user not found: '' @ err_text err)), (w1, db))
      | (Inr _, w1) \<Rightarrow>
          (case OrderServer_items err_text (MenuClient srv) (co_items req) [] w1 of
             (Error err, w2) \<Rightarrow> (Error err, (w2, db))
           | (Panic, w2) \<Rightarrow> (Panic, (w2, db))
           | (Return items, w2) \<Rightarrow>
               (case DB_Create (new_order (uint_of_uint32 (co_user_id req)) items) db of
                  (Inl err, db') \<Rightarrow>
                    (Error (StatusError Internal (''failed to create order: '' @ gorm_error_text err)), (w2, db'))
                | (Inr order, db') \<Rightarrow>
                    (Return \<lparr>co_order = Some (order_modelToProto order)\<rparr>, (w2, db')))))"

definition OrderServer_GetOrders ::
  "unit \<Rightarrow> 'w \<times> 's order_db \<Rightarrow> GetOrdersResponse outcome \<times> ('w \<times> 's order_db)" where
  "OrderServer_GetOrders req st =
     (case st of (w, db) \<Rightarrow>
      case DB_Find db of
        (Inl err, db') \<Rightarrow>
          (Error (StatusError Internal (''failed to get orders: '' @ gorm_error_text err)), (w, db'))
      | (Inr orders, db') \<Rightarrow> (Return \<lparr>gos_orders = map order_modelToProto orders\<rparr>, (w, db')))"

definition OrderServer_GetOrder ::
  "GetOrderRequest \<Rightarrow> 'w \<times> 's order_db \<Rightarrow> GetOrderResponse outcome \<times> ('w \<times> 's order_db)" where
  "OrderServer_GetOrder req st =
     (case st of (w, db) \<Rightarrow>
      case DB_First (uint_of_uint32 (go_id req)) db of
        (Inl err, db') \<Rightarrow> (Error (StatusError NotFound ''order not found''), (w, db'))
      | (Inr order, db') \<Rightarrow> (Return \<lparr>go_order = Some (order_modelToProto order)\<rparr>, (w, db')))"

definition OrderServer_methods ::
  "(goerror \<Rightarrow> string) \<Rightarrow> 'w OrderServer \<Rightarrow> ('w \<times> 's order_db) OrderServiceServer" where
  "OrderServer_methods err_text srv =
     \<lparr>os_CreateOrder = OrderServer_CreateOrder err_text srv,
      os_GetOrders = OrderServer_GetOrders,
      os_GetOrder = OrderServer_GetOrder\<rparr>"

text \<open>\<open>NewOrderServer\<close>: \<open>dial\<close> is \<open>grpc.NewClient\<close> on an address.\<close>

definition NewOrderServer ::
  "(string \<Rightarrow> string + 'w ClientConn) \<Rightarrow> string \<Rightarrow> string \<Rightarrow> string + 'w OrderServer" where
  "NewOrderServer dial userServiceAddr menuServiceAddr =
     (case dial userServiceAddr of
        Inl err \<Rightarrow> Inl (''failed to connect to user service: '' @ err)
      | Inr userConn \<Rightarrow>
          (case dial menuServiceAddr of
             Inl err \<Rightarrow> Inl (''failed to connect to menu service: '' @ err)
           | Inr menuConn \<Rightarrow>
               Inr \<lparr>UserClient = NewUserServiceClient userConn,
                    MenuClient = NewMenuServiceClient menuConn\<rparr>))"

subsection \<open>The stored data\<close>

definition item_cols :: "OrderItem \<Rightarrow> uint \<times> goint \<times> float64" where
  "item_cols i = (MenuItemID i, Quantity i, ItemPrice i)"

definition order_cols :: "Order \<Rightarrow> uint \<times> string \<times> (uint \<times> goint \<times> float64) multiset" where
  "order_cols ord = (UserID ord, Status ord, mset (map item_cols (OrderItems ord)))"

definition order_rows ::
  "'s order_db \<Rightarrow> uint \<Rightarrow> (uint \<times> string \<times> (uint \<times> goint \<times> float64) multiset) option" where
  "order_rows db k = map_option order_cols (contents db k)"

text \<open>
  GORM fills the created struct in place: the items keep their order and data and get the
  order's key as their foreign key.
\<close>

definition gorm_items_law :: "'s order_db \<Rightarrow> bool" where
  "gorm_items_law D \<longleftrightarrow>
     (\<forall>r s r' s'. gCreate D r s = (Inr r', s') \<longrightarrow>
        map item_cols (OrderItems r') = map item_cols (OrderItems r) \<and>
        UserID r' = UserID r \<and> Status r' = Status r \<and>
        (\<forall>i \<in> set (OrderItems r'). OrderID i = ID r'))"

lemma gorm_items_law_state [simp]: "gorm_items_law (D\<lparr>gState := s\<rparr>) \<longleftrightarrow> gorm_items_law D"
  by (simp add: gorm_items_law_def)

lemma DB_Create_items:
  assumes "gorm_items_law D" and "DB_Create r D = (Inr r', D')"
  shows "map item_cols (OrderItems r') = map item_cols (OrderItems r) \<and> UserID r' = UserID r \<and>
    Status r' = Status r \<and> (\<forall>i \<in> set (OrderItems r'). OrderID i = ID r')"
proof -
  from assms(2) obtain s' where "gCreate D r (gState D) = (Inr r', s')"
    by (auto simp: DB_Create_def split: prod.splits)
  with assms(1) show ?thesis unfolding gorm_items_law_def by blast
qed

lemma order_rows_cong: "contents db' = contents db \<Longrightarrow> order_rows db' = order_rows db"
  by (simp add: order_rows_def fun_eq_iff)

lemma order_rows_upd:
  "contents db' = (contents db)(k \<mapsto> t) \<Longrightarrow> order_rows db' = (order_rows db)(k \<mapsto> order_cols t)"
  by (simp add: order_rows_def fun_eq_iff)

lemma DB_Create_order:
  assumes "gorm_ok order_cols db" and "DB_Create (new_order uid items) db = (Inr r, db')"
  shows "ID r \<noteq> 0 \<and> order_rows db (ID r) = None \<and> order_cols r = order_cols (new_order uid items) \<and>
    order_rows db' = (order_rows db)(ID r \<mapsto> order_cols (new_order uid items))"
proof -
  have "DeletedAt (new_order uid items) = None" by (simp add: new_order_def)
  from DB_Create_Inr [OF assms this] obtain t where
    "ID r \<noteq> 0" "contents db (ID r) = None" "order_cols r = order_cols (new_order uid items)"
    "order_cols t = order_cols (new_order uid items)" "contents db' = (contents db)(ID r \<mapsto> t)" .
  then show ?thesis by (simp add: order_rows_upd) (simp add: order_rows_def)
qed

subsection \<open>The methods for any clients\<close>

text \<open>A returned order was inserted by the one \<open>Create\<close>; every other outcome leaves the orders alone.\<close>

lemma CreateOrder_ReturnE:
  assumes "OrderServer_CreateOrder err_text srv req (w, db) = (Return p, (w', db'))"
  obtains u w1 items r where
    "uc_GetUser (UserClient srv) \<lparr>gu_id = co_user_id req\<rparr> w = (Inr u, w1)"
    "OrderServer_items err_text (MenuClient srv) (co_items req) [] w1 = (Return items, w')"
    "DB_Create (new_order (uint_of_uint32 (co_user_id req)) items) db = (Inr r, db')"
    "p = \<lparr>co_order = Some (order_modelToProto r)\<rparr>"
  using assms by (auto simp: OrderServer_CreateOrder_def split: prod.splits sum.splits outcome.splits)

lemma CreateOrder_keeps_ok:
  "OrderServer_CreateOrder err_text srv req (w, db) = (x, (w', db')) \<Longrightarrow>
    gorm_ok order_cols db' \<longleftrightarrow> gorm_ok order_cols db"
  by (auto simp: OrderServer_CreateOrder_def DB_ops_ok split: prod.splits sum.splits outcome.splits)

lemma CreateOrder_fails:
  assumes "gorm_ok order_cols db" and "OrderServer_CreateOrder err_text srv req (w, db) = (x, (w', db'))"
    and "\<not> outcome_ok x"
  shows "order_rows db' = order_rows db"
  using assms
  by (auto simp: OrderServer_CreateOrder_def dest: DB_Create_Inl intro: order_rows_cong
      split: prod.splits sum.splits outcome.splits)

text \<open>The data of an order at the width of the messages.\<close>

definition narrow_item :: "uint \<times> goint \<times> float64 \<Rightarrow> uint32 \<times> int32 \<times> float64" where
  "narrow_item i = (case i of (m, q, p) \<Rightarrow> (uint32_of_uint m, int32_of_int q, p))"

definition narrow_order ::
  "uint \<times> string \<times> (uint \<times> goint \<times> float64) multiset
   \<Rightarrow> uint32 \<times> string \<times> (uint32 \<times> int32 \<times> float64) multiset" where
  "narrow_order d = (case d of (u, st, items) \<Rightarrow> (uint32_of_uint u, st, image_mset narrow_item items))"

definition proto_order_data ::
  "OrderProto \<Rightarrow> uint32 \<times> uint32 \<times> string \<times> (uint32 \<times> int32 \<times> float64) multiset" where
  "proto_order_data ord =
     (o_id ord, o_user_id ord, o_status ord,
      mset (map (\<lambda>i. (oi_menu_item_id i, oi_quantity i, oi_price i)) (o_order_items ord)))"

definition order_rows32 ::
  "'s order_db \<Rightarrow> uint \<Rightarrow> (uint32 \<times> string \<times> (uint32 \<times> int32 \<times> float64) multiset) option" where
  "order_rows32 db k = map_option narrow_order (order_rows db k)"

lemma proto_order_data_model [simp]:
  "proto_order_data (order_modelToProto ord) = (uint32_of_uint (ID ord), narrow_order (order_cols ord))"
  by (simp add: proto_order_data_def order_modelToProto_def item_modelToProto_def order_cols_def
      narrow_order_def narrow_item_def item_cols_def comp_def multiset.map_comp flip: mset_map)

lemma order_rows32_cong: "order_rows db' = order_rows db \<Longrightarrow> order_rows32 db' = order_rows32 db"
  by (simp add: order_rows32_def fun_eq_iff)

lemma order_rows32_upd:
  "order_rows db' = (order_rows db)(k \<mapsto> d) \<Longrightarrow> order_rows32 db' = (order_rows32 db)(k \<mapsto> narrow_order d)"
  by (simp add: order_rows32_def fun_eq_iff)

lemma CreateOrder_adds:
  assumes "gorm_ok order_cols db" and "OrderServer_CreateOrder err_text srv req (w, db) = (Return p, (w', db'))"
  shows "\<exists>k d. map_option proto_order_data (co_order p) = Some (uint32_of_uint k, d) \<and> k \<noteq> 0 \<and>
    order_rows32 db k = None \<and> order_rows32 db' = (order_rows32 db)(k \<mapsto> d)"
proof -
  from CreateOrder_ReturnE [OF assms(2)] obtain items r where
    c: "DB_Create (new_order (uint_of_uint32 (co_user_id req)) items) db = (Inr r, db')" and
    p: "p = \<lparr>co_order = Some (order_modelToProto r)\<rparr>" by metis
  from DB_Create_order [OF assms(1) c] p show ?thesis
    by (intro exI [where x = "ID r"] exI [where x = "narrow_order (order_cols r)"])
      (simp add: order_rows32_upd, simp add: order_rows32_def)
qed

lemma GetOrder_frame:
  assumes "gorm_ok order_cols db" and "OrderServer_GetOrder req (w, db) = (x, (w', db'))"
  shows "w' = w \<and> gorm_ok order_cols db' \<and> order_rows db' = order_rows db"
  using assms
  by (auto simp: OrderServer_GetOrder_def DB_ops_ok dest: DB_First_frame
      intro: order_rows_cong split: prod.splits sum.splits)

lemma GetOrder_Return:
  assumes "gorm_ok order_cols db" and "OrderServer_GetOrder req (w, db) = (Return p, st')"
  shows "\<exists>d. map_option proto_order_data (go_order p) = Some (go_id req, d) \<and>
    order_rows32 db (uint_of_uint32 (go_id req)) = Some d"
proof -
  from assms(2) obtain r db' where f: "DB_First (uint_of_uint32 (go_id req)) db = (Inr r, db')"
    and p: "p = \<lparr>go_order = Some (order_modelToProto r)\<rparr>"
    by (auto simp: OrderServer_GetOrder_def split: prod.splits sum.splits)
  from DB_First_Inr [OF assms(1) f] obtain t where
    "ID r = uint_of_uint32 (go_id req)" "contents db (uint_of_uint32 (go_id req)) = Some t"
    "order_cols r = order_cols t" .
  with p show ?thesis
    by (intro exI [where x = "narrow_order (order_cols t)"]) (simp add: order_rows32_def order_rows_def)
qed

interpretation order_srv: record_service
  "\<lambda>(w, db). gorm_ok order_cols db" "\<lambda>(w, db). order_rows32 db"
  "OrderServer_CreateOrder err_text srv" "\<lambda>i. OrderServer_GetOrder \<lparr>go_id = i\<rparr>"
  "\<lambda>p. map_option proto_order_data (co_order p)" "\<lambda>p. map_option proto_order_data (go_order p)"
  for err_text srv
proof (unfold_locales, goal_cases)
  case (1 s q x s')
  then show ?case by (cases s, cases s') (simp add: CreateOrder_keeps_ok)
next
  case (2 s q x s')
  then show ?case by (cases s, cases s') (auto dest: CreateOrder_fails intro: order_rows32_cong)
next
  case (3 s q p s')
  obtain w db w' db' where s: "s = (w, db)" "s' = (w', db')" by (cases s, cases s')
  with 3 have "gorm_ok order_cols db"
    and "OrderServer_CreateOrder err_text srv q (w, db) = (Return p, (w', db'))" by simp_all
  from CreateOrder_adds [OF this] show ?case by (simp only: s prod.case)
next
  case (4 s i y s')
  then show ?case by (cases s, cases s') (auto dest: GetOrder_frame intro: order_rows32_cong)
next
  case (5 s i g s')
  then show ?case by (cases s, cases s') (auto dest!: GetOrder_Return)
qed

lemma GetOrders_frame:
  assumes "gorm_ok order_cols db" and "OrderServer_GetOrders req (w, db) = (x, (w', db'))"
  shows "w' = w \<and> gorm_ok order_cols db' \<and> order_rows db' = order_rows db"
  using assms
  by (auto simp: OrderServer_GetOrders_def DB_ops_ok dest: DB_Find_frame
      intro: order_rows_cong split: prod.splits sum.splits)

lemma GetOrders_Return:
  assumes "gorm_ok order_cols db" and "OrderServer_GetOrders req (w, db) = (Return p, st')"
  shows "\<exists>ks. distinct ks \<and> set ks = dom (order_rows32 db) \<and>
    map proto_order_data (gos_orders p) = map (\<lambda>k. (uint32_of_uint k, the (order_rows32 db k))) ks"
proof -
  from assms(2) obtain rs db' where f: "DB_Find db = (Inr rs, db')"
    and p: "p = \<lparr>gos_orders = map order_modelToProto rs\<rparr>"
    by (auto simp: OrderServer_GetOrders_def split: prod.splits sum.splits)
  note rs = DB_Find_rows [OF assms(1) f, where rows = "order_rows32 db" and f = "narrow_order \<circ> order_cols"]
  show ?thesis
    by (rule exI [where x = "map ID rs"]) (use rs p in \<open>simp add: order_rows32_def order_rows_def option.map_comp\<close>)
qed

interpretation order_list: listing_service
  "\<lambda>(w, db). gorm_ok order_cols db" "\<lambda>(w, db). order_rows32 db"
  "OrderServer_CreateOrder err_text srv" "\<lambda>i. OrderServer_GetOrder \<lparr>go_id = i\<rparr>"
  "\<lambda>p. map_option proto_order_data (co_order p)" "\<lambda>p. map_option proto_order_data (go_order p)"
  "OrderServer_GetOrders ()" "\<lambda>p. map proto_order_data (gos_orders p)"
  for err_text srv
proof (unfold_locales, goal_cases)
  case (1 s z s')
  then show ?case by (cases s, cases s') (auto dest: GetOrders_frame intro: order_rows32_cong)
next
  case (2 s l s')
  then show ?case by (cases s) (simp add: GetOrders_Return)
qed

subsection \<open>A table in memory\<close>

definition order_prep :: "uint \<Rightarrow> Order \<Rightarrow> Order" where
  "order_prep k r = r\<lparr>ID := k, OrderItems := map (\<lambda>i. i\<lparr>OrderID := k\<rparr>) (OrderItems r)\<rparr>"

definition order_mem :: "Order mem order_db" where
  "order_mem = mem_gorm order_prep (\<lambda>_ _. False)"

lemma item_cols_OrderID [simp]: "item_cols (i\<lparr>OrderID := k\<rparr>) = item_cols i"
  by (simp add: item_cols_def)

lemma order_mem_ok [simp]: "gorm_ok order_cols order_mem"
  unfolding order_mem_def
  by (rule mem_gorm_ok) (simp add: order_prep_def order_cols_def comp_def flip: mset_map)

lemma order_mem_up [simp]: "gorm_up order_mem"
  by (simp add: order_mem_def mem_gorm_up)

lemma order_mem_sels [simp]:
  "gState order_mem = (1, [])" "gCreate order_mem = mem_create order_prep (\<lambda>_ _. False)"
  "gFirst order_mem = mem_first" "gFind order_mem = mem_find" "gRows order_mem = mem_rows"
  by (simp_all add: order_mem_def mem_gorm_def)

lemma order_mem_items [simp]: "gorm_items_law order_mem"
  unfolding gorm_items_law_def order_mem_def mem_gorm_def gorm.select_convs
  by (auto simp: mem_create_def order_prep_def Let_def item_cols_def split: if_splits)

subsection \<open>Properties\<close>

text \<open>The loop keeps the items' order, identifiers and quantities, whatever the clients answer.\<close>

lemma OrderServer_items_data:
  "OrderServer_items et mc its acc w = (Return items, w') \<Longrightarrow>
     map (\<lambda>i. (MenuItemID i, Quantity i)) items =
     map (\<lambda>i. (MenuItemID i, Quantity i)) acc @
     map (\<lambda>it. (uint_of_uint32 (oir_menu_item_id it), int_of_int32 (oir_quantity it))) its"
  by (induction its arbitrary: acc w)
    (fastforce simp: new_order_item_def split: prod.splits sum.splits option.splits)+

definition stub_server :: "unit OrderServer" where
  "stub_server =
     \<lparr>UserClient = \<lparr>uc_CreateUser = (\<lambda>_ w. (Inl (PlainError []), w)),
                     uc_GetUser = (\<lambda>_ w. (Inr \<lparr>gu_user = None\<rparr>, w)),
                     uc_GetUsers = (\<lambda>_ w. (Inl (PlainError []), w))\<rparr>,
      MenuClient = \<lparr>mc_GetMenuItem = (\<lambda>q w. (Inr \<lparr>gm_menu_item = Some
                       \<lparr>mi_id = gm_id q, mi_name = ''Tea'', mi_description = [], mi_price = 5,
                        mi_created_at = [], mi_updated_at = []\<rparr>\<rparr>, w)),
                     mc_GetMenu = (\<lambda>_ w. (Inl (PlainError []), w)),
                     mc_CreateMenuItem = (\<lambda>_ w. (Inl (PlainError []), w))\<rparr>\<rparr>"

definition two_items :: CreateOrderRequest where
  "two_items = \<lparr>co_user_id = 7, co_items = [\<lparr>oir_menu_item_id = 3, oir_quantity = 2\<rparr>,
                                           \<lparr>oir_menu_item_id = 4, oir_quantity = -1\<rparr>]\<rparr>"

lemmas order_eval =
  OrderServer_CreateOrder_def stub_server_def two_items_def new_order_def new_order_item_def Let_def
  DB_Create_def DB_First_def DB_Find_def
  mem_create_def mem_first_def mem_find_def mem_live_def mem_rows_def order_prep_def

definition orders_one :: "Order mem order_db" where
  "orders_one = snd (snd (OrderServer_CreateOrder (\<lambda>_. []) stub_server two_items ((), order_mem)))"

lemma create_two_items:
  "\<exists>p. OrderServer_CreateOrder (\<lambda>_. []) stub_server two_items ((), order_mem) = (Return p, ((), orders_one))"
  by (simp add: orders_one_def order_eval)

text \<open>
  The reply to an accepted order carries the request: the user, the status \<open>pending\<close>, and
  the items in the order of the request with their identifiers and quantities unchanged by the
  way through 64-bit columns; every item names the new order.
\<close>

theorem order_reply_items:
  assumes "gorm_items_law db" and "OrderServer_CreateOrder et srv req (w, db) = (Return p, st')"
  shows "\<exists>ord. co_order p = Some ord \<and> o_user_id ord = co_user_id req \<and> o_status ord = ''pending'' \<and>
    map (\<lambda>i. (oi_menu_item_id i, oi_quantity i)) (o_order_items ord) =
      map (\<lambda>it. (oir_menu_item_id it, oir_quantity it)) (co_items req) \<and>
    (\<forall>i \<in> set (o_order_items ord). oi_order_id i = o_id ord)"
proof -
  obtain w' db' where st: "st' = (w', db')" by fastforce
  with assms(2) have "OrderServer_CreateOrder et srv req (w, db) = (Return p, (w', db'))" by simp
  from CreateOrder_ReturnE [OF this] obtain w1 items r where
    i: "OrderServer_items et (MenuClient srv) (co_items req) [] w1 = (Return items, w')" and
    c: "DB_Create (new_order (uint_of_uint32 (co_user_id req)) items) db = (Inr r, db')" and
    p: "p = \<lparr>co_order = Some (order_modelToProto r)\<rparr>" by metis
  note r = DB_Create_items [OF assms(1) c]
  from r have "map item_cols (OrderItems r) = map item_cols items" by (simp add: new_order_def)
  then have "map (\<lambda>(m, q, _). (m, q)) (map item_cols (OrderItems r)) = map (\<lambda>(m, q, _). (m, q)) (map item_cols items)"
    by simp
  then have "map (\<lambda>i. (MenuItemID i, Quantity i)) (OrderItems r) =
      map (\<lambda>it. (uint_of_uint32 (oir_menu_item_id it), int_of_int32 (oir_quantity it))) (co_items req)"
    using OrderServer_items_data [OF i] by (simp add: item_cols_def comp_def)
  then have "map (\<lambda>(m, q). (uint32_of_uint m, int32_of_int q)) (map (\<lambda>i. (MenuItemID i, Quantity i)) (OrderItems r)) =
      map (\<lambda>it. (oir_menu_item_id it, oir_quantity it)) (co_items req)" by (simp add: comp_def)
  with r p show ?thesis
    by (auto simp: order_modelToProto_def item_modelToProto_def new_order_def comp_def)
qed

theorem order_reply_items_witness:
  "\<exists>p ord. OrderServer_CreateOrder (\<lambda>_. []) stub_server two_items ((), order_mem) = (Return p, ((), orders_one)) \<and>
    co_order p = Some ord \<and> o_user_id ord = 7 \<and>
    map (\<lambda>i. (oi_menu_item_id i, oi_quantity i)) (o_order_items ord) = [(3, 2), (4, -1)]"
proof -
  obtain p where p: "OrderServer_CreateOrder (\<lambda>_. []) stub_server two_items ((), order_mem) = (Return p, ((), orders_one))"
    using create_two_items by blast
  from order_reply_items [OF order_mem_items p] p show ?thesis by (auto simp: two_items_def)
qed

text \<open>\<open>GetOrders\<close> answers with exactly the stored orders and their items, one entry for each order.\<close>

theorem orders_listed:
  assumes "gorm_ok order_cols db" and "OrderServer_GetOrders () (w, db) = (Return l, (w', db'))"
  shows "set (map proto_order_data (gos_orders l)) = {(uint32_of_uint k, d) | k d. order_rows32 db k = Some d} \<and>
    length (gos_orders l) = card (dom (order_rows32 db)) \<and> w' = w \<and> order_rows db' = order_rows db"
  using order_list.list_exact [of "(w, db)" l "(w', db')"] order_list.list_size [of "(w, db)" l "(w', db')"]
    GetOrders_frame [OF assms] assms by simp

theorem orders_listed_witness:
  "\<exists>l st'. OrderServer_GetOrders () ((), orders_one) = (Return l, st') \<and>
    set (map proto_order_data (gos_orders l)) = {(uint32_of_uint k, d) | k d. order_rows32 orders_one k = Some d} \<and>
    length (gos_orders l) = card (dom (order_rows32 orders_one))"
proof -
  obtain p where p: "OrderServer_CreateOrder (\<lambda>_. []) stub_server two_items ((), order_mem) = (Return p, ((), orders_one))"
    using create_two_items by blast
  have ok: "gorm_ok order_cols orders_one" using CreateOrder_keeps_ok [OF p] by simp
  obtain l w' db' where l: "OrderServer_GetOrders () ((), orders_one) = (Return l, (w', db'))"
    by (auto simp: OrderServer_GetOrders_def orders_one_def order_eval)
  from orders_listed [OF ok l] l show ?thesis by blast
qed

text \<open>
  A \<open>NotFound\<close> of \<open>GetOrder\<close> does not mean that the order is missing: with a database that
  obeys all its laws, a stored order is reported as not found when the query fails. (The user
  and menu services do not do this: their \<open>NotFound\<close> is answered only for a missing row.)
\<close>

theorem order_not_found_untrusted:
  "\<exists>db :: Order mem order_db. gorm_ok order_cols db \<and> order_rows db 1 \<noteq> None \<and>
     (\<forall>w. OrderServer_GetOrder \<lparr>go_id = 1\<rparr> (w, db) = (Error (StatusError NotFound ''order not found''), (w, db)))"
proof -
  let ?db = "orders_one\<lparr>gFirst := \<lambda>_ s. (Inl (DBError ''connection refused''), s)\<rparr>"
  obtain p where p: "OrderServer_CreateOrder (\<lambda>_. []) stub_server two_items ((), order_mem) = (Return p, ((), orders_one))"
    using create_two_items by blast
  have "gorm_ok order_cols orders_one" using CreateOrder_keeps_ok [OF p] by simp
  then have "gorm_ok order_cols ?db" by (rule gorm_ok_down)
  moreover have "order_rows ?db 1 \<noteq> None"
    by (simp add: orders_one_def order_eval order_rows_def contents_def)
  moreover have "OrderServer_GetOrder \<lparr>go_id = 1\<rparr> (w, ?db) = (Error (StatusError NotFound ''order not found''), (w, ?db))"
    for w :: 'a
    by (simp add: OrderServer_GetOrder_def DB_First_def)
  ultimately show ?thesis by blast
qed

end
