(* ===== verification/Order_Validation.thy ===== *)
theory Order_Validation
  imports Order_Service
begin

text \<open>
  What the order service relies on when it validates an order through its clients, and what it
  guarantees in return. The abstract specification \<open>place_order\<close> looks at the users and prices
  the other two services know; the locale states what the two calls must promise, and inside it
  \<open>CreateOrder\<close> is shown to implement the specification.
\<close>

subsection \<open>Abstract specification\<close>

definition priced_item :: "(uint32 \<Rightarrow> float64 option) \<Rightarrow> OrderItemRequest \<Rightarrow> OrderItem option" where
  "priced_item price it =
     map_option (new_order_item (uint_of_uint32 (oir_menu_item_id it)) (int_of_int32 (oir_quantity it)))
       (price (oir_menu_item_id it))"

fun price_items :: "(uint32 \<Rightarrow> float64 option) \<Rightarrow> OrderItemRequest list \<Rightarrow> OrderItem list option" where
  "price_items price [] = Some []"
| "price_items price (it # its) =
     (case priced_item price it of
        None \<Rightarrow> None
      | Some i \<Rightarrow> map_option ((#) i) (price_items price its))"

text \<open>The order a request denotes: rejected (\<open>None\<close>) unless the user and every item is known.\<close>

definition place_order ::
  "(uint32 \<Rightarrow> bool) \<Rightarrow> (uint32 \<Rightarrow> float64 option) \<Rightarrow> CreateOrderRequest \<Rightarrow> Order option" where
  "place_order known price req =
     (if known (co_user_id req)
      then map_option (new_order (uint_of_uint32 (co_user_id req))) (price_items price (co_items req))
      else None)"

lemma price_items_None:
  "price_items price its = None \<longleftrightarrow> (\<exists>it \<in> set its. price (oir_menu_item_id it) = None)"
  by (induction its) (auto simp: priced_item_def split: option.splits)

lemma price_items_cols:
  "price_items price its = Some items \<Longrightarrow>
     map item_cols items =
     map (\<lambda>it. (uint_of_uint32 (oir_menu_item_id it), int_of_int32 (oir_quantity it),
                the (price (oir_menu_item_id it)))) its"
  by (induction its arbitrary: items)
    (auto simp: priced_item_def item_cols_def new_order_item_def split: option.splits)

lemma place_order_None:
  "place_order known price req = None \<longleftrightarrow>
     \<not> known (co_user_id req) \<or> (\<exists>it \<in> set (co_items req). price (oir_menu_item_id it) = None)"
  by (simp add: place_order_def price_items_None)

subsection \<open>The contract of the two calls\<close>

text \<open>
  \<open>inv\<close> holds of the state behind the clients; the lookups change neither the known users nor
  the prices, answer for known users and priced items only, and send the menu item along.
\<close>

locale order_backends =
  fixes srv :: "'w OrderServer"
    and inv :: "'w \<Rightarrow> bool"
    and known :: "'w \<Rightarrow> uint32 \<Rightarrow> bool"
    and price :: "'w \<Rightarrow> uint32 \<Rightarrow> float64 option"
  assumes user_frame: "inv w \<Longrightarrow> uc_GetUser (UserClient srv) \<lparr>gu_id = i\<rparr> w = (x, w') \<Longrightarrow>
      inv w' \<and> known w' = known w \<and> price w' = price w"
    and user_sound: "inv w \<Longrightarrow> uc_GetUser (UserClient srv) \<lparr>gu_id = i\<rparr> w = (Inr u, w') \<Longrightarrow> known w i"
    and menu_frame: "inv w \<Longrightarrow> mc_GetMenuItem (MenuClient srv) \<lparr>gm_id = i\<rparr> w = (y, w') \<Longrightarrow>
      inv w' \<and> known w' = known w \<and> price w' = price w"
    and menu_sound: "inv w \<Longrightarrow> mc_GetMenuItem (MenuClient srv) \<lparr>gm_id = i\<rparr> w = (Inr m, w') \<Longrightarrow>
      \<exists>mi. gm_menu_item m = Some mi \<and> price w i = Some (mi_price mi)"
begin

lemma items_frame:
  "inv w \<Longrightarrow> OrderServer_items et (MenuClient srv) its acc w = (x, w') \<Longrightarrow>
     inv w' \<and> known w' = known w \<and> price w' = price w"
proof (induction its arbitrary: acc w)
  case Nil
  then show ?case by simp
next
  case (Cons it its)
  obtain y w1 where y: "mc_GetMenuItem (MenuClient srv) \<lparr>gm_id = oir_menu_item_id it\<rparr> w = (y, w1)" by fastforce
  from menu_frame [OF Cons.prems(1) y] have f: "inv w1" "known w1 = known w" "price w1 = price w" by auto
  from Cons.prems(2) y Cons.IH [OF f(1)] f show ?case
    by (auto split: sum.splits option.splits)
qed

lemma items_outcome:
  "inv w \<Longrightarrow> OrderServer_items et (MenuClient srv) its acc w = (x, w') \<Longrightarrow>
     (case x of
        Return items \<Rightarrow> \<exists>new. price_items (price w) its = Some new \<and> items = acc @ new
      | Error e \<Rightarrow> \<exists>m. e = StatusError InvalidArgument m
      | Panic \<Rightarrow> False)"
proof (induction its arbitrary: acc w)
  case Nil
  then show ?case by auto
next
  case (Cons it its)
  obtain y w1 where y: "mc_GetMenuItem (MenuClient srv) \<lparr>gm_id = oir_menu_item_id it\<rparr> w = (y, w1)" by fastforce
  show ?case
  proof (cases y)
    case (Inl e)
    with Cons.prems(2) y show ?thesis by auto
  next
    case (Inr m)
    with menu_sound [OF Cons.prems(1)] y obtain mi where
      mi: "gm_menu_item m = Some mi" "price w (oir_menu_item_id it) = Some (mi_price mi)" by blast
    from menu_frame [OF Cons.prems(1) y] have f: "inv w1" "price w1 = price w" by auto
    from Cons.IH [OF f(1)] Cons.prems(2) y Inr mi show ?thesis
      by (fastforce simp: f priced_item_def split: outcome.splits)
  qed
qed

text \<open>\<open>CreateOrder\<close> never dereferences nil, and a rejected request is the client's fault or the database's.\<close>

lemma CreateOrder_outcome:
  assumes "inv w" and "OrderServer_CreateOrder et srv req (w, db) = (x, (w', db'))"
  shows "x \<noteq> Panic \<and> (\<forall>e. x = Error e \<longrightarrow> (\<exists>m. e = StatusError InvalidArgument m \<or> e = StatusError Internal m))"
proof -
  obtain u w1 where u: "uc_GetUser (UserClient srv) \<lparr>gu_id = co_user_id req\<rparr> w = (u, w1)" by fastforce
  obtain y w2 where y: "OrderServer_items et (MenuClient srv) (co_items req) [] w1 = (y, w2)" by fastforce
  have "inv w1" using user_frame [OF assms(1) u] by simp
  from items_outcome [OF this y] assms(2) u y show ?thesis
    by (auto simp: OrderServer_CreateOrder_def split: sum.splits outcome.splits prod.splits)
qed

lemma CreateOrder_frame:
  assumes "inv w" and "OrderServer_CreateOrder et srv req (w, db) = (x, (w', db'))"
  shows "inv w' \<and> known w' = known w \<and> price w' = price w"
proof -
  obtain u w1 where u: "uc_GetUser (UserClient srv) \<lparr>gu_id = co_user_id req\<rparr> w = (u, w1)" by fastforce
  obtain y w2 where y: "OrderServer_items et (MenuClient srv) (co_items req) [] w1 = (y, w2)" by fastforce
  note f = user_frame [OF assms(1) u]
  with items_frame [OF _ y] assms(2) u y show ?thesis
    by (auto simp: OrderServer_CreateOrder_def split: sum.splits outcome.splits prod.splits)
qed

text \<open>The refinement: a returned order is the one \<open>place_order\<close> prescribes, stored under a fresh key.\<close>

lemma CreateOrder_refines:
  assumes "inv w" and "gorm_ok order_cols db"
    and "OrderServer_CreateOrder et srv req (w, db) = (Return p, (w', db'))"
  shows "\<exists>ord k. place_order (known w) (price w) req = Some ord \<and> k \<noteq> 0 \<and> order_rows db k = None \<and>
    order_rows db' = (order_rows db)(k \<mapsto> order_cols ord) \<and>
    map_option proto_order_data (co_order p) = Some (uint32_of_uint k, narrow_order (order_cols ord))"
proof -
  from CreateOrder_ReturnE [OF assms(3)] obtain u w1 items r where
    u: "uc_GetUser (UserClient srv) \<lparr>gu_id = co_user_id req\<rparr> w = (Inr u, w1)" and
    i: "OrderServer_items et (MenuClient srv) (co_items req) [] w1 = (Return items, w')" and
    c: "DB_Create (new_order (uint_of_uint32 (co_user_id req)) items) db = (Inr r, db')" and
    p: "p = \<lparr>co_order = Some (order_modelToProto r)\<rparr>" by metis
  from user_frame [OF assms(1) u] have f: "inv w1" "price w1 = price w" by auto
  from items_outcome [OF f(1) i] have "price_items (price w) (co_items req) = Some items" by (simp add: f)
  with user_sound [OF assms(1) u] have
    "place_order (known w) (price w) req = Some (new_order (uint_of_uint32 (co_user_id req)) items)"
    by (simp add: place_order_def)
  with DB_Create_order [OF assms(2) c] p show ?thesis
    by (intro exI [where x = "new_order (uint_of_uint32 (co_user_id req)) items"] exI [where x = "ID r"]) simp
qed

text \<open>A request with an unknown user or item is rejected before the service's own database is used.\<close>

lemma CreateOrder_rejects:
  assumes "inv w" and "place_order (known w) (price w) req = None"
  shows "\<exists>m w'. OrderServer_CreateOrder et srv req (w, db) = (Error (StatusError InvalidArgument m), (w', db))"
proof -
  obtain u w1 where u: "uc_GetUser (UserClient srv) \<lparr>gu_id = co_user_id req\<rparr> w = (u, w1)" by fastforce
  obtain y w2 where y: "OrderServer_items et (MenuClient srv) (co_items req) [] w1 = (y, w2)" by fastforce
  show ?thesis
  proof (cases u)
    case (Inl e)
    with u show ?thesis by (simp add: OrderServer_CreateOrder_def)
  next
    case (Inr r)
    with user_sound [OF assms(1)] u have "known w (co_user_id req)" by blast
    with assms(2) have p: "price_items (price w) (co_items req) = None"
      by (auto simp: place_order_def split: if_splits)
    from user_frame [OF assms(1) u] have "inv w1" "price w1 = price w" by auto
    with items_outcome [OF _ y] p obtain m where "y = Error (StatusError InvalidArgument m)"
      by (cases y) auto
    with u y Inr show ?thesis by (simp add: OrderServer_CreateOrder_def)
  qed
qed

end

text \<open>Backends that answer whenever they can: a lookup fails only for an unknown user or item.\<close>

locale live_backends = order_backends +
  assumes user_live: "inv w \<Longrightarrow> known w i \<Longrightarrow> \<exists>u w'. uc_GetUser (UserClient srv) \<lparr>gu_id = i\<rparr> w = (Inr u, w')"
    and menu_live: "inv w \<Longrightarrow> price w i \<noteq> None \<Longrightarrow>
      \<exists>m w'. mc_GetMenuItem (MenuClient srv) \<lparr>gm_id = i\<rparr> w = (Inr m, w')"
begin

lemma items_live:
  "inv w \<Longrightarrow> price_items (price w) its = Some new \<Longrightarrow>
     \<exists>w'. OrderServer_items et (MenuClient srv) its acc w = (Return (acc @ new), w')"
proof (induction its arbitrary: acc w new)
  case Nil
  then show ?case by simp
next
  case (Cons it its)
  from Cons.prems(2) have "price w (oir_menu_item_id it) \<noteq> None"
    by (auto simp: priced_item_def split: option.splits)
  with menu_live [OF Cons.prems(1)] obtain m w1 where
    m: "mc_GetMenuItem (MenuClient srv) \<lparr>gm_id = oir_menu_item_id it\<rparr> w = (Inr m, w1)" by blast
  from menu_sound [OF Cons.prems(1) m] obtain mi where
    mi: "gm_menu_item m = Some mi" "price w (oir_menu_item_id it) = Some (mi_price mi)" by blast
  from menu_frame [OF Cons.prems(1) m] have f: "inv w1" "price w1 = price w" by auto
  from Cons.prems(2) mi obtain rest where rest: "price_items (price w1) its = Some rest"
    "new = new_order_item (uint_of_uint32 (oir_menu_item_id it)) (int_of_int32 (oir_quantity it)) (mi_price mi) # rest"
    by (auto simp: f priced_item_def split: option.splits)
  from Cons.IH [OF f(1) rest(1), of "acc @ [hd new]"] m mi rest(2) show ?case by simp
qed

text \<open>A valid request is rejected by nothing but the service's own database.\<close>

lemma CreateOrder_complete:
  assumes "inv w" and "place_order (known w) (price w) req = Some ord"
  shows "\<exists>w' y db'. DB_Create ord db = (y, db') \<and>
    OrderServer_CreateOrder et srv req (w, db) =
      (case y of
         Inl e \<Rightarrow> Error (StatusError Internal (''failed to create order: '' @ gorm_error_text e))
       | Inr r \<Rightarrow> Return \<lparr>co_order = Some (order_modelToProto r)\<rparr>, (w', db'))"
proof -
  from assms(2) obtain items where k: "known w (co_user_id req)"
    and items: "price_items (price w) (co_items req) = Some items"
    and ord: "ord = new_order (uint_of_uint32 (co_user_id req)) items"
    by (auto simp: place_order_def split: if_splits)
  from user_live [OF assms(1) k] obtain u w1 where
    u: "uc_GetUser (UserClient srv) \<lparr>gu_id = co_user_id req\<rparr> w = (Inr u, w1)" by blast
  from user_frame [OF assms(1) u] have f: "inv w1" "price w1 = price w" by auto
  from items_live [OF f(1), of "co_items req" items et "[]"] items obtain w2 where
    "OrderServer_items et (MenuClient srv) (co_items req) [] w1 = (Return items, w2)" by (auto simp: f)
  with u ord show ?thesis
    by (cases "DB_Create ord db"; cases "fst (DB_Create ord db)")
      (auto simp: OrderServer_CreateOrder_def)
qed

end

end
