(* ===== verification/Cafe_World.thy ===== *)
theory Cafe_World
  imports User_Service Menu_Service Order_Validation
begin

text \<open>
  The three gRPC services composed as \<open>practical6-example/docker-compose.yml\<close> runs them: each
  with a database of its own, the order service with connections to the other two, the gateway
  with connections to all three.

  The network and gRPC's transport are parameters: for each call the transport decides, from
  its own state, whether the call is delivered, whether the request is lost, or whether the
  reply is lost after the server has run the method. A delivered call runs the handler the
  server's \<open>ServiceDesc\<close> names, and a status error of the handler reaches the client with its
  code and message, as gRPC documents. \<open>tp_crash\<close> is what a client sees when the server
  process panics, \<open>tp_unknown\<close> what it sees for a method the server does not register.
\<close>

datatype net_outcome = Delivered | RequestLost goerror | ReplyLost goerror

record 'n transport =
  tp_route :: "string \<Rightarrow> 'n \<Rightarrow> net_outcome \<times> 'n"
  tp_crash :: goerror
  tp_unknown :: goerror
  tp_err_text :: "goerror \<Rightarrow> string"

record ('u, 'm, 'o, 'n) cafe =
  user_db :: "'u user_db"
  menu_db :: "'m menu_db"
  order_db :: "'o order_db"
  net :: 'n

subsection \<open>Connections\<close>

definition finish :: "'n transport \<Rightarrow> net_outcome \<Rightarrow> 'p outcome \<Rightarrow> goerror + 'p" where
  "finish T out x =
     (case out of
        ReplyLost e \<Rightarrow> Inl e
      | _ \<Rightarrow> (case x of Return r \<Rightarrow> Inr r | Error e \<Rightarrow> Inl e | Panic \<Rightarrow> Inl (tp_crash T)))"

definition connect ::
  "'n transport \<Rightarrow> (('u, 'm, 'o, 'n) cafe \<Rightarrow> 's) \<Rightarrow> ('s \<Rightarrow> ('u, 'm, 'o, 'n) cafe \<Rightarrow> ('u, 'm, 'o, 'n) cafe)
   \<Rightarrow> 's service_desc \<Rightarrow> ('u, 'm, 'o, 'n) cafe ClientConn" where
  "connect T get put desc meth m w =
     (case tp_route T meth (net w) of (out, n) \<Rightarrow>
        let w1 = w\<lparr>net := n\<rparr>
        in case out of
             RequestLost e \<Rightarrow> (Inl e, w1)
           | _ \<Rightarrow>
               (case find_method desc meth of
                  None \<Rightarrow> (Inl (tp_unknown T), w1)
                | Some h \<Rightarrow>
                    (case h (Inr m) None (get w1) of (x, s) \<Rightarrow> (finish T out x, put s w1))))"

definition user_conn :: "'n transport \<Rightarrow> ('u, 'm, 'o, 'n) cafe ClientConn" where
  "user_conn T = connect T user_db (\<lambda>s. user_db_update (\<lambda>_. s)) (UserService_ServiceDesc NewUserServer)"

definition menu_conn :: "'n transport \<Rightarrow> ('u, 'm, 'o, 'n) cafe ClientConn" where
  "menu_conn T = connect T menu_db (\<lambda>s. menu_db_update (\<lambda>_. s)) (MenuService_ServiceDesc NewMenuServer)"

definition order_server :: "'n transport \<Rightarrow> ('u, 'm, 'o, 'n) cafe OrderServer" where
  "order_server T =
     \<lparr>UserClient = NewUserServiceClient (user_conn T), MenuClient = NewMenuServiceClient (menu_conn T)\<rparr>"

definition order_state :: "('u, 'm, 'o, 'n) cafe \<Rightarrow> ('u, 'm, 'o, 'n) cafe \<times> 'o order_db" where
  "order_state w = (w, order_db w)"

definition put_order_state ::
  "('u, 'm, 'o, 'n) cafe \<times> 'o order_db \<Rightarrow> ('u, 'm, 'o, 'n) cafe \<Rightarrow> ('u, 'm, 'o, 'n) cafe" where
  "put_order_state st w = (fst st)\<lparr>order_db := snd st\<rparr>"

definition order_conn :: "'n transport \<Rightarrow> ('u, 'm, 'o, 'n) cafe ClientConn" where
  "order_conn T =
     connect T order_state put_order_state
       (OrderService_ServiceDesc (OrderServer_methods (tp_err_text T) (order_server T)))"

subsection \<open>A call through a stub is a call of the method\<close>

text \<open>
  \<open>rpc\<close> is a call as a client thinks of it: the method itself, run by the server unless the
  request is lost. The lemmas show that each generated client stub, over the wire message, the
  full method name and the server's descriptor, is exactly that.
\<close>

definition rpc ::
  "'n transport \<Rightarrow> string \<Rightarrow> (('u, 'm, 'o, 'n) cafe \<Rightarrow> 's) \<Rightarrow> ('s \<Rightarrow> ('u, 'm, 'o, 'n) cafe \<Rightarrow> ('u, 'm, 'o, 'n) cafe)
   \<Rightarrow> ('q \<Rightarrow> 's \<Rightarrow> 'p outcome \<times> 's) \<Rightarrow> 'q \<Rightarrow> ('u, 'm, 'o, 'n) cafe \<Rightarrow> (goerror + 'p) \<times> ('u, 'm, 'o, 'n) cafe" where
  "rpc T meth get put f q w =
     (case tp_route T meth (net w) of (out, n) \<Rightarrow>
        let w1 = w\<lparr>net := n\<rparr>
        in case out of
             RequestLost e \<Rightarrow> (Inl e, w1)
           | _ \<Rightarrow> (case f q (get w1) of (x, s) \<Rightarrow> (finish T out x, put s w1)))"

lemma invoke_connect:
  assumes "case find_method desc meth of
        None \<Rightarrow> False
      | Some h \<Rightarrow> \<forall>s. h (Inr m) None s = (case f q s of (x, s') \<Rightarrow> (map_outcome wrap x, s'))"
    and "\<And>p. unwrap (wrap p) = p"
  shows "invoke (connect T get put desc) meth m unwrap w = rpc T meth get put f q w"
  using assms
  by (auto simp: invoke_def connect_def rpc_def finish_def Let_def
      split: option.splits prod.splits net_outcome.splits outcome.splits)

lemma stub_CreateUser:
  "userServiceClient_CreateUser (user_conn T) =
     rpc T ''/user.v1.UserService/CreateUser'' user_db (\<lambda>s. user_db_update (\<lambda>_. s))
       UserServer_CreateUser"
  unfolding userServiceClient_CreateUser_def user_conn_def
  by (intro ext, rule invoke_connect [where wrap = M_CreateUserResponse])
    (simp_all add: desc_defs method_handler_defs NewUserServer_def)

lemma stub_GetUser:
  "userServiceClient_GetUser (user_conn T) =
     rpc T ''/user.v1.UserService/GetUser'' user_db (\<lambda>s. user_db_update (\<lambda>_. s))
       UserServer_GetUser"
  unfolding userServiceClient_GetUser_def user_conn_def
  by (intro ext, rule invoke_connect [where wrap = M_GetUserResponse])
    (simp_all add: desc_defs method_handler_defs NewUserServer_def)

lemma stub_GetUsers:
  "userServiceClient_GetUsers (user_conn T) =
     rpc T ''/user.v1.UserService/GetUsers'' user_db (\<lambda>s. user_db_update (\<lambda>_. s))
       UserServer_GetUsers"
  unfolding userServiceClient_GetUsers_def user_conn_def
  by (intro ext, rule invoke_connect [where wrap = M_GetUsersResponse])
    (simp_all add: desc_defs method_handler_defs NewUserServer_def)

lemma stub_GetMenuItem:
  "menuServiceClient_GetMenuItem (menu_conn T) =
     rpc T ''/menu.v1.MenuService/GetMenuItem'' menu_db (\<lambda>s. menu_db_update (\<lambda>_. s))
       MenuServer_GetMenuItem"
  unfolding menuServiceClient_GetMenuItem_def menu_conn_def
  by (intro ext, rule invoke_connect [where wrap = M_GetMenuItemResponse])
    (simp_all add: desc_defs method_handler_defs NewMenuServer_def)

lemma stub_GetMenu:
  "menuServiceClient_GetMenu (menu_conn T) =
     rpc T ''/menu.v1.MenuService/GetMenu'' menu_db (\<lambda>s. menu_db_update (\<lambda>_. s))
       MenuServer_GetMenu"
  unfolding menuServiceClient_GetMenu_def menu_conn_def
  by (intro ext, rule invoke_connect [where wrap = M_GetMenuResponse])
    (simp_all add: desc_defs method_handler_defs NewMenuServer_def)

lemma stub_CreateMenuItem:
  "menuServiceClient_CreateMenuItem (menu_conn T) =
     rpc T ''/menu.v1.MenuService/CreateMenuItem'' menu_db (\<lambda>s. menu_db_update (\<lambda>_. s))
       MenuServer_CreateMenuItem"
  unfolding menuServiceClient_CreateMenuItem_def menu_conn_def
  by (intro ext, rule invoke_connect [where wrap = M_CreateMenuItemResponse])
    (simp_all add: desc_defs method_handler_defs NewMenuServer_def)

lemma stub_CreateOrder:
  "orderServiceClient_CreateOrder (order_conn T) =
     rpc T ''/order.v1.OrderService/CreateOrder'' order_state put_order_state
       (OrderServer_CreateOrder (tp_err_text T) (order_server T))"
  unfolding orderServiceClient_CreateOrder_def order_conn_def
  by (intro ext, rule invoke_connect [where wrap = M_CreateOrderResponse])
    (simp_all add: desc_defs method_handler_defs OrderServer_methods_def)

lemma stub_GetOrders:
  "orderServiceClient_GetOrders (order_conn T) =
     rpc T ''/order.v1.OrderService/GetOrders'' order_state put_order_state
       OrderServer_GetOrders"
  unfolding orderServiceClient_GetOrders_def order_conn_def
  by (intro ext, rule invoke_connect [where wrap = M_GetOrdersResponse])
    (simp_all add: desc_defs method_handler_defs OrderServer_methods_def)

lemma stub_GetOrder:
  "orderServiceClient_GetOrder (order_conn T) =
     rpc T ''/order.v1.OrderService/GetOrder'' order_state put_order_state
       OrderServer_GetOrder"
  unfolding orderServiceClient_GetOrder_def order_conn_def
  by (intro ext, rule invoke_connect [where wrap = M_GetOrderResponse])
    (simp_all add: desc_defs method_handler_defs OrderServer_methods_def)

lemmas stubs =
  stub_CreateUser stub_GetUser stub_GetUsers stub_GetMenuItem stub_GetMenu stub_CreateMenuItem
  stub_CreateOrder stub_GetOrders stub_GetOrder

subsection \<open>What the order service gets from the other two\<close>

lemma rpcE:
  assumes "rpc T meth get put f q w = (x, w')"
  obtains (lost) e n where "x = Inl e" "w' = w\<lparr>net := n\<rparr>"
  | (run) out n y s where "f q (get (w\<lparr>net := n\<rparr>)) = (y, s)" "w' = put s (w\<lparr>net := n\<rparr>)"
      "x = finish T out y" "\<And>e. out \<noteq> RequestLost e"
  using assms by (auto simp: rpc_def Let_def split: prod.splits net_outcome.splits)

lemma finish_Inr: "finish T out y = Inr r \<Longrightarrow> y = Return r"
  by (auto simp: finish_def split: net_outcome.splits outcome.splits)

definition reliable :: "'n transport \<Rightarrow> bool" where
  "reliable T \<longleftrightarrow> (\<forall>m n. fst (tp_route T m n) = Delivered)"

lemma rpc_reliable:
  assumes "reliable T"
  shows "\<exists>n. rpc T meth get put f q w =
    (case f q (get (w\<lparr>net := n\<rparr>)) of (y, s) \<Rightarrow> (finish T Delivered y, put s (w\<lparr>net := n\<rparr>)))"
proof -
  obtain out n where out: "tp_route T meth (net w) = (out, n)" by fastforce
  moreover have "out = Delivered" using assms out by (metis fst_conv reliable_def)
  ultimately show ?thesis by (auto simp: rpc_def Let_def)
qed

lemma rpc_reliable_Return:
  assumes "reliable T" and "\<And>n. \<exists>p s. f q (get (w\<lparr>net := n\<rparr>)) = (Return p, s)"
  shows "\<exists>p w'. rpc T meth get put f q w = (Inr p, w')"
proof -
  from rpc_reliable [OF assms(1), of meth get put f q w] obtain n where "rpc T meth get put f q w =
    (case f q (get (w\<lparr>net := n\<rparr>)) of (y, s) \<Rightarrow> (finish T Delivered y, put s (w\<lparr>net := n\<rparr>)))" by blast
  with assms(2) [of n] show ?thesis by (auto simp: finish_def)
qed

definition backends_ok :: "('u, 'm, 'o, 'n) cafe \<Rightarrow> bool" where
  "backends_ok w \<longleftrightarrow> gorm_ok user_cols (user_db w) \<and> gorm_ok menu_cols (menu_db w)"

definition backends_up :: "'n transport \<Rightarrow> ('u, 'm, 'o, 'n) cafe \<Rightarrow> bool" where
  "backends_up T w \<longleftrightarrow> backends_ok w \<and> reliable T \<and> gorm_up (user_db w) \<and> gorm_up (menu_db w)"

definition known_user :: "('u, 'm, 'o, 'n) cafe \<Rightarrow> uint32 \<Rightarrow> bool" where
  "known_user w i \<longleftrightarrow> user_rows (user_db w) (uint_of_uint32 i) \<noteq> None"

definition menu_price :: "('u, 'm, 'o, 'n) cafe \<Rightarrow> uint32 \<Rightarrow> float64 option" where
  "menu_price w i = map_option (\<lambda>(_, _, p). p) (menu_rows (menu_db w) (uint_of_uint32 i))"

lemmas cafe_views = backends_ok_def backends_up_def known_user_def menu_price_def fun_eq_iff

lemma order_server_clients [simp]:
  "uc_GetUser (UserClient (order_server T)) = rpc T ''/user.v1.UserService/GetUser'' user_db
     (\<lambda>s. user_db_update (\<lambda>_. s)) UserServer_GetUser"
  "mc_GetMenuItem (MenuClient (order_server T)) = rpc T ''/menu.v1.MenuService/GetMenuItem'' menu_db
     (\<lambda>s. menu_db_update (\<lambda>_. s)) MenuServer_GetMenuItem"
  by (simp_all add: order_server_def NewUserServiceClient_def NewMenuServiceClient_def stubs)

lemma GetUser_up:
  "UserServer_GetUser req db = (x, db') \<Longrightarrow> gorm_up db' \<longleftrightarrow> gorm_up db"
  by (auto simp: UserServer_GetUser_def DB_ops_up split: prod.splits sum.splits gorm_error.splits)

lemma GetMenuItem_up:
  "MenuServer_GetMenuItem req db = (x, db') \<Longrightarrow> gorm_up db' \<longleftrightarrow> gorm_up db"
  by (auto simp: MenuServer_GetMenuItem_def DB_ops_up split: prod.splits sum.splits gorm_error.splits)

interpretation cafe_orders: order_backends "order_server T" backends_ok known_user menu_price for T
proof (unfold_locales, goal_cases)
  case (1 w i x w')
  from 1(2) [simplified] show ?case
    by (cases rule: rpcE) (use 1(1) in \<open>auto simp: cafe_views dest: GetUser_frame\<close>)
next
  case (2 w i u w')
  from 2(2) [simplified] show ?case
    by (cases rule: rpcE) (use 2(1) in \<open>auto simp: cafe_views dest!: finish_Inr [OF sym] GetUser_Return\<close>)
next
  case (3 w i y w')
  from 3(2) [simplified] show ?case
    by (cases rule: rpcE) (use 3(1) in \<open>auto simp: cafe_views dest: GetMenuItem_frame\<close>)
next
  case (4 w i m w')
  from 4(2) [simplified] show ?case
    by (cases rule: rpcE)
      (use 4(1) in \<open>auto simp: cafe_views proto_menu_data_def dest!: finish_Inr [OF sym] GetMenuItem_Return\<close>)
qed

interpretation cafe_orders_up: live_backends "order_server T" "backends_up T" known_user menu_price for T
proof (unfold_locales, goal_cases)
  case (1 w i x w')
  then have "backends_ok w" by (simp add: backends_up_def)
  note f = cafe_orders.user_frame [OF this 1(2)]
  from 1(2) [simplified] have "gorm_up (user_db w') = gorm_up (user_db w) \<and> menu_db w' = menu_db w"
    by (cases rule: rpcE) (auto dest: GetUser_up)
  with f 1(1) show ?case by (simp add: backends_up_def)
next
  case (2 w i u w')
  then show ?case using cafe_orders.user_sound [of w] by (simp add: backends_up_def)
next
  case (3 w i y w')
  then have "backends_ok w" by (simp add: backends_up_def)
  note f = cafe_orders.menu_frame [OF this 3(2)]
  from 3(2) [simplified] have "gorm_up (menu_db w') = gorm_up (menu_db w) \<and> user_db w' = user_db w"
    by (cases rule: rpcE) (auto dest: GetMenuItem_up)
  with f 3(1) show ?case by (simp add: backends_up_def)
next
  case (4 w i m w')
  then show ?case using cafe_orders.menu_sound [of w] by (simp add: backends_up_def)
next
  case (5 w i)
  then have "\<exists>p db'. UserServer_GetUser \<lparr>gu_id = i\<rparr> (user_db w) = (Return p, db')"
    by (intro GetUser_live) (auto simp: backends_up_def backends_ok_def known_user_def)
  with 5 show ?case by (auto intro!: rpc_reliable_Return simp: backends_up_def)
next
  case (6 w i)
  then have "\<exists>p db'. MenuServer_GetMenuItem \<lparr>gm_id = i\<rparr> (menu_db w) = (Return p, db')"
    by (intro GetMenuItem_live) (auto simp: backends_up_def backends_ok_def menu_price_def)
  with 6 show ?case by (auto intro!: rpc_reliable_Return simp: backends_up_def)
qed

end
