(* ===== verification/Cafe_System.thy ===== *)
theory Cafe_System
  imports Cafe_World
begin

text \<open>
  The composed services under concurrency. The user and menu methods and the two order queries
  make one database call each, so a call of one of them is one step. \<open>CreateOrder\<close> is not
  atomic: between its call to the user service, each of its calls to the menu service and its
  insertion, any other request may run. An order in progress is therefore a task that advances
  one remote call at a time (\<open>order_task_step\<close>), and the system is a step relation over the
  services' state and any number of such tasks.
\<close>

subsection \<open>An order in progress\<close>

datatype order_task =
    Validating CreateOrderRequest
  | Pricing CreateOrderRequest "OrderItemRequest list" "OrderItem list"
  | Finished "CreateOrderResponse outcome"

fun order_task_step ::
  "'n transport \<Rightarrow> order_task \<Rightarrow> ('u, 'm, 'o, 'n) cafe \<Rightarrow> order_task \<times> ('u, 'm, 'o, 'n) cafe" where
  "order_task_step T (Validating req) w =
     (case uc_GetUser (UserClient (order_server T)) \<lparr>gu_id = co_user_id req\<rparr> w of
        (Inl err, w') \<Rightarrow>
          (Finished (Error (StatusError InvalidArgument (''user not found: '' @ tp_err_text T err))), w')
      | (Inr _, w') \<Rightarrow> (Pricing req (co_items req) [], w'))"
| "order_task_step T (Pricing req (item # items) acc) w =
     (case mc_GetMenuItem (MenuClient (order_server T)) \<lparr>gm_id = oir_menu_item_id item\<rparr> w of
        (Inl err, w') \<Rightarrow>
          (Finished (Error (StatusError InvalidArgument
             (''menu item '' @ fmt_uint (oir_menu_item_id item) @ '' not found: '' @ tp_err_text T err))), w')
      | (Inr resp, w') \<Rightarrow>
          (case gm_menu_item resp of
             None \<Rightarrow> (Finished Panic, w')
           | Some menuItem \<Rightarrow>
               (Pricing req items
                  (acc @ [new_order_item (uint_of_uint32 (oir_menu_item_id item))
                            (int_of_int32 (oir_quantity item)) (mi_price menuItem)]), w')))"
| "order_task_step T (Pricing req [] acc) w =
     (case DB_Create (new_order (uint_of_uint32 (co_user_id req)) acc) (order_db w) of
        (Inl err, db') \<Rightarrow>
          (Finished (Error (StatusError Internal (''failed to create order: '' @ gorm_error_text err))),
           w\<lparr>order_db := db'\<rparr>)
      | (Inr order, db') \<Rightarrow>
          (Finished (Return \<lparr>co_order = Some (order_modelToProto order)\<rparr>), w\<lparr>order_db := db'\<rparr>))"
| "order_task_step T (Finished x) w = (Finished x, w)"

fun run_task ::
  "nat \<Rightarrow> 'n transport \<Rightarrow> order_task \<Rightarrow> ('u, 'm, 'o, 'n) cafe \<Rightarrow> order_task \<times> ('u, 'm, 'o, 'n) cafe" where
  "run_task 0 T t w = (t, w)"
| "run_task (Suc n) T t w = (case order_task_step T t w of (t', w') \<Rightarrow> run_task n T t' w')"

lemma run_task_Finished [simp]: "run_task n T (Finished x) w = (Finished x, w)"
  by (induction n) auto

text \<open>The lookups leave the order database alone.\<close>

lemma lookups_order_db:
  "uc_GetUser (UserClient (order_server T)) q w = (x, w') \<Longrightarrow> order_db w' = order_db w"
  "mc_GetMenuItem (MenuClient (order_server T)) r w = (y, w') \<Longrightarrow> order_db w' = order_db w"
  by (auto simp: rpc_def Let_def split: prod.splits net_outcome.splits)

lemma run_task_items:
  "OrderServer_items (tp_err_text T) (MenuClient (order_server T)) its acc w = (x, w') \<Longrightarrow>
   order_db w' = order_db w \<and>
   run_task (Suc (length its)) T (Pricing req its acc) w =
     (case x of
        Return items \<Rightarrow> order_task_step T (Pricing req [] items) w'
      | Error e \<Rightarrow> (Finished (Error e), w')
      | Panic \<Rightarrow> (Finished Panic, w'))"
proof (induction its arbitrary: acc w)
  case Nil
  then show ?case by (auto split: prod.splits)
next
  case (Cons it its)
  obtain y w1 where y: "mc_GetMenuItem (MenuClient (order_server T)) \<lparr>gm_id = oir_menu_item_id it\<rparr> w = (y, w1)"
    by fastforce
  note db = lookups_order_db(2) [OF y]
  from Cons y db show ?case
    by (auto simp del: order_server_clients split: sum.splits option.splits)
qed

text \<open>Run without interruption, a task does what the handler does, in two steps more than it has items.\<close>

lemma run_task_is_CreateOrder:
  assumes "OrderServer_CreateOrder (tp_err_text T) (order_server T) req (order_state w) = (x, st')"
  shows "run_task (length (co_items req) + 2) T (Validating req) w = (Finished x, put_order_state st' w)"
proof -
  obtain u w1 where u: "uc_GetUser (UserClient (order_server T)) \<lparr>gu_id = co_user_id req\<rparr> w = (u, w1)" by fastforce
  obtain y w2 where y: "OrderServer_items (tp_err_text T) (MenuClient (order_server T)) (co_items req) [] w1 = (y, w2)"
    by fastforce
  note db1 = lookups_order_db(1) [OF u]
  note items = run_task_items [OF y, of req]
  have "run_task (length (co_items req) + 2) T (Validating req) w =
      (case u of
         Inl err \<Rightarrow> (Finished (Error (StatusError InvalidArgument (''user not found: '' @ tp_err_text T err))), w1)
       | Inr _ \<Rightarrow> run_task (Suc (length (co_items req))) T (Pricing req (co_items req) []) w1)"
    using u by (simp del: order_server_clients split: sum.splits)
  with assms u y db1 items show ?thesis
    by (auto simp: OrderServer_CreateOrder_def order_state_def put_order_state_def
        simp del: order_server_clients run_task.simps split: sum.splits outcome.splits prod.splits)
qed

subsection \<open>The system\<close>

record ('u, 'm, 'o, 'n) system =
  world :: "('u, 'm, 'o, 'n) cafe"
  tasks :: "order_task list"

inductive cafe_step ::
  "'n transport \<Rightarrow> ('u, 'm, 'o, 'n) system \<Rightarrow> ('u, 'm, 'o, 'n) system \<Rightarrow> bool" for T where
  create_user: "UserServer_CreateUser q (user_db (world s)) = (x, db) \<Longrightarrow>
     cafe_step T s (s\<lparr>world := (world s)\<lparr>user_db := db\<rparr>\<rparr>)"
| get_user: "UserServer_GetUser q (user_db (world s)) = (x, db) \<Longrightarrow>
     cafe_step T s (s\<lparr>world := (world s)\<lparr>user_db := db\<rparr>\<rparr>)"
| get_users: "UserServer_GetUsers q (user_db (world s)) = (x, db) \<Longrightarrow>
     cafe_step T s (s\<lparr>world := (world s)\<lparr>user_db := db\<rparr>\<rparr>)"
| create_menu_item: "MenuServer_CreateMenuItem q (menu_db (world s)) = (x, db) \<Longrightarrow>
     cafe_step T s (s\<lparr>world := (world s)\<lparr>menu_db := db\<rparr>\<rparr>)"
| get_menu_item: "MenuServer_GetMenuItem q (menu_db (world s)) = (x, db) \<Longrightarrow>
     cafe_step T s (s\<lparr>world := (world s)\<lparr>menu_db := db\<rparr>\<rparr>)"
| get_menu: "MenuServer_GetMenu q (menu_db (world s)) = (x, db) \<Longrightarrow>
     cafe_step T s (s\<lparr>world := (world s)\<lparr>menu_db := db\<rparr>\<rparr>)"
| get_order: "OrderServer_GetOrder q (order_state (world s)) = (x, st) \<Longrightarrow>
     cafe_step T s (s\<lparr>world := put_order_state st (world s)\<rparr>)"
| get_orders: "OrderServer_GetOrders q (order_state (world s)) = (x, st) \<Longrightarrow>
     cafe_step T s (s\<lparr>world := put_order_state st (world s)\<rparr>)"
| network: "cafe_step T s (s\<lparr>world := (world s)\<lparr>net := n\<rparr>\<rparr>)"
| start_order: "cafe_step T s (s\<lparr>tasks := tasks s @ [Validating req]\<rparr>)"
| advance_order: "i < length (tasks s) \<Longrightarrow> order_task_step T (tasks s ! i) (world s) = (t, w) \<Longrightarrow>
     cafe_step T s (s\<lparr>world := w, tasks := (tasks s)[i := t]\<rparr>)"

definition fresh_system :: "('u, 'm, 'o, 'n) system \<Rightarrow> bool" where
  "fresh_system s \<longleftrightarrow>
     backends_ok (world s) \<and> gorm_ok order_cols (order_db (world s)) \<and>
     (\<forall>k. order_rows (order_db (world s)) k = None) \<and> tasks s = []"

inductive cafe_reach ::
  "'n transport \<Rightarrow> ('u, 'm, 'o, 'n) system \<Rightarrow> ('u, 'm, 'o, 'n) system \<Rightarrow> bool" for T where
  start: "cafe_reach T s s"
| step: "cafe_reach T s s' \<Longrightarrow> cafe_step T s' s'' \<Longrightarrow> cafe_reach T s s''"

subsection \<open>Referential integrity across the services\<close>

text \<open>
  An item refers to the menu when the item it names is stored with the price the item has; an
  order is valid when it is pending, its user is stored and all its items refer to the menu.
\<close>

definition item_on_menu :: "('u, 'm, 'o, 'n) cafe \<Rightarrow> uint \<times> goint \<times> float64 \<Rightarrow> bool" where
  "item_on_menu w i \<longleftrightarrow> (case i of (m, q, p) \<Rightarrow> \<exists>n d. menu_rows (menu_db w) m = Some (n, d, p))"

definition order_valid ::
  "('u, 'm, 'o, 'n) cafe \<Rightarrow> uint \<times> string \<times> (uint \<times> goint \<times> float64) multiset \<Rightarrow> bool" where
  "order_valid w d \<longleftrightarrow> (case d of (uid, st, items) \<Rightarrow>
     st = ''pending'' \<and> user_rows (user_db w) uid \<noteq> None \<and> (\<forall>i \<in># items. item_on_menu w i))"

definition orders_valid :: "('u, 'm, 'o, 'n) cafe \<Rightarrow> bool" where
  "orders_valid w \<longleftrightarrow> (\<forall>k d. order_rows (order_db w) k = Some d \<longrightarrow> order_valid w d)"

fun task_valid :: "('u, 'm, 'o, 'n) cafe \<Rightarrow> order_task \<Rightarrow> bool" where
  "task_valid w (Validating req) = True"
| "task_valid w (Pricing req its acc) =
     (known_user w (co_user_id req) \<and> (\<forall>i \<in> set acc. item_on_menu w (item_cols i)))"
| "task_valid w (Finished x) = (x \<noteq> Panic)"

definition system_inv :: "('u, 'm, 'o, 'n) system \<Rightarrow> bool" where
  "system_inv s \<longleftrightarrow>
     backends_ok (world s) \<and> gorm_ok order_cols (order_db (world s)) \<and> orders_valid (world s) \<and>
     (\<forall>t \<in> set (tasks s). task_valid (world s) t)"

text \<open>Users and menu items are never removed or changed, and the databases keep their laws.\<close>

definition grows :: "('u, 'm, 'o, 'n) cafe \<Rightarrow> ('u, 'm, 'o, 'n) cafe \<Rightarrow> bool" where
  "grows w w' \<longleftrightarrow> backends_ok w' \<and> user_rows (user_db w) \<subseteq>\<^sub>m user_rows (user_db w') \<and>
     menu_rows (menu_db w) \<subseteq>\<^sub>m menu_rows (menu_db w')"

lemma item_on_menu_grows: "item_on_menu w i \<Longrightarrow> grows w w' \<Longrightarrow> item_on_menu w' i"
  by (auto simp: item_on_menu_def grows_def dest: map_le_Some split: prod.splits)

lemma user_grows:
  "user_rows (user_db w) k = Some d \<Longrightarrow> grows w w' \<Longrightarrow> user_rows (user_db w') k = Some d"
  unfolding grows_def by (blast dest: map_le_Some)

lemma order_valid_grows:
  assumes "order_valid w d" and "grows w w'"
  shows "order_valid w' d"
proof -
  obtain uid st items where d: "d = (uid, st, items)" by (cases d)
  with assms(1) obtain u where "user_rows (user_db w) uid = Some u" by (simp add: order_valid_def) blast
  from user_grows [OF this assms(2)] have "user_rows (user_db w') uid \<noteq> None" by simp
  with assms d show ?thesis unfolding order_valid_def d prod.case by (blast intro: item_on_menu_grows)
qed

lemma known_user_grows: "known_user w i \<Longrightarrow> grows w w' \<Longrightarrow> known_user w' i"
  unfolding known_user_def using user_grows by fastforce

lemma task_valid_grows: "task_valid w t \<Longrightarrow> grows w w' \<Longrightarrow> task_valid w' t"
  by (cases t) (auto intro: known_user_grows item_on_menu_grows)

lemma orders_valid_grows:
  assumes "orders_valid w" and "grows w w'" and "order_rows (order_db w') = order_rows (order_db w)"
  shows "orders_valid w'"
  unfolding orders_valid_def
proof (intro allI impI)
  fix k d
  assume "order_rows (order_db w') k = Some d"
  with assms(1,3) have "order_valid w d" unfolding orders_valid_def by metis
  then show "order_valid w' d" using assms(2) by (rule order_valid_grows)
qed

text \<open>A step that leaves the stored orders and the tasks alone keeps the invariant if the tables grow.\<close>

lemma system_inv_grows:
  assumes "system_inv s" and "grows (world s) w" and "gorm_ok order_cols (order_db w)"
    and "order_rows (order_db w) = order_rows (order_db (world s))"
  shows "system_inv (s\<lparr>world := w\<rparr>)"
  using assms by (auto simp: system_inv_def grows_def [of _ w] intro: task_valid_grows orders_valid_grows)

text \<open>The methods that make one database call, seen as steps of the whole.\<close>

lemma cafe_views_net [simp]:
  "backends_ok (w\<lparr>net := n\<rparr>) = backends_ok w" "backends_ok (w\<lparr>order_db := db\<rparr>) = backends_ok w"
  "known_user (w\<lparr>net := n\<rparr>) = known_user w" "known_user (w\<lparr>order_db := db\<rparr>) = known_user w"
  "menu_price (w\<lparr>net := n\<rparr>) = menu_price w" "menu_price (w\<lparr>order_db := db\<rparr>) = menu_price w"
  by (simp_all add: cafe_views)

lemma grows_users:
  assumes "backends_ok w" and "gorm_ok user_cols db" and "user_rows (user_db w) \<subseteq>\<^sub>m user_rows db"
  shows "grows w (w\<lparr>user_db := db\<rparr>)"
  using assms by (simp add: grows_def backends_ok_def)

lemma grows_menu:
  assumes "backends_ok w" and "gorm_ok menu_cols db" and "menu_rows (menu_db w) \<subseteq>\<^sub>m menu_rows db"
  shows "grows w (w\<lparr>menu_db := db\<rparr>)"
  using assms by (simp add: grows_def backends_ok_def)

lemma CreateUser_grows:
  assumes "backends_ok w" and "UserServer_CreateUser q (user_db w) = (x, db)"
  shows "grows w (w\<lparr>user_db := db\<rparr>)"
  using assms user_srv.create_grows [of "user_db w" q x db]
  by (auto intro!: grows_users simp: backends_ok_def CreateUser_keeps_ok)

lemma CreateMenuItem_grows:
  assumes "backends_ok w" and "MenuServer_CreateMenuItem q (menu_db w) = (x, db)"
  shows "grows w (w\<lparr>menu_db := db\<rparr>)"
  using assms menu_srv.create_grows [of "menu_db w" q x db]
  by (auto intro!: grows_menu simp: backends_ok_def CreateMenuItem_keeps_ok)

lemma user_reads_grow:
  assumes "backends_ok w" and "UserServer_GetUser q (user_db w) = (x, db) \<or> UserServer_GetUsers r (user_db w) = (y, db)"
  shows "grows w (w\<lparr>user_db := db\<rparr>)"
  using assms by (intro grows_users) (auto simp: backends_ok_def dest: GetUser_frame GetUsers_frame)

lemma menu_reads_grow:
  assumes "backends_ok w" and "MenuServer_GetMenuItem q (menu_db w) = (x, db) \<or> MenuServer_GetMenu r (menu_db w) = (y, db)"
  shows "grows w (w\<lparr>menu_db := db\<rparr>)"
  using assms by (intro grows_menu) (auto simp: backends_ok_def dest: GetMenuItem_frame GetMenu_frame)

lemma grows_orders: "backends_ok w \<Longrightarrow> grows w (w\<lparr>order_db := db\<rparr>)" "backends_ok w \<Longrightarrow> grows w (w\<lparr>net := n\<rparr>)"
  by (simp_all add: grows_def)

subsection \<open>Every step keeps the invariant\<close>

text \<open>A step of an order in progress: the tables it reads are unchanged, and what it has checked stays checked.\<close>

lemma lookup_grows:
  assumes "backends_ok w"
  shows "uc_GetUser (UserClient (order_server T)) q w = (x, w') \<Longrightarrow> grows w w'"
    and "mc_GetMenuItem (MenuClient (order_server T)) r w = (y, w') \<Longrightarrow> grows w w'"
proof -
  assume "uc_GetUser (UserClient (order_server T)) q w = (x, w')"
  then have "rpc T ''/user.v1.UserService/GetUser'' user_db (\<lambda>s. user_db_update (\<lambda>_. s)) UserServer_GetUser q w = (x, w')"
    by simp
  then show "grows w w'"
    by (cases rule: rpcE) (use assms in \<open>auto simp: grows_def backends_ok_def dest: GetUser_frame\<close>)
next
  assume "mc_GetMenuItem (MenuClient (order_server T)) r w = (y, w')"
  then have "rpc T ''/menu.v1.MenuService/GetMenuItem'' menu_db (\<lambda>s. menu_db_update (\<lambda>_. s)) MenuServer_GetMenuItem r w = (y, w')"
    by simp
  then show "grows w w'"
    by (cases rule: rpcE) (use assms in \<open>auto simp: grows_def backends_ok_def dest: GetMenuItem_frame\<close>)
qed

lemma menu_price_on_menu:
  "menu_price w i = Some p \<Longrightarrow> item_on_menu w (uint_of_uint32 i, q, p)"
  by (auto simp: menu_price_def item_on_menu_def)

lemma validating_step:
  assumes "backends_ok w" and "order_task_step T (Validating req) w = (t, w')"
  shows "grows w w' \<and> order_db w' = order_db w \<and> task_valid w' t"
proof -
  obtain u w1 where u: "uc_GetUser (UserClient (order_server T)) \<lparr>gu_id = co_user_id req\<rparr> w = (u, w1)" by fastforce
  note f = lookup_grows(1) [OF assms(1) u] lookups_order_db(1) [OF u]
  show ?thesis
  proof (cases u)
    case (Inl e)
    with u f assms(2) show ?thesis by (auto simp del: order_server_clients)
  next
    case (Inr r)
    with cafe_orders.user_sound [OF assms(1)] u have "known_user w (co_user_id req)" by blast
    with known_user_grows [OF _ f(1)] have "known_user w1 (co_user_id req)" by blast
    with u f assms(2) Inr show ?thesis by (auto simp del: order_server_clients)
  qed
qed

lemma pricing_step:
  assumes "backends_ok w" and "task_valid w (Pricing req (it # its) acc)"
    and "order_task_step T (Pricing req (it # its) acc) w = (t, w')"
  shows "grows w w' \<and> order_db w' = order_db w \<and> task_valid w' t"
proof -
  obtain y w1 where y: "mc_GetMenuItem (MenuClient (order_server T)) \<lparr>gm_id = oir_menu_item_id it\<rparr> w = (y, w1)"
    by fastforce
  note f = lookup_grows(2) [OF assms(1) y] lookups_order_db(2) [OF y]
  show ?thesis
  proof (cases y)
    case (Inl e)
    with y f assms(3) show ?thesis by (auto simp del: order_server_clients)
  next
    case (Inr r)
    with cafe_orders.menu_sound [OF assms(1)] y obtain mi where
      mi: "gm_menu_item r = Some mi" "menu_price w (oir_menu_item_id it) = Some (mi_price mi)" by blast
    define i where "i = new_order_item (uint_of_uint32 (oir_menu_item_id it)) (int_of_int32 (oir_quantity it)) (mi_price mi)"
    have "item_on_menu w (item_cols i)"
      using menu_price_on_menu [OF mi(2)] by (simp add: i_def item_cols_def new_order_item_def)
    with assms(2) have "task_valid w (Pricing req its (acc @ [i]))" by auto
    from task_valid_grows [OF this f(1)] y f assms(3) Inr mi(1) show ?thesis
      by (auto simp: i_def simp del: order_server_clients task_valid.simps)
  qed
qed

lemma insert_step:
  assumes "backends_ok w" and "gorm_ok order_cols (order_db w)" and "orders_valid w"
    and "task_valid w (Pricing req [] acc)" and "order_task_step T (Pricing req [] acc) w = (t, w')"
  shows "grows w w' \<and> gorm_ok order_cols (order_db w') \<and> orders_valid w' \<and> task_valid w' t"
proof -
  obtain y db where y: "DB_Create (new_order (uint_of_uint32 (co_user_id req)) acc) (order_db w) = (y, db)" by fastforce
  from assms(5) y have w': "w' = w\<lparr>order_db := db\<rparr>" and t: "task_valid w' t" by (auto split: sum.splits)
  have g: "grows w w'" unfolding w' using assms(1) by (rule grows_orders)
  have ok: "gorm_ok order_cols db" using DB_ops_ok(1) [OF y] assms(2) by blast
  have "orders_valid w'"
  proof (cases y)
    case (Inl e)
    with DB_Create_Inl [OF assms(2)] y have "order_rows db = order_rows (order_db w)" by (blast intro: order_rows_cong)
    with orders_valid_grows [OF assms(3) g] w' show ?thesis by simp
  next
    case (Inr r)
    from assms(4) have "order_valid w (order_cols (new_order (uint_of_uint32 (co_user_id req)) acc))"
      by (auto simp: order_valid_def order_cols_def new_order_def known_user_def)
    from order_valid_grows [OF this g] DB_Create_order [OF assms(2)] y Inr
    have "\<exists>k d. order_valid w' d \<and> order_rows db = (order_rows (order_db w))(k \<mapsto> d)" by blast
    with assms(3) order_valid_grows [OF _ g] w' show ?thesis
      unfolding orders_valid_def by (auto split: if_splits)
  qed
  with g ok t w' show ?thesis by simp
qed

lemma order_task_step_inv:
  assumes "backends_ok w" and "gorm_ok order_cols (order_db w)" and "orders_valid w" and "task_valid w t"
    and "order_task_step T t w = (t', w')"
  shows "grows w w' \<and> gorm_ok order_cols (order_db w') \<and> orders_valid w' \<and> task_valid w' t'"
  using assms
proof (cases t)
  case (Validating req)
  with validating_step assms show ?thesis by (metis orders_valid_grows)
next
  case (Pricing req its acc)
  show ?thesis
  proof (cases its)
    case Nil
    with Pricing insert_step assms show ?thesis by blast
  next
    case (Cons it its')
    with Pricing pricing_step assms show ?thesis by (metis orders_valid_grows)
  qed
next
  case (Finished x)
  with assms show ?thesis by (auto simp: grows_def)
qed

lemma system_inv_task:
  assumes "system_inv s" and "i < length (tasks s)" and "order_task_step T (tasks s ! i) (world s) = (t, w)"
  shows "system_inv (s\<lparr>world := w, tasks := (tasks s)[i := t]\<rparr>)"
proof -
  from assms(1,2) have inv: "backends_ok (world s)" "gorm_ok order_cols (order_db (world s))"
    "orders_valid (world s)" "task_valid (world s) (tasks s ! i)" by (auto simp: system_inv_def)
  from order_task_step_inv [OF this assms(3)] have
    n: "grows (world s) w" "gorm_ok order_cols (order_db w)" "orders_valid w" "task_valid w t" by auto
  have "task_valid w t'" if "t' \<in> set ((tasks s)[i := t])" for t'
  proof -
    from that have "t' = t \<or> t' \<in> set (tasks s)" using set_update_subset_insert by fastforce
    with n assms(1) show ?thesis by (auto simp: system_inv_def intro: task_valid_grows)
  qed
  with n show ?thesis by (auto simp: system_inv_def grows_def)
qed

lemma system_inv_order_read:
  assumes "system_inv s"
    and "gorm_ok order_cols (order_db (world s)) \<Longrightarrow> gorm_ok order_cols db \<and> order_rows db = order_rows (order_db (world s))"
  shows "system_inv (s\<lparr>world := put_order_state (world s, db) (world s)\<rparr>)"
  using assms
  by (intro system_inv_grows) (auto simp: system_inv_def put_order_state_def intro: grows_orders)

lemma system_inv_step:
  assumes "cafe_step T s s'" and "system_inv s"
  shows "system_inv s'"
proof -
  from assms(2) have ok: "backends_ok (world s)" "gorm_ok order_cols (order_db (world s))"
    by (auto simp: system_inv_def)
  have *: "system_inv (s\<lparr>world := w\<rparr>)" if "grows (world s) w" "order_db w = order_db (world s)" for w
    using that ok by (intro system_inv_grows [OF assms(2)]) auto
  from assms(1) show ?thesis
  proof cases
    case (get_order q x st)
    then have "OrderServer_GetOrder q (world s, order_db (world s)) = (x, (fst st, snd st))"
      by (simp add: order_state_def)
    from GetOrder_frame [OF ok(2) this] get_order(1) system_inv_order_read [OF assms(2), of "snd st"] show ?thesis
      by (cases st) simp
  next
    case (get_orders q x st)
    then have "OrderServer_GetOrders q (world s, order_db (world s)) = (x, (fst st, snd st))"
      by (simp add: order_state_def)
    from GetOrders_frame [OF ok(2) this] get_orders(1) system_inv_order_read [OF assms(2), of "snd st"] show ?thesis
      by (cases st) simp
  next
    case start_order
    then show ?thesis using assms(2) by (auto simp: system_inv_def)
  next
    case advance_order
    then show ?thesis using system_inv_task [OF assms(2)] by blast
  qed (auto intro!: * grows_orders ok
      dest: CreateUser_grows [OF ok(1)] CreateMenuItem_grows [OF ok(1)]
        user_reads_grow [OF ok(1), OF disjI1] user_reads_grow [OF ok(1), OF disjI2]
        menu_reads_grow [OF ok(1), OF disjI1] menu_reads_grow [OF ok(1), OF disjI2])
qed

lemma order_task_step_grows:
  assumes "backends_ok w" and "order_task_step T t w = (t', w')"
  shows "grows w w'"
proof (cases "(T, t, w)" rule: order_task_step.cases)
  case (1 T' req w1)
  with validating_step assms show ?thesis by blast
next
  case (2 T' req item items acc w1)
  obtain y w2 where y: "mc_GetMenuItem (MenuClient (order_server T)) \<lparr>gm_id = oir_menu_item_id item\<rparr> w = (y, w2)"
    by fastforce
  with 2 assms(2) have "w' = w2"
    by (auto simp del: order_server_clients split: sum.splits option.splits)
  with lookup_grows(2) [OF assms(1) y] show ?thesis by simp
next
  case (3 T' req acc w1)
  with assms show ?thesis by (auto intro: grows_orders split: prod.splits sum.splits)
next
  case (4 T' x w1)
  with assms show ?thesis by (simp add: grows_def)
qed

text \<open>The tables of the user and menu services grow along every run.\<close>

lemma cafe_step_grows:
  assumes "cafe_step T s s'" and ok: "backends_ok (world s)"
  shows "grows (world s) (world s')"
  using assms(1)
proof cases
  case (get_order q x st)
  then show ?thesis using ok
    by (auto simp: order_state_def put_order_state_def OrderServer_GetOrder_def
        intro: grows_orders split: prod.splits sum.splits)
next
  case (get_orders x st)
  then show ?thesis using ok
    by (auto simp: order_state_def put_order_state_def OrderServer_GetOrders_def
        intro: grows_orders split: prod.splits sum.splits)
next
  case start_order
  then show ?thesis using ok by (simp add: grows_def)
next
  case advance_order
  then show ?thesis using order_task_step_grows [OF ok] by auto
qed (auto intro!: grows_orders ok
    dest: CreateUser_grows [OF ok] CreateMenuItem_grows [OF ok]
      user_reads_grow [OF ok, OF disjI1] user_reads_grow [OF ok, OF disjI2]
      menu_reads_grow [OF ok, OF disjI1] menu_reads_grow [OF ok, OF disjI2])

lemma grows_trans: "grows w w' \<Longrightarrow> grows w' w'' \<Longrightarrow> grows w w''"
  by (auto simp: grows_def intro: map_le_trans)

lemma grows_refl: "backends_ok w \<Longrightarrow> grows w w"
  by (simp add: grows_def)

lemma cafe_reach_grows:
  "cafe_reach T s s' \<Longrightarrow> backends_ok (world s) \<Longrightarrow> grows (world s) (world s')"
proof (induction rule: cafe_reach.induct)
  case (step s s' s'')
  then have g: "grows (world s) (world s')" by simp
  then have "backends_ok (world s')" by (simp add: grows_def)
  from grows_trans [OF g cafe_step_grows [OF step.hyps(2) this]] show ?case .
qed (rule grows_refl)

text \<open>So does the table of orders.\<close>

lemma order_task_step_orders:
  assumes "gorm_ok order_cols (order_db w)" and "order_task_step T t w = (t', w')"
  shows "order_rows (order_db w) \<subseteq>\<^sub>m order_rows (order_db w')"
proof (cases "(T, t, w)" rule: order_task_step.cases)
  case (1 T' req w1)
  with assms(2) lookups_order_db(1) [of T "\<lparr>gu_id = co_user_id req\<rparr>" w] show ?thesis
    by (auto simp del: order_server_clients split: prod.splits sum.splits)
next
  case (2 T' req item items acc w1)
  with assms(2) lookups_order_db(2) [of T "\<lparr>gm_id = oir_menu_item_id item\<rparr>" w] show ?thesis
    by (auto simp del: order_server_clients split: prod.splits sum.splits option.splits)
next
  case (3 T' req acc w1)
  obtain y db where y: "DB_Create (new_order (uint_of_uint32 (co_user_id req)) acc) (order_db w) = (y, db)" by fastforce
  with 3 assms(2) have w': "order_db w' = db" by (auto split: sum.splits)
  show ?thesis
  proof (cases y)
    case (Inl e)
    with DB_Create_Inl [OF assms(1)] y have "order_rows db = order_rows (order_db w)" by (blast intro: order_rows_cong)
    with w' show ?thesis by simp
  next
    case (Inr r)
    with DB_Create_order [OF assms(1)] y w' show ?thesis by (fastforce simp: map_le_def)
  qed
next
  case (4 T' x w1)
  with assms show ?thesis by simp
qed

lemma cafe_step_orders:
  assumes "cafe_step T s s'" and ok: "gorm_ok order_cols (order_db (world s))"
  shows "order_rows (order_db (world s)) \<subseteq>\<^sub>m order_rows (order_db (world s'))"
  using assms(1)
proof cases
  case (get_order q x st)
  then have "OrderServer_GetOrder q (world s, order_db (world s)) = (x, (fst st, snd st))"
    by (simp add: order_state_def)
  from GetOrder_frame [OF ok this] get_order(1) show ?thesis by (simp add: put_order_state_def)
next
  case (get_orders q x st)
  then have "OrderServer_GetOrders q (world s, order_db (world s)) = (x, (fst st, snd st))"
    by (simp add: order_state_def)
  from GetOrders_frame [OF ok this] get_orders(1) show ?thesis by (simp add: put_order_state_def)
next
  case advance_order
  then show ?thesis using order_task_step_orders [OF ok] by auto
qed simp_all

lemma cafe_reach_orders:
  "cafe_reach T s s' \<Longrightarrow> system_inv s \<Longrightarrow>
     system_inv s' \<and> order_rows (order_db (world s)) \<subseteq>\<^sub>m order_rows (order_db (world s'))"
proof (induction rule: cafe_reach.induct)
  case (step s s' s'')
  then have inv: "system_inv s'" and le: "order_rows (order_db (world s)) \<subseteq>\<^sub>m order_rows (order_db (world s'))"
    by auto
  from inv have "gorm_ok order_cols (order_db (world s'))" by (simp add: system_inv_def)
  from map_le_trans [OF le cafe_step_orders [OF step.hyps(2) this]] system_inv_step [OF step.hyps(2) inv]
  show ?case by blast
qed simp

lemma system_inv_reach: "cafe_reach T s s' \<Longrightarrow> system_inv s \<Longrightarrow> system_inv s'"
  by (induction rule: cafe_reach.induct) (auto intro: system_inv_step)

lemma system_inv_fresh: "fresh_system s \<Longrightarrow> system_inv s"
  by (auto simp: fresh_system_def system_inv_def orders_valid_def)

end
