(* ===== verification/Chi.thy ===== *)
theory Chi
  imports Go_Json
begin

text \<open>
  Routing. The router (\<open>github.com/go-chi/chi\<close>) is not part of the repository: a route table is
  data, the router that searches it is a parameter, and \<open>chi_law\<close> names what the programs rely
  on for tables whose patterns are literal paths or end in one \<open>/{name}\<close> segment. \<open>chi_ref\<close> is a
  router that obeys the law.

  A handler gets the URL parameter (empty when the pattern has none) and the request body.
\<close>

type_synonym 'w http_handler = "string \<Rightarrow> request_body \<Rightarrow> 'w \<Rightarrow> response \<times> 'w"
type_synonym 'w routes = "((string \<times> string) \<times> 'w http_handler) list"
type_synonym router = "(string \<times> string) list \<Rightarrow> string \<Rightarrow> string \<Rightarrow> (nat \<times> string) option"

datatype 'a startup = Fatal string | Serving string 'a

text \<open>\<open>miss\<close> is the router's own answer when no route matches (404, or 405 for another method).\<close>

definition serve ::
  "router \<Rightarrow> response \<Rightarrow> 'w routes \<Rightarrow> string \<Rightarrow> string \<Rightarrow> request_body \<Rightarrow> 'w \<Rightarrow> response \<times> 'w" where
  "serve chi miss rs meth path body w =
     (case chi (map fst rs) meth path of
        None \<Rightarrow> (miss, w)
      | Some (i, param) \<Rightarrow> if i < length rs then snd (rs ! i) param body w else (miss, w))"

text \<open>Whatever the router chooses, a request is a miss or a call of one of the handlers.\<close>

lemma serve_cases:
  assumes "serve chi miss rs m path body w = (r, w')"
  obtains (missed) "r = miss" and "w' = w"
  | (handled) h x where "h \<in> snd ` set rs" and "h x body w = (r, w')"
proof (cases "chi (map fst rs) m path")
  case None
  with assms missed show thesis by (simp add: serve_def)
next
  case (Some ix)
  obtain i x where ix: "ix = (i, x)" by fastforce
  show thesis
  proof (cases "i < length rs")
    case True
    then have "snd (rs ! i) \<in> snd ` set rs" by simp
    then show thesis by (rule handled) (use assms Some ix True in \<open>simp add: serve_def\<close>)
  next
    case False
    with assms Some ix missed show thesis by (simp add: serve_def)
  qed
qed

subsection \<open>What a router promises\<close>

definition segment :: "string \<Rightarrow> bool" where
  "segment s \<longleftrightarrow> s \<noteq> [] \<and> CHR ''/'' \<notin> set s"

definition literal :: "string \<Rightarrow> bool" where
  "literal p \<longleftrightarrow> CHR ''{'' \<notin> set p"

text \<open>\<open>param_pattern p\<close> is the part of a pattern \<open>p\<close> before its final \<open>{id}\<close>, if it has one.\<close>

definition param_pattern :: "string \<Rightarrow> string option" where
  "param_pattern p =
     (if take 4 (rev p) = ''}di{'' \<and> literal (take (length p - 4) p) \<and> take 1 (drop 4 (rev p)) = ''/''
      then Some (take (length p - 4) p) else None)"

definition matches :: "string \<Rightarrow> string \<Rightarrow> string option" where
  "matches p path =
     (case param_pattern p of
        None \<Rightarrow> if literal p \<and> p = path then Some [] else None
      | Some pre \<Rightarrow>
          if take (length pre) path = pre \<and> segment (drop (length pre) path)
          then Some (drop (length pre) path) else None)"

text \<open>A matching literal pattern wins over one with a parameter; no match, no handler.\<close>

definition chi_law :: "router \<Rightarrow> bool" where
  "chi_law chi \<longleftrightarrow>
     (\<forall>table m path i. distinct table \<longrightarrow> i < length table \<longrightarrow> table ! i = (m, path) \<longrightarrow> literal path \<longrightarrow>
        chi table m path = Some (i, [])) \<and>
     (\<forall>table m path. distinct table \<longrightarrow> \<not> (literal path \<and> (m, path) \<in> set table) \<longrightarrow>
        (case chi table m path of
           None \<Rightarrow> \<forall>(m', p) \<in> set table. m' = m \<longrightarrow> matches p path = None
         | Some (i, x) \<Rightarrow> i < length table \<and> fst (table ! i) = m \<and> matches (snd (table ! i)) path = Some x))"

lemma chi_literal:
  assumes "chi_law chi" and "distinct table" and "i < length table" and "table ! i = (m, path)" and "literal path"
  shows "chi table m path = Some (i, [])"
  using assms unfolding chi_law_def by blast

lemma chi_match:
  assumes "chi_law chi" and "distinct table" and "\<not> (literal path \<and> (m, path) \<in> set table)"
  shows "case chi table m path of
      None \<Rightarrow> \<forall>(m', p) \<in> set table. m' = m \<longrightarrow> matches p path = None
    | Some (i, x) \<Rightarrow> i < length table \<and> fst (table ! i) = m \<and> matches (snd (table ! i)) path = Some x"
  using assms unfolding chi_law_def by blast

lemma chi_miss:
  assumes "chi_law chi" and "distinct table" and "\<forall>(m', p) \<in> set table. m' = m \<longrightarrow> matches p path = None"
    and "\<not> (literal path \<and> (m, path) \<in> set table)"
  shows "chi table m path = None"
proof (cases "chi table m path")
  case (Some ix)
  obtain i x where ix: "ix = (i, x)" by fastforce
  with chi_match [OF assms(1,2,4)] Some have "table ! i \<in> set table" "fst (table ! i) = m"
    "matches (snd (table ! i)) path = Some x" by auto
  with assms(3) show ?thesis by (auto simp: split_beta)
qed simp

text \<open>A request that one route of the table matches, with a parameter, reaches that route's handler.\<close>

lemma serve_literal:
  assumes "chi_law chi" and "distinct (map fst rs)" and "i < length rs" and "fst (rs ! i) = (m, path)" and "literal path"
  shows "serve chi miss rs m path body w = snd (rs ! i) [] body w"
  using assms chi_literal [OF assms(1,2), of i m path] by (simp add: serve_def)

lemma serve_param:
  assumes "chi_law chi" and "distinct (map fst rs)" and "\<not> (literal path \<and> (m, path) \<in> fst ` set rs)"
    and f: "filter (\<lambda>r. fst (fst r) = m \<and> matches (snd (fst r)) path \<noteq> None) rs = [((m, p), h)]"
    and "matches p path = Some x"
  shows "serve chi miss rs m path body w = h x body w"
proof -
  have n: "\<not> (literal path \<and> (m, path) \<in> set (map fst rs))" using assms(3) by simp
  have only: "r = ((m, p), h)" if "r \<in> set rs" "fst (fst r) = m" "matches (snd (fst r)) path \<noteq> None" for r
  proof -
    from that have "r \<in> set (filter (\<lambda>r. fst (fst r) = m \<and> matches (snd (fst r)) path \<noteq> None) rs)" by simp
    then show ?thesis by (simp only: f) simp
  qed
  have "((m, p), h) \<in> set (filter (\<lambda>r. fst (fst r) = m \<and> matches (snd (fst r)) path \<noteq> None) rs)"
    by (simp only: f) simp
  then have mem: "(m, p) \<in> set (map fst rs)" by force
  show ?thesis
  proof (cases "chi (map fst rs) m path")
    case None
    with chi_match [OF assms(1,2) n] have "\<forall>(m', q) \<in> set (map fst rs). m' = m \<longrightarrow> matches q path = None" by simp
    from bspec [OF this mem] assms(5) show ?thesis by simp
  next
    case (Some jx)
    obtain j y where jx: "jx = (j, y)" by fastforce
    from chi_match [OF assms(1,2) n] Some jx have
      j: "j < length rs" "fst (fst (rs ! j)) = m" "matches (snd (fst (rs ! j))) path = Some y" by auto
    with only [of "rs ! j"] have "rs ! j = ((m, p), h)" by simp
    with j assms(5) Some jx show ?thesis by (simp add: serve_def)
  qed
qed

lemma serve_miss:
  assumes "chi_law chi" and "distinct (map fst rs)"
    and "\<forall>r \<in> set rs. fst (fst r) = m \<longrightarrow> matches (snd (fst r)) path = None"
  shows "serve chi miss rs m path body w = (miss, w)"
proof -
  have "matches path path = Some []" if "literal path"
  proof -
    have "param_pattern path = None"
      using that by (auto simp: param_pattern_def literal_def rev_take [symmetric] dest: arg_cong [of _ _ set])
        (metis in_set_takeD list.set_intros(1) list.set_intros(2) set_rev)
    with that show ?thesis by (simp add: matches_def)
  qed
  with assms(3) have "\<not> (literal path \<and> (m, path) \<in> set (map fst rs))" by force
  with chi_miss [OF assms(1,2), of m path] assms(3) show ?thesis by (auto simp: serve_def split_beta)
qed

subsection \<open>A router that obeys the law\<close>

fun find_index :: "('a \<Rightarrow> 'b option) \<Rightarrow> nat \<Rightarrow> 'a list \<Rightarrow> (nat \<times> 'b) option" where
  "find_index f i [] = None"
| "find_index f i (x # xs) =
     (case f x of None \<Rightarrow> find_index f (Suc i) xs | Some y \<Rightarrow> Some (i, y))"

definition chi_ref :: router where
  "chi_ref table m path =
     (case find_index (\<lambda>(m', p). if m' = m \<and> literal p \<and> p = path then Some [] else None) 0 table of
        Some r \<Rightarrow> Some r
      | None \<Rightarrow> find_index (\<lambda>(m', p). if m' = m then matches p path else None) 0 table)"

lemma find_index_None: "find_index f i xs = None \<longleftrightarrow> (\<forall>x \<in> set xs. f x = None)"
  by (induction xs arbitrary: i) (auto split: option.splits)

lemma find_index_Some:
  "find_index f i xs = Some (j, y) \<Longrightarrow> i \<le> j \<and> j < i + length xs \<and> f (xs ! (j - i)) = Some y"
proof (induction xs arbitrary: i)
  case (Cons x xs)
  show ?case
  proof (cases "f x")
    case None
    with Cons.prems Cons.IH [of "Suc i"] show ?thesis by (auto simp: nth_Cons' Suc_diff_le)
  next
    case (Some z)
    with Cons.prems show ?thesis by simp
  qed
qed simp

lemma chi_ref_literal:
  assumes "distinct table" and "i < length table" and "table ! i = (m, path)" and "literal path"
  shows "chi_ref table m path = Some (i, [])"
proof -
  let ?f = "\<lambda>(m', p). if m' = m \<and> literal p \<and> p = path then Some ([]::string) else None"
  have mem: "(m, path) \<in> set table" using assms(2,3) nth_mem by fastforce
  have "find_index ?f 0 table \<noteq> None"
  proof
    assume "find_index ?f 0 table = None"
    then have "\<forall>x \<in> set table. ?f x = None" by (simp only: find_index_None)
    from bspec [OF this mem] assms(4) show False by simp
  qed
  then obtain j y where j: "find_index ?f 0 table = Some (j, y)" by auto
  from find_index_Some [OF this] have "j < length table" "table ! j = (m, path)" "y = []"
    by (auto split: prod.splits if_splits)
  with assms have "j = i" using nth_eq_iff_index_eq [OF assms(1), of j i] by simp
  with j \<open>y = []\<close> show ?thesis by (simp add: chi_ref_def)
qed

lemma chi_ref_match:
  assumes "\<not> (literal path \<and> (m, path) \<in> set table)"
  shows "case chi_ref table m path of
      None \<Rightarrow> \<forall>(m', p) \<in> set table. m' = m \<longrightarrow> matches p path = None
    | Some (i, x) \<Rightarrow> i < length table \<and> fst (table ! i) = m \<and> matches (snd (table ! i)) path = Some x"
proof -
  have "find_index (\<lambda>(m', p). if m' = m \<and> literal p \<and> p = path then Some ([]::string) else None) 0 table = None"
    using assms by (auto simp: find_index_None)
  then have c: "chi_ref table m path = find_index (\<lambda>(m', p). if m' = m then matches p path else None) 0 table"
    by (simp add: chi_ref_def)
  show ?thesis
  proof (cases "chi_ref table m path")
    case None
    with c have "find_index (\<lambda>(m', p). if m' = m then matches p path else None) 0 table = None" by simp
    with None show ?thesis by (auto simp: find_index_None split: if_splits)
  next
    case (Some ix)
    obtain i x where ix: "ix = (i, x)" by fastforce
    with Some c find_index_Some [of "\<lambda>(m', p). if m' = m then matches p path else None" 0 table i x]
    show ?thesis by (auto split: if_splits prod.splits)
  qed
qed

lemma chi_ref_law: "chi_law chi_ref"
  unfolding chi_law_def using chi_ref_literal chi_ref_match by blast

subsection \<open>Proxies\<close>

text \<open>
  The network is a parameter: \<open>send target method path body w\<close> is the answer of the server at a
  base URL, or \<open>None\<close> when it cannot be reached.
\<close>

type_synonym 'w send = "string \<Rightarrow> string \<Rightarrow> string \<Rightarrow> request_body \<Rightarrow> 'w \<Rightarrow> response option \<times> 'w"

text \<open>\<open>httputil.ReverseProxy\<close>: the answer of the target, or 502 when it cannot be reached.\<close>

definition bad_gateway :: response where
  "bad_gateway = \<lparr>status = 502, content_type = [], payload = PEmpty\<rparr>"

definition reverse_proxy :: "'w send \<Rightarrow> string \<Rightarrow> string \<Rightarrow> string \<Rightarrow> request_body \<Rightarrow> 'w \<Rightarrow> response \<times> 'w" where
  "reverse_proxy send target m path body w =
     (case send target m path body w of (None, w') \<Rightarrow> (bad_gateway, w') | (Some r, w') \<Rightarrow> (r, w'))"

end
