(* ===== verification/Gateway.thy ===== *)
theory Gateway
  imports Chi Cafe_Protos
begin

text \<open>
  The HTTP-to-gRPC gateway (\<open>practical6-example/api-gateway\<close>): the clients it dials
  (\<open>grpc/clients.go\<close>), the translation of gRPC errors (\<open>handlers/handlers.go\<close>), the nine
  handlers of \<open>user_handlers.go\<close>, \<open>menu_handlers.go\<close> and \<open>order_handlers.go\<close>, and the route
  table and start-up of \<open>main.go\<close>.

  A handler takes the URL parameter or the request body it reads and the state \<open>'w\<close> behind its
  clients, and returns its response with the new state. A repeated field that came over the
  wire with no element is a nil slice, which \<open>encoding/json\<close> writes as \<open>null\<close>.
\<close>

subsection \<open>Clients\<close>

record 'w ServiceClients =
  sc_UserClient :: "'w UserServiceClient"
  sc_MenuClient :: "'w MenuServiceClient"
  sc_OrderClient :: "'w OrderServiceClient"

definition getEnv :: "(string \<Rightarrow> string) \<Rightarrow> string \<Rightarrow> string \<Rightarrow> string" where
  "getEnv env key defaultVal = (if env key \<noteq> [] then env key else defaultVal)"

definition NewServiceClients ::
  "(string \<Rightarrow> string) \<Rightarrow> (string \<Rightarrow> string + 'w ClientConn) \<Rightarrow> string + 'w ServiceClients" where
  "NewServiceClients env dial =
     (let userAddr = getEnv env ''USER_SERVICE_GRPC_ADDR'' ''user-service:9091'';
          menuAddr = getEnv env ''MENU_SERVICE_GRPC_ADDR'' ''menu-service:9092'';
          orderAddr = getEnv env ''ORDER_SERVICE_GRPC_ADDR'' ''order-service:9093''
      in case dial userAddr of
           Inl err \<Rightarrow> Inl (''failed to connect to user service: '' @ err)
         | Inr userConn \<Rightarrow>
         (case dial menuAddr of
            Inl err \<Rightarrow> Inl (''failed to connect to menu service: '' @ err)
          | Inr menuConn \<Rightarrow>
          (case dial orderAddr of
             Inl err \<Rightarrow> Inl (''failed to connect to order service: '' @ err)
           | Inr orderConn \<Rightarrow>
               Inr \<lparr>sc_UserClient = NewUserServiceClient userConn,
                    sc_MenuClient = NewMenuServiceClient menuConn,
                    sc_OrderClient = NewOrderServiceClient orderConn\<rparr>)))"

subsection \<open>Errors\<close>

fun http_status :: "code \<Rightarrow> nat" where
  "http_status NotFound = StatusNotFound"
| "http_status InvalidArgument = StatusBadRequest"
| "http_status AlreadyExists = StatusConflict"
| "http_status PermissionDenied = StatusForbidden"
| "http_status Unauthenticated = StatusUnauthorized"
| "http_status FailedPrecondition = StatusPreconditionFailed"
| "http_status Unimplemented = StatusNotImplemented"
| "http_status Unavailable = StatusServiceUnavailable"
| "http_status _ = StatusInternalServerError"

fun handleGRPCError :: "goerror \<Rightarrow> response" where
  "handleGRPCError (PlainError _) = http_Error ''internal server error'' StatusInternalServerError"
| "handleGRPCError (StatusError c m) = http_Error m (http_status c)"

subsection \<open>JSON of the messages\<close>

definition enc_UserProto :: "UserProto \<Rightarrow> json" where
  "enc_UserProto u =
     JObj (omitempty ''id'' (user_id u = 0) (enc_uint (user_id u))
         @ omitempty ''name'' (user_name u = []) (JStr (user_name u))
         @ omitempty ''email'' (user_email u = []) (JStr (user_email u))
         @ omitempty ''is_cafe_owner'' (\<not> user_is_cafe_owner u) (JBool (user_is_cafe_owner u))
         @ omitempty ''created_at'' (user_created_at u = []) (JStr (user_created_at u))
         @ omitempty ''updated_at'' (user_updated_at u = []) (JStr (user_updated_at u)))"

text \<open>A price member, absent when zero; \<open>None\<close> when it cannot be encoded.\<close>

definition enc_price :: "float64 \<Rightarrow> (string \<times> json) list option" where
  "enc_price p =
     (if float_is_zero p then Some [] else map_option (\<lambda>j. [(''price'', j)]) (enc_float64 p))"

definition enc_MenuItemProto :: "MenuItemProto \<Rightarrow> json option" where
  "enc_MenuItemProto i =
     map_option
       (\<lambda>pr. JObj (omitempty ''id'' (mi_id i = 0) (enc_uint (mi_id i))
                 @ omitempty ''name'' (mi_name i = []) (JStr (mi_name i))
                 @ omitempty ''description'' (mi_description i = []) (JStr (mi_description i))
                 @ pr
                 @ omitempty ''created_at'' (mi_created_at i = []) (JStr (mi_created_at i))
                 @ omitempty ''updated_at'' (mi_updated_at i = []) (JStr (mi_updated_at i))))
       (enc_price (mi_price i))"

definition enc_OrderItemProto :: "OrderItemProto \<Rightarrow> json option" where
  "enc_OrderItemProto i =
     map_option
       (\<lambda>pr. JObj (omitempty ''id'' (oi_id i = 0) (enc_uint (oi_id i))
                 @ omitempty ''order_id'' (oi_order_id i = 0) (enc_uint (oi_order_id i))
                 @ omitempty ''menu_item_id'' (oi_menu_item_id i = 0) (enc_uint (oi_menu_item_id i))
                 @ omitempty ''quantity'' (oi_quantity i = 0) (enc_int (oi_quantity i))
                 @ pr
                 @ omitempty ''created_at'' (oi_created_at i = []) (JStr (oi_created_at i))
                 @ omitempty ''updated_at'' (oi_updated_at i = []) (JStr (oi_updated_at i))))
       (enc_price (oi_price i))"

definition enc_OrderProto :: "OrderProto \<Rightarrow> json option" where
  "enc_OrderProto ord =
     map_option
       (\<lambda>items. JObj (omitempty ''id'' (o_id ord = 0) (enc_uint (o_id ord))
                    @ omitempty ''user_id'' (o_user_id ord = 0) (enc_uint (o_user_id ord))
                    @ omitempty ''status'' (o_status ord = []) (JStr (o_status ord))
                    @ omitempty ''order_items'' (items = []) (JArr items)
                    @ omitempty ''created_at'' (o_created_at ord = []) (JStr (o_created_at ord))
                    @ omitempty ''updated_at'' (o_updated_at ord = []) (JStr (o_updated_at ord))))
       (those (map enc_OrderItemProto (o_order_items ord)))"

text \<open>A pointer and a slice of pointers.\<close>

definition enc_ptr :: "('a \<Rightarrow> json option) \<Rightarrow> 'a option \<Rightarrow> json option" where
  "enc_ptr enc p = (case p of None \<Rightarrow> Some JNull | Some x \<Rightarrow> enc x)"

definition enc_slice :: "('a \<Rightarrow> json option) \<Rightarrow> 'a list \<Rightarrow> json option" where
  "enc_slice enc xs = (if xs = [] then Some JNull else map_option JArr (those (map enc xs)))"

subsection \<open>User handlers\<close>

record user_body =
  ub_name :: string
  ub_email :: string
  ub_is_cafe_owner :: bool

definition user_body_fields :: "(string \<times> user_body decoder) list" where
  "user_body_fields =
     [(''name'', field dec_string ub_name (\<lambda>x. ub_name_update (\<lambda>_. x))),
      (''email'', field dec_string ub_email (\<lambda>x. ub_email_update (\<lambda>_. x))),
      (''is_cafe_owner'', field dec_bool ub_is_cafe_owner (\<lambda>x. ub_is_cafe_owner_update (\<lambda>_. x)))]"

definition zero_user_body :: user_body where
  "zero_user_body = \<lparr>ub_name = [], ub_email = [], ub_is_cafe_owner = False\<rparr>"

definition Handlers_CreateUser :: "'w ServiceClients \<Rightarrow> request_body \<Rightarrow> 'w \<Rightarrow> response \<times> 'w" where
  "Handlers_CreateUser clients body w =
     (case Decode user_body_fields zero_user_body body of
        (False, _) \<Rightarrow> (http_Error ''invalid request body'' StatusBadRequest, w)
      | (True, req) \<Rightarrow>
          (case uc_CreateUser (sc_UserClient clients)
                  \<lparr>cu_name = ub_name req, cu_email = ub_email req, cu_is_cafe_owner = ub_is_cafe_owner req\<rparr> w of
             (Inl err, w') \<Rightarrow> (handleGRPCError err, w')
           | (Inr resp, w') \<Rightarrow>
               (json_reply StatusCreated (enc_ptr (\<lambda>u. Some (enc_UserProto u)) (cu_user resp)), w')))"

definition Handlers_GetUser :: "'w ServiceClients \<Rightarrow> string \<Rightarrow> 'w \<Rightarrow> response \<times> 'w" where
  "Handlers_GetUser clients idStr w =
     (case ParseUint 32 idStr of
        None \<Rightarrow> (http_Error ''invalid user ID'' StatusBadRequest, w)
      | Some n \<Rightarrow>
          (case uc_GetUser (sc_UserClient clients) \<lparr>gu_id = of_nat n\<rparr> w of
             (Inl err, w') \<Rightarrow> (handleGRPCError err, w')
           | (Inr resp, w') \<Rightarrow>
               (json_reply StatusOK (enc_ptr (\<lambda>u. Some (enc_UserProto u)) (gu_user resp)), w')))"

definition Handlers_GetUsers :: "'w ServiceClients \<Rightarrow> 'w \<Rightarrow> response \<times> 'w" where
  "Handlers_GetUsers clients w =
     (case uc_GetUsers (sc_UserClient clients) () w of
        (Inl err, w') \<Rightarrow> (handleGRPCError err, w')
      | (Inr resp, w') \<Rightarrow>
          (json_reply StatusOK (enc_slice (\<lambda>u. Some (enc_UserProto u)) (gus_users resp)), w'))"

subsection \<open>Menu handlers\<close>

record menu_body =
  mb_name :: string
  mb_description :: string
  mb_price :: float64

definition menu_body_fields :: "(string \<times> menu_body decoder) list" where
  "menu_body_fields =
     [(''name'', field dec_string mb_name (\<lambda>x. mb_name_update (\<lambda>_. x))),
      (''description'', field dec_string mb_description (\<lambda>x. mb_description_update (\<lambda>_. x))),
      (''price'', field dec_float64 mb_price (\<lambda>x. mb_price_update (\<lambda>_. x)))]"

definition zero_menu_body :: menu_body where
  "zero_menu_body = \<lparr>mb_name = [], mb_description = [], mb_price = 0\<rparr>"

definition Handlers_CreateMenuItem :: "'w ServiceClients \<Rightarrow> request_body \<Rightarrow> 'w \<Rightarrow> response \<times> 'w" where
  "Handlers_CreateMenuItem clients body w =
     (case Decode menu_body_fields zero_menu_body body of
        (False, _) \<Rightarrow> (http_Error ''invalid request body'' StatusBadRequest, w)
      | (True, req) \<Rightarrow>
          (case mc_CreateMenuItem (sc_MenuClient clients)
                  \<lparr>cm_name = mb_name req, cm_description = mb_description req, cm_price = mb_price req\<rparr> w of
             (Inl err, w') \<Rightarrow> (handleGRPCError err, w')
           | (Inr resp, w') \<Rightarrow>
               (json_reply StatusCreated (enc_ptr enc_MenuItemProto (cm_menu_item resp)), w')))"

definition Handlers_GetMenuItem :: "'w ServiceClients \<Rightarrow> string \<Rightarrow> 'w \<Rightarrow> response \<times> 'w" where
  "Handlers_GetMenuItem clients idStr w =
     (case ParseUint 32 idStr of
        None \<Rightarrow> (http_Error ''invalid menu item ID'' StatusBadRequest, w)
      | Some n \<Rightarrow>
          (case mc_GetMenuItem (sc_MenuClient clients) \<lparr>gm_id = of_nat n\<rparr> w of
             (Inl err, w') \<Rightarrow> (handleGRPCError err, w')
           | (Inr resp, w') \<Rightarrow>
               (json_reply StatusOK (enc_ptr enc_MenuItemProto (gm_menu_item resp)), w')))"

definition Handlers_GetMenu :: "'w ServiceClients \<Rightarrow> 'w \<Rightarrow> response \<times> 'w" where
  "Handlers_GetMenu clients w =
     (case mc_GetMenu (sc_MenuClient clients) () w of
        (Inl err, w') \<Rightarrow> (handleGRPCError err, w')
      | (Inr resp, w') \<Rightarrow>
          (json_reply StatusOK (enc_slice enc_MenuItemProto (gms_menu_items resp)), w'))"

subsection \<open>Order handlers\<close>

record order_item_body =
  oib_menu_item_id :: uint32
  oib_quantity :: uint32

record order_body =
  ob_user_id :: uint32
  ob_items :: "order_item_body list"

definition order_item_body_fields :: "(string \<times> order_item_body decoder) list" where
  "order_item_body_fields =
     [(''menu_item_id'', field dec_uint oib_menu_item_id (\<lambda>x. oib_menu_item_id_update (\<lambda>_. x))),
      (''quantity'', field dec_uint oib_quantity (\<lambda>x. oib_quantity_update (\<lambda>_. x)))]"

definition order_body_fields :: "(string \<times> order_body decoder) list" where
  "order_body_fields =
     [(''user_id'', field dec_uint ob_user_id (\<lambda>x. ob_user_id_update (\<lambda>_. x))),
      (''items'',
       field (dec_slice (dec_struct order_item_body_fields) \<lparr>oib_menu_item_id = 0, oib_quantity = 0\<rparr>)
         ob_items (\<lambda>x. ob_items_update (\<lambda>_. x)))]"

definition zero_order_body :: order_body where
  "zero_order_body = \<lparr>ob_user_id = 0, ob_items = []\<rparr>"

definition to_order_item :: "order_item_body \<Rightarrow> OrderItemRequest" where
  "to_order_item item =
     \<lparr>oir_menu_item_id = oib_menu_item_id item, oir_quantity = int32_of_uint32 (oib_quantity item)\<rparr>"

definition Handlers_CreateOrder :: "'w ServiceClients \<Rightarrow> request_body \<Rightarrow> 'w \<Rightarrow> response \<times> 'w" where
  "Handlers_CreateOrder clients body w =
     (case Decode order_body_fields zero_order_body body of
        (False, _) \<Rightarrow> (http_Error ''invalid request body'' StatusBadRequest, w)
      | (True, req) \<Rightarrow>
          (let items = map to_order_item (ob_items req)
           in case oc_CreateOrder (sc_OrderClient clients)
                     \<lparr>co_user_id = ob_user_id req, co_items = items\<rparr> w of
                (Inl err, w') \<Rightarrow> (handleGRPCError err, w')
              | (Inr resp, w') \<Rightarrow>
                  (json_reply StatusCreated (enc_ptr enc_OrderProto (co_order resp)), w')))"

definition Handlers_GetOrder :: "'w ServiceClients \<Rightarrow> string \<Rightarrow> 'w \<Rightarrow> response \<times> 'w" where
  "Handlers_GetOrder clients idStr w =
     (case ParseUint 32 idStr of
        None \<Rightarrow> (http_Error ''invalid order ID'' StatusBadRequest, w)
      | Some n \<Rightarrow>
          (case oc_GetOrder (sc_OrderClient clients) \<lparr>go_id = of_nat n\<rparr> w of
             (Inl err, w') \<Rightarrow> (handleGRPCError err, w')
           | (Inr resp, w') \<Rightarrow>
               (json_reply StatusOK (enc_ptr enc_OrderProto (go_order resp)), w')))"

definition Handlers_GetOrders :: "'w ServiceClients \<Rightarrow> 'w \<Rightarrow> response \<times> 'w" where
  "Handlers_GetOrders clients w =
     (case oc_GetOrders (sc_OrderClient clients) () w of
        (Inl err, w') \<Rightarrow> (handleGRPCError err, w')
      | (Inr resp, w') \<Rightarrow>
          (json_reply StatusOK (enc_slice enc_OrderProto (gos_orders resp)), w'))"

lemmas Handlers_defs [handler] =
  Handlers_CreateUser_def Handlers_GetUser_def Handlers_GetUsers_def
  Handlers_CreateMenuItem_def Handlers_GetMenuItem_def Handlers_GetMenu_def
  Handlers_CreateOrder_def Handlers_GetOrder_def Handlers_GetOrders_def

subsection \<open>Routes and start-up\<close>

definition gateway_routes :: "'w ServiceClients \<Rightarrow> 'w routes" where
  "gateway_routes h =
     [((''POST'', ''/api/users''), \<lambda>_ body. Handlers_CreateUser h body),
      ((''GET'', ''/api/users/{id}''), \<lambda>param _. Handlers_GetUser h param),
      ((''GET'', ''/api/users''), \<lambda>_ _. Handlers_GetUsers h),
      ((''POST'', ''/api/menu''), \<lambda>_ body. Handlers_CreateMenuItem h body),
      ((''GET'', ''/api/menu/{id}''), \<lambda>param _. Handlers_GetMenuItem h param),
      ((''GET'', ''/api/menu''), \<lambda>_ _. Handlers_GetMenu h),
      ((''POST'', ''/api/orders''), \<lambda>_ body. Handlers_CreateOrder h body),
      ((''GET'', ''/api/orders/{id}''), \<lambda>param _. Handlers_GetOrder h param),
      ((''GET'', ''/api/orders''), \<lambda>_ _. Handlers_GetOrders h)]"

text \<open>\<open>listen\<close> is the error of \<open>http.ListenAndServe\<close> when it cannot serve.\<close>

definition gateway_main ::
  "(string \<Rightarrow> string) \<Rightarrow> (string \<Rightarrow> string + 'w ClientConn) \<Rightarrow> (string \<Rightarrow> string option)
   \<Rightarrow> 'w routes startup" where
  "gateway_main env dial listen =
     (case NewServiceClients env dial of
        Inl err \<Rightarrow> Fatal (''Failed to create gRPC clients: '' @ err)
      | Inr clients \<Rightarrow>
          (case listen '':8080'' of
             Some err \<Rightarrow> Fatal (''Failed to start server: '' @ err)
           | None \<Rightarrow> Serving '':8080'' (gateway_routes clients)))"

subsection \<open>The table as the router sees it\<close>

lemma gateway_table:
  "map fst (gateway_routes h) =
     [(''POST'', ''/api/users''), (''GET'', ''/api/users/{id}''), (''GET'', ''/api/users''),
      (''POST'', ''/api/menu''), (''GET'', ''/api/menu/{id}''), (''GET'', ''/api/menu''),
      (''POST'', ''/api/orders''), (''GET'', ''/api/orders/{id}''), (''GET'', ''/api/orders'')]"
  by (simp add: gateway_routes_def)

lemma gateway_posts:
  assumes "chi_law chi"
  shows "serve chi miss (gateway_routes h) ''POST'' ''/api/users'' body w = Handlers_CreateUser h body w"
    and "serve chi miss (gateway_routes h) ''POST'' ''/api/menu'' body w = Handlers_CreateMenuItem h body w"
    and "serve chi miss (gateway_routes h) ''POST'' ''/api/orders'' body w = Handlers_CreateOrder h body w"
proof -
  have d: "distinct (map fst (gateway_routes h))" unfolding gateway_table by simp
  note sv = serve_literal [OF assms d]
  show "serve chi miss (gateway_routes h) ''POST'' ''/api/users'' body w = Handlers_CreateUser h body w"
    using sv [of 0] by (simp add: gateway_routes_def literal_def)
  show "serve chi miss (gateway_routes h) ''POST'' ''/api/menu'' body w = Handlers_CreateMenuItem h body w"
    using sv [of 3] by (simp add: gateway_routes_def literal_def)
  show "serve chi miss (gateway_routes h) ''POST'' ''/api/orders'' body w = Handlers_CreateOrder h body w"
    using sv [of 6] by (simp add: gateway_routes_def literal_def)
qed

lemma gateway_lists:
  assumes "chi_law chi"
  shows "serve chi miss (gateway_routes h) ''GET'' ''/api/users'' body w = Handlers_GetUsers h w"
    and "serve chi miss (gateway_routes h) ''GET'' ''/api/menu'' body w = Handlers_GetMenu h w"
    and "serve chi miss (gateway_routes h) ''GET'' ''/api/orders'' body w = Handlers_GetOrders h w"
proof -
  have d: "distinct (map fst (gateway_routes h))" unfolding gateway_table by simp
  note sv = serve_literal [OF assms d]
  show "serve chi miss (gateway_routes h) ''GET'' ''/api/users'' body w = Handlers_GetUsers h w"
    using sv [of 2] by (simp add: gateway_routes_def literal_def)
  show "serve chi miss (gateway_routes h) ''GET'' ''/api/menu'' body w = Handlers_GetMenu h w"
    using sv [of 5] by (simp add: gateway_routes_def literal_def)
  show "serve chi miss (gateway_routes h) ''GET'' ''/api/orders'' body w = Handlers_GetOrders h w"
    using sv [of 8] by (simp add: gateway_routes_def literal_def)
qed

lemmas match_defs = matches_def param_pattern_def literal_def

lemma gateway_gets:
  assumes "chi_law chi" and "segment seg"
  shows "serve chi miss (gateway_routes h) ''GET'' (''/api/users/'' @ seg) body w = Handlers_GetUser h seg w"
    and "serve chi miss (gateway_routes h) ''GET'' (''/api/menu/'' @ seg) body w = Handlers_GetMenuItem h seg w"
    and "serve chi miss (gateway_routes h) ''GET'' (''/api/orders/'' @ seg) body w = Handlers_GetOrder h seg w"
proof -
  have d: "distinct (map fst (gateway_routes h))" unfolding gateway_table by simp
  note sv = serve_param [OF assms(1) d]
  show "serve chi miss (gateway_routes h) ''GET'' (''/api/users/'' @ seg) body w = Handlers_GetUser h seg w"
    by (subst sv [where x = seg]) (use assms(2) in \<open>auto simp: gateway_routes_def match_defs\<close>)
  show "serve chi miss (gateway_routes h) ''GET'' (''/api/menu/'' @ seg) body w = Handlers_GetMenuItem h seg w"
    by (subst sv [where x = seg]) (use assms(2) in \<open>auto simp: gateway_routes_def match_defs\<close>)
  show "serve chi miss (gateway_routes h) ''GET'' (''/api/orders/'' @ seg) body w = Handlers_GetOrder h seg w"
    by (subst sv [where x = seg]) (use assms(2) in \<open>auto simp: gateway_routes_def match_defs\<close>)
qed

end
