(* ===== verification/Cafe_Http.thy ===== *)
theory Cafe_Http
  imports Cafe_System Gateway
begin

text \<open>
  The system as a browser sees it: the gateway's routes over clients connected to the three
  services. The lemmas say what each handler's call does to the services' tables; the
  end-to-end properties are stated in the root theory.
\<close>

definition gateway_clients :: "'n transport \<Rightarrow> ('u, 'm, 'o, 'n) cafe ServiceClients" where
  "gateway_clients T =
     \<lparr>sc_UserClient = NewUserServiceClient (user_conn T),
      sc_MenuClient = NewMenuServiceClient (menu_conn T),
      sc_OrderClient = NewOrderServiceClient (order_conn T)\<rparr>"

definition cafe_http ::
  "'n transport \<Rightarrow> router \<Rightarrow> response \<Rightarrow> string \<Rightarrow> string \<Rightarrow> request_body
   \<Rightarrow> ('u, 'm, 'o, 'n) cafe \<Rightarrow> response \<times> ('u, 'm, 'o, 'n) cafe" where
  "cafe_http T chi miss = serve chi miss (gateway_routes (gateway_clients T))"

lemma gateway_client_calls [simp]:
  "uc_CreateUser (sc_UserClient (gateway_clients T)) = rpc T ''/user.v1.UserService/CreateUser'' user_db
     (\<lambda>s. user_db_update (\<lambda>_. s)) UserServer_CreateUser"
  "uc_GetUser (sc_UserClient (gateway_clients T)) = rpc T ''/user.v1.UserService/GetUser'' user_db
     (\<lambda>s. user_db_update (\<lambda>_. s)) UserServer_GetUser"
  "uc_GetUsers (sc_UserClient (gateway_clients T)) = rpc T ''/user.v1.UserService/GetUsers'' user_db
     (\<lambda>s. user_db_update (\<lambda>_. s)) UserServer_GetUsers"
  "mc_CreateMenuItem (sc_MenuClient (gateway_clients T)) = rpc T ''/menu.v1.MenuService/CreateMenuItem'' menu_db
     (\<lambda>s. menu_db_update (\<lambda>_. s)) MenuServer_CreateMenuItem"
  "mc_GetMenuItem (sc_MenuClient (gateway_clients T)) = rpc T ''/menu.v1.MenuService/GetMenuItem'' menu_db
     (\<lambda>s. menu_db_update (\<lambda>_. s)) MenuServer_GetMenuItem"
  "mc_GetMenu (sc_MenuClient (gateway_clients T)) = rpc T ''/menu.v1.MenuService/GetMenu'' menu_db
     (\<lambda>s. menu_db_update (\<lambda>_. s)) MenuServer_GetMenu"
  "oc_CreateOrder (sc_OrderClient (gateway_clients T)) = rpc T ''/order.v1.OrderService/CreateOrder'' order_state
     put_order_state (OrderServer_CreateOrder (tp_err_text T) (order_server T))"
  "oc_GetOrder (sc_OrderClient (gateway_clients T)) = rpc T ''/order.v1.OrderService/GetOrder'' order_state
     put_order_state OrderServer_GetOrder"
  "oc_GetOrders (sc_OrderClient (gateway_clients T)) = rpc T ''/order.v1.OrderService/GetOrders'' order_state
     put_order_state OrderServer_GetOrders"
  by (simp_all add: gateway_clients_def NewUserServiceClient_def NewMenuServiceClient_def
      NewOrderServiceClient_def stubs)

lemma rpc_Inr:
  assumes "rpc T meth get put f q w = (Inr p, w')"
  obtains n s where "f q (get (w\<lparr>net := n\<rparr>)) = (Return p, s)" and "w' = put s (w\<lparr>net := n\<rparr>)"
  using assms by (cases rule: rpcE) (auto dest: finish_Inr [OF sym])

subsection \<open>Replies of the handlers\<close>

text \<open>No error of a service becomes a success, and none of the services' codes becomes a 409.\<close>

lemma http_status_error: "400 \<le> http_status c" "http_status c < 600"
  by (cases c; simp)+

lemma handleGRPCError_status: "400 \<le> status (handleGRPCError e)" "status (handleGRPCError e) < 600"
  using http_status_error by (cases e; simp)+

lemma reply_ok:
  assumes "(case x of (Inl e, w') \<Rightarrow> (handleGRPCError e, w') | (Inr p, w') \<Rightarrow> (json_reply st (enc p), w')) = (r, w1)"
    and "status r < 400"
  obtains p where "x = (Inr p, w1)" and "r = json_reply st (enc p)"
  using assms handleGRPCError_status
  by (cases x; cases "fst x") (auto simp: leD)

lemma CreateUser_reply:
  assumes "Handlers_CreateUser (gateway_clients T) body w = (r, w')" and "status r < 400"
  obtains req p n db where "Decode user_body_fields zero_user_body body = (True, req)"
    and "UserServer_CreateUser \<lparr>cu_name = ub_name req, cu_email = ub_email req,
           cu_is_cafe_owner = ub_is_cafe_owner req\<rparr> (user_db w) = (Return p, db)"
    and "w' = w\<lparr>net := n, user_db := db\<rparr>"
    and "r = json_reply StatusCreated (enc_ptr (\<lambda>u. Some (enc_UserProto u)) (cu_user p))"
proof -
  obtain ok req where d: "Decode user_body_fields zero_user_body body = (ok, req)" by fastforce
  have ok: "ok" using assms d by (cases ok) (auto simp: Handlers_CreateUser_def)
  from assms(1) d ok have "(case rpc T ''/user.v1.UserService/CreateUser'' user_db (\<lambda>s. user_db_update (\<lambda>_. s))
      UserServer_CreateUser \<lparr>cu_name = ub_name req, cu_email = ub_email req,
        cu_is_cafe_owner = ub_is_cafe_owner req\<rparr> w of
        (Inl e, w') \<Rightarrow> (handleGRPCError e, w')
      | (Inr p, w') \<Rightarrow> (json_reply StatusCreated (enc_ptr (\<lambda>u. Some (enc_UserProto u)) (cu_user p)), w')) = (r, w')"
    by (simp add: Handlers_CreateUser_def)
  from reply_ok [OF this assms(2)] obtain p where p: "rpc T ''/user.v1.UserService/CreateUser'' user_db
      (\<lambda>s. user_db_update (\<lambda>_. s)) UserServer_CreateUser \<lparr>cu_name = ub_name req, cu_email = ub_email req,
        cu_is_cafe_owner = ub_is_cafe_owner req\<rparr> w = (Inr p, w')"
    and r: "r = json_reply StatusCreated (enc_ptr (\<lambda>u. Some (enc_UserProto u)) (cu_user p))" .
  from p show thesis by (rule rpc_Inr) (use that d ok r in auto)
qed

lemma CreateMenuItem_reply:
  assumes "Handlers_CreateMenuItem (gateway_clients T) body w = (r, w')" and "status r < 400"
  obtains req p n db where "Decode menu_body_fields zero_menu_body body = (True, req)"
    and "MenuServer_CreateMenuItem \<lparr>cm_name = mb_name req, cm_description = mb_description req,
           cm_price = mb_price req\<rparr> (menu_db w) = (Return p, db)"
    and "w' = w\<lparr>net := n, menu_db := db\<rparr>"
    and "r = json_reply StatusCreated (enc_ptr enc_MenuItemProto (cm_menu_item p))"
proof -
  obtain ok req where d: "Decode menu_body_fields zero_menu_body body = (ok, req)" by fastforce
  have ok: "ok" using assms d by (cases ok) (auto simp: Handlers_CreateMenuItem_def)
  from assms(1) d ok have "(case rpc T ''/menu.v1.MenuService/CreateMenuItem'' menu_db (\<lambda>s. menu_db_update (\<lambda>_. s))
      MenuServer_CreateMenuItem \<lparr>cm_name = mb_name req, cm_description = mb_description req,
        cm_price = mb_price req\<rparr> w of
        (Inl e, w') \<Rightarrow> (handleGRPCError e, w')
      | (Inr p, w') \<Rightarrow> (json_reply StatusCreated (enc_ptr enc_MenuItemProto (cm_menu_item p)), w')) = (r, w')"
    by (simp add: Handlers_CreateMenuItem_def)
  from reply_ok [OF this assms(2)] obtain p where p: "rpc T ''/menu.v1.MenuService/CreateMenuItem'' menu_db
      (\<lambda>s. menu_db_update (\<lambda>_. s)) MenuServer_CreateMenuItem \<lparr>cm_name = mb_name req,
        cm_description = mb_description req, cm_price = mb_price req\<rparr> w = (Inr p, w')"
    and r: "r = json_reply StatusCreated (enc_ptr enc_MenuItemProto (cm_menu_item p))" .
  from p show thesis by (rule rpc_Inr) (use that d ok r in auto)
qed

lemma CreateOrder_reply:
  assumes "Handlers_CreateOrder (gateway_clients T) body w = (r, w')" and "status r < 400"
  obtains req p n st where "Decode order_body_fields zero_order_body body = (True, req)"
    and "OrderServer_CreateOrder (tp_err_text T) (order_server T)
           \<lparr>co_user_id = ob_user_id req, co_items = map to_order_item (ob_items req)\<rparr>
           (w\<lparr>net := n\<rparr>, order_db w) = (Return p, st)"
    and "w' = (fst st)\<lparr>order_db := snd st\<rparr>"
    and "r = json_reply StatusCreated (enc_ptr enc_OrderProto (co_order p))"
proof -
  obtain ok req where d: "Decode order_body_fields zero_order_body body = (ok, req)" by fastforce
  have ok: "ok" using assms d by (cases ok) (auto simp: Handlers_CreateOrder_def)
  from assms(1) d ok have "(case rpc T ''/order.v1.OrderService/CreateOrder'' order_state put_order_state
      (OrderServer_CreateOrder (tp_err_text T) (order_server T))
      \<lparr>co_user_id = ob_user_id req, co_items = map to_order_item (ob_items req)\<rparr> w of
        (Inl e, w') \<Rightarrow> (handleGRPCError e, w')
      | (Inr p, w') \<Rightarrow> (json_reply StatusCreated (enc_ptr enc_OrderProto (co_order p)), w')) = (r, w')"
    by (simp add: Handlers_CreateOrder_def Let_def)
  from reply_ok [OF this assms(2)] obtain p where p: "rpc T ''/order.v1.OrderService/CreateOrder'' order_state
      put_order_state (OrderServer_CreateOrder (tp_err_text T) (order_server T))
      \<lparr>co_user_id = ob_user_id req, co_items = map to_order_item (ob_items req)\<rparr> w = (Inr p, w')"
    and r: "r = json_reply StatusCreated (enc_ptr enc_OrderProto (co_order p))" .
  from p show thesis
    by (rule rpc_Inr) (use that d ok r in \<open>auto simp: order_state_def put_order_state_def\<close>)
qed

subsection \<open>Reading through the gateway when the services answer\<close>

lemma ParseUint_fmt [simp]: "ParseUint 32 (fmt_uint (i :: uint32)) = Some (unat i)"
  using unsigned_less [of i, where ?'a = nat] by (simp add: fmt_uint_def ParseUint_dec_of_nat)

lemma segment_fmt [simp]: "segment (fmt_uint i)"
  using dec_of_nat_digits [of "CHR ''/''" "unat i"]
  by (auto simp: segment_def fmt_uint_def digit_val_def)

text \<open>A call on a transport that delivers is the method's own answer.\<close>

lemma rpc_delivered:
  assumes "reliable T" and "\<And>n. \<exists>s. f q (get (w\<lparr>net := n\<rparr>)) = (y, s)"
  shows "\<exists>w'. rpc T meth get put f q w = (finish T Delivered y, w')"
proof -
  from rpc_reliable [OF assms(1), of meth get put f q w] obtain n where "rpc T meth get put f q w =
    (case f q (get (w\<lparr>net := n\<rparr>)) of (y, s) \<Rightarrow> (finish T Delivered y, put s (w\<lparr>net := n\<rparr>)))" by blast
  with assms(2) [of n] show ?thesis by auto
qed

lemma finish_Delivered [simp]:
  "finish T Delivered (Return p) = Inr p" "finish T Delivered (Error e) = Inl e"
  by (simp_all add: finish_def)

lemma gateway_GetUser:
  assumes "backends_up T w"
  shows "case user_rows (user_db w) (uint_of_uint32 i) of
      None \<Rightarrow> \<exists>w'. Handlers_GetUser (gateway_clients T) (fmt_uint i) w = (http_Error ''user not found'' StatusNotFound, w')
    | Some d \<Rightarrow> \<exists>u w'. Handlers_GetUser (gateway_clients T) (fmt_uint i) w =
        (json_reply StatusOK (Some (enc_UserProto u)), w') \<and> proto_user_data u = (i, d)"
proof -
  from assms have ok: "gorm_ok user_cols (user_db w)" "gorm_up (user_db w)" "reliable T"
    by (auto simp: backends_up_def backends_ok_def)
  obtain y db where y: "UserServer_GetUser \<lparr>gu_id = i\<rparr> (user_db w) = (y, db)" by fastforce
  obtain w' where w': "rpc T ''/user.v1.UserService/GetUser'' user_db (\<lambda>s. user_db_update (\<lambda>_. s))
      UserServer_GetUser \<lparr>gu_id = i\<rparr> w = (finish T Delivered y, w')"
    using rpc_delivered [OF ok(3), where f = UserServer_GetUser and q = "\<lparr>gu_id = i\<rparr>" and get = user_db and w = w and y = y] y
    by auto
  obtain x db1 where f: "DB_First (uint_of_uint32 i) (user_db w) = (x, db1)" by fastforce
  note up = DB_First_up [OF ok(1,2) f]
  show ?thesis
  proof (cases "contents (user_db w) (uint_of_uint32 i)")
    case None
    with up f y have "y = Error (StatusError NotFound ''user not found'')" by (auto simp: UserServer_GetUser_def)
    with None w' show ?thesis by (simp add: Handlers_GetUser_def user_rows_def)
  next
    case (Some t)
    with up obtain u where u: "x = Inr u" "user_cols u = user_cols t" "ID u = uint_of_uint32 i" by auto
    with f y have "y = Return \<lparr>gu_user = Some (user_modelToProto u)\<rparr>" by (auto simp: UserServer_GetUser_def)
    with Some w' u show ?thesis
      by (auto simp: Handlers_GetUser_def user_rows_def enc_ptr_def intro!: exI [where x = "user_modelToProto u"])
  qed
qed

lemma gateway_GetMenuItem:
  assumes "backends_up T w"
  shows "case menu_rows (menu_db w) (uint_of_uint32 i) of
      None \<Rightarrow> \<exists>w'. Handlers_GetMenuItem (gateway_clients T) (fmt_uint i) w = (http_Error ''menu item not found'' StatusNotFound, w')
    | Some d \<Rightarrow> \<exists>u w'. Handlers_GetMenuItem (gateway_clients T) (fmt_uint i) w =
        (json_reply StatusOK (enc_MenuItemProto u), w') \<and> proto_menu_data u = (i, d)"
proof -
  from assms have ok: "gorm_ok menu_cols (menu_db w)" "gorm_up (menu_db w)" "reliable T"
    by (auto simp: backends_up_def backends_ok_def)
  obtain y db where y: "MenuServer_GetMenuItem \<lparr>gm_id = i\<rparr> (menu_db w) = (y, db)" by fastforce
  obtain w' where w': "rpc T ''/menu.v1.MenuService/GetMenuItem'' menu_db (\<lambda>s. menu_db_update (\<lambda>_. s))
      MenuServer_GetMenuItem \<lparr>gm_id = i\<rparr> w = (finish T Delivered y, w')"
    using rpc_delivered [OF ok(3), where f = MenuServer_GetMenuItem and q = "\<lparr>gm_id = i\<rparr>" and get = menu_db and w = w and y = y] y
    by auto
  obtain x db1 where f: "DB_First (uint_of_uint32 i) (menu_db w) = (x, db1)" by fastforce
  note up = DB_First_up [OF ok(1,2) f]
  show ?thesis
  proof (cases "contents (menu_db w) (uint_of_uint32 i)")
    case None
    with up f y have "y = Error (StatusError NotFound ''menu item not found'')" by (auto simp: MenuServer_GetMenuItem_def)
    with None w' show ?thesis by (simp add: Handlers_GetMenuItem_def menu_rows_def)
  next
    case (Some t)
    with up obtain u where u: "x = Inr u" "menu_cols u = menu_cols t" "ID u = uint_of_uint32 i" by auto
    with f y have "y = Return \<lparr>gm_menu_item = Some (menu_modelToProto u)\<rparr>" by (auto simp: MenuServer_GetMenuItem_def)
    with Some w' u show ?thesis
      by (auto simp: Handlers_GetMenuItem_def menu_rows_def enc_ptr_def intro!: exI [where x = "menu_modelToProto u"])
  qed
qed

lemma gateway_GetOrder:
  assumes "reliable T" and "gorm_ok order_cols (order_db w)" and "gorm_up (order_db w)"
  shows "case order_rows32 (order_db w) (uint_of_uint32 i) of
      None \<Rightarrow> \<exists>w'. Handlers_GetOrder (gateway_clients T) (fmt_uint i) w = (http_Error ''order not found'' StatusNotFound, w')
    | Some d \<Rightarrow> \<exists>u w'. Handlers_GetOrder (gateway_clients T) (fmt_uint i) w =
        (json_reply StatusOK (enc_OrderProto u), w') \<and> proto_order_data u = (i, d)"
proof -
  obtain x db1 where f: "DB_First (uint_of_uint32 i) (order_db w) = (x, db1)" by fastforce
  define y where "y = (case x of Inl e \<Rightarrow> Error (StatusError NotFound ''order not found'')
    | Inr r \<Rightarrow> Return \<lparr>go_order = Some (order_modelToProto r)\<rparr>)"
  have "\<exists>s. OrderServer_GetOrder \<lparr>go_id = i\<rparr> (order_state (w\<lparr>net := n\<rparr>)) = (y, s)" for n
    using f by (auto simp: OrderServer_GetOrder_def order_state_def y_def split: sum.splits)
  from rpc_delivered [OF assms(1), where f = OrderServer_GetOrder and get = order_state and w = w, OF this]
  obtain w' where w': "rpc T ''/order.v1.OrderService/GetOrder'' order_state
      put_order_state OrderServer_GetOrder \<lparr>go_id = i\<rparr> w = (finish T Delivered y, w')" by blast
  note up = DB_First_up [OF assms(2,3) f]
  show ?thesis
  proof (cases "contents (order_db w) (uint_of_uint32 i)")
    case None
    with up have "y = Error (StatusError NotFound ''order not found'')" by (simp add: y_def)
    with None w' show ?thesis by (simp add: Handlers_GetOrder_def order_rows32_def order_rows_def)
  next
    case (Some t)
    with up obtain u where u: "x = Inr u" "order_cols u = order_cols t" "ID u = uint_of_uint32 i" by auto
    then have "y = Return \<lparr>go_order = Some (order_modelToProto u)\<rparr>" by (simp add: y_def)
    with Some w' u show ?thesis
      by (auto simp: Handlers_GetOrder_def order_rows32_def order_rows_def enc_ptr_def
          intro!: exI [where x = "order_modelToProto u"])
  qed
qed

lemma cafe_http_routes:
  assumes "chi_law chi"
  shows "cafe_http T chi miss ''POST'' ''/api/users'' body w = Handlers_CreateUser (gateway_clients T) body w"
    and "cafe_http T chi miss ''POST'' ''/api/menu'' body w = Handlers_CreateMenuItem (gateway_clients T) body w"
    and "cafe_http T chi miss ''POST'' ''/api/orders'' body w = Handlers_CreateOrder (gateway_clients T) body w"
    and "cafe_http T chi miss ''GET'' ''/api/users'' body w = Handlers_GetUsers (gateway_clients T) w"
    and "cafe_http T chi miss ''GET'' ''/api/menu'' body w = Handlers_GetMenu (gateway_clients T) w"
    and "cafe_http T chi miss ''GET'' ''/api/orders'' body w = Handlers_GetOrders (gateway_clients T) w"
    and "segment seg \<Longrightarrow> cafe_http T chi miss ''GET'' (''/api/users/'' @ seg) body w = Handlers_GetUser (gateway_clients T) seg w"
    and "segment seg \<Longrightarrow> cafe_http T chi miss ''GET'' (''/api/menu/'' @ seg) body w = Handlers_GetMenuItem (gateway_clients T) seg w"
    and "segment seg \<Longrightarrow> cafe_http T chi miss ''GET'' (''/api/orders/'' @ seg) body w = Handlers_GetOrder (gateway_clients T) seg w"
  unfolding cafe_http_def
  by (rule gateway_posts [OF assms] gateway_lists [OF assms] gateway_gets [OF assms]; assumption?)+

text \<open>The call of \<open>CreateOrder\<close> on the composed services, as a client of the order service sees it.\<close>

lemma CreateOrder_call:
  assumes ok: "backends_ok w" "gorm_ok order_cols (order_db w)"
    and call: "oc_CreateOrder (NewOrderServiceClient (order_conn T)) req w = (x, w')"
  shows "(\<forall>p. x = Inr p \<longrightarrow> (\<exists>ord k. place_order (known_user w) (menu_price w) req = Some ord \<and>
      k \<noteq> 0 \<and> order_rows (order_db w) k = None \<and> order_rows (order_db w') = (order_rows (order_db w))(k \<mapsto> order_cols ord) \<and>
      map_option proto_order_data (co_order p) = Some (uint32_of_uint k, narrow_order (order_cols ord)))) \<and>
    (place_order (known_user w) (menu_price w) req = None \<longrightarrow>
      (\<exists>e. x = Inl e) \<and> order_rows (order_db w') = order_rows (order_db w))"
proof -
  have rpc: "rpc T ''/order.v1.OrderService/CreateOrder'' order_state put_order_state
      (OrderServer_CreateOrder (tp_err_text T) (order_server T)) req w = (x, w')"
    using call by (simp add: NewOrderServiceClient_def stubs)
  from rpc show ?thesis
  proof (cases rule: rpcE)
    case (lost e n)
    then show ?thesis by simp
  next
    case (run out n y st)
    obtain w1 db where st: "st = (w1, db)" by fastforce
    have c: "OrderServer_CreateOrder (tp_err_text T) (order_server T) req (w\<lparr>net := n\<rparr>, order_db w) = (y, (w1, db))"
      using run(1) by (simp add: order_state_def st)
    have w': "order_db w' = db" by (simp add: run(2) st put_order_state_def)
    have ok1: "backends_ok (w\<lparr>net := n\<rparr>)" using ok(1) by simp
    show ?thesis
    proof (intro conjI allI impI)
      fix p assume "x = Inr p"
      with run(3) have "y = Return p" by (simp add: finish_Inr [OF sym])
      from cafe_orders.CreateOrder_refines [OF ok1 ok(2) c [unfolded this]] show
        "\<exists>ord k. place_order (known_user w) (menu_price w) req = Some ord \<and> k \<noteq> 0 \<and> order_rows (order_db w) k = None \<and>
          order_rows (order_db w') = (order_rows (order_db w))(k \<mapsto> order_cols ord) \<and>
          map_option proto_order_data (co_order p) = Some (uint32_of_uint k, narrow_order (order_cols ord))"
        by (simp add: w')
    next
      assume none: "place_order (known_user w) (menu_price w) req = None"
      then have "place_order (known_user (w\<lparr>net := n\<rparr>)) (menu_price (w\<lparr>net := n\<rparr>)) req = None" by simp
      from cafe_orders.CreateOrder_rejects [OF ok1 this, of "tp_err_text T" T "order_db w"] c obtain m where
        y: "y = Error (StatusError InvalidArgument m)" "db = order_db w" by auto
      show "order_rows (order_db w') = order_rows (order_db w)" by (simp add: w' y)
      show "\<exists>e. x = Inl e" unfolding run(3) y finish_def by (cases out) auto
    qed
  qed
qed

end
