(* ===== verification/Cafe_Demo.thy ===== *)
theory Cafe_Demo
  imports Cafe_Http
begin

text \<open>
  A concrete cafe: the three services over tables in memory, a transport that delivers every
  call, and a short scenario through the gateway (a user registers, an item is put on the
  menu, the user orders it). The hypotheses of the system's theorems hold in it.
\<close>

definition perfect :: "unit transport" where
  "perfect =
     \<lparr>tp_route = (\<lambda>_ n. (Delivered, n)), tp_crash = StatusError Unavailable ''connection lost'',
      tp_unknown = StatusError Unimplemented ''unknown method'',
      tp_err_text = (\<lambda>e. case e of StatusError _ m \<Rightarrow> m | PlainError m \<Rightarrow> m)\<rparr>"

lemma reliable_perfect [simp]: "reliable perfect"
  by (simp add: reliable_def perfect_def)

type_synonym demo_cafe = "(User mem, MenuItem mem, Order mem, unit) cafe"

definition demo0 :: demo_cafe where
  "demo0 = \<lparr>user_db = user_mem, menu_db = menu_mem, order_db = order_mem, net = ()\<rparr>"

lemma demo0_fresh: "fresh_system \<lparr>world = demo0, tasks = []\<rparr>"
  by (simp add: fresh_system_def demo0_def backends_ok_def order_rows_def contents_def mem_rows_def)

definition demo_miss :: response where
  "demo_miss = http_Error ''404 page not found'' StatusNotFound"

definition alice_body :: request_body where
  "alice_body = Some (JObj [(''name'', JStr ''Alice''), (''email'', JStr ''alice@cafe'')])"

definition coffee_body :: request_body where
  "coffee_body = Some (JObj [(''name'', JStr ''Coffee''), (''price'', JInt 3)])"

definition order_two_body :: request_body where
  "order_two_body =
     Some (JObj [(''user_id'', JInt 1),
       (''items'', JArr [JObj [(''menu_item_id'', JInt 1), (''quantity'', JInt 2)]])])"

subsection \<open>The scenario\<close>

lemmas demo_eval =
  cafe_http_def gateway_posts [OF chi_ref_law] Decode_def field_def lookup_field_def fold_char_def
  Let_def rpc_def perfect_def DB_Create_def DB_First_def DB_Find_def
  mem_create_def mem_first_def mem_find_def mem_live_def mem_rows_def enc_ptr_def

definition alice :: User where
  "alice = \<lparr>ID = 1, CreatedAt = zero_time, UpdatedAt = zero_time, DeletedAt = None,
            Name = ''Alice'', Email = ''alice@cafe'', IsCafeOwner = False\<rparr>"

definition demo1 :: demo_cafe where
  "demo1 = demo0\<lparr>user_db := user_mem\<lparr>gState := (2, [alice])\<rparr>\<rparr>"

lemma demo_post_user:
  "cafe_http perfect chi_ref demo_miss ''POST'' ''/api/users'' alice_body demo0 =
     (json_reply StatusCreated (Some (enc_UserProto (user_modelToProto alice))), demo1)"
  by (simp add: demo_eval Handlers_CreateUser_def alice_body_def user_body_fields_def zero_user_body_def
      UserServer_CreateUser_def demo0_def demo1_def alice_def user_prep_def finish_def)

lemma float64_3: "float64_of_int 3 = Some 0x4008000000000000"
  by (simp add: float64_of_int_def float64_magnitude_def ilog2.simps Let_def)

definition coffee :: MenuItem where
  "coffee = \<lparr>ID = 1, CreatedAt = zero_time, UpdatedAt = zero_time, DeletedAt = None,
             ItemName = ''Coffee'', Description = [], Price = 0x4008000000000000\<rparr>"

definition demo2 :: demo_cafe where
  "demo2 = demo1\<lparr>menu_db := menu_mem\<lparr>gState := (2, [coffee])\<rparr>\<rparr>"

lemma demo_post_menu:
  "cafe_http perfect chi_ref demo_miss ''POST'' ''/api/menu'' coffee_body demo1 =
     (json_reply StatusCreated (enc_MenuItemProto (menu_modelToProto coffee)), demo2)"
  by (simp add: demo_eval Handlers_CreateMenuItem_def coffee_body_def menu_body_fields_def zero_menu_body_def
      MenuServer_CreateMenuItem_def demo0_def demo1_def demo2_def coffee_def menu_prep_def finish_def float64_3)

definition two_coffees :: Order where
  "two_coffees = \<lparr>ID = 1, CreatedAt = zero_time, UpdatedAt = zero_time, DeletedAt = None,
     UserID = 1, Status = ''pending'',
     OrderItems = [\<lparr>ID = 0, CreatedAt = zero_time, UpdatedAt = zero_time, DeletedAt = None,
       OrderID = 1, MenuItemID = 1, Quantity = 2, ItemPrice = 0x4008000000000000\<rparr>]\<rparr>"

definition demo3 :: demo_cafe where
  "demo3 = demo2\<lparr>order_db := order_mem\<lparr>gState := (2, [two_coffees])\<rparr>\<rparr>"

lemma go_conv_small [simp]:
  "uint_of_uint32 0 = 0" "uint_of_uint32 1 = 1" "int_of_int32 2 = 2" "int32_of_uint32 2 = 2"
  "uint32_of_uint 1 = 1"
  by (simp_all add: uint_of_uint32_def int_of_int32_def int32_of_uint32_def uint32_of_uint_def)

lemma demo_CreateOrder:
  "OrderServer_CreateOrder (tp_err_text perfect) (order_server perfect)
     \<lparr>co_user_id = 1, co_items = [\<lparr>oir_menu_item_id = 1, oir_quantity = 2\<rparr>]\<rparr> (demo2, order_mem) =
   (Return \<lparr>co_order = Some (order_modelToProto two_coffees)\<rparr>, (demo2, order_mem\<lparr>gState := (2, [two_coffees])\<rparr>))"
  by (simp add: OrderServer_CreateOrder_def demo_eval UserServer_GetUser_def MenuServer_GetMenuItem_def
      demo0_def demo1_def demo2_def alice_def coffee_def two_coffees_def new_order_def new_order_item_def
      menu_modelToProto_def order_prep_def finish_def)

lemma demo_order_db [simp]: "order_db demo2 = order_mem" "demo2\<lparr>net := ()\<rparr> = demo2"
  by (simp_all add: demo2_def demo1_def demo0_def)

lemma demo_decode_order:
  "Decode order_body_fields zero_order_body order_two_body =
     (True, \<lparr>ob_user_id = 1, ob_items = [\<lparr>oib_menu_item_id = 1, oib_quantity = 2\<rparr>]\<rparr>)"
  by (simp add: Decode_def order_two_body_def order_body_fields_def order_item_body_fields_def
      zero_order_body_def lookup_field_def field_def)

lemma demo_post_order:
  "cafe_http perfect chi_ref demo_miss ''POST'' ''/api/orders'' order_two_body demo2 =
     (json_reply StatusCreated (enc_OrderProto (order_modelToProto two_coffees)), demo3)"
proof -
  have "net demo2 = ()" by simp
  then have "rpc perfect ''/order.v1.OrderService/CreateOrder'' order_state put_order_state
      (OrderServer_CreateOrder (tp_err_text perfect) (order_server perfect))
      \<lparr>co_user_id = 1, co_items = [\<lparr>oir_menu_item_id = 1, oir_quantity = 2\<rparr>]\<rparr> demo2 =
    (Inr \<lparr>co_order = Some (order_modelToProto two_coffees)\<rparr>, demo3)"
    using demo_CreateOrder
    by (simp add: rpc_def perfect_def finish_def order_state_def put_order_state_def demo3_def)
  then show ?thesis
    by (simp add: cafe_http_def gateway_posts [OF chi_ref_law] Handlers_CreateOrder_def demo_decode_order
        to_order_item_def enc_ptr_def)
qed

subsection \<open>The scenario as a run of the system\<close>

definition demo_request :: CreateOrderRequest where
  "demo_request = \<lparr>co_user_id = 1, co_items = [\<lparr>oir_menu_item_id = 1, oir_quantity = 2\<rparr>]\<rparr>"

lemma demo_steps:
  "cafe_step perfect \<lparr>world = demo0, tasks = []\<rparr> \<lparr>world = demo1, tasks = []\<rparr>"
  "cafe_step perfect \<lparr>world = demo1, tasks = []\<rparr> \<lparr>world = demo2, tasks = []\<rparr>"
proof -
  have "UserServer_CreateUser \<lparr>cu_name = ''Alice'', cu_email = ''alice@cafe'', cu_is_cafe_owner = False\<rparr> (user_db demo0) =
      (Return \<lparr>cu_user = Some (user_modelToProto alice)\<rparr>, user_db demo1)"
    by (simp add: user_eval demo0_def demo1_def alice_def)
  from cafe_step.create_user [of _ "\<lparr>world = demo0, tasks = []\<rparr>" _ "user_db demo1" perfect] this
  show "cafe_step perfect \<lparr>world = demo0, tasks = []\<rparr> \<lparr>world = demo1, tasks = []\<rparr>"
    by (simp add: demo1_def)
  have "MenuServer_CreateMenuItem \<lparr>cm_name = ''Coffee'', cm_description = [], cm_price = 0x4008000000000000\<rparr> (menu_db demo1) =
      (Return \<lparr>cm_menu_item = Some (menu_modelToProto coffee)\<rparr>, menu_db demo2)"
    by (simp add: menu_eval demo0_def demo1_def demo2_def coffee_def)
  from cafe_step.create_menu_item [of _ "\<lparr>world = demo1, tasks = []\<rparr>" _ "menu_db demo2" perfect] this
  show "cafe_step perfect \<lparr>world = demo1, tasks = []\<rparr> \<lparr>world = demo2, tasks = []\<rparr>"
    by (simp add: demo2_def)
qed

lemma demo_order_call:
  "oc_CreateOrder (NewOrderServiceClient (order_conn perfect)) demo_request demo2 =
     (Inr \<lparr>co_order = Some (order_modelToProto two_coffees)\<rparr>, demo3)"
  using demo_CreateOrder
  by (simp add: NewOrderServiceClient_def stubs rpc_def perfect_def finish_def order_state_def put_order_state_def
      demo_request_def demo3_def)

lemma demo_place_order: "\<exists>ord. place_order (known_user demo2) (menu_price demo2) demo_request = Some ord"
proof -
  have "known_user demo2 1" "menu_price demo2 1 = Some 0x4008000000000000"
    by (simp_all add: known_user_def menu_price_def user_rows_def menu_rows_def contents_def demo2_def demo1_def
        demo0_def mem_rows_def alice_def coffee_def menu_cols_def)
  then show ?thesis by (simp add: demo_request_def place_order_def priced_item_def)
qed

text \<open>The order in progress advances three times: the user, the item, the insertion.\<close>

lemma demo_task:
  "order_task_step perfect (Validating demo_request) demo2 = (Pricing demo_request (co_items demo_request) [], demo2)"
  "order_task_step perfect (Pricing demo_request (co_items demo_request) []) demo2 =
     (Pricing demo_request [] [new_order_item 1 2 0x4008000000000000], demo2)"
  "order_task_step perfect (Pricing demo_request [] [new_order_item 1 2 0x4008000000000000]) demo2 =
     (Finished (Return \<lparr>co_order = Some (order_modelToProto two_coffees)\<rparr>), demo3)"
  by (simp_all add: demo_request_def demo_eval UserServer_GetUser_def MenuServer_GetMenuItem_def
      demo0_def demo1_def demo2_def demo3_def alice_def coffee_def two_coffees_def new_order_def
      new_order_item_def menu_modelToProto_def order_prep_def finish_def)

lemma demo_advance:
  assumes "order_task_step perfect t w = (t', w')"
  shows "cafe_step perfect \<lparr>world = w, tasks = [t]\<rparr> \<lparr>world = w', tasks = [t']\<rparr>"
  using cafe_step.advance_order [of 0 "\<lparr>world = w, tasks = [t]\<rparr>" perfect t' w'] assms by simp

lemma demo_run:
  "cafe_reach perfect \<lparr>world = demo0, tasks = []\<rparr> \<lparr>world = demo2, tasks = []\<rparr>"
  "cafe_reach perfect \<lparr>world = demo2, tasks = []\<rparr>
     \<lparr>world = demo3, tasks = [Finished (Return \<lparr>co_order = Some (order_modelToProto two_coffees)\<rparr>)]\<rparr>"
proof -
  show "cafe_reach perfect \<lparr>world = demo0, tasks = []\<rparr> \<lparr>world = demo2, tasks = []\<rparr>"
    by (rule cafe_reach.step [OF cafe_reach.step [OF cafe_reach.start demo_steps(1)] demo_steps(2)])
  have st: "cafe_step perfect \<lparr>world = demo2, tasks = []\<rparr> \<lparr>world = demo2, tasks = [Validating demo_request]\<rparr>"
    using cafe_step.start_order [of perfect "\<lparr>world = demo2, tasks = []\<rparr>" demo_request] by simp
  show "cafe_reach perfect \<lparr>world = demo2, tasks = []\<rparr>
     \<lparr>world = demo3, tasks = [Finished (Return \<lparr>co_order = Some (order_modelToProto two_coffees)\<rparr>)]\<rparr>"
    by (rule cafe_reach.step [OF cafe_reach.step [OF cafe_reach.step [OF cafe_reach.step [OF cafe_reach.start st]
        demo_advance [OF demo_task(1)]] demo_advance [OF demo_task(2)]] demo_advance [OF demo_task(3)]])
qed

lemma cafe_reach_trans: "cafe_reach T s' s'' \<Longrightarrow> cafe_reach T s s' \<Longrightarrow> cafe_reach T s s''"
  by (induction rule: cafe_reach.induct) (auto intro: cafe_reach.intros)

lemma demo_rows:
  "user_rows (user_db demo3) 1 = Some (''Alice'', ''alice@cafe'', False)"
  "menu_rows (menu_db demo3) 1 = Some (''Coffee'', [], 0x4008000000000000)"
  "order_rows (order_db demo3) 1 = Some (1, ''pending'', {#(1, 2, 0x4008000000000000)#})"
  by (simp_all add: demo3_def demo2_def demo1_def demo0_def user_rows_def menu_rows_def order_rows_def
      contents_def mem_rows_def alice_def coffee_def two_coffees_def user_cols_def menu_cols_def
      order_cols_def item_cols_def)

lemma demo_up:
  "backends_up perfect demo0" "backends_up perfect demo1" "backends_up perfect demo2" "backends_up perfect demo3"
  "gorm_ok order_cols (order_db demo2)" "gorm_ok order_cols (order_db demo3)" "gorm_up (order_db demo3)"
  by (simp_all add: backends_up_def backends_ok_def demo3_def demo2_def demo1_def demo0_def)

lemma demo_fit:
  "keys_fit (user_rows (user_db demo3))" "keys_fit (menu_rows (menu_db demo3))"
  "keys_fit (order_rows (order_db demo3))"
  by (auto simp: keys_fit_def demo3_def demo2_def demo1_def demo0_def user_rows_def menu_rows_def order_rows_def
      contents_def mem_rows_def alice_def coffee_def two_coffees_def split: if_splits)

end
