(* ===== verification/Cafe_Boundary.thy ===== *)
theory Cafe_Boundary
  imports Cafe_Demo
begin

text \<open>
  The edges of the composed cafe: what the gateway answers when an identifier does not parse or
  leads to nothing and when an order is refused, quantities that do not fit, and lookups the network
  loses.
\<close>

subsection \<open>Replies\<close>

lemma handleGRPCError_typed:
  "status (handleGRPCError e) \<in> {400, 401, 403, 404, 409, 412, 500, 501, 503} \<and>
   content_type (handleGRPCError e) = ''text/plain; charset=utf-8'' \<and> (\<exists>s. payload (handleGRPCError e) = PText s)"
proof (cases e)
  case (StatusError c m)
  then show ?thesis by (cases c) (simp_all add: http_Error_def)
qed (simp add: http_Error_def)

subsection \<open>Identifiers\<close>

lemma parse_digits_None: "parse_digits acc s = None \<longleftrightarrow> (\<exists>c \<in> set s. digit_val c = None)"
  by (induction acc s rule: parse_digits.induct) (auto split: option.splits)

lemma digit_val_None: "digit_val c = None \<longleftrightarrow> c \<notin> set ''0123456789''"
proof -
  have "digit_val c \<noteq> None" if "c \<in> set ''0123456789''" using that by (auto simp: digit_val_def)
  moreover have "c \<in> set ''0123456789''" if d: "digit_val c \<noteq> None"
  proof -
    define n where "n = (of_char c :: nat)"
    from d have "48 \<le> n \<and> n \<le> 57" by (auto simp: digit_val_def n_def Let_def split: if_splits)
    then have "n = 48 \<or> n = 49 \<or> n = 50 \<or> n = 51 \<or> n = 52 \<or> n = 53 \<or> n = 54 \<or> n = 55 \<or> n = 56 \<or> n = 57" by presburger
    moreover have "c = char_of n" by (simp add: n_def)
    ultimately show ?thesis by (elim disjE) (simp_all add: char_of_def bit_0)
  qed
  ultimately show ?thesis by blast
qed

text \<open>
  An identifier in the path with a character that is no digit, or with a value that does not
  fit 32 bits, is answered 400, and no backend is called.
\<close>

theorem bad_id_refused:
  assumes "chi_law chi" and "segment seg"
    and "(\<exists>c \<in> set seg. c \<notin> set ''0123456789'') \<or> (\<exists>n \<ge> 2 ^ 32. seg = dec_of_nat n)"
  shows "cafe_http T chi miss ''GET'' (''/api/users/'' @ seg) body w = (http_Error ''invalid user ID'' 400, w) \<and>
    cafe_http T chi miss ''GET'' (''/api/menu/'' @ seg) body w = (http_Error ''invalid menu item ID'' 400, w) \<and>
    cafe_http T chi miss ''GET'' (''/api/orders/'' @ seg) body w = (http_Error ''invalid order ID'' 400, w)"
proof -
  have "ParseUint 32 seg = None"
    using assms(3)
  proof
    assume "\<exists>c \<in> set seg. c \<notin> set ''0123456789''"
    then have "parse_digits 0 seg = None" by (simp only: parse_digits_None digit_val_None)
    then show ?thesis by (simp add: ParseUint_def)
  next
    assume "\<exists>n \<ge> 2 ^ 32. seg = dec_of_nat n"
    then obtain n where "n \<ge> 2 ^ 32" "seg = dec_of_nat n" by blast
    then show ?thesis by (simp add: ParseUint_dec_of_nat)
  qed
  then show ?thesis unfolding cafe_http_routes(7-9) [OF assms(1,2)] by (simp add: Handlers_defs)
qed

theorem bad_id_refused_witness:
  "cafe_http perfect chi_ref demo_miss ''GET'' ''/api/users/1x'' None demo1 = (http_Error ''invalid user ID'' 400, demo1)"
  using bad_id_refused [OF chi_ref_law, of "''1x''" perfect demo_miss None demo1] by (simp add: segment_def)

subsection \<open>Lookups decided\<close>

text \<open>A handler that reads one record sees of the path segment only the number it denotes.\<close>

lemma ParseUint_less: "ParseUint b s = Some n \<Longrightarrow> n < 2 ^ b"
  by (auto simp: ParseUint_def split: if_splits option.splits)

lemma ParseUint_key:
  assumes "ParseUint 32 s = Some n"
  shows "uint_of_uint32 (of_nat n) = of_nat n"
proof -
  have "unat (uint_of_uint32 (of_nat n)) = unat (of_nat n :: uint)"
    using ParseUint_less [OF assms] by (simp add: go_conv unsigned_of_nat take_bit_nat_eq_self)
  then show ?thesis by (rule unsigned_word_eqI)
qed

lemma Handlers_Get_number:
  assumes "ParseUint 32 seg = Some n"
  shows "Handlers_GetUser h seg w = Handlers_GetUser h (fmt_uint (of_nat n :: uint32)) w"
    and "Handlers_GetMenuItem h seg w = Handlers_GetMenuItem h (fmt_uint (of_nat n :: uint32)) w"
    and "Handlers_GetOrder h seg w = Handlers_GetOrder h (fmt_uint (of_nat n :: uint32)) w"
proof -
  have "unat (of_nat n :: uint32) = n" using ParseUint_less [OF assms] by (simp add: unsigned_of_nat take_bit_nat_eq_self)
  with assms show "Handlers_GetUser h seg w = Handlers_GetUser h (fmt_uint (of_nat n :: uint32)) w"
    "Handlers_GetMenuItem h seg w = Handlers_GetMenuItem h (fmt_uint (of_nat n :: uint32)) w"
    "Handlers_GetOrder h seg w = Handlers_GetOrder h (fmt_uint (of_nat n :: uint32)) w"
    by (simp_all add: Handlers_defs del: gateway_client_calls)
qed

text \<open>
  C28: What the gateway answers to a lookup is decided by the path and the table. While the network
  delivers and the databases answer, the segment after \<open>/api/users/\<close>, \<open>/api/menu/\<close> or
  \<open>/api/orders/\<close> that is no 32-bit number gets 400 and its own text, without a call; a number under
  which nothing is stored gets 404 and its own text; any other gets 200 with the stored data under
  that number.
\<close>

theorem http_lookup_decided:
  assumes "chi_law chi" and "segment seg" and "backends_up T w"
    and "gorm_ok order_cols (order_db w)" and "gorm_up (order_db w)"
  shows "(case ParseUint 32 seg of
      None \<Rightarrow>
        cafe_http T chi miss ''GET'' (''/api/users/'' @ seg) body w = (http_Error ''invalid user ID'' 400, w) \<and>
        cafe_http T chi miss ''GET'' (''/api/menu/'' @ seg) body w = (http_Error ''invalid menu item ID'' 400, w) \<and>
        cafe_http T chi miss ''GET'' (''/api/orders/'' @ seg) body w = (http_Error ''invalid order ID'' 400, w)
    | Some n \<Rightarrow>
        (case user_rows (user_db w) (of_nat n) of
           None \<Rightarrow> \<exists>w'. cafe_http T chi miss ''GET'' (''/api/users/'' @ seg) body w = (http_Error ''user not found'' 404, w')
         | Some d \<Rightarrow> \<exists>u w'. cafe_http T chi miss ''GET'' (''/api/users/'' @ seg) body w =
             (json_reply 200 (Some (enc_UserProto u)), w') \<and> proto_user_data u = (of_nat n, d)) \<and>
        (case menu_rows (menu_db w) (of_nat n) of
           None \<Rightarrow> \<exists>w'. cafe_http T chi miss ''GET'' (''/api/menu/'' @ seg) body w = (http_Error ''menu item not found'' 404, w')
         | Some d \<Rightarrow> \<exists>u w'. cafe_http T chi miss ''GET'' (''/api/menu/'' @ seg) body w =
             (json_reply 200 (enc_MenuItemProto u), w') \<and> proto_menu_data u = (of_nat n, d)) \<and>
        (case order_rows32 (order_db w) (of_nat n) of
           None \<Rightarrow> \<exists>w'. cafe_http T chi miss ''GET'' (''/api/orders/'' @ seg) body w = (http_Error ''order not found'' 404, w')
         | Some d \<Rightarrow> \<exists>u w'. cafe_http T chi miss ''GET'' (''/api/orders/'' @ seg) body w =
             (json_reply 200 (enc_OrderProto u), w') \<and> proto_order_data u = (of_nat n, d)))"
proof (cases "ParseUint 32 seg")
  case None
  then show ?thesis unfolding cafe_http_routes(7-9) [OF assms(1,2)] by (simp add: Handlers_defs)
next
  case (Some n)
  note k = ParseUint_key [OF Some]
  have "reliable T" using assms(3) by (simp add: backends_up_def)
  note h = gateway_GetUser [OF assms(3), of "of_nat n"] gateway_GetMenuItem [OF assms(3), of "of_nat n"]
    gateway_GetOrder [OF this assms(4,5), of "of_nat n"]
  show ?thesis
    unfolding cafe_http_routes(7-9) [OF assms(1,2)] Handlers_Get_number [OF Some] Some option.case
    using h unfolding k by (intro conjI) simp_all
qed

theorem http_lookup_decided_witness:
  "(\<exists>w'. cafe_http perfect chi_ref demo_miss ''GET'' ''/api/menu/7'' None demo3 = (http_Error ''menu item not found'' 404, w')) \<and>
   (\<exists>u w'. cafe_http perfect chi_ref demo_miss ''GET'' ''/api/users/01'' None demo3 = (json_reply 200 (Some (enc_UserProto u)), w') \<and>
      proto_user_data u = (1, ''Alice'', ''alice@cafe'', False))"
proof -
  have "segment ''7''" "segment ''01''" by (simp_all add: segment_def)
  note d = http_lookup_decided [OF chi_ref_law this(1) demo_up(4,6,7), of demo_miss None]
    http_lookup_decided [OF chi_ref_law this(2) demo_up(4,6,7), of demo_miss None]
  have n: "ParseUint 32 ''7'' = Some 7" "ParseUint 32 ''01'' = Some 1" by (simp_all add: ParseUint_def digit_val_def)
  have "menu_rows (menu_db demo3) 7 = None"
    by (simp add: demo3_def demo2_def demo1_def menu_rows_def contents_def mem_rows_def coffee_def)
  with d [unfolded n option.case] demo_rows(1) show ?thesis by simp
qed

subsection \<open>Orders through the gateway\<close>

text \<open>What an order the gateway reports as created has left in the order service's database.\<close>

lemma gateway_order_stored:
  assumes "backends_ok w" and "gorm_ok order_cols (order_db w)"
    and "Handlers_CreateOrder (gateway_clients T) body w = (r, w1)" and "status r < 400"
  obtains req ord k u where "Decode order_body_fields zero_order_body body = (True, req)"
    and "place_order (known_user w) (menu_price w)
      \<lparr>co_user_id = ob_user_id req, co_items = map to_order_item (ob_items req)\<rparr> = Some ord"
    and "order_rows (order_db w1) = (order_rows (order_db w))(k \<mapsto> order_cols ord)"
    and "r = json_reply StatusCreated (enc_OrderProto u)"
    and "proto_order_data u = (uint32_of_uint k, narrow_order (order_cols ord))"
proof -
  obtain req p n st where req: "Decode order_body_fields zero_order_body body = (True, req)"
    and c: "OrderServer_CreateOrder (tp_err_text T) (order_server T)
           \<lparr>co_user_id = ob_user_id req, co_items = map to_order_item (ob_items req)\<rparr>
           (w\<lparr>net := n\<rparr>, order_db w) = (Return p, st)"
    and w1: "w1 = (fst st)\<lparr>order_db := snd st\<rparr>"
    and r: "r = json_reply StatusCreated (enc_ptr enc_OrderProto (co_order p))"
    using assms(3,4) by (rule CreateOrder_reply)
  have ok: "backends_ok (w\<lparr>net := n\<rparr>)" using assms(1) by simp
  have c': "OrderServer_CreateOrder (tp_err_text T) (order_server T)
           \<lparr>co_user_id = ob_user_id req, co_items = map to_order_item (ob_items req)\<rparr>
           (w\<lparr>net := n\<rparr>, order_db w) = (Return p, (fst st, snd st))" using c by simp
  from cafe_orders.CreateOrder_refines [OF ok assms(2) c'] obtain ord k where
    ord: "place_order (known_user w) (menu_price w)
        \<lparr>co_user_id = ob_user_id req, co_items = map to_order_item (ob_items req)\<rparr> = Some ord"
      "order_rows (snd st) = (order_rows (order_db w))(k \<mapsto> order_cols ord)"
      "map_option proto_order_data (co_order p) = Some (uint32_of_uint k, narrow_order (order_cols ord))"
    unfolding cafe_views_net by metis
  from ord(3) obtain u where u: "co_order p = Some u"
    "proto_order_data u = (uint32_of_uint k, narrow_order (order_cols ord))" by auto
  from r u(1) have "r = json_reply StatusCreated (enc_OrderProto u)" by (simp add: enc_ptr_def)
  moreover have "order_rows (order_db w1) = (order_rows (order_db w))(k \<mapsto> order_cols ord)" by (simp add: w1 ord(2))
  ultimately show thesis using that req ord(1) u(2) by blast
qed

text \<open>An order on a network that delivers is the method's own answer.\<close>

lemma gateway_order_delivered:
  assumes "chi_law chi" and "backends_up T w" and d: "Decode order_body_fields zero_order_body body = (True, b)"
  obtains n x w1 db where "OrderServer_CreateOrder (tp_err_text T) (order_server T)
      \<lparr>co_user_id = ob_user_id b, co_items = map to_order_item (ob_items b)\<rparr> (w\<lparr>net := n\<rparr>, order_db w) = (x, (w1, db))"
    and "cafe_http T chi miss ''POST'' ''/api/orders'' body w =
      (case finish T Delivered x of
         Inl err \<Rightarrow> handleGRPCError err
       | Inr resp \<Rightarrow> json_reply 201 (enc_ptr enc_OrderProto (co_order resp)), w1\<lparr>order_db := db\<rparr>)"
    and "known_user w1 = known_user w" and "menu_price w1 = menu_price w"
proof -
  let ?req = "\<lparr>co_user_id = ob_user_id b, co_items = map to_order_item (ob_items b)\<rparr>"
  obtain out n where r: "tp_route T ''/order.v1.OrderService/CreateOrder'' (net w) = (out, n)" by fastforce
  with assms(2) have out: "out = Delivered" unfolding backends_up_def reliable_def by (metis fst_conv)
  have ok: "backends_ok (w\<lparr>net := n\<rparr>)" using assms(2) by (simp add: backends_up_def)
  obtain x w1 db where c: "OrderServer_CreateOrder (tp_err_text T) (order_server T) ?req (w\<lparr>net := n\<rparr>, order_db w) = (x, (w1, db))"
    by (metis prod.exhaust)
  from cafe_orders.CreateOrder_frame [OF ok c] have "known_user w1 = known_user w" "menu_price w1 = menu_price w" by simp_all
  moreover have "cafe_http T chi miss ''POST'' ''/api/orders'' body w =
      (case finish T Delivered x of
         Inl err \<Rightarrow> handleGRPCError err
       | Inr resp \<Rightarrow> json_reply 201 (enc_ptr enc_OrderProto (co_order resp)), w1\<lparr>order_db := db\<rparr>)"
    using d r out c
    by (simp add: cafe_http_routes(3) [OF assms(1)] Handlers_CreateOrder_def rpc_def order_state_def put_order_state_def
        split: sum.split)
  ultimately show thesis using c that by blast
qed

text \<open>
  C27: What the gateway answers to an order is decided by the specification. While the network
  delivers and the other two services answer: a body that cannot be decoded gets 400 and changes
  nothing; a request that \<open>place_order\<close> refuses gets 400 and does not touch the order database; of
  any other request the order \<open>place_order\<close> prescribes is inserted, which decides between 201 with
  the JSON of the stored order and 500 with the database's message. Users and prices stay.
\<close>

theorem http_order_decided:
  assumes "chi_law chi" and "backends_up T w"
  shows "case Decode order_body_fields zero_order_body body of
      (False, _) \<Rightarrow> cafe_http T chi miss ''POST'' ''/api/orders'' body w = (http_Error ''invalid request body'' 400, w)
    | (True, b) \<Rightarrow>
        (case place_order (known_user w) (menu_price w)
            \<lparr>co_user_id = ob_user_id b, co_items = map to_order_item (ob_items b)\<rparr> of
           None \<Rightarrow> \<exists>m w'. cafe_http T chi miss ''POST'' ''/api/orders'' body w = (http_Error m 400, w') \<and>
             order_db w' = order_db w \<and> known_user w' = known_user w \<and> menu_price w' = menu_price w
         | Some ord \<Rightarrow> \<exists>y db w'. DB_Create ord (order_db w) = (y, db) \<and>
             cafe_http T chi miss ''POST'' ''/api/orders'' body w =
               (case y of
                  Inl e \<Rightarrow> http_Error (''failed to create order: '' @ gorm_error_text e) 500
                | Inr r \<Rightarrow> json_reply 201 (enc_OrderProto (order_modelToProto r)), w') \<and>
             order_db w' = db \<and> known_user w' = known_user w \<and> menu_price w' = menu_price w)"
proof (cases "Decode order_body_fields zero_order_body body")
  case (Pair ok b)
  show ?thesis
  proof (cases ok)
    case False
    with Pair show ?thesis by (simp add: cafe_http_routes(3) [OF assms(1)] Handlers_CreateOrder_def)
  next
    case True
    let ?req = "\<lparr>co_user_id = ob_user_id b, co_items = map to_order_item (ob_items b)\<rparr>"
    have d: "Decode order_body_fields zero_order_body body = (True, b)" using Pair True by simp
    obtain n x w1 db where c: "OrderServer_CreateOrder (tp_err_text T) (order_server T) ?req (w\<lparr>net := n\<rparr>, order_db w) = (x, (w1, db))"
      and http: "cafe_http T chi miss ''POST'' ''/api/orders'' body w =
        (case finish T Delivered x of
           Inl err \<Rightarrow> handleGRPCError err
         | Inr resp \<Rightarrow> json_reply 201 (enc_ptr enc_OrderProto (co_order resp)), w1\<lparr>order_db := db\<rparr>)"
      and frame: "known_user w1 = known_user w" "menu_price w1 = menu_price w"
      by (rule gateway_order_delivered [OF assms d])
    have up: "backends_up T (w\<lparr>net := n\<rparr>)" "backends_ok (w\<lparr>net := n\<rparr>)" using assms(2) by (simp_all add: backends_up_def)
    show ?thesis
    proof (cases "place_order (known_user w) (menu_price w) ?req")
      case None
      with cafe_orders.CreateOrder_rejects [OF up(2), of ?req "tp_err_text T" T "order_db w"] c
      obtain m where "x = Error (StatusError InvalidArgument m)" "db = order_db w" by auto
      with http frame d None show ?thesis by auto
    next
      case (Some ord)
      with cafe_orders_up.CreateOrder_complete [OF up(1), of ?req ord "order_db w" "tp_err_text T"] c
      obtain y where "DB_Create ord (order_db w) = (y, db)"
        "x = (case y of
           Inl e \<Rightarrow> Error (StatusError Internal (''failed to create order: '' @ gorm_error_text e))
         | Inr r \<Rightarrow> Return \<lparr>co_order = Some (order_modelToProto r)\<rparr>)" by auto
      with http frame d Some show ?thesis by (cases y) (simp_all add: enc_ptr_def)
    qed
  qed
qed

definition unknown_user_body :: request_body where
  "unknown_user_body = Some (JObj [(''user_id'', JInt 9), (''items'', JArr [])])"

theorem http_order_decided_witness:
  "(\<exists>m w'. cafe_http perfect chi_ref demo_miss ''POST'' ''/api/orders'' unknown_user_body demo2 = (http_Error m 400, w') \<and>
      order_db w' = order_db demo2)"
proof -
  have d: "Decode order_body_fields zero_order_body unknown_user_body = (True, \<lparr>ob_user_id = 9, ob_items = []\<rparr>)"
    by (simp add: Decode_def unknown_user_body_def order_body_fields_def zero_order_body_def lookup_field_def field_def)
  have "\<not> known_user demo2 9"
    by (simp add: known_user_def user_rows_def contents_def demo2_def demo1_def mem_rows_def alice_def uint_of_uint32_def)
  then have "place_order (known_user demo2) (menu_price demo2) \<lparr>co_user_id = 9, co_items = []\<rparr> = None"
    by (simp add: place_order_def)
  with http_order_decided [OF chi_ref_law demo_up(3), of demo_miss unknown_user_body] d show ?thesis by auto
qed

text \<open>The signed reading of an unsigned 32-bit quantity.\<close>

lemma sint_int32_of_uint32:
  "sint (int_of_int32 (int32_of_uint32 q)) = (if unat q < 2 ^ 31 then int (unat q) else int (unat q) - 2 ^ 32)"
proof -
  define k where "k = Word.uint q"
  have k: "0 \<le> k" "k < 4294967296" using uint_lt2p [of q] by (simp_all add: k_def)
  have u: "int (unat q) = k" by (simp add: k_def)
  have "sint q = (k + 2147483648) mod 4294967296 - 2147483648"
    by (simp add: sint_uint signed_take_bit_eq_take_bit_shift take_bit_eq_mod k_def)
  also have "\<dots> = (if k < 2147483648 then k else k - 4294967296)"
  proof (cases "k < 2147483648")
    case True
    with k show ?thesis by (simp add: mod_pos_pos_trivial)
  next
    case False
    then have "(k + 2147483648) mod 4294967296 = (k - 2147483648 + 1 * 4294967296) mod 4294967296" by (simp add: add.commute)
    also have "\<dots> = k - 2147483648" using False k unfolding mod_mult_self1 by (simp add: mod_pos_pos_trivial)
    finally show ?thesis using False by simp
  qed
  finally have s: "sint q = (if k < 2147483648 then k else k - 4294967296)" .
  have "unat q < 2147483648 \<longleftrightarrow> int (unat q) < 2147483648" by linarith
  then have "unat q < 2147483648 \<longleftrightarrow> k < 2147483648" unfolding u .
  with s u show ?thesis by (simp add: go_conv)
qed

text \<open>
  C30: The quantities of a stored order. The gateway reads a quantity as an unsigned 32-bit number
  and passes it on as a signed one, and nothing checks it: below \<open>2 ^ 31\<close> an accepted order stores
  the quantity of the body, and from there on it stores a negative one, smaller by \<open>2 ^ 32\<close>.
\<close>

theorem order_quantity_wraps:
  assumes "chi_law chi" and "backends_ok w" and "gorm_ok order_cols (order_db w)"
    and "cafe_http T chi miss ''POST'' ''/api/orders'' body w = (r, w1)" and "status r = StatusCreated"
  shows "\<exists>req k uid items. Decode order_body_fields zero_order_body body = (True, req) \<and>
    order_rows (order_db w1) k = Some (uid, ''pending'', items) \<and>
    image_mset (\<lambda>(m, q, p). (unat m, sint q)) items =
      mset (map (\<lambda>it. (unat (oib_menu_item_id it),
        if unat (oib_quantity it) < 2 ^ 31 then int (unat (oib_quantity it)) else int (unat (oib_quantity it)) - 2 ^ 32))
        (ob_items req))"
proof -
  have "Handlers_CreateOrder (gateway_clients T) body w = (r, w1)" "status r < 400"
    using assms(4,5) by (simp_all add: cafe_http_routes(3) [OF assms(1)])
  then obtain req ord k u where req: "Decode order_body_fields zero_order_body body = (True, req)"
    and ord: "place_order (known_user w) (menu_price w)
      \<lparr>co_user_id = ob_user_id req, co_items = map to_order_item (ob_items req)\<rparr> = Some ord"
    and rows: "order_rows (order_db w1) = (order_rows (order_db w))(k \<mapsto> order_cols ord)"
    by (rule gateway_order_stored [OF assms(2,3)])
  from ord obtain items where items: "price_items (menu_price w) (map to_order_item (ob_items req)) = Some items"
    and ord': "ord = new_order (uint_of_uint32 (ob_user_id req)) items" by (auto simp: place_order_def split: if_splits)
  have "order_rows (order_db w1) k = Some (UserID ord, ''pending'', mset (map item_cols items))"
    by (simp add: rows order_cols_def ord' new_order_def)
  moreover have "image_mset (\<lambda>(m, q, p). (unat m, sint q)) (mset (map item_cols items)) =
      mset (map (\<lambda>it. (unat (oib_menu_item_id it),
        if unat (oib_quantity it) < 2 ^ 31 then int (unat (oib_quantity it)) else int (unat (oib_quantity it)) - 2 ^ 32))
        (ob_items req))"
    unfolding price_items_cols [OF items] mset_map [symmetric] map_map
    by (rule arg_cong [where f = mset]) (simp add: to_order_item_def comp_def sint_int32_of_uint32 unat_uint_of_uint32)
  ultimately show ?thesis using req by blast
qed

definition huge_body :: request_body where
  "huge_body =
     Some (JObj [(''user_id'', JInt 1),
       (''items'', JArr [JObj [(''menu_item_id'', JInt 1), (''quantity'', JInt 4294967295)]])])"

lemma huge_decode:
  "Decode order_body_fields zero_order_body huge_body =
     (True, \<lparr>ob_user_id = 1, ob_items = [\<lparr>oib_menu_item_id = 1, oib_quantity = 4294967295\<rparr>]\<rparr>)"
  by (simp add: Decode_def huge_body_def order_body_fields_def order_item_body_fields_def
      zero_order_body_def lookup_field_def field_def)

lemma huge_created:
  "status (fst (cafe_http perfect chi_ref demo_miss ''POST'' ''/api/orders'' huge_body demo2)) = StatusCreated"
  by (simp add: cafe_http_routes(3) [OF chi_ref_law] Handlers_CreateOrder_def huge_decode to_order_item_def Let_def
      rpc_def perfect_def order_state_def put_order_state_def OrderServer_CreateOrder_def UserServer_GetUser_def
      MenuServer_GetMenuItem_def DB_Create_def DB_First_def mem_create_def mem_first_def mem_live_def mem_rows_def
      demo0_def demo1_def demo2_def alice_def coffee_def new_order_def new_order_item_def menu_modelToProto_def
      order_prep_def finish_def)

theorem order_quantity_wraps_witness:
  "\<exists>k uid items. order_rows (order_db (snd (cafe_http perfect chi_ref demo_miss ''POST'' ''/api/orders'' huge_body demo2))) k =
      Some (uid, ''pending'', items) \<and> image_mset (\<lambda>(m, q, p). (unat m, sint q)) items = {#(1, - 1)#}"
proof -
  have ok: "backends_ok demo2" using demo_up(3) by (simp add: backends_up_def)
  from order_quantity_wraps [OF chi_ref_law ok demo_up(5) prod.collapse [symmetric] huge_created]
  show ?thesis by (simp add: huge_decode)
qed

subsection \<open>Lost lookups\<close>

text \<open>
  C31: A failure of the network is reported as a mistake of the client. When the order service's
  call to the user service is lost, the gateway answers 400, also for a user that exists; nothing is
  stored.
\<close>

theorem lost_lookup_blames_client:
  assumes "chi_law chi" and "Decode order_body_fields zero_order_body body = (True, req)"
    and "tp_route T ''/order.v1.OrderService/CreateOrder'' (net w) = (Delivered, n)"
    and "tp_route T ''/user.v1.UserService/GetUser'' n = (RequestLost e, n')"
  shows "cafe_http T chi miss ''POST'' ''/api/orders'' body w =
    (http_Error (''user not found: '' @ tp_err_text T e) 400, w\<lparr>net := n'\<rparr>)"
  using assms
  by (simp add: cafe_http_routes(3) Handlers_CreateOrder_def Let_def rpc_def order_state_def put_order_state_def
      OrderServer_CreateOrder_def finish_def)

definition no_users :: "unit transport" where
  "no_users = perfect\<lparr>tp_route := (\<lambda>m n. (if m = ''/user.v1.UserService/GetUser''
     then RequestLost (StatusError Unavailable ''connection refused'') else Delivered, n))\<rparr>"

theorem lost_lookup_blames_client_witness:
  "user_rows (user_db demo2) 1 \<noteq> None \<and>
   cafe_http no_users chi_ref demo_miss ''POST'' ''/api/orders'' order_two_body demo2 =
     (http_Error ''user not found: connection refused'' 400, demo2)"
proof -
  have "user_rows (user_db demo2) 1 \<noteq> None"
    by (simp add: user_rows_def contents_def demo2_def demo1_def mem_rows_def alice_def)
  moreover have "demo2\<lparr>net := ()\<rparr> = demo2" by (simp add: demo2_def demo1_def demo0_def)
  ultimately show ?thesis
    using lost_lookup_blames_client [OF chi_ref_law demo_decode_order, of no_users demo2 "()"
        "StatusError Unavailable ''connection refused''" "()" demo_miss]
    by (simp add: no_users_def perfect_def)
qed

end
