(* ===== verification/Interleaving.thy ===== *)
theory Interleaving
  imports Main
begin

text \<open>
  Handlers that run concurrently. \<open>net/http\<close> and gRPC run every handler in a goroutine of its own;
  what the goroutines share is the state behind the calls they make, and each call is atomic. A
  handler that makes several calls is a task, \<open>adv\<close> its next call, and a system is a shared state
  with a list of tasks: a step starts a task, advances one, or is a call of another handler.

  The locale \<open>interference_free\<close> is the contract of such tasks: a call keeps the invariant of the
  state and establishes what the task knows next, and it falsifies nothing a compatible task knows.
  It is interpreted on the order handler of the Kubernetes cafe. Where calls only grow the state and
  what a task knows survives growth, \<open>interleaved\<close> gives it: the order handlers of the other cafes.
\<close>

inductive task_step ::
  "('t \<Rightarrow> 's \<Rightarrow> 't \<times> 's) \<Rightarrow> ('t \<Rightarrow> bool) \<Rightarrow> ('s \<Rightarrow> 's \<Rightarrow> bool) \<Rightarrow> 's \<times> 't list \<Rightarrow> 's \<times> 't list \<Rightarrow> bool"
  for adv starts other where
  task_starts: "starts t \<Longrightarrow> task_step adv starts other (s, ts) (s, ts @ [t])"
| task_advances: "i < length ts \<Longrightarrow> adv (ts ! i) s = (t, s') \<Longrightarrow> task_step adv starts other (s, ts) (s', ts[i := t])"
| others_move: "other s s' \<Longrightarrow> task_step adv starts other (s, ts) (s', ts)"

inductive task_reach ::
  "('t \<Rightarrow> 's \<Rightarrow> 't \<times> 's) \<Rightarrow> ('t \<Rightarrow> bool) \<Rightarrow> ('s \<Rightarrow> 's \<Rightarrow> bool) \<Rightarrow> 's \<times> 't list \<Rightarrow> 's \<times> 't list \<Rightarrow> bool"
  for adv starts other c where
  reach_start: "task_reach adv starts other c c"
| reach_step: "task_reach adv starts other c c' \<Longrightarrow> task_step adv starts other c' c'' \<Longrightarrow> task_reach adv starts other c c''"

text \<open>A task that runs alone.\<close>

fun run_alone :: "('t \<Rightarrow> 's \<Rightarrow> 't \<times> 's) \<Rightarrow> nat \<Rightarrow> 't \<Rightarrow> 's \<Rightarrow> 't \<times> 's" where
  "run_alone adv 0 t s = (t, s)"
| "run_alone adv (Suc n) t s = (case adv t s of (t', s') \<Rightarrow> run_alone adv n t' s')"

lemma run_alone_stays: "(\<And>s. adv t s = (t, s)) \<Longrightarrow> run_alone adv n t s = (t, s)"
  by (induction n) simp_all

lemma run_alone_reach:
  "task_reach adv starts other c (s, ts @ [t]) \<Longrightarrow> run_alone adv n t s = (t', s') \<Longrightarrow>
     task_reach adv starts other c (s', ts @ [t'])"
proof (induction n arbitrary: t s)
  case (Suc n)
  obtain t1 s1 where a: "adv t s = (t1, s1)" by fastforce
  have "task_step adv starts other (s, ts @ [t]) (s1, ts @ [t1])"
    using task_advances [of "length ts" "ts @ [t]" adv s t1 s1 starts other] a by simp
  from Suc.IH [OF reach_step [OF Suc.prems(1) this]] Suc.prems(2) a show ?case by simp
qed simp

lemma run_at_reach:
  assumes "task_reach adv starts other c (s, ts)" and "i < length ts" and "run_alone adv n (ts ! i) s = (t', s')"
  shows "task_reach adv starts other c (s', ts[i := t'])"
  using assms
proof (induction n arbitrary: s ts)
  case (Suc n)
  obtain t1 s1 where a: "adv (ts ! i) s = (t1, s1)" by fastforce
  have "task_step adv starts other (s, ts) (s1, ts[i := t1])" by (rule task_advances [OF Suc.prems(2)]) (rule a)
  from Suc.IH [OF reach_step [OF Suc.prems(1) this]] Suc.prems(2,3) a show ?case by simp
qed (auto simp: list_update_id)

text \<open>A property of every two tasks at different places.\<close>

definition any_two :: "('t \<Rightarrow> 't \<Rightarrow> bool) \<Rightarrow> 't list \<Rightarrow> bool" where
  "any_two R ts \<longleftrightarrow> (\<forall>i < length ts. \<forall>j < length ts. i \<noteq> j \<longrightarrow> R (ts ! i) (ts ! j))"

lemma any_two_Nil [simp]: "any_two R []"
  by (simp add: any_two_def)

lemma any_two_snoc:
  assumes "any_two R ts" and "\<forall>u \<in> set ts. R t u \<and> R u t"
  shows "any_two R (ts @ [t])"
  using assms by (auto simp: any_two_def nth_append less_Suc_eq)

lemma any_two_update:
  assumes "any_two R ts" and "i < length ts" and "\<And>j. j < length ts \<Longrightarrow> i \<noteq> j \<Longrightarrow> R t (ts ! j) \<and> R (ts ! j) t"
  shows "any_two R (ts[i := t])"
  unfolding any_two_def
proof (intro allI impI)
  fix j k assume "j < length (ts[i := t])" "k < length (ts[i := t])" "j \<noteq> k"
  with assms show "R (ts[i := t] ! j) (ts[i := t] ! k)"
    by (cases "j = i"; cases "k = i") (auto simp: any_two_def)
qed

text \<open>
  Tasks that do not interfere: a call keeps what the task knows, what every task compatible with it
  knows, and the compatibility of the others.
\<close>

locale interference_free =
  fixes adv :: "'t \<Rightarrow> 's \<Rightarrow> 't \<times> 's"
    and ok :: "'s \<Rightarrow> bool"
    and spec :: "'s \<Rightarrow> 't \<Rightarrow> bool"
    and compat :: "'s \<Rightarrow> 't \<Rightarrow> 't \<Rightarrow> bool"
  assumes compat_sym: "compat s t u \<Longrightarrow> compat s u t"
    and adv_own: "ok s \<Longrightarrow> spec s t \<Longrightarrow> adv t s = (t', s') \<Longrightarrow> ok s' \<and> spec s' t'"
    and adv_other: "ok s \<Longrightarrow> spec s t \<Longrightarrow> spec s u \<Longrightarrow> compat s t u \<Longrightarrow> adv t s = (t', s') \<Longrightarrow>
      spec s' u \<and> compat s' t' u"
    and adv_third: "adv t s = (t', s') \<Longrightarrow> compat s u v \<Longrightarrow> compat s' u v"
begin

lemma advance_all:
  assumes "ok s" and all: "\<forall>t \<in> set ts. spec s t" and pw: "any_two (compat s) ts"
    and i: "i < length ts" and a: "adv (ts ! i) s = (t', s')"
  shows "ok s' \<and> (\<forall>t \<in> set (ts[i := t']). spec s' t) \<and> any_two (compat s') (ts[i := t'])"
proof -
  have si: "spec s (ts ! i)" using all i by simp
  have others: "spec s' (ts ! j) \<and> compat s' t' (ts ! j)" if "j < length ts" "i \<noteq> j" for j
    by (rule adv_other [OF assms(1) si _ _ a]) (use all pw i that in \<open>auto simp: any_two_def\<close>)
  have own: "ok s' \<and> spec s' t'" by (rule adv_own [OF assms(1) si a])
  have "spec s' (ts[i := t'] ! j)" if "j < length ts" for j
    using own others [OF that] i by (cases "i = j") simp_all
  then have "\<forall>t \<in> set (ts[i := t']). spec s' t" by (simp add: all_set_conv_all_nth)
  moreover have "any_two (compat s') ts" using pw adv_third [OF a] by (simp add: any_two_def)
  ultimately show ?thesis using own any_two_update [OF _ i] others compat_sym by blast
qed

lemma step_keeps:
  assumes "task_step adv starts other (s, ts) (s', ts')" and "ok s" and "\<forall>t \<in> set ts. spec s t" and "any_two (compat s) ts"
    and "\<And>t u. starts t \<Longrightarrow> spec s t \<and> compat s t u"
    and "other s s' \<Longrightarrow> ok s' \<and> (\<forall>t. spec s t \<longrightarrow> spec s' t) \<and> (\<forall>t u. compat s t u \<longrightarrow> compat s' t u)"
  shows "ok s' \<and> (\<forall>t \<in> set ts'. spec s' t) \<and> any_two (compat s') ts'"
  using assms(1)
proof cases
  case (task_starts t)
  have "any_two (compat s) (ts @ [t])"
    by (rule any_two_snoc) (use assms(4,5) task_starts compat_sym in blast)+
  with task_starts assms(2,3,5) show ?thesis by auto
next
  case (task_advances i t)
  from advance_all [OF assms(2-4) task_advances(2,3)] task_advances(1) show ?thesis by blast
next
  case others_move
  with assms(4,6) have "any_two (compat s') ts" by (simp add: any_two_def)
  with others_move assms(2,3,6) show ?thesis by blast
qed

lemma reach_keeps:
  assumes "task_reach adv starts other (s, ts) (s', ts')" and "ok s" and "\<forall>t \<in> set ts. spec s t" and "any_two (compat s) ts"
    and "\<And>s t u. starts t \<Longrightarrow> spec s t \<and> compat s t u"
    and "\<And>s s'. ok s \<Longrightarrow> other s s' \<Longrightarrow> ok s' \<and> (\<forall>t. spec s t \<longrightarrow> spec s' t) \<and> (\<forall>t u. compat s t u \<longrightarrow> compat s' t u)"
  shows "ok s' \<and> (\<forall>t \<in> set ts'. spec s' t) \<and> any_two (compat s') ts'"
  using assms(1)
proof (induction "(s', ts')" arbitrary: s' ts' rule: task_reach.induct)
  case reach_start
  with assms(2-4) show ?case by simp
next
  case (reach_step c')
  obtain s1 ts1 where c': "c' = (s1, ts1)" by fastforce
  with reach_step(2) have "ok s1" "\<forall>t \<in> set ts1. spec s1 t" "any_two (compat s1) ts1" by blast+
  with step_keeps [OF reach_step(3) [unfolded c']] assms(5,6) show ?case by blast
qed

end

text \<open>Tasks whose calls only grow the state, and which know nothing that growth could falsify.\<close>

locale interleaved =
  fixes adv :: "'t \<Rightarrow> 's \<Rightarrow> 't \<times> 's"
    and ok :: "'s \<Rightarrow> bool"
    and grows :: "'s \<Rightarrow> 's \<Rightarrow> bool"
    and spec :: "'s \<Rightarrow> 't \<Rightarrow> bool"
  assumes spec_grows: "grows s s' \<Longrightarrow> spec s t \<Longrightarrow> spec s' t"
    and adv_keeps: "ok s \<Longrightarrow> spec s t \<Longrightarrow> adv t s = (t', s') \<Longrightarrow> ok s' \<and> grows s s' \<and> spec s' t'"

sublocale interleaved \<subseteq> free: interference_free adv ok spec "\<lambda>_ _ _. True"
  by unfold_locales (use adv_keeps spec_grows in blast)+

context interleaved
begin

lemma advance_all:
  assumes "ok s" and "\<forall>t \<in> set ts. spec s t" and "i < length ts" and "adv (ts ! i) s = (t', s')"
  shows "ok s' \<and> grows s s' \<and> (\<forall>t \<in> set (ts[i := t']). spec s' t)"
  using free.advance_all [OF assms(1,2) _ assms(3,4)] adv_keeps [OF assms(1) _ assms(4)] assms(2,3)
  by (simp add: any_two_def)

lemma reach_keeps:
  assumes "task_reach adv starts other (s, ts) (s', ts')" and "ok s" and "\<forall>t \<in> set ts. spec s t"
    and "\<And>s t. starts t \<Longrightarrow> spec s t" and "\<And>s s'. ok s \<Longrightarrow> other s s' \<Longrightarrow> ok s' \<and> grows s s'"
  shows "ok s' \<and> (\<forall>t \<in> set ts'. spec s' t)"
  using free.reach_keeps [OF assms(1-3)] assms(4,5) spec_grows by (simp add: any_two_def) blast

end

end
