(* ===== verification/Cafe_Requests.thy ===== *)
theory Cafe_Requests
  imports Cafe_Boundary Interleaving
begin

text \<open>
  The cafe as its clients see it. A request to the gateway is a run of the step relation, so what
  every run keeps, every request keeps; an order, whatever runs between its lookups, takes effect in
  one step that the specification prescribes; a valid order in progress completes; and the three
  listings are complete.
\<close>

subsection \<open>A request is a run\<close>

text \<open>\<open>runs T w w'\<close>: from \<open>w\<close> the system can get to \<open>w'\<close>, leaving only finished orders behind.\<close>

definition runs :: "'n transport \<Rightarrow> ('u, 'm, 'o, 'n) cafe \<Rightarrow> ('u, 'm, 'o, 'n) cafe \<Rightarrow> bool" where
  "runs T w w' \<longleftrightarrow> (\<forall>ts. \<exists>xs. cafe_reach T \<lparr>world = w, tasks = ts\<rparr> \<lparr>world = w', tasks = ts @ map Finished xs\<rparr>)"

lemma runs_refl [simp]: "runs T w w"
  unfolding runs_def by (intro allI exI [where x = "[]"]) (simp add: cafe_reach.start)

lemma runs_trans [trans]: "runs T w w' \<Longrightarrow> runs T w' w'' \<Longrightarrow> runs T w w''"
  unfolding runs_def
proof (intro allI)
  fix ts
  assume 1: "\<forall>ts. \<exists>xs. cafe_reach T \<lparr>world = w, tasks = ts\<rparr> \<lparr>world = w', tasks = ts @ map Finished xs\<rparr>"
    and 2: "\<forall>ts. \<exists>xs. cafe_reach T \<lparr>world = w', tasks = ts\<rparr> \<lparr>world = w'', tasks = ts @ map Finished xs\<rparr>"
  from 1 obtain xs where xs: "cafe_reach T \<lparr>world = w, tasks = ts\<rparr> \<lparr>world = w', tasks = ts @ map Finished xs\<rparr>" by blast
  from 2 obtain ys where ys: "cafe_reach T \<lparr>world = w', tasks = ts @ map Finished xs\<rparr>
    \<lparr>world = w'', tasks = (ts @ map Finished xs) @ map Finished ys\<rparr>" by blast
  from cafe_reach_trans [OF ys xs] show
    "\<exists>xs. cafe_reach T \<lparr>world = w, tasks = ts\<rparr> \<lparr>world = w'', tasks = ts @ map Finished xs\<rparr>"
    by (intro exI [where x = "xs @ ys"]) simp
qed

lemma runs_step:
  assumes "\<And>ts. cafe_step T \<lparr>world = w, tasks = ts\<rparr> \<lparr>world = w', tasks = ts\<rparr>"
  shows "runs T w w'"
  unfolding runs_def using assms
  by (intro allI exI [where x = "[]"]) (simp add: cafe_reach.step [OF cafe_reach.start])

lemma runs_network: "runs T w (w\<lparr>net := n\<rparr>)"
  by (rule runs_step) (use cafe_step.network [of T "\<lparr>world = w, tasks = _\<rparr>" n] in simp)

lemma runs_methods:
  "UserServer_CreateUser q1 (user_db w) = (x1, du1) \<Longrightarrow> runs T w (w\<lparr>user_db := du1\<rparr>)"
  "UserServer_GetUser q2 (user_db w) = (x2, du2) \<Longrightarrow> runs T w (w\<lparr>user_db := du2\<rparr>)"
  "UserServer_GetUsers () (user_db w) = (x3, du3) \<Longrightarrow> runs T w (w\<lparr>user_db := du3\<rparr>)"
  "MenuServer_CreateMenuItem q4 (menu_db w) = (x4, dm4) \<Longrightarrow> runs T w (w\<lparr>menu_db := dm4\<rparr>)"
  "MenuServer_GetMenuItem q5 (menu_db w) = (x5, dm5) \<Longrightarrow> runs T w (w\<lparr>menu_db := dm5\<rparr>)"
  "MenuServer_GetMenu () (menu_db w) = (x6, dm6) \<Longrightarrow> runs T w (w\<lparr>menu_db := dm6\<rparr>)"
  "OrderServer_GetOrder q7 (order_state w) = (x7, st7) \<Longrightarrow> runs T w (put_order_state st7 w)"
  "OrderServer_GetOrders () (order_state w) = (x8, st8) \<Longrightarrow> runs T w (put_order_state st8 w)"
  using cafe_step.create_user [of q1 "\<lparr>world = w, tasks = _\<rparr>" x1 du1 T]
    cafe_step.get_user [of q2 "\<lparr>world = w, tasks = _\<rparr>" x2 du2 T]
    cafe_step.get_users [of "()" "\<lparr>world = w, tasks = _\<rparr>" x3 du3 T]
    cafe_step.create_menu_item [of q4 "\<lparr>world = w, tasks = _\<rparr>" x4 dm4 T]
    cafe_step.get_menu_item [of q5 "\<lparr>world = w, tasks = _\<rparr>" x5 dm5 T]
    cafe_step.get_menu [of "()" "\<lparr>world = w, tasks = _\<rparr>" x6 dm6 T]
    cafe_step.get_order [of q7 "\<lparr>world = w, tasks = _\<rparr>" x7 st7 T]
    cafe_step.get_orders [of "()" "\<lparr>world = w, tasks = _\<rparr>" x8 st8 T]
  by (auto intro!: runs_step)

text \<open>An uninterrupted order is a run of its task.\<close>

lemma run_task_reach:
  "cafe_reach T \<lparr>world = w, tasks = ts @ [t]\<rparr>
     \<lparr>world = snd (run_task n T t w), tasks = ts @ [fst (run_task n T t w)]\<rparr>"
proof (induction n arbitrary: t w)
  case (Suc n)
  obtain t' w' where st: "order_task_step T t w = (t', w')" by fastforce
  have "cafe_step T \<lparr>world = w, tasks = ts @ [t]\<rparr> \<lparr>world = w', tasks = ts @ [t']\<rparr>"
    using cafe_step.advance_order [of "length ts" "\<lparr>world = w, tasks = ts @ [t]\<rparr>" T t' w'] st by simp
  from cafe_reach_trans [OF Suc.IH [of w' t'] cafe_reach.step [OF cafe_reach.start this]] st show ?case by simp
qed (simp add: cafe_reach.start)

lemma runs_CreateOrder:
  assumes "OrderServer_CreateOrder (tp_err_text T) (order_server T) req (order_state w) = (x, st)"
  shows "runs T w (put_order_state st w)"
  unfolding runs_def
proof (intro allI exI [where x = "[x]"])
  fix ts
  have "cafe_step T \<lparr>world = w, tasks = ts\<rparr> \<lparr>world = w, tasks = ts @ [Validating req]\<rparr>"
    using cafe_step.start_order [of T "\<lparr>world = w, tasks = ts\<rparr>" req] by simp
  from cafe_reach_trans [OF run_task_reach [of T w ts "Validating req" "length (co_items req) + 2"]
      cafe_reach.step [OF cafe_reach.start this]]
  show "cafe_reach T \<lparr>world = w, tasks = ts\<rparr> \<lparr>world = put_order_state st w, tasks = ts @ map Finished [x]\<rparr>"
    unfolding run_task_is_CreateOrder [OF assms] by simp
qed

lemma runs_rpc:
  assumes "rpc T meth get put f q w = (x, w')"
    and "\<And>w1 y s. f q (get w1) = (y, s) \<Longrightarrow> runs T w1 (put s w1)"
  shows "runs T w w'"
  using assms(1)
proof (cases rule: rpcE)
  case (lost e n)
  then show ?thesis by (simp add: runs_network)
next
  case (run out n y s)
  with runs_trans [OF runs_network assms(2) [OF run(1)]] show ?thesis by simp
qed

lemma runs_clients:
  "uc_CreateUser (sc_UserClient (gateway_clients T)) q1 w = (x1, w') \<Longrightarrow> runs T w w'"
  "uc_GetUser (sc_UserClient (gateway_clients T)) q2 w = (x2, w') \<Longrightarrow> runs T w w'"
  "uc_GetUsers (sc_UserClient (gateway_clients T)) () w = (x3, w') \<Longrightarrow> runs T w w'"
  "mc_CreateMenuItem (sc_MenuClient (gateway_clients T)) q4 w = (x4, w') \<Longrightarrow> runs T w w'"
  "mc_GetMenuItem (sc_MenuClient (gateway_clients T)) q5 w = (x5, w') \<Longrightarrow> runs T w w'"
  "mc_GetMenu (sc_MenuClient (gateway_clients T)) () w = (x6, w') \<Longrightarrow> runs T w w'"
  "oc_CreateOrder (sc_OrderClient (gateway_clients T)) q7 w = (x7, w') \<Longrightarrow> runs T w w'"
  "oc_GetOrder (sc_OrderClient (gateway_clients T)) q8 w = (x8, w') \<Longrightarrow> runs T w w'"
  "oc_GetOrders (sc_OrderClient (gateway_clients T)) () w = (x9, w') \<Longrightarrow> runs T w w'"
  unfolding gateway_client_calls
  by (erule runs_rpc; erule runs_methods runs_CreateOrder)+

lemma Handlers_run:
  "runs T w (snd (Handlers_CreateUser (gateway_clients T) body w))"
  "runs T w (snd (Handlers_GetUser (gateway_clients T) i w))"
  "runs T w (snd (Handlers_GetUsers (gateway_clients T) w))"
  "runs T w (snd (Handlers_CreateMenuItem (gateway_clients T) body w))"
  "runs T w (snd (Handlers_GetMenuItem (gateway_clients T) i w))"
  "runs T w (snd (Handlers_GetMenu (gateway_clients T) w))"
  "runs T w (snd (Handlers_CreateOrder (gateway_clients T) body w))"
  "runs T w (snd (Handlers_GetOrder (gateway_clients T) i w))"
  "runs T w (snd (Handlers_GetOrders (gateway_clients T) w))"
  by (auto simp: Handlers_defs Let_def dest: runs_clients simp del: gateway_client_calls
      split: prod.splits bool.splits option.splits sum.splits)

lemma cafe_http_runs:
  assumes "cafe_http T chi miss m path body w = (r, w')"
  shows "runs T w w'"
  using assms unfolding cafe_http_def
proof (cases rule: serve_cases)
  case (handled h x)
  from handled(1) have "runs T w (snd (h x body w))" by (auto simp: gateway_routes_def Handlers_run)
  with handled(2) show ?thesis by simp
qed simp

text \<open>A history of requests, with the answers.\<close>

definition http_history ::
  "'n transport \<Rightarrow> router \<Rightarrow> response \<Rightarrow> (string \<times> string \<times> request_body) list
   \<Rightarrow> ('u, 'm, 'o, 'n) cafe \<Rightarrow> response list \<times> ('u, 'm, 'o, 'n) cafe" where
  "http_history T chi miss = run_requests (\<lambda>(m, path, body). cafe_http T chi miss m path body)"

lemma demo_history:
  "http_history perfect chi_ref demo_miss
     [(''POST'', ''/api/users'', alice_body), (''POST'', ''/api/menu'', coffee_body), (''POST'', ''/api/orders'', order_two_body)] demo0 =
   ([json_reply StatusCreated (Some (enc_UserProto (user_modelToProto alice))),
     json_reply StatusCreated (enc_MenuItemProto (menu_modelToProto coffee)),
     json_reply StatusCreated (enc_OrderProto (order_modelToProto two_coffees))], demo3)"
  by (simp add: http_history_def demo_post_user demo_post_menu demo_post_order)

subsection \<open>Orders take effect in one step\<close>

text \<open>What an order in progress has established, seen from the specification.\<close>

fun task_spec :: "('u, 'm, 'o, 'n) cafe \<Rightarrow> order_task \<Rightarrow> bool" where
  "task_spec w (Pricing req its acc) =
     (known_user w (co_user_id req) \<and>
      (\<exists>before. co_items req = before @ its \<and> price_items (menu_price w) before = Some acc))"
| "task_spec w t = True"

lemma menu_price_grows: "menu_price w i = Some p \<Longrightarrow> grows w w' \<Longrightarrow> menu_price w' i = Some p"
  unfolding menu_price_def grows_def by (auto dest: map_le_Some)

lemma price_items_grows:
  "price_items (menu_price w) its = Some acc \<Longrightarrow> grows w w' \<Longrightarrow> price_items (menu_price w') its = Some acc"
  by (induction its arbitrary: acc)
    (auto simp: priced_item_def dest: menu_price_grows split: option.splits)

lemma price_items_append:
  "price_items price (xs @ ys) =
     (case price_items price xs of
        None \<Rightarrow> None
      | Some a \<Rightarrow> map_option ((@) a) (price_items price ys))"
  by (induction xs) (cases "price_items price ys"; auto split: option.splits)+

lemma task_spec_grows: "task_spec w t \<Longrightarrow> grows w w' \<Longrightarrow> task_spec w' t"
  by (cases t) (auto intro: known_user_grows price_items_grows)

lemma order_task_step_spec:
  assumes ok: "backends_ok w" and spec: "task_spec w t" and st: "order_task_step T t w = (t', w')"
  shows "task_spec w' t'"
proof (cases t)
  case (Validating req)
  obtain u w1 where u: "uc_GetUser (UserClient (order_server T)) \<lparr>gu_id = co_user_id req\<rparr> w = (u, w1)" by fastforce
  show ?thesis
  proof (cases u)
    case (Inr r)
    with cafe_orders.user_sound [OF ok] u have "known_user w (co_user_id req)" by blast
    with known_user_grows [OF _ lookup_grows(1) [OF ok u]] have "known_user w1 (co_user_id req)" by blast
    with Validating u Inr st show ?thesis by (auto simp del: order_server_clients)
  qed (use Validating u st in \<open>auto simp del: order_server_clients\<close>)
next
  case (Pricing req its acc)
  show ?thesis
  proof (cases its)
    case Nil
    with Pricing st show ?thesis by (auto split: prod.splits sum.splits)
  next
    case (Cons it its')
    obtain y w1 where y: "mc_GetMenuItem (MenuClient (order_server T)) \<lparr>gm_id = oir_menu_item_id it\<rparr> w = (y, w1)"
      by fastforce
    show ?thesis
    proof (cases y)
      case (Inr r)
      with cafe_orders.menu_sound [OF ok] y obtain mi where
        mi: "gm_menu_item r = Some mi" "menu_price w (oir_menu_item_id it) = Some (mi_price mi)" by blast
      define i where "i = new_order_item (uint_of_uint32 (oir_menu_item_id it)) (int_of_int32 (oir_quantity it)) (mi_price mi)"
      from spec Pricing Cons obtain before where b: "known_user w (co_user_id req)"
        "co_items req = before @ it # its'" "price_items (menu_price w) before = Some acc" by auto
      with mi(2) have "task_spec w (Pricing req its' (acc @ [i]))"
        by (auto simp: i_def priced_item_def price_items_append intro!: exI [where x = "before @ [it]"])
      from task_spec_grows [OF this lookup_grows(2) [OF ok y]] st y Inr mi(1) Pricing Cons show ?thesis
        by (auto simp: i_def simp del: order_server_clients task_spec.simps)
    qed (use Pricing Cons y st in \<open>auto simp del: order_server_clients\<close>)
  qed
qed (use st in auto)

definition spec_inv :: "('u, 'm, 'o, 'n) system \<Rightarrow> bool" where
  "spec_inv s \<longleftrightarrow> backends_ok (world s) \<and> (\<forall>t \<in> set (tasks s). task_spec (world s) t)"

interpretation order_tasks: interleaved "order_task_step T" backends_ok grows task_spec for T
proof (unfold_locales, goal_cases)
  case (1 s s' t)
  then show ?case by (blast intro: task_spec_grows)
next
  case (2 s t t' s')
  from order_task_step_spec [OF 2] order_task_step_grows [OF 2(1,3)] show ?case by (simp add: grows_def)
qed

lemma spec_inv_step:
  assumes "cafe_step T s s'" and "spec_inv s"
  shows "spec_inv s'"
proof -
  have ok: "backends_ok (world s)" and spec: "\<forall>t \<in> set (tasks s). task_spec (world s) t"
    using assms(2) by (simp_all add: spec_inv_def)
  have g: "grows (world s) (world s')" by (rule cafe_step_grows [OF assms(1) ok])
  then have ok': "backends_ok (world s')" by (simp add: grows_def)
  have old: "\<forall>t \<in> set (tasks s). task_spec (world s') t" using task_spec_grows [OF _ g] spec by blast
  from assms(1) show ?thesis
  proof cases
    case (advance_order i t w)
    from order_tasks.advance_all [OF ok spec advance_order(2,3)] show ?thesis
      by (simp add: spec_inv_def advance_order(1))
  qed (use ok' old in \<open>auto simp: spec_inv_def\<close>)
qed

lemma spec_inv_reach: "cafe_reach T s s' \<Longrightarrow> spec_inv s \<Longrightarrow> spec_inv s'"
  by (induction rule: cafe_reach.induct) (auto dest: spec_inv_step)

text \<open>
  C10: An order takes effect at one instant. In every interleaving, when an order in progress has
  done all its lookups, the users and prices of that very moment are the ones its specification
  asks for: the step that finishes it inserts the order \<open>place_order\<close> prescribes then, and answers
  with what was inserted, or with \<open>Internal\<close> when the database refuses. Nothing that ran between
  the lookups can make a difference.
\<close>

theorem orders_linearizable:
  assumes "fresh_system s" and "cafe_reach T s s'" and "Pricing req [] acc \<in> set (tasks s')"
  shows "\<exists>ord y db. place_order (known_user (world s')) (menu_price (world s')) req = Some ord \<and>
    DB_Create ord (order_db (world s')) = (y, db) \<and>
    order_task_step T (Pricing req [] acc) (world s') =
      (Finished (case y of
         Inl e \<Rightarrow> Error (StatusError Internal (''failed to create order: '' @ gorm_error_text e))
       | Inr r \<Rightarrow> Return \<lparr>co_order = Some (order_modelToProto r)\<rparr>), (world s')\<lparr>order_db := db\<rparr>)"
proof -
  have "spec_inv s" using assms(1) by (simp add: fresh_system_def spec_inv_def)
  from spec_inv_reach [OF assms(2) this] assms(3) have
    "known_user (world s') (co_user_id req)" "price_items (menu_price (world s')) (co_items req) = Some acc"
    by (fastforce simp: spec_inv_def)+
  then have "place_order (known_user (world s')) (menu_price (world s')) req =
      Some (new_order (uint_of_uint32 (co_user_id req)) acc)" by (simp add: place_order_def)
  moreover obtain y db where "DB_Create (new_order (uint_of_uint32 (co_user_id req)) acc) (order_db (world s')) = (y, db)"
    by fastforce
  ultimately show ?thesis by (cases y) auto
qed

theorem orders_linearizable_witness:
  "\<exists>ord. place_order (known_user demo2) (menu_price demo2) demo_request = Some ord"
proof -
  let ?t = "Pricing demo_request [] [new_order_item 1 2 0x4008000000000000]"
  have "cafe_step perfect \<lparr>world = demo2, tasks = []\<rparr> \<lparr>world = demo2, tasks = [Validating demo_request]\<rparr>"
    using cafe_step.start_order [of perfect "\<lparr>world = demo2, tasks = []\<rparr>" demo_request] by simp
  then have "cafe_reach perfect \<lparr>world = demo0, tasks = []\<rparr> \<lparr>world = demo2, tasks = [?t]\<rparr>"
    by (rule cafe_reach.step [OF cafe_reach.step [OF cafe_reach.step [OF demo_run(1)]
        demo_advance [OF demo_task(1)]] demo_advance [OF demo_task(2)]])
  from orders_linearizable [OF demo0_fresh this] show ?thesis by fastforce
qed

subsection \<open>Valid orders complete\<close>

lemma place_order_grows:
  "place_order (known_user w) (menu_price w) req = Some ord \<Longrightarrow> grows w w' \<Longrightarrow>
     place_order (known_user w') (menu_price w') req = Some ord"
  by (auto simp: place_order_def intro: known_user_grows dest: price_items_grows split: if_splits)

text \<open>Services that answer go on answering.\<close>

lemma lookups_up:
  "uc_GetUser (UserClient (order_server T)) q w = (x, w') \<Longrightarrow>
     gorm_up (user_db w') = gorm_up (user_db w) \<and> gorm_up (menu_db w') = gorm_up (menu_db w)"
  "mc_GetMenuItem (MenuClient (order_server T)) r w = (y, w') \<Longrightarrow>
     gorm_up (user_db w') = gorm_up (user_db w) \<and> gorm_up (menu_db w') = gorm_up (menu_db w)"
  unfolding order_server_clients
  by (erule rpcE; force dest: GetUser_up GetMenuItem_up)+

lemma order_task_step_up:
  assumes "order_task_step T t w = (t', w')"
  shows "gorm_up (user_db w') = gorm_up (user_db w) \<and> gorm_up (menu_db w') = gorm_up (menu_db w)"
  using assms lookups_up [of T _ w]
  by (cases "(T, t, w)" rule: order_task_step.cases)
    (auto simp del: order_server_clients split: prod.splits sum.splits option.splits)

lemma listings_up:
  "UserServer_GetUsers q1 du = (x1, du1) \<Longrightarrow> gorm_up du1 \<longleftrightarrow> gorm_up du"
  "MenuServer_GetMenu q2 dm = (x2, dm2) \<Longrightarrow> gorm_up dm2 \<longleftrightarrow> gorm_up dm"
  by (auto simp: UserServer_GetUsers_def MenuServer_GetMenu_def DB_ops_up split: prod.splits sum.splits)

lemma cafe_step_up:
  assumes "cafe_step T s s'" and "backends_up T (world s)"
  shows "backends_up T (world s')"
proof -
  have "backends_ok (world s')" using cafe_step_grows [OF assms(1)] assms(2) by (simp add: backends_up_def grows_def)
  moreover have "gorm_up (user_db (world s')) = gorm_up (user_db (world s)) \<and>
      gorm_up (menu_db (world s')) = gorm_up (menu_db (world s))"
    using assms(1)
  proof cases
    case advance_order
    from order_task_step_up [OF advance_order(3)] show ?thesis by (simp add: advance_order(1))
  qed (auto simp: CreateUser_up CreateMenuItem_up listings_up GetUser_up GetMenuItem_up order_state_def put_order_state_def OrderServer_GetOrder_def
      OrderServer_GetOrders_def split: prod.splits sum.splits)
  ultimately show ?thesis using assms(2) by (simp add: backends_up_def)
qed

text \<open>An order \<open>ord\<close> that is due: its request is still being checked, or it is decided.\<close>

definition order_decided :: "Order \<Rightarrow> ('u, 'm, 'o, 'n) cafe \<Rightarrow> CreateOrderResponse outcome \<Rightarrow> bool" where
  "order_decided ord w x \<longleftrightarrow>
     (\<exists>e. x = Error (StatusError Internal (''failed to create order: '' @ gorm_error_text e))) \<or>
     (\<exists>p k. x = Return p \<and> order_rows (order_db w) k = Some (order_cols ord) \<and>
       map_option proto_order_data (co_order p) = Some (uint32_of_uint k, narrow_order (order_cols ord)))"

fun on_track :: "CreateOrderRequest \<Rightarrow> Order \<Rightarrow> ('u, 'm, 'o, 'n) cafe \<Rightarrow> order_task \<Rightarrow> bool" where
  "on_track req ord w (Validating req') = (req' = req)"
| "on_track req ord w (Pricing req' its acc) = (req' = req \<and> task_spec w (Pricing req' its acc))"
| "on_track req ord w (Finished x) = order_decided ord w x"

definition order_due ::
  "'n transport \<Rightarrow> CreateOrderRequest \<Rightarrow> Order \<Rightarrow> ('u, 'm, 'o, 'n) cafe \<Rightarrow> order_task \<Rightarrow> bool" where
  "order_due T req ord w t \<longleftrightarrow> backends_up T w \<and> gorm_ok order_cols (order_db w) \<and>
     place_order (known_user w) (menu_price w) req = Some ord \<and> on_track req ord w t"

fun steps_left :: "order_task \<Rightarrow> nat" where
  "steps_left (Validating req) = length (co_items req) + 2"
| "steps_left (Pricing req its acc) = length its + 1"
| "steps_left (Finished x) = 0"

lemma order_decided_grows:
  "order_decided ord w x \<Longrightarrow> order_rows (order_db w) \<subseteq>\<^sub>m order_rows (order_db w') \<Longrightarrow> order_decided ord w' x"
  unfolding order_decided_def by (blast dest: map_le_Some)

lemma on_track_grows:
  "on_track req ord w t \<Longrightarrow> grows w w' \<Longrightarrow> order_rows (order_db w) \<subseteq>\<^sub>m order_rows (order_db w') \<Longrightarrow> on_track req ord w' t"
  by (cases t) (auto intro: order_decided_grows simp del: task_spec.simps dest: task_spec_grows)

text \<open>A step of the order itself: no lookup is refused.\<close>

lemma on_track_own:
  assumes due: "order_due T req ord w t" and st: "order_task_step T t w = (t', w')"
  shows "on_track req ord w' t' \<and> (steps_left t \<le> Suc n \<longrightarrow> steps_left t' \<le> n)"
proof -
  have up: "backends_up T w" and oko: "gorm_ok order_cols (order_db w)" and tr: "on_track req ord w t"
    and po: "place_order (known_user w) (menu_price w) req = Some ord" using due by (simp_all add: order_due_def)
  then have ok: "backends_ok w" by (simp add: backends_up_def)
  from po obtain items where k: "known_user w (co_user_id req)" and items: "price_items (menu_price w) (co_items req) = Some items"
    and ord: "ord = new_order (uint_of_uint32 (co_user_id req)) items" by (auto simp: place_order_def split: if_splits)
  show ?thesis
  proof (cases t)
    case (Validating req')
    with tr have req: "req' = req" by simp
    from cafe_orders_up.user_live [OF up k] obtain u w1 where
      u: "uc_GetUser (UserClient (order_server T)) \<lparr>gu_id = co_user_id req\<rparr> w = (Inr u, w1)" by blast
    with st Validating req have t': "t' = Pricing req (co_items req) []" "w' = w1" by (auto simp del: order_server_clients)
    from order_task_step_spec [OF ok, of t] st Validating have "task_spec w' t'" by simp
    then show ?thesis by (simp add: t' Validating req)
  next
    case (Pricing req' its acc)
    with tr have req: "req' = req" and spec: "task_spec w (Pricing req its acc)" by auto
    then obtain before where b: "co_items req = before @ its" "price_items (menu_price w) before = Some acc" by auto
    show ?thesis
    proof (cases its)
      case Nil
      with b items have "acc = items" by simp
      with st Pricing Nil req ord obtain y db where y: "DB_Create ord (order_db w) = (y, db)" "w' = w\<lparr>order_db := db\<rparr>"
        "t' = Finished (case y of
           Inl e \<Rightarrow> Error (StatusError Internal (''failed to create order: '' @ gorm_error_text e))
         | Inr r \<Rightarrow> Return \<lparr>co_order = Some (order_modelToProto r)\<rparr>)" by (auto split: prod.splits sum.splits)
      show ?thesis
      proof (cases y)
        case (Inr r)
        from DB_Create_order [OF oko y(1) [unfolded Inr ord]] Inr y ord show ?thesis
          by (auto simp: order_decided_def intro!: exI [where x = "ID r"])
      qed (use y in \<open>auto simp: order_decided_def\<close>)
    next
      case (Cons it its')
      with items b have "menu_price w (oir_menu_item_id it) \<noteq> None"
        using price_items_None [of "menu_price w" "co_items req"] by auto
      from cafe_orders_up.menu_live [OF up this] obtain m w1 where
        m: "mc_GetMenuItem (MenuClient (order_server T)) \<lparr>gm_id = oir_menu_item_id it\<rparr> w = (Inr m, w1)" by blast
      from cafe_orders.menu_sound [OF ok m] obtain mi where "gm_menu_item m = Some mi" by blast
      with st Pricing Cons req m obtain acc' where t': "t' = Pricing req its' acc'" by (auto simp del: order_server_clients)
      from order_task_step_spec [OF ok _ st] spec Pricing req have "task_spec w' t'" by simp
      then show ?thesis by (simp add: t' Pricing Cons)
    qed
  next
    case (Finished x)
    with st tr show ?thesis by auto
  qed
qed

lemma order_due_step:
  assumes due: "order_due T req ord w t" and st: "order_task_step T u w = (u', w')"
    and t': "on_track req ord w' t'"
  shows "order_due T req ord w' t'"
proof -
  have ok: "backends_ok w" using due by (simp add: order_due_def backends_up_def)
  have g: "grows w w'" by (rule order_task_step_grows [OF ok st])
  with order_task_step_up [OF st] due have "backends_up T w'" by (simp add: order_due_def backends_up_def grows_def)
  moreover have "gorm_ok order_cols (order_db w')"
    using st due lookups_order_db [of T _ w]
    by (cases "(T, u, w)" rule: order_task_step.cases)
      (auto simp: order_due_def DB_ops_ok simp del: order_server_clients split: prod.splits sum.splits option.splits)
  ultimately show ?thesis using due t' place_order_grows [OF _ g] by (simp add: order_due_def)
qed

lemma order_due_runs:
  "order_due T req ord w t \<Longrightarrow> steps_left t \<le> n \<Longrightarrow> \<exists>x w'. run_task n T t w = (Finished x, w') \<and> order_decided ord w' x"
proof (induction n arbitrary: t w)
  case 0
  then show ?case by (cases t) (auto simp: order_due_def)
next
  case (Suc n)
  obtain t' w' where st: "order_task_step T t w = (t', w')" by fastforce
  from on_track_own [OF Suc.prems(1) st, of n] Suc.prems(2) have "on_track req ord w' t'" "steps_left t' \<le> n" by auto
  with Suc.IH [OF order_due_step [OF Suc.prems(1) st]] st show ?case by simp
qed

text \<open>Whatever happens next, a due order stays due.\<close>

definition due_at :: "'n transport \<Rightarrow> CreateOrderRequest \<Rightarrow> Order \<Rightarrow> nat \<Rightarrow> ('u, 'm, 'o, 'n) system \<Rightarrow> bool" where
  "due_at T req ord i s \<longleftrightarrow> system_inv s \<and> i < length (tasks s) \<and> order_due T req ord (world s) (tasks s ! i)"

lemma due_at_step:
  assumes "cafe_step T s s'" and "due_at T req ord i s"
  shows "due_at T req ord i s'"
proof -
  from assms(2) have inv: "system_inv s" and i: "i < length (tasks s)" and due: "order_due T req ord (world s) (tasks s ! i)"
    by (simp_all add: due_at_def)
  then have ok: "backends_ok (world s)" "gorm_ok order_cols (order_db (world s))" by (simp_all add: system_inv_def)
  have inv': "system_inv s'" by (rule system_inv_step [OF assms(1) inv])
  have g: "grows (world s) (world s')" by (rule cafe_step_grows [OF assms(1) ok(1)])
  have "order_rows (order_db (world s)) \<subseteq>\<^sub>m order_rows (order_db (world s'))" by (rule cafe_step_orders [OF assms(1) ok(2)])
  with on_track_grows [OF _ g] due have same: "on_track req ord (world s') (tasks s ! i)" by (simp add: order_due_def)
  have "i < length (tasks s') \<and> on_track req ord (world s') (tasks s' ! i)"
    using assms(1)
  proof cases
    case (start_order req')
    with i same show ?thesis by (simp add: nth_append)
  next
    case (advance_order j t w)
    then show ?thesis
    proof (cases "j = i")
      case True
      with on_track_own [OF due, of t w 0] advance_order i show ?thesis by simp
    qed (use i same in simp)
  qed (use i same in simp_all)
  moreover have "backends_up T (world s')" using cafe_step_up [OF assms(1)] due by (simp add: order_due_def)
  moreover have "gorm_ok order_cols (order_db (world s'))" using inv' by (simp add: system_inv_def)
  ultimately show ?thesis using inv' due place_order_grows [OF _ g] by (simp add: due_at_def order_due_def)
qed

lemma due_at_reach: "cafe_reach T s s' \<Longrightarrow> due_at T req ord i s \<Longrightarrow> due_at T req ord i s'"
  by (induction rule: cafe_reach.induct) (auto dest: due_at_step)

text \<open>
  C29: A valid order cannot be starved or spoilt. Once an order is in progress that \<open>place_order\<close>
  accepts at that moment, and while the network delivers and the other services answer, then whatever
  other requests and orders do in between, at every later moment two more steps of its own than it
  has items are enough to finish it: with that order stored at the prices of the start and answered
  with its key and data, or with \<open>Internal\<close> because the database refused the insertion. No
  interleaving makes one of its lookups fail, changes its prices or blocks it.
\<close>

theorem valid_order_completes:
  assumes "fresh_system s0" and "cafe_reach T s0 s" and "i < length (tasks s)" and "tasks s ! i = Validating req"
    and "place_order (known_user (world s)) (menu_price (world s)) req = Some ord"
    and "backends_up T (world s)" and "cafe_reach T s s'"
  shows "\<exists>x w. run_task (length (co_items req) + 2) T (tasks s' ! i) (world s') = (Finished x, w) \<and>
    ((\<exists>e. x = Error (StatusError Internal (''failed to create order: '' @ gorm_error_text e))) \<or>
     (\<exists>p k. x = Return p \<and> order_rows (order_db w) k = Some (order_cols ord) \<and>
       map_option proto_order_data (co_order p) = Some (uint32_of_uint k, narrow_order (order_cols ord))))"
proof -
  have inv: "system_inv s" using system_inv_reach [OF assms(2) system_inv_fresh [OF assms(1)]] .
  then have "due_at T req ord i s" using assms(3-6) by (simp add: due_at_def order_due_def system_inv_def)
  from due_at_reach [OF assms(7) this] have due: "order_due T req ord (world s') (tasks s' ! i)" by (simp add: due_at_def)
  have "steps_left (tasks s' ! i) \<le> length (co_items req) + 2"
    using due by (cases "tasks s' ! i") (auto simp: order_due_def)
  from order_due_runs [OF due this] show ?thesis unfolding order_decided_def .
qed

text \<open>Tea is put on the menu while an order for coffee is in progress.\<close>

theorem valid_order_completes_witness:
  "\<exists>x w. run_task 3 perfect (Pricing demo_request (co_items demo_request) [])
      (demo2\<lparr>menu_db := snd (MenuServer_CreateMenuItem \<lparr>cm_name = ''Tea'', cm_description = [], cm_price = 0\<rparr> (menu_db demo2))\<rparr>) =
      (Finished x, w) \<and> x \<noteq> Panic"
proof -
  let ?db = "snd (MenuServer_CreateMenuItem \<lparr>cm_name = ''Tea'', cm_description = [], cm_price = 0\<rparr> (menu_db demo2))"
  let ?t = "Pricing demo_request (co_items demo_request) []"
  obtain ord where ord: "place_order (known_user demo2) (menu_price demo2) demo_request = Some ord"
    using demo_place_order by blast
  have "cafe_step perfect \<lparr>world = demo2, tasks = []\<rparr> \<lparr>world = demo2, tasks = [Validating demo_request]\<rparr>"
    using cafe_step.start_order [of perfect "\<lparr>world = demo2, tasks = []\<rparr>" demo_request] by simp
  note started = cafe_reach.step [OF demo_run(1) this]
  have "cafe_step perfect \<lparr>world = demo2, tasks = [?t]\<rparr> \<lparr>world = demo2\<lparr>menu_db := ?db\<rparr>, tasks = [?t]\<rparr>"
    using cafe_step.create_menu_item [OF prod.collapse [symmetric], where s = "\<lparr>world = demo2, tasks = [?t]\<rparr>"] by simp
  note later = cafe_reach.step [OF cafe_reach.step [OF cafe_reach.start demo_advance [OF demo_task(1)]] this]
  from valid_order_completes [OF demo0_fresh started _ _ _ _ later, of 0 demo_request ord] ord demo_up(3)
  obtain x w where "run_task (length (co_items demo_request) + 2) perfect ?t (demo2\<lparr>menu_db := ?db\<rparr>) = (Finished x, w)"
    "x \<noteq> Panic" by auto
  moreover have "length (co_items demo_request) + 2 = 3" by (simp add: demo_request_def)
  ultimately show ?thesis by metis
qed

subsection \<open>Listings\<close>

lemma listing_reply:
  assumes "(case x of (Inl err, w') \<Rightarrow> (handleGRPCError err, w') | (Inr resp, w') \<Rightarrow> (json_reply 200 (f resp), w')) = (r, w')"
    and "status r = 200"
  obtains p where "x = (Inr p, w')" and "r = json_reply 200 (f p)"
proof -
  obtain y w1 where x: "x = (y, w1)" by fastforce
  show thesis
  proof (cases y)
    case (Inl e)
    with assms x have "status (handleGRPCError e) = 200" by simp
    with handleGRPCError_typed [of e] show thesis by simp
  next
    case (Inr p)
    with assms x that show thesis by simp
  qed
qed

lemma gateway_users_listed:
  assumes ok: "backends_ok w" and r: "Handlers_GetUsers (gateway_clients T) w = (r, w')" "status r = 200"
  shows "\<exists>us. r = json_reply 200 (enc_slice (\<lambda>u. Some (enc_UserProto u)) us) \<and>
    set (map proto_user_data us) = {(uint32_of_uint k, d) | k d. user_rows (user_db w) k = Some d} \<and>
    length us = card (dom (user_rows (user_db w)))"
proof -
  have oku: "gorm_ok user_cols (user_db w)" using ok by (simp add: backends_ok_def)
  obtain p where p: "uc_GetUsers (sc_UserClient (gateway_clients T)) () w = (Inr p, w')"
      "r = json_reply 200 (enc_slice (\<lambda>u. Some (enc_UserProto u)) (gus_users p))"
    by (rule listing_reply [OF r(1) [unfolded Handlers_GetUsers_def] r(2)])
  from p(1) [unfolded gateway_client_calls] obtain n s where l: "UserServer_GetUsers () (user_db w) = (Return p, s)"
    by (cases rule: rpc_Inr) simp
  from user_list.list_exact [OF oku l] user_list.list_size [OF oku l] p(2) show ?thesis
    by (intro exI [where x = "gus_users p"]) simp
qed

lemma gateway_menu_listed:
  assumes ok: "backends_ok w" and r: "Handlers_GetMenu (gateway_clients T) w = (r, w')" "status r = 200"
  shows "\<exists>is. r = json_reply 200 (enc_slice enc_MenuItemProto is) \<and>
    set (map proto_menu_data is) = {(uint32_of_uint k, d) | k d. menu_rows (menu_db w) k = Some d} \<and>
    length is = card (dom (menu_rows (menu_db w)))"
proof -
  have okm: "gorm_ok menu_cols (menu_db w)" using ok by (simp add: backends_ok_def)
  obtain p where p: "mc_GetMenu (sc_MenuClient (gateway_clients T)) () w = (Inr p, w')"
      "r = json_reply 200 (enc_slice enc_MenuItemProto (gms_menu_items p))"
    by (rule listing_reply [OF r(1) [unfolded Handlers_GetMenu_def] r(2)])
  from p(1) [unfolded gateway_client_calls] obtain n s where l: "MenuServer_GetMenu () (menu_db w) = (Return p, s)"
    by (cases rule: rpc_Inr) simp
  from menu_list.list_exact [OF okm l] menu_list.list_size [OF okm l] p(2) show ?thesis
    by (intro exI [where x = "gms_menu_items p"]) simp
qed

lemma gateway_orders_listed:
  assumes ok: "gorm_ok order_cols (order_db w)" and r: "Handlers_GetOrders (gateway_clients T) w = (r, w')" "status r = 200"
  shows "\<exists>os. r = json_reply 200 (enc_slice enc_OrderProto os) \<and>
    set (map proto_order_data os) = {(uint32_of_uint k, d) | k d. order_rows32 (order_db w) k = Some d} \<and>
    length os = card (dom (order_rows32 (order_db w)))"
proof -
  obtain p where p: "oc_GetOrders (sc_OrderClient (gateway_clients T)) () w = (Inr p, w')"
      "r = json_reply 200 (enc_slice enc_OrderProto (gos_orders p))"
    by (rule listing_reply [OF r(1) [unfolded Handlers_GetOrders_def] r(2)])
  from p(1) [unfolded gateway_client_calls] obtain n st where
    l: "OrderServer_GetOrders () (w\<lparr>net := n\<rparr>, order_db w) = (Return p, st)"
    by (cases rule: rpc_Inr) (simp add: order_state_def)
  from order_list.list_exact [OF _ l] order_list.list_size [OF _ l] ok p(2) show ?thesis
    by (intro exI [where x = "gos_orders p"]) simp
qed

text \<open>
  C12: The listings of the gateway are complete. A list answered with 200 is the JSON of records that
  are exactly the stored ones: every user, menu item or order with its identifier and data, nothing
  else, one entry for each.
\<close>

theorem http_listings_exact:
  assumes chi: "chi_law chi" and ok: "backends_ok w" "gorm_ok order_cols (order_db w)"
    and u: "cafe_http T chi miss ''GET'' ''/api/users'' body w = (ru, wu)" "status ru = 200"
    and m: "cafe_http T chi miss ''GET'' ''/api/menu'' body w = (rm, wm)" "status rm = 200"
    and o: "cafe_http T chi miss ''GET'' ''/api/orders'' body w = (ro, wo)" "status ro = 200"
  shows "(\<exists>us. ru = json_reply 200 (enc_slice (\<lambda>u. Some (enc_UserProto u)) us) \<and>
      set (map proto_user_data us) = {(uint32_of_uint k, d) | k d. user_rows (user_db w) k = Some d} \<and>
      length us = card (dom (user_rows (user_db w)))) \<and>
    (\<exists>is. rm = json_reply 200 (enc_slice enc_MenuItemProto is) \<and>
      set (map proto_menu_data is) = {(uint32_of_uint k, d) | k d. menu_rows (menu_db w) k = Some d} \<and>
      length is = card (dom (menu_rows (menu_db w)))) \<and>
    (\<exists>os. ro = json_reply 200 (enc_slice enc_OrderProto os) \<and>
      set (map proto_order_data os) = {(uint32_of_uint k, d) | k d. order_rows32 (order_db w) k = Some d} \<and>
      length os = card (dom (order_rows32 (order_db w))))"
  using gateway_users_listed [OF ok(1) u(1) [unfolded cafe_http_routes(4) [OF chi]] u(2)]
    gateway_menu_listed [OF ok(1) m(1) [unfolded cafe_http_routes(5) [OF chi]] m(2)]
    gateway_orders_listed [OF ok(2) o(1) [unfolded cafe_http_routes(6) [OF chi]] o(2)] by (intro conjI)

lemma demo_lists:
  "cafe_http perfect chi_ref demo_miss ''GET'' ''/api/users'' None demo3 =
     (json_reply 200 (enc_slice (\<lambda>u. Some (enc_UserProto u)) [user_modelToProto alice]), demo3)"
  "cafe_http perfect chi_ref demo_miss ''GET'' ''/api/menu'' None demo3 =
     (json_reply 200 (enc_slice enc_MenuItemProto [menu_modelToProto coffee]), demo3)"
  "cafe_http perfect chi_ref demo_miss ''GET'' ''/api/orders'' None demo3 =
     (json_reply 200 (enc_slice enc_OrderProto [order_modelToProto two_coffees]), demo3)"
  unfolding cafe_http_routes(4-6) [OF chi_ref_law]
  by (simp_all add: Handlers_defs demo_eval UserServer_GetUsers_def MenuServer_GetMenu_def OrderServer_GetOrders_def
      order_state_def put_order_state_def demo0_def demo1_def demo2_def demo3_def alice_def coffee_def two_coffees_def finish_def)

theorem http_listings_exact_witness:
  "\<exists>os. json_reply 200 (enc_slice enc_OrderProto [order_modelToProto two_coffees]) = json_reply 200 (enc_slice enc_OrderProto os) \<and>
     set (map proto_order_data os) = {(uint32_of_uint k, d) | k d. order_rows32 (order_db demo3) k = Some d} \<and>
     length os = card (dom (order_rows32 (order_db demo3)))"
proof -
  have ok: "backends_ok demo3" using demo_up(4) by (simp add: backends_up_def)
  from http_listings_exact [OF chi_ref_law ok demo_up(6) demo_lists(1) _ demo_lists(2) _ demo_lists(3)] show ?thesis by simp
qed

end
