(* ===== verification/Cafe_Spec.thy ===== *)
theory Cafe_Spec
  imports Cafe_Requests
begin

text \<open>
  The cafe without its programs. What a client may observe is stated over three tables: \<open>route_of\<close>
  reads a method and a path, \<open>cafe_answers\<close> says which replies a request may get in which tables and
  what it leaves in them. No service, stub, network or router occurs in it. The composed programs
  refine it along every history of requests.
\<close>

subsection \<open>The specification\<close>

record cafe_tables =
  t_users :: "uint \<Rightarrow> (string \<times> string \<times> bool) option"
  t_menu :: "uint \<Rightarrow> (string \<times> string \<times> float64) option"
  t_orders :: "uint \<Rightarrow> (uint \<times> string \<times> (uint \<times> goint \<times> float64) multiset) option"

datatype resource = Users | Menus | Orders

datatype route = Add resource | Read resource string | List_all resource

definition after :: "string \<Rightarrow> string \<Rightarrow> string option" where
  "after pre path = (if take (length pre) path = pre \<and> segment (drop (length pre) path) then Some (drop (length pre) path) else None)"

fun resource_path :: "resource \<Rightarrow> string" where
  "resource_path Users = ''/api/users''"
| "resource_path Menus = ''/api/menu''"
| "resource_path Orders = ''/api/orders''"

definition route_of :: "string \<Rightarrow> string \<Rightarrow> route option" where
  "route_of m path =
     (case find (\<lambda>x. path = resource_path x) [Users, Menus, Orders] of
        Some x \<Rightarrow> if m = ''POST'' then Some (Add x) else if m = ''GET'' then Some (List_all x) else None
      | None \<Rightarrow>
          if m = ''GET''
          then (case find (\<lambda>x. after (resource_path x @ ''/'') path \<noteq> None) [Users, Menus, Orders] of
                  Some x \<Rightarrow> map_option (Read x) (after (resource_path x @ ''/'') path)
                | None \<Rightarrow> None)
          else None)"

fun id_text :: "resource \<Rightarrow> string" where
  "id_text Users = ''invalid user ID''"
| "id_text Menus = ''invalid menu item ID''"
| "id_text Orders = ''invalid order ID''"

definition order_request :: "order_body \<Rightarrow> CreateOrderRequest" where
  "order_request b = \<lparr>co_user_id = ob_user_id b, co_items = map to_order_item (ob_items b)\<rparr>"

definition t_place :: "cafe_tables \<Rightarrow> order_body \<Rightarrow> Order option" where
  "t_place a b = place_order (\<lambda>i. t_users a (uint_of_uint32 i) \<noteq> None)
     (\<lambda>i. map_option (\<lambda>(_, _, p). p) (t_menu a (uint_of_uint32 i))) (order_request b)"

text \<open>A request that a handler refuses by itself, with the text of the refusal.\<close>

fun refusal :: "route \<Rightarrow> request_body \<Rightarrow> string option" where
  "refusal (Add Users) body = (if fst (Decode user_body_fields zero_user_body body) then None else Some ''invalid request body'')"
| "refusal (Add Menus) body = (if fst (Decode menu_body_fields zero_menu_body body) then None else Some ''invalid request body'')"
| "refusal (Add Orders) body = (if fst (Decode order_body_fields zero_order_body body) then None else Some ''invalid request body'')"
| "refusal (Read x seg) body = (if ParseUint 32 seg = None then Some (id_text x) else None)"
| "refusal (List_all x) body = None"

text \<open>The successes: the reply and the tables afterwards.\<close>

inductive served :: "route \<Rightarrow> request_body \<Rightarrow> cafe_tables \<Rightarrow> response \<Rightarrow> cafe_tables \<Rightarrow> bool" where
  user_added: "Decode user_body_fields zero_user_body body = (True, b) \<Longrightarrow> k \<noteq> 0 \<Longrightarrow> t_users a k = None \<Longrightarrow>
    proto_user_data u = (uint32_of_uint k, ub_name b, ub_email b, ub_is_cafe_owner b) \<Longrightarrow>
    served (Add Users) body a (json_reply 201 (Some (enc_UserProto u)))
      (a\<lparr>t_users := (t_users a)(k \<mapsto> (ub_name b, ub_email b, ub_is_cafe_owner b))\<rparr>)"
| item_added: "Decode menu_body_fields zero_menu_body body = (True, b) \<Longrightarrow> k \<noteq> 0 \<Longrightarrow> t_menu a k = None \<Longrightarrow>
    proto_menu_data i = (uint32_of_uint k, mb_name b, mb_description b, mb_price b) \<Longrightarrow>
    served (Add Menus) body a (json_reply 201 (enc_MenuItemProto i))
      (a\<lparr>t_menu := (t_menu a)(k \<mapsto> (mb_name b, mb_description b, mb_price b))\<rparr>)"
| order_added: "Decode order_body_fields zero_order_body body = (True, b) \<Longrightarrow> t_place a b = Some ord \<Longrightarrow>
    k \<noteq> 0 \<Longrightarrow> t_orders a k = None \<Longrightarrow> proto_order_data u = (uint32_of_uint k, narrow_order (order_cols ord)) \<Longrightarrow>
    served (Add Orders) body a (json_reply 201 (enc_OrderProto u)) (a\<lparr>t_orders := (t_orders a)(k \<mapsto> order_cols ord)\<rparr>)"
| user_read: "ParseUint 32 seg = Some n \<Longrightarrow> t_users a (of_nat n) = Some d \<Longrightarrow> proto_user_data u = (of_nat n, d) \<Longrightarrow>
    served (Read Users seg) body a (json_reply 200 (Some (enc_UserProto u))) a"
| item_read: "ParseUint 32 seg = Some n \<Longrightarrow> t_menu a (of_nat n) = Some d \<Longrightarrow> proto_menu_data i = (of_nat n, d) \<Longrightarrow>
    served (Read Menus seg) body a (json_reply 200 (enc_MenuItemProto i)) a"
| order_read: "ParseUint 32 seg = Some n \<Longrightarrow> t_orders a (of_nat n) = Some d \<Longrightarrow>
    proto_order_data u = (of_nat n, narrow_order d) \<Longrightarrow>
    served (Read Orders seg) body a (json_reply 200 (enc_OrderProto u)) a"
| users_listed: "set (map proto_user_data us) = {(uint32_of_uint k, d) | k d. t_users a k = Some d} \<Longrightarrow>
    length us = card (dom (t_users a)) \<Longrightarrow>
    served (List_all Users) body a (json_reply 200 (enc_slice (\<lambda>u. Some (enc_UserProto u)) us)) a"
| menu_listed: "set (map proto_menu_data is) = {(uint32_of_uint k, d) | k d. t_menu a k = Some d} \<Longrightarrow>
    length is = card (dom (t_menu a)) \<Longrightarrow>
    served (List_all Menus) body a (json_reply 200 (enc_slice enc_MenuItemProto is)) a"
| orders_listed: "set (map proto_order_data os) = {(uint32_of_uint k, narrow_order d) | k d. t_orders a k = Some d} \<Longrightarrow>
    length os = card (dom (t_orders a)) \<Longrightarrow>
    served (List_all Orders) body a (json_reply 200 (enc_slice enc_OrderProto os)) a"

text \<open>
  What a request may get. A request no route matches gets the router's own answer. A request the
  handler refuses gets 400 and the text of the refusal. Any other is served, or it fails with an
  error: then it has changed nothing, or it has been served and its reply was lost on the way.
\<close>

inductive cafe_answers :: "response \<Rightarrow> string \<times> string \<times> request_body \<Rightarrow> cafe_tables \<Rightarrow> response \<Rightarrow> cafe_tables \<Rightarrow> bool"
  for miss where
  unrouted: "route_of m path = None \<Longrightarrow> cafe_answers miss (m, path, body) a miss a"
| refused: "route_of m path = Some rt \<Longrightarrow> refusal rt body = Some msg \<Longrightarrow>
    cafe_answers miss (m, path, body) a (http_Error msg 400) a"
| success: "route_of m path = Some rt \<Longrightarrow> refusal rt body = None \<Longrightarrow> served rt body a r a' \<Longrightarrow>
    cafe_answers miss (m, path, body) a r a'"
| failed: "route_of m path = Some rt \<Longrightarrow> refusal rt body = None \<Longrightarrow> 400 \<le> c \<Longrightarrow>
    cafe_answers miss (m, path, body) a (http_Error msg c) a"
| reply_lost: "route_of m path = Some rt \<Longrightarrow> refusal rt body = None \<Longrightarrow> served rt body a r a' \<Longrightarrow> 400 \<le> c \<Longrightarrow>
    cafe_answers miss (m, path, body) a (http_Error msg c) a'"

inductive cafe_history :: "response \<Rightarrow> cafe_tables \<Rightarrow> ((string \<times> string \<times> request_body) \<times> response) list \<Rightarrow> cafe_tables \<Rightarrow> bool"
  for miss where
  no_requests: "cafe_history miss a [] a"
| next_request: "cafe_answers miss q a r b \<Longrightarrow> cafe_history miss b qrs c \<Longrightarrow> cafe_history miss a ((q, r) # qrs) c"

subsection \<open>The routes\<close>

definition route_handler :: "'w ServiceClients \<Rightarrow> route \<Rightarrow> request_body \<Rightarrow> 'w \<Rightarrow> response \<times> 'w" where
  "route_handler h rt body =
     (case rt of
        Add Users \<Rightarrow> Handlers_CreateUser h body | Add Menus \<Rightarrow> Handlers_CreateMenuItem h body
      | Add Orders \<Rightarrow> Handlers_CreateOrder h body
      | Read Users seg \<Rightarrow> Handlers_GetUser h seg | Read Menus seg \<Rightarrow> Handlers_GetMenuItem h seg
      | Read Orders seg \<Rightarrow> Handlers_GetOrder h seg
      | List_all Users \<Rightarrow> Handlers_GetUsers h | List_all Menus \<Rightarrow> Handlers_GetMenu h | List_all Orders \<Rightarrow> Handlers_GetOrders h)"

lemma after_Some: "after pre path = Some seg \<Longrightarrow> path = pre @ seg \<and> segment seg"
  unfolding after_def by (metis append_take_drop_id option.distinct(1) option.inject)

lemma cafe_http_route:
  assumes "chi_law chi"
  shows "cafe_http T chi miss m path body w =
    (case route_of m path of None \<Rightarrow> (miss, w) | Some rt \<Rightarrow> route_handler (gateway_clients T) rt body w)"
proof (cases "route_of m path")
  case None
  have d: "distinct (map fst (gateway_routes (gateway_clients T)))" unfolding gateway_table by simp
  have "cafe_http T chi miss m path body w = (miss, w)"
    unfolding cafe_http_def
    by (rule serve_miss [OF assms d])
      (use None in \<open>auto simp: gateway_routes_def match_defs route_of_def after_def split: if_splits\<close>)
  with None show ?thesis by simp
next
  case (Some rt)
  note reads = cafe_http_routes(7-9) [OF assms, simplified]
  from Some show ?thesis
    by (auto simp: route_of_def route_handler_def cafe_http_routes(1-6) [OF assms] reads split: if_splits dest!: after_Some)
qed

subsection \<open>What a call does to the tables\<close>

definition tables :: "('u, 'm, 'o, 'n) cafe \<Rightarrow> cafe_tables" where
  "tables w = \<lparr>t_users = user_rows (user_db w), t_menu = menu_rows (menu_db w), t_orders = order_rows (order_db w)\<rparr>"

lemma tables_net [simp]: "tables (w\<lparr>net := n\<rparr>) = tables w"
  by (simp add: tables_def)

lemma t_place_tables: "t_place (tables w) b = place_order (known_user w) (menu_price w) (order_request b)"
  by (simp add: t_place_def tables_def known_user_def [abs_def] menu_price_def [abs_def])

text \<open>The answer to a call: what the handler writes when the call returns, fails, or gets lost.\<close>

lemma handleGRPCError_text: "\<exists>msg c. handleGRPCError e = http_Error msg c \<and> 400 \<le> c"
  by (cases e) (auto intro!: exI http_status_error)

lemma failure_answers:
  assumes rt: "route_of m path = Some rt" "refusal rt body = None"
    and a': "a' = a \<or> (\<exists>r. served rt body a r a')"
  shows "cafe_answers miss (m, path, body) a (handleGRPCError e) a'"
proof -
  obtain msg c where c: "handleGRPCError e = http_Error msg c" "400 \<le> c" using handleGRPCError_text by blast
  from a' show ?thesis
  proof
    assume "a' = a"
    with cafe_answers.failed [OF rt c(2)] c(1) show ?thesis by simp
  next
    assume "\<exists>r. served rt body a r a'"
    with cafe_answers.reply_lost [OF rt _ c(2)] c(1) show ?thesis by metis
  qed
qed

lemma rpc_answers:
  assumes rt: "route_of m path = Some rt" "refusal rt body = None"
    and x: "rpc T meth get put f q w = (x, w')"
    and r: "r = (case x of Inl e \<Rightarrow> handleGRPCError e | Inr p \<Rightarrow> reply p)"
    and ret: "\<And>n p s. f q (get (w\<lparr>net := n\<rparr>)) = (Return p, s) \<Longrightarrow>
      served rt body (tables w) (reply p) (tables (put s (w\<lparr>net := n\<rparr>)))"
    and err: "\<And>n y s. f q (get (w\<lparr>net := n\<rparr>)) = (y, s) \<Longrightarrow> \<not> outcome_ok y \<Longrightarrow> tables (put s (w\<lparr>net := n\<rparr>)) = tables w"
  shows "cafe_answers miss (m, path, body) (tables w) r (tables w')"
  using x
proof (cases rule: rpcE)
  case (lost e n)
  with failure_answers [OF rt, of "tables w'"] r show ?thesis by simp
next
  case (run out n y s)
  show ?thesis
  proof (cases "outcome_ok y")
    case True
    then obtain p where y: "y = Return p" by auto
    from ret [OF run(1) [unfolded y]] have served: "served rt body (tables w) (reply p) (tables w')" by (simp add: run(2))
    then have "\<exists>r. served rt body (tables w) r (tables w')" by blast
    then have "cafe_answers miss (m, path, body) (tables w) (handleGRPCError e) (tables w')" for e
      by (intro failure_answers [OF rt] disjI2)
    with cafe_answers.success [OF rt served] r run(3,4) y show ?thesis
      by (cases out) (auto simp: finish_def)
  next
    case False
    from err [OF run(1) False] have "tables w' = tables w" by (simp add: run(2))
    moreover obtain e where "x = Inl e" using False run(3) by (cases y; cases out) (auto simp: finish_def)
    ultimately show ?thesis using failure_answers [OF rt] r by simp
  qed
qed

text \<open>The lookups of an order change no table.\<close>

lemma lookups_tables:
  assumes "backends_ok w"
  shows "uc_GetUser (UserClient (order_server T)) q w = (x, w') \<Longrightarrow> backends_ok w' \<and> tables w' = tables w"
    and "mc_GetMenuItem (MenuClient (order_server T)) r w = (y, w') \<Longrightarrow> backends_ok w' \<and> tables w' = tables w"
  using assms unfolding order_server_clients
  by (auto elim!: rpcE simp: tables_def backends_ok_def dest: GetUser_frame GetMenuItem_frame)

lemma items_tables:
  "backends_ok w \<Longrightarrow> OrderServer_items et (MenuClient (order_server T)) its acc w = (x, w') \<Longrightarrow> tables w' = tables w"
proof (induction its arbitrary: acc w)
  case (Cons it its)
  obtain y w1 where y: "mc_GetMenuItem (MenuClient (order_server T)) \<lparr>gm_id = oir_menu_item_id it\<rparr> w = (y, w1)" by fastforce
  from lookups_tables(2) [OF Cons.prems(1) y] Cons.prems(2) y Cons.IH [of w1] show ?case
    by (auto simp del: order_server_clients split: sum.splits option.splits)
qed simp

lemma CreateOrder_tables:
  assumes ok: "backends_ok w"
    and c: "OrderServer_CreateOrder (tp_err_text T) (order_server T) req (w, db) = (x, (w', db'))"
  shows "tables w' = tables w"
proof -
  obtain u w1 where u: "uc_GetUser (UserClient (order_server T)) \<lparr>gu_id = co_user_id req\<rparr> w = (u, w1)" by fastforce
  obtain y w2 where y: "OrderServer_items (tp_err_text T) (MenuClient (order_server T)) (co_items req) [] w1 = (y, w2)" by fastforce
  note f = lookups_tables(1) [OF ok u]
  with items_tables [OF _ y] c u y show ?thesis
    by (auto simp: OrderServer_CreateOrder_def simp del: order_server_clients split: sum.splits outcome.splits prod.splits)
qed

subsection \<open>Every handler answers as specified\<close>

lemma refused_answers:
  assumes "route_of m path = Some rt" and "refusal rt body = Some msg" and "r = http_Error msg 400" and "w' = w"
  shows "cafe_answers miss (m, path, body) (tables w) r (tables w')"
  using cafe_answers.refused [OF assms(1,2)] assms(3,4) by simp

text \<open>The three that add a record.\<close>

lemma CreateUser_answers:
  assumes ok: "backends_ok w" and rt: "route_of m path = Some (Add Users)"
    and h: "Handlers_CreateUser (gateway_clients T) body w = (r, w')"
  shows "cafe_answers miss (m, path, body) (tables w) r (tables w')"
proof (cases "Decode user_body_fields zero_user_body body")
  case (Pair d b)
  show ?thesis
  proof (cases d)
    case False
    with h Pair show ?thesis
      by (intro refused_answers [OF rt, of body "''invalid request body''"]) (simp_all add: Handlers_CreateUser_def)
  next
    case True
    let ?q = "\<lparr>cu_name = ub_name b, cu_email = ub_email b, cu_is_cafe_owner = ub_is_cafe_owner b\<rparr>"
    obtain x where x: "rpc T ''/user.v1.UserService/CreateUser'' user_db (\<lambda>s. user_db_update (\<lambda>_. s)) UserServer_CreateUser ?q w = (x, w')"
      and r: "r = (case x of Inl e \<Rightarrow> handleGRPCError e | Inr p \<Rightarrow> json_reply 201 (enc_ptr (\<lambda>u. Some (enc_UserProto u)) (cu_user p)))"
      using h Pair True by (auto simp: Handlers_CreateUser_def split: prod.splits sum.splits)
    have u: "gorm_ok user_cols (user_db w)" using ok by (simp add: backends_ok_def)
    show ?thesis
    proof (rule rpc_answers [OF rt _ x r], goal_cases)
      case 1
      then show ?case using Pair True by simp
    next
      case (2 n p s)
      then obtain k v where "cu_user p = Some v" "k \<noteq> 0" "user_rows (user_db w) k = None"
        "proto_user_data v = (uint32_of_uint k, ub_name b, ub_email b, ub_is_cafe_owner b)"
        "user_rows s = (user_rows (user_db w))(k \<mapsto> (ub_name b, ub_email b, ub_is_cafe_owner b))"
        using CreateUser_Return [OF u, of ?q p s] by auto
      with served.user_added [of body b k "tables w" v] Pair True show ?case by (simp add: tables_def enc_ptr_def)
    next
      case (3 n y s)
      with CreateUser_Error [OF u] show ?case by (simp add: tables_def)
    qed
  qed
qed

lemma CreateMenuItem_answers:
  assumes ok: "backends_ok w" and rt: "route_of m path = Some (Add Menus)"
    and h: "Handlers_CreateMenuItem (gateway_clients T) body w = (r, w')"
  shows "cafe_answers miss (m, path, body) (tables w) r (tables w')"
proof (cases "Decode menu_body_fields zero_menu_body body")
  case (Pair d b)
  show ?thesis
  proof (cases d)
    case False
    with h Pair show ?thesis
      by (intro refused_answers [OF rt, of body "''invalid request body''"]) (simp_all add: Handlers_CreateMenuItem_def)
  next
    case True
    let ?q = "\<lparr>cm_name = mb_name b, cm_description = mb_description b, cm_price = mb_price b\<rparr>"
    obtain x where x: "rpc T ''/menu.v1.MenuService/CreateMenuItem'' menu_db (\<lambda>s. menu_db_update (\<lambda>_. s)) MenuServer_CreateMenuItem ?q w = (x, w')"
      and r: "r = (case x of Inl e \<Rightarrow> handleGRPCError e | Inr p \<Rightarrow> json_reply 201 (enc_ptr enc_MenuItemProto (cm_menu_item p)))"
      using h Pair True by (auto simp: Handlers_CreateMenuItem_def split: prod.splits sum.splits)
    have u: "gorm_ok menu_cols (menu_db w)" using ok by (simp add: backends_ok_def)
    show ?thesis
    proof (rule rpc_answers [OF rt _ x r], goal_cases)
      case 1
      then show ?case using Pair True by simp
    next
      case (2 n p s)
      then obtain k v where "cm_menu_item p = Some v" "k \<noteq> 0" "menu_rows (menu_db w) k = None"
        "proto_menu_data v = (uint32_of_uint k, mb_name b, mb_description b, mb_price b)"
        "menu_rows s = (menu_rows (menu_db w))(k \<mapsto> (mb_name b, mb_description b, mb_price b))"
        using CreateMenuItem_Return [OF u, of ?q p s] by auto
      with served.item_added [of body b k "tables w" v] Pair True show ?case by (simp add: tables_def enc_ptr_def)
    next
      case (3 n y s)
      with CreateMenuItem_Error [OF u] show ?case by (simp add: tables_def)
    qed
  qed
qed

lemma CreateOrder_answers:
  assumes ok: "backends_ok w" and oko: "gorm_ok order_cols (order_db w)" and rt: "route_of m path = Some (Add Orders)"
    and h: "Handlers_CreateOrder (gateway_clients T) body w = (r, w')"
  shows "cafe_answers miss (m, path, body) (tables w) r (tables w')"
proof (cases "Decode order_body_fields zero_order_body body")
  case (Pair d b)
  show ?thesis
  proof (cases d)
    case False
    with h Pair show ?thesis
      by (intro refused_answers [OF rt, of body "''invalid request body''"]) (simp_all add: Handlers_CreateOrder_def)
  next
    case True
    let ?q = "\<lparr>co_user_id = ob_user_id b, co_items = map to_order_item (ob_items b)\<rparr>"
    obtain x where x: "rpc T ''/order.v1.OrderService/CreateOrder'' order_state put_order_state (OrderServer_CreateOrder (tp_err_text T) (order_server T)) ?q w = (x, w')"
      and r: "r = (case x of Inl e \<Rightarrow> handleGRPCError e | Inr p \<Rightarrow> json_reply 201 (enc_ptr enc_OrderProto (co_order p)))"
      using h Pair True by (auto simp: Handlers_CreateOrder_def split: prod.splits sum.splits)
    have net: "backends_ok (w\<lparr>net := n\<rparr>)" for n using ok by simp
    show ?thesis
    proof (rule rpc_answers [OF rt _ x r], goal_cases)
      case 1
      then show ?case using Pair True by simp
    next
      case (2 n p s)
      obtain w1 db where s: "s = (w1, db)" by fastforce
      with 2 have c: "OrderServer_CreateOrder (tp_err_text T) (order_server T) ?q (w\<lparr>net := n\<rparr>, order_db w) = (Return p, (w1, db))"
        by (simp add: order_state_def)
      have same: "tables w1 = tables w" using CreateOrder_tables [OF net c] by simp
      from cafe_orders.CreateOrder_refines [OF net oko c] obtain ord k where
        ord: "place_order (known_user w) (menu_price w) ?q = Some ord" "k \<noteq> 0" "order_rows (order_db w) k = None"
        "order_rows db = (order_rows (order_db w))(k \<mapsto> order_cols ord)"
        "map_option proto_order_data (co_order p) = Some (uint32_of_uint k, narrow_order (order_cols ord))" by auto
      then obtain v where v: "co_order p = Some v" "proto_order_data v = (uint32_of_uint k, narrow_order (order_cols ord))" by auto
      have "tables (put_order_state s (w\<lparr>net := n\<rparr>)) = (tables w)\<lparr>t_orders := (t_orders (tables w))(k \<mapsto> order_cols ord)\<rparr>"
        using same ord(4) by (simp add: s put_order_state_def tables_def)
      with served.order_added [of body b "tables w" ord k v] ord v Pair True show ?case
        by (simp add: t_place_tables order_request_def enc_ptr_def) (simp add: tables_def)
    next
      case (3 n y s)
      obtain w1 db where s: "s = (w1, db)" by fastforce
      with 3 have c: "OrderServer_CreateOrder (tp_err_text T) (order_server T) ?q (w\<lparr>net := n\<rparr>, order_db w) = (y, (w1, db))"
        by (simp add: order_state_def)
      from CreateOrder_tables [OF net c] CreateOrder_fails [OF oko c 3(2)] show ?case
        by (simp add: s put_order_state_def tables_def)
    qed
  qed
qed

text \<open>The three that read one record.\<close>

lemma GetUser_answers:
  assumes ok: "gorm_ok user_cols (user_db w)" and rt: "route_of m path = Some (Read Users seg)"
    and h: "Handlers_GetUser (gateway_clients T) seg w = (r, w')"
  shows "cafe_answers miss (m, path, body) (tables w) r (tables w')"
proof (cases "ParseUint 32 seg")
  case None
  with h show ?thesis
    by (intro refused_answers [OF rt, of body "''invalid user ID''"]) (simp_all add: Handlers_GetUser_def)
next
  case (Some i)
  note key = ParseUint_key [OF Some]
  obtain x where x: "rpc T ''/user.v1.UserService/GetUser'' user_db (\<lambda>s. user_db_update (\<lambda>_. s)) UserServer_GetUser \<lparr>gu_id = of_nat i\<rparr> w = (x, w')"
    and r: "r = (case x of Inl e \<Rightarrow> handleGRPCError e | Inr p \<Rightarrow> json_reply 200 (enc_ptr (\<lambda>u. Some (enc_UserProto u)) (gu_user p)))"
    using h Some by (auto simp: Handlers_GetUser_def split: prod.splits sum.splits)
  show ?thesis
  proof (rule rpc_answers [OF rt _ x r], goal_cases)
    case 1
    then show ?case using Some by simp
  next
    case (2 n p s)
    then have g: "UserServer_GetUser \<lparr>gu_id = of_nat i\<rparr> (user_db w) = (Return p, s)" by simp
    from GetUser_frame [OF ok g] GetUser_Return [OF ok g] served.user_read [OF Some, of "tables w"] show ?case
      by (auto simp: tables_def key enc_ptr_def)
  next
    case (3 n y s)
    then show ?case using GetUser_frame [OF ok] by (simp add: tables_def)
  qed
qed

lemma GetMenuItem_answers:
  assumes ok: "gorm_ok menu_cols (menu_db w)" and rt: "route_of m path = Some (Read Menus seg)"
    and h: "Handlers_GetMenuItem (gateway_clients T) seg w = (r, w')"
  shows "cafe_answers miss (m, path, body) (tables w) r (tables w')"
proof (cases "ParseUint 32 seg")
  case None
  with h show ?thesis
    by (intro refused_answers [OF rt, of body "''invalid menu item ID''"]) (simp_all add: Handlers_GetMenuItem_def)
next
  case (Some i)
  note key = ParseUint_key [OF Some]
  obtain x where x: "rpc T ''/menu.v1.MenuService/GetMenuItem'' menu_db (\<lambda>s. menu_db_update (\<lambda>_. s)) MenuServer_GetMenuItem \<lparr>gm_id = of_nat i\<rparr> w = (x, w')"
    and r: "r = (case x of Inl e \<Rightarrow> handleGRPCError e | Inr p \<Rightarrow> json_reply 200 (enc_ptr enc_MenuItemProto (gm_menu_item p)))"
    using h Some by (auto simp: Handlers_GetMenuItem_def split: prod.splits sum.splits)
  show ?thesis
  proof (rule rpc_answers [OF rt _ x r], goal_cases)
    case 1
    then show ?case using Some by simp
  next
    case (2 n p s)
    then have g: "MenuServer_GetMenuItem \<lparr>gm_id = of_nat i\<rparr> (menu_db w) = (Return p, s)" by simp
    from GetMenuItem_frame [OF ok g] GetMenuItem_Return [OF ok g] served.item_read [OF Some, of "tables w"] show ?case
      by (auto simp: tables_def key enc_ptr_def)
  next
    case (3 n y s)
    then show ?case using GetMenuItem_frame [OF ok] by (simp add: tables_def)
  qed
qed

lemma GetOrder_answers:
  assumes ok: "gorm_ok order_cols (order_db w)" and rt: "route_of m path = Some (Read Orders seg)"
    and h: "Handlers_GetOrder (gateway_clients T) seg w = (r, w')"
  shows "cafe_answers miss (m, path, body) (tables w) r (tables w')"
proof (cases "ParseUint 32 seg")
  case None
  with h show ?thesis
    by (intro refused_answers [OF rt, of body "''invalid order ID''"]) (simp_all add: Handlers_GetOrder_def)
next
  case (Some i)
  note key = ParseUint_key [OF Some]
  obtain x where x: "rpc T ''/order.v1.OrderService/GetOrder'' order_state put_order_state OrderServer_GetOrder \<lparr>go_id = of_nat i\<rparr> w = (x, w')"
    and r: "r = (case x of Inl e \<Rightarrow> handleGRPCError e | Inr p \<Rightarrow> json_reply 200 (enc_ptr enc_OrderProto (go_order p)))"
    using h Some by (auto simp: Handlers_GetOrder_def split: prod.splits sum.splits)
  show ?thesis
  proof (rule rpc_answers [OF rt _ x r], goal_cases)
    case 1
    then show ?case using Some by simp
  next
    case (2 n p s)
    obtain w1 db where s: "s = (w1, db)" by fastforce
    with 2 have g: "OrderServer_GetOrder \<lparr>go_id = of_nat i\<rparr> (w\<lparr>net := n\<rparr>, order_db w) = (Return p, (w1, db))"
      by (simp add: order_state_def)
    from GetOrder_Return [OF ok g] obtain d where d: "map_option proto_order_data (go_order p) = Some (of_nat i, narrow_order d)"
      "order_rows (order_db w) (of_nat i) = Some d" by (force simp: order_rows32_def key)
    then obtain v where "go_order p = Some v" "proto_order_data v = (of_nat i, narrow_order d)" by auto
    with d(2) GetOrder_frame [OF ok g] served.order_read [OF Some, of "tables w" d v] show ?case
      by (simp add: s put_order_state_def tables_def enc_ptr_def)
  next
    case (3 n y s)
    then have "OrderServer_GetOrder \<lparr>go_id = of_nat i\<rparr> (w\<lparr>net := n\<rparr>, order_db w) = (y, (fst s, snd s))"
      by (simp add: order_state_def)
    from GetOrder_frame [OF ok this] show ?case by (simp add: put_order_state_def tables_def)
  qed
qed

text \<open>The three that list a table.\<close>

lemma order_rows32_set:
  "{(uint32_of_uint k, d) | k d. order_rows32 db k = Some d} =
   {(uint32_of_uint k, narrow_order d) | k d. order_rows db k = Some d}" (is "?A = ?B")
proof (intro set_eqI iffI)
  fix x assume "x \<in> ?A"
  then obtain k d where x: "x = (uint32_of_uint k, d)" "order_rows32 db k = Some d" by blast
  then obtain d' where "order_rows db k = Some d'" "d = narrow_order d'" unfolding order_rows32_def by blast
  with x(1) show "x \<in> ?B" by blast
next
  fix x assume "x \<in> ?B"
  then obtain k d where "x = (uint32_of_uint k, narrow_order d)" "order_rows db k = Some d" by blast
  then have "x = (uint32_of_uint k, narrow_order d)" "order_rows32 db k = Some (narrow_order d)" by (simp_all add: order_rows32_def)
  then show "x \<in> ?A" by blast
qed

lemma order_rows32_dom: "dom (order_rows32 db) = dom (order_rows db)"
  by (simp add: order_rows32_def dom_def)

lemma GetUsers_answers:
  assumes ok: "gorm_ok user_cols (user_db w)" and rt: "route_of m path = Some (List_all Users)"
    and h: "Handlers_GetUsers (gateway_clients T) w = (r, w')"
  shows "cafe_answers miss (m, path, body) (tables w) r (tables w')"
proof -
  obtain x where x: "rpc T ''/user.v1.UserService/GetUsers'' user_db (\<lambda>s. user_db_update (\<lambda>_. s)) UserServer_GetUsers () w = (x, w')"
    and r: "r = (case x of Inl e \<Rightarrow> handleGRPCError e | Inr p \<Rightarrow> json_reply 200 (enc_slice (\<lambda>u. Some (enc_UserProto u)) (gus_users p)))"
    using h by (auto simp: Handlers_GetUsers_def split: prod.splits sum.splits)
  show ?thesis
  proof (rule rpc_answers [OF rt _ x r], goal_cases)
    case 1
    then show ?case by simp
  next
    case (2 n p s)
    then have g: "UserServer_GetUsers () (user_db w) = (Return p, s)" by simp
    from GetUsers_frame [OF ok g] user_list.list_exact [OF ok g] user_list.list_size [OF ok g]
      served.users_listed [of "gus_users p" "tables w"] show ?case by (simp add: tables_def)
  next
    case (3 n y s)
    then show ?case using GetUsers_frame [OF ok] by (simp add: tables_def)
  qed
qed

lemma GetMenu_answers:
  assumes ok: "gorm_ok menu_cols (menu_db w)" and rt: "route_of m path = Some (List_all Menus)"
    and h: "Handlers_GetMenu (gateway_clients T) w = (r, w')"
  shows "cafe_answers miss (m, path, body) (tables w) r (tables w')"
proof -
  obtain x where x: "rpc T ''/menu.v1.MenuService/GetMenu'' menu_db (\<lambda>s. menu_db_update (\<lambda>_. s)) MenuServer_GetMenu () w = (x, w')"
    and r: "r = (case x of Inl e \<Rightarrow> handleGRPCError e | Inr p \<Rightarrow> json_reply 200 (enc_slice enc_MenuItemProto (gms_menu_items p)))"
    using h by (auto simp: Handlers_GetMenu_def split: prod.splits sum.splits)
  show ?thesis
  proof (rule rpc_answers [OF rt _ x r], goal_cases)
    case 1
    then show ?case by simp
  next
    case (2 n p s)
    then have g: "MenuServer_GetMenu () (menu_db w) = (Return p, s)" by simp
    from GetMenu_frame [OF ok g] menu_list.list_exact [OF ok g] menu_list.list_size [OF ok g]
      served.menu_listed [of "gms_menu_items p" "tables w"] show ?case by (simp add: tables_def)
  next
    case (3 n y s)
    then show ?case using GetMenu_frame [OF ok] by (simp add: tables_def)
  qed
qed

lemma GetOrders_answers:
  assumes ok: "gorm_ok order_cols (order_db w)" and rt: "route_of m path = Some (List_all Orders)"
    and h: "Handlers_GetOrders (gateway_clients T) w = (r, w')"
  shows "cafe_answers miss (m, path, body) (tables w) r (tables w')"
proof -
  obtain x where x: "rpc T ''/order.v1.OrderService/GetOrders'' order_state put_order_state OrderServer_GetOrders () w = (x, w')"
    and r: "r = (case x of Inl e \<Rightarrow> handleGRPCError e | Inr p \<Rightarrow> json_reply 200 (enc_slice enc_OrderProto (gos_orders p)))"
    using h by (auto simp: Handlers_GetOrders_def split: prod.splits sum.splits)
  show ?thesis
  proof (rule rpc_answers [OF rt _ x r], goal_cases)
    case 1
    then show ?case by simp
  next
    case (2 n p s)
    then have g: "OrderServer_GetOrders () (w\<lparr>net := n\<rparr>, order_db w) = (Return p, (fst s, snd s))"
      by (simp add: order_state_def)
    have rows: "{(uint32_of_uint k, d) | k d. order_rows32 (order_db w) k = Some d} =
        {(uint32_of_uint k, narrow_order d) | k d. order_rows (order_db w) k = Some d}"
      "dom (order_rows32 (order_db w)) = dom (order_rows (order_db w))" by (rule order_rows32_set, rule order_rows32_dom)
    from order_list.list_exact [OF _ g] order_list.list_size [OF _ g] ok rows GetOrders_frame [OF ok g]
      served.orders_listed [of "gos_orders p" "tables w"] show ?case
      by (simp add: put_order_state_def tables_def)
  next
    case (3 n y s)
    then have "OrderServer_GetOrders () (w\<lparr>net := n\<rparr>, order_db w) = (y, (fst s, snd s))"
      by (simp add: order_state_def)
    from GetOrders_frame [OF ok this] show ?case by (simp add: put_order_state_def tables_def)
  qed
qed

lemma cafe_http_answers:
  assumes chi: "chi_law chi" and ok: "backends_ok w" "gorm_ok order_cols (order_db w)"
    and http: "cafe_http T chi miss m path body w = (r, w')"
  shows "cafe_answers miss (m, path, body) (tables w) r (tables w')"
proof (cases "route_of m path")
  case None
  with http cafe_http_route [OF chi, of T miss m path body w] cafe_answers.unrouted [OF None] show ?thesis by simp
next
  case (Some rt)
  have u: "gorm_ok user_cols (user_db w)" "gorm_ok menu_cols (menu_db w)" using ok(1) by (simp_all add: backends_ok_def)
  from http Some have h: "route_handler (gateway_clients T) rt body w = (r, w')" by (simp add: cafe_http_route [OF chi])
  note answers = CreateUser_answers [OF ok(1)] CreateMenuItem_answers [OF ok(1)] CreateOrder_answers [OF ok]
    GetUser_answers [OF u(1)] GetMenuItem_answers [OF u(2)] GetOrder_answers [OF ok(2)]
    GetUsers_answers [OF u(1)] GetMenu_answers [OF u(2)] GetOrders_answers [OF ok(2)]
  show ?thesis
  proof (cases rt)
    case (Add x)
    with h Some answers show ?thesis by (cases x) (simp_all add: route_handler_def)
  next
    case (Read x seg)
    with h Some answers show ?thesis by (cases x) (simp_all add: route_handler_def)
  next
    case (List_all x)
    with h Some answers show ?thesis by (cases x) (simp_all add: route_handler_def)
  qed
qed

subsection \<open>Histories\<close>

text \<open>The databases keep their laws along every run.\<close>

lemma cafe_step_order_law:
  assumes "cafe_step T s s'"
  shows "gorm_ok order_cols (order_db (world s')) = gorm_ok order_cols (order_db (world s))"
  using assms
proof cases
  case (advance_order i t w)
  then show ?thesis using lookups_order_db [of T _ "world s"]
    by (cases "(T, tasks s ! i, world s)" rule: order_task_step.cases)
      (auto simp: DB_ops_ok simp del: order_server_clients split: prod.splits sum.splits option.splits)
qed (auto simp: order_state_def put_order_state_def OrderServer_GetOrder_def OrderServer_GetOrders_def DB_ops_ok
    split: prod.splits sum.splits)

lemma cafe_reach_order_law:
  "cafe_reach T s s' \<Longrightarrow> gorm_ok order_cols (order_db (world s')) = gorm_ok order_cols (order_db (world s))"
  by (induction rule: cafe_reach.induct) (simp_all add: cafe_step_order_law)

lemma cafe_http_laws:
  assumes "cafe_http T chi miss m path body w = (r, w')" and "backends_ok w" and "gorm_ok order_cols (order_db w)"
  shows "backends_ok w' \<and> gorm_ok order_cols (order_db w')"
proof -
  from cafe_http_runs [OF assms(1)] obtain ts where
    reach: "cafe_reach T \<lparr>world = w, tasks = []\<rparr> \<lparr>world = w', tasks = ts\<rparr>" unfolding runs_def by auto
  from cafe_reach_grows [OF reach] cafe_reach_order_law [OF reach] assms(2,3) show ?thesis by (simp add: grows_def)
qed

text \<open>
  C11: The composed programs implement the abstract cafe. Along every history of HTTP requests, one
  after the other, whatever the network loses: each reply is one the specification allows for that
  request in the tables the requests before it have left, and the services' databases hold exactly
  the tables it prescribes. A request the gateway has no route for, cannot decode or whose identifier
  does not parse gets its fixed answer and changes nothing; an addition answered with 201 has added
  precisely the posted record under a fresh key, an order precisely the one \<open>place_order\<close>
  prescribes; a reading answered with 200 shows what is stored; anything else is an error, after
  which the request has been carried out completely or not at all.
\<close>

theorem http_history_refines:
  assumes "chi_law chi" and "backends_ok w" and "gorm_ok order_cols (order_db w)"
    and "http_history T chi miss qs w = (rs, w')"
  shows "length rs = length qs \<and> cafe_history miss (tables w) (zip qs rs) (tables w')"
  using assms(2-4)
proof (induction qs arbitrary: w rs)
  case Nil
  then show ?case by (simp add: http_history_def cafe_history.no_requests)
next
  case (Cons q qs)
  obtain m path body where q: "q = (m, path, body)" by (cases q)
  obtain r w1 where r: "cafe_http T chi miss m path body w = (r, w1)" by fastforce
  with Cons.prems(3) q obtain rs1 where rs: "rs = r # rs1" "http_history T chi miss qs w1 = (rs1, w')"
    by (auto simp: http_history_def split: prod.splits)
  from cafe_http_laws [OF r Cons.prems(1,2)] Cons.IH rs(2)
  have "length rs1 = length qs \<and> cafe_history miss (tables w1) (zip qs rs1) (tables w')" by blast
  with cafe_history.next_request [OF cafe_http_answers [OF assms(1) Cons.prems(1,2) r]] show ?case by (simp add: rs q)
qed

theorem http_history_refines_witness:
  "\<exists>r1 r2 r3. cafe_history demo_miss (tables demo0)
     [((''POST'', ''/api/users'', alice_body), r1), ((''POST'', ''/api/menu'', coffee_body), r2),
      ((''POST'', ''/api/orders'', order_two_body), r3)] (tables demo3)"
proof -
  have ok: "backends_ok demo0" "gorm_ok order_cols (order_db demo0)"
    using demo_up(1) demo0_fresh by (simp_all add: backends_up_def fresh_system_def)
  from http_history_refines [OF chi_ref_law ok demo_history] show ?thesis by auto
qed

end
