(* ===== verification/Cafe_Getters.thy ===== *)
theory Cafe_Getters
  imports Cafe_Demo
begin

text \<open>
  The accessors of the generated messages (\<open>*.pb.go\<close>): methods on a pointer that answer with the
  zero value of the field when the pointer is nil, so that a chain of them never panics. A pointer is
  an option, as in \<open>Cafe_Protos\<close>. The programs read the fields directly; a client of the services
  reads a reply through the accessors.
\<close>

subsection \<open>\<open>user/v1/user.pb.go\<close>\<close>

definition User_GetId :: "UserProto option \<Rightarrow> uint32" where
  "User_GetId x = (case x of Some m \<Rightarrow> user_id m | None \<Rightarrow> 0)"

definition User_GetName :: "UserProto option \<Rightarrow> string" where
  "User_GetName x = (case x of Some m \<Rightarrow> user_name m | None \<Rightarrow> [])"

definition User_GetEmail :: "UserProto option \<Rightarrow> string" where
  "User_GetEmail x = (case x of Some m \<Rightarrow> user_email m | None \<Rightarrow> [])"

definition User_GetIsCafeOwner :: "UserProto option \<Rightarrow> bool" where
  "User_GetIsCafeOwner x = (case x of Some m \<Rightarrow> user_is_cafe_owner m | None \<Rightarrow> False)"

definition User_GetCreatedAt :: "UserProto option \<Rightarrow> string" where
  "User_GetCreatedAt x = (case x of Some m \<Rightarrow> user_created_at m | None \<Rightarrow> [])"

definition User_GetUpdatedAt :: "UserProto option \<Rightarrow> string" where
  "User_GetUpdatedAt x = (case x of Some m \<Rightarrow> user_updated_at m | None \<Rightarrow> [])"

definition CreateUserRequest_GetName :: "CreateUserRequest option \<Rightarrow> string" where
  "CreateUserRequest_GetName x = (case x of Some m \<Rightarrow> cu_name m | None \<Rightarrow> [])"

definition CreateUserRequest_GetEmail :: "CreateUserRequest option \<Rightarrow> string" where
  "CreateUserRequest_GetEmail x = (case x of Some m \<Rightarrow> cu_email m | None \<Rightarrow> [])"

definition CreateUserRequest_GetIsCafeOwner :: "CreateUserRequest option \<Rightarrow> bool" where
  "CreateUserRequest_GetIsCafeOwner x = (case x of Some m \<Rightarrow> cu_is_cafe_owner m | None \<Rightarrow> False)"

definition CreateUserResponse_GetUser :: "CreateUserResponse option \<Rightarrow> UserProto option" where
  "CreateUserResponse_GetUser x = (case x of Some m \<Rightarrow> cu_user m | None \<Rightarrow> None)"

definition GetUserRequest_GetId :: "GetUserRequest option \<Rightarrow> uint32" where
  "GetUserRequest_GetId x = (case x of Some m \<Rightarrow> gu_id m | None \<Rightarrow> 0)"

definition GetUserResponse_GetUser :: "GetUserResponse option \<Rightarrow> UserProto option" where
  "GetUserResponse_GetUser x = (case x of Some m \<Rightarrow> gu_user m | None \<Rightarrow> None)"

definition GetUsersResponse_GetUsers :: "GetUsersResponse option \<Rightarrow> UserProto list" where
  "GetUsersResponse_GetUsers x = (case x of Some m \<Rightarrow> gus_users m | None \<Rightarrow> [])"

subsection \<open>\<open>menu/v1/menu.pb.go\<close>\<close>

definition MenuItem_GetId :: "MenuItemProto option \<Rightarrow> uint32" where
  "MenuItem_GetId x = (case x of Some m \<Rightarrow> mi_id m | None \<Rightarrow> 0)"

definition MenuItem_GetName :: "MenuItemProto option \<Rightarrow> string" where
  "MenuItem_GetName x = (case x of Some m \<Rightarrow> mi_name m | None \<Rightarrow> [])"

definition MenuItem_GetDescription :: "MenuItemProto option \<Rightarrow> string" where
  "MenuItem_GetDescription x = (case x of Some m \<Rightarrow> mi_description m | None \<Rightarrow> [])"

definition MenuItem_GetPrice :: "MenuItemProto option \<Rightarrow> float64" where
  "MenuItem_GetPrice x = (case x of Some m \<Rightarrow> mi_price m | None \<Rightarrow> 0)"

definition MenuItem_GetCreatedAt :: "MenuItemProto option \<Rightarrow> string" where
  "MenuItem_GetCreatedAt x = (case x of Some m \<Rightarrow> mi_created_at m | None \<Rightarrow> [])"

definition MenuItem_GetUpdatedAt :: "MenuItemProto option \<Rightarrow> string" where
  "MenuItem_GetUpdatedAt x = (case x of Some m \<Rightarrow> mi_updated_at m | None \<Rightarrow> [])"

definition GetMenuItemRequest_GetId :: "GetMenuItemRequest option \<Rightarrow> uint32" where
  "GetMenuItemRequest_GetId x = (case x of Some m \<Rightarrow> gm_id m | None \<Rightarrow> 0)"

definition GetMenuItemResponse_GetMenuItem :: "GetMenuItemResponse option \<Rightarrow> MenuItemProto option" where
  "GetMenuItemResponse_GetMenuItem x = (case x of Some m \<Rightarrow> gm_menu_item m | None \<Rightarrow> None)"

definition GetMenuResponse_GetMenuItems :: "GetMenuResponse option \<Rightarrow> MenuItemProto list" where
  "GetMenuResponse_GetMenuItems x = (case x of Some m \<Rightarrow> gms_menu_items m | None \<Rightarrow> [])"

definition CreateMenuItemRequest_GetName :: "CreateMenuItemRequest option \<Rightarrow> string" where
  "CreateMenuItemRequest_GetName x = (case x of Some m \<Rightarrow> cm_name m | None \<Rightarrow> [])"

definition CreateMenuItemRequest_GetDescription :: "CreateMenuItemRequest option \<Rightarrow> string" where
  "CreateMenuItemRequest_GetDescription x = (case x of Some m \<Rightarrow> cm_description m | None \<Rightarrow> [])"

definition CreateMenuItemRequest_GetPrice :: "CreateMenuItemRequest option \<Rightarrow> float64" where
  "CreateMenuItemRequest_GetPrice x = (case x of Some m \<Rightarrow> cm_price m | None \<Rightarrow> 0)"

definition CreateMenuItemResponse_GetMenuItem :: "CreateMenuItemResponse option \<Rightarrow> MenuItemProto option" where
  "CreateMenuItemResponse_GetMenuItem x = (case x of Some m \<Rightarrow> cm_menu_item m | None \<Rightarrow> None)"

subsection \<open>\<open>order/v1/order.pb.go\<close>\<close>

definition OrderItem_GetId :: "OrderItemProto option \<Rightarrow> uint32" where
  "OrderItem_GetId x = (case x of Some m \<Rightarrow> oi_id m | None \<Rightarrow> 0)"

definition OrderItem_GetOrderId :: "OrderItemProto option \<Rightarrow> uint32" where
  "OrderItem_GetOrderId x = (case x of Some m \<Rightarrow> oi_order_id m | None \<Rightarrow> 0)"

definition OrderItem_GetMenuItemId :: "OrderItemProto option \<Rightarrow> uint32" where
  "OrderItem_GetMenuItemId x = (case x of Some m \<Rightarrow> oi_menu_item_id m | None \<Rightarrow> 0)"

definition OrderItem_GetQuantity :: "OrderItemProto option \<Rightarrow> int32" where
  "OrderItem_GetQuantity x = (case x of Some m \<Rightarrow> oi_quantity m | None \<Rightarrow> 0)"

definition OrderItem_GetPrice :: "OrderItemProto option \<Rightarrow> float64" where
  "OrderItem_GetPrice x = (case x of Some m \<Rightarrow> oi_price m | None \<Rightarrow> 0)"

definition OrderItem_GetCreatedAt :: "OrderItemProto option \<Rightarrow> string" where
  "OrderItem_GetCreatedAt x = (case x of Some m \<Rightarrow> oi_created_at m | None \<Rightarrow> [])"

definition OrderItem_GetUpdatedAt :: "OrderItemProto option \<Rightarrow> string" where
  "OrderItem_GetUpdatedAt x = (case x of Some m \<Rightarrow> oi_updated_at m | None \<Rightarrow> [])"

definition Order_GetId :: "OrderProto option \<Rightarrow> uint32" where
  "Order_GetId x = (case x of Some m \<Rightarrow> o_id m | None \<Rightarrow> 0)"

definition Order_GetUserId :: "OrderProto option \<Rightarrow> uint32" where
  "Order_GetUserId x = (case x of Some m \<Rightarrow> o_user_id m | None \<Rightarrow> 0)"

definition Order_GetStatus :: "OrderProto option \<Rightarrow> string" where
  "Order_GetStatus x = (case x of Some m \<Rightarrow> o_status m | None \<Rightarrow> [])"

definition Order_GetOrderItems :: "OrderProto option \<Rightarrow> OrderItemProto list" where
  "Order_GetOrderItems x = (case x of Some m \<Rightarrow> o_order_items m | None \<Rightarrow> [])"

definition Order_GetCreatedAt :: "OrderProto option \<Rightarrow> string" where
  "Order_GetCreatedAt x = (case x of Some m \<Rightarrow> o_created_at m | None \<Rightarrow> [])"

definition Order_GetUpdatedAt :: "OrderProto option \<Rightarrow> string" where
  "Order_GetUpdatedAt x = (case x of Some m \<Rightarrow> o_updated_at m | None \<Rightarrow> [])"

definition OrderItemRequest_GetMenuItemId :: "OrderItemRequest option \<Rightarrow> uint32" where
  "OrderItemRequest_GetMenuItemId x = (case x of Some m \<Rightarrow> oir_menu_item_id m | None \<Rightarrow> 0)"

definition OrderItemRequest_GetQuantity :: "OrderItemRequest option \<Rightarrow> int32" where
  "OrderItemRequest_GetQuantity x = (case x of Some m \<Rightarrow> oir_quantity m | None \<Rightarrow> 0)"

definition CreateOrderRequest_GetUserId :: "CreateOrderRequest option \<Rightarrow> uint32" where
  "CreateOrderRequest_GetUserId x = (case x of Some m \<Rightarrow> co_user_id m | None \<Rightarrow> 0)"

definition CreateOrderRequest_GetItems :: "CreateOrderRequest option \<Rightarrow> OrderItemRequest list" where
  "CreateOrderRequest_GetItems x = (case x of Some m \<Rightarrow> co_items m | None \<Rightarrow> [])"

definition CreateOrderResponse_GetOrder :: "CreateOrderResponse option \<Rightarrow> OrderProto option" where
  "CreateOrderResponse_GetOrder x = (case x of Some m \<Rightarrow> co_order m | None \<Rightarrow> None)"

definition GetOrdersResponse_GetOrders :: "GetOrdersResponse option \<Rightarrow> OrderProto list" where
  "GetOrdersResponse_GetOrders x = (case x of Some m \<Rightarrow> gos_orders m | None \<Rightarrow> [])"

definition GetOrderRequest_GetId :: "GetOrderRequest option \<Rightarrow> uint32" where
  "GetOrderRequest_GetId x = (case x of Some m \<Rightarrow> go_id m | None \<Rightarrow> 0)"

definition GetOrderResponse_GetOrder :: "GetOrderResponse option \<Rightarrow> OrderProto option" where
  "GetOrderResponse_GetOrder x = (case x of Some m \<Rightarrow> go_order m | None \<Rightarrow> None)"

subsection \<open>An order as its client reads it\<close>

lemmas order_getters =
  CreateOrderResponse_GetOrder_def Order_GetUserId_def Order_GetStatus_def Order_GetOrderItems_def
  OrderItem_GetMenuItemId_def OrderItem_GetQuantity_def OrderItem_GetPrice_def

lemma narrow_item_cols:
  assumes "price_items price its = Some items"
  shows "image_mset narrow_item (mset (map item_cols items)) =
    mset (map (\<lambda>it. (oir_menu_item_id it, oir_quantity it, the (price (oir_menu_item_id it)))) its)"
  unfolding price_items_cols [OF assms] by (simp add: narrow_item_def comp_def flip: mset_map)

text \<open>
  C5: What a client reads of the reply to an accepted order. On any network, when a call of
  \<open>CreateOrder\<close> through the stub succeeds, the accessors give the user of the request, the status
  \<open>pending\<close>, and one item for each item of the request, with its menu item, its quantity and the
  price that the menu has for it; every item of the request is on the menu.
\<close>

theorem order_reply_read:
  assumes "backends_ok w" and "gorm_ok order_cols (order_db w)"
    and "oc_CreateOrder (NewOrderServiceClient (order_conn T)) req w = (Inr p, w')"
  shows "Order_GetUserId (CreateOrderResponse_GetOrder (Some p)) = co_user_id req \<and>
    Order_GetStatus (CreateOrderResponse_GetOrder (Some p)) = ''pending'' \<and>
    mset (map (\<lambda>i. (OrderItem_GetMenuItemId (Some i), OrderItem_GetQuantity (Some i), Some (OrderItem_GetPrice (Some i))))
      (Order_GetOrderItems (CreateOrderResponse_GetOrder (Some p)))) =
    mset (map (\<lambda>it. (oir_menu_item_id it, oir_quantity it, menu_price w (oir_menu_item_id it))) (co_items req))"
proof -
  from CreateOrder_call [OF assms] obtain ord k where
    ord: "place_order (known_user w) (menu_price w) req = Some ord" and
    p: "map_option proto_order_data (co_order p) = Some (uint32_of_uint k, narrow_order (order_cols ord))" by blast
  from ord obtain items where items: "price_items (menu_price w) (co_items req) = Some items"
    and o: "ord = new_order (uint_of_uint32 (co_user_id req)) items" by (auto simp: place_order_def split: if_splits)
  have prices: "menu_price w (oir_menu_item_id it) \<noteq> None" if "it \<in> set (co_items req)" for it
    using price_items_None [of "menu_price w" "co_items req"] items that by auto
  from p obtain v where v: "co_order p = Some v" "o_user_id v = co_user_id req" "o_status v = ''pending''"
    "mset (map (\<lambda>i. (oi_menu_item_id i, oi_quantity i, oi_price i)) (o_order_items v)) =
      mset (map (\<lambda>it. (oir_menu_item_id it, oir_quantity it, the (menu_price w (oir_menu_item_id it)))) (co_items req))"
    using narrow_item_cols [OF items]
    by (auto simp: proto_order_data_def narrow_order_def order_cols_def o new_order_def)
  have "mset (map (\<lambda>i. (oi_menu_item_id i, oi_quantity i, Some (oi_price i))) (o_order_items v)) =
      image_mset (\<lambda>(m, q, c). (m, q, Some c)) (mset (map (\<lambda>i. (oi_menu_item_id i, oi_quantity i, oi_price i)) (o_order_items v)))"
    by (simp add: comp_def flip: mset_map)
  also have "\<dots> = mset (map (\<lambda>it. (oir_menu_item_id it, oir_quantity it, menu_price w (oir_menu_item_id it))) (co_items req))"
    unfolding v(4) using prices by (auto simp: comp_def simp flip: mset_map intro!: arg_cong [where f = mset])
  finally show ?thesis using v(1-3) by (simp add: order_getters)
qed

theorem order_reply_read_witness:
  "Order_GetUserId (CreateOrderResponse_GetOrder (Some \<lparr>co_order = Some (order_modelToProto two_coffees)\<rparr>)) = 1"
proof -
  have ok: "backends_ok demo2" using demo_up(3) by (simp add: backends_up_def)
  from order_reply_read [OF ok demo_up(5) demo_order_call] show ?thesis by (simp add: demo_request_def)
qed

end
