(* ===== verification/Rest_Model.thy ===== *)
theory Rest_Model
  imports Chi Gorm
begin

text \<open>
  What the REST services of \<open>practical5\<close> share: a GORM model as JSON (\<open>gorm.Model\<close> has no JSON
  tags, so its fields appear under their Go names), \<open>time.Time\<close> as JSON, and \<open>First\<close> with the
  URL parameter as its condition.
\<close>

subsection \<open>Times in JSON\<close>

definition digits_at :: "nat \<Rightarrow> nat \<Rightarrow> string \<Rightarrow> nat option" where
  "digits_at k n s = (if k + n \<le> length s then parse_digits 0 (take n (drop k s)) else None)"

definition leap_year :: "nat \<Rightarrow> bool" where
  "leap_year y \<longleftrightarrow> y mod 4 = 0 \<and> (y mod 100 \<noteq> 0 \<or> y mod 400 = 0)"

definition days_in :: "nat \<Rightarrow> nat \<Rightarrow> nat" where
  "days_in y m =
     (if m = 2 then (if leap_year y then 29 else 28) else if m \<in> {4, 6, 9, 11} then 30 else 31)"

text \<open>A fraction of a second, cut off after nine digits; the rest of the text is the zone.\<close>

definition split_fraction :: "string \<Rightarrow> (nat \<times> string) option" where
  "split_fraction s =
     (case s of
        c # r \<Rightarrow>
          if c = CHR ''.'' then
            (let ds = takeWhile (\<lambda>d. digit_val d \<noteq> None) r
             in if ds = [] then None
                else map_option (\<lambda>n. (n, drop (length ds) r))
                       (parse_digits 0 (take 9 (ds @ replicate 9 (CHR ''0'')))))
          else Some (0, s)
      | [] \<Rightarrow> Some (0, []))"

definition parse_zone :: "string \<Rightarrow> int option" where
  "parse_zone z =
     (if z = ''Z'' then Some 0
      else if length z = 6 \<and> (z ! 0 = CHR ''+'' \<or> z ! 0 = CHR ''-'') \<and> z ! 3 = CHR '':'' then
        (case (digits_at 1 2 z, digits_at 4 2 z) of
           (Some h, Some m) \<Rightarrow>
             if h \<le> 23 \<and> m \<le> 59
             then Some ((if z ! 0 = CHR ''-'' then -1 else 1) * int (h * 60 + m)) else None
         | _ \<Rightarrow> None)
      else None)"

definition parse_rfc3339 :: "string \<Rightarrow> gotime option" where
  "parse_rfc3339 s =
     (case (digits_at 0 4 s, digits_at 5 2 s, digits_at 8 2 s, digits_at 11 2 s, digits_at 14 2 s, digits_at 17 2 s) of
        (Some y, Some mo, Some d, Some h, Some mi, Some sec) \<Rightarrow>
          if s ! 4 = CHR ''-'' \<and> s ! 7 = CHR ''-'' \<and> s ! 10 = CHR ''T'' \<and> s ! 13 = CHR '':'' \<and> s ! 16 = CHR '':'' \<and>
             1 \<le> mo \<and> mo \<le> 12 \<and> 1 \<le> d \<and> d \<le> days_in y mo \<and> h \<le> 23 \<and> mi \<le> 59 \<and> sec \<le> 59
          then
            (case split_fraction (drop 19 s) of
               None \<Rightarrow> None
             | Some (ns, z) \<Rightarrow>
                 map_option (\<lambda>off. \<lparr>year = y, month = mo, day = d, hour = h, minute = mi, second = sec,
                                    nanosecond = ns, offset = off\<rparr>) (parse_zone z))
          else None
      | _ \<Rightarrow> None)"

fun dec_time :: "gotime decoder" where
  "dec_time (JStr s) old = (case parse_rfc3339 s of None \<Rightarrow> (False, old) | Some t \<Rightarrow> (True, t))"
| "dec_time JNull old = (True, old)"
| "dec_time _ old = (False, old)"

text \<open>\<open>gorm.DeletedAt\<close>: \<open>null\<close> makes it invalid.\<close>

fun dec_deleted_at :: "gotime option decoder" where
  "dec_deleted_at (JStr s) old = (case parse_rfc3339 s of None \<Rightarrow> (False, old) | Some t \<Rightarrow> (True, Some t))"
| "dec_deleted_at JNull old = (True, None)"
| "dec_deleted_at _ old = (False, old)"

text \<open>A time outside the years 0 to 9999 cannot be encoded.\<close>

definition enc_time :: "gotime \<Rightarrow> json option" where
  "enc_time t = (if year t \<le> 9999 then Some (JStr (Format_RFC3339Nano t)) else None)"

subsection \<open>The fields of \<open>gorm.Model\<close>\<close>

definition gorm_model_fields :: "(string \<times> ('a gorm_model_scheme) decoder) list" where
  "gorm_model_fields =
     [(''ID'', field dec_uint ID (\<lambda>x. ID_update (\<lambda>_. x))),
      (''CreatedAt'', field dec_time CreatedAt (\<lambda>x. CreatedAt_update (\<lambda>_. x))),
      (''UpdatedAt'', field dec_time UpdatedAt (\<lambda>x. UpdatedAt_update (\<lambda>_. x))),
      (''DeletedAt'', field dec_deleted_at DeletedAt (\<lambda>x. DeletedAt_update (\<lambda>_. x)))]"

definition enc_gorm_model :: "'a gorm_model_scheme \<Rightarrow> (string \<times> json) list option" where
  "enc_gorm_model r =
     (case (enc_time (CreatedAt r), enc_time (UpdatedAt r),
            case DeletedAt r of None \<Rightarrow> Some JNull | Some t \<Rightarrow> enc_time t) of
        (Some c, Some u, Some d) \<Rightarrow>
          Some [(''ID'', enc_uint (ID r)), (''CreatedAt'', c), (''UpdatedAt'', u), (''DeletedAt'', d)]
      | _ \<Rightarrow> None)"

subsection \<open>\<open>First\<close> with a string\<close>

text \<open>
  \<open>DB.First(&x, id)\<close> with a string: GORM takes a string that \<open>strconv.Atoi\<close> parses as a primary
  key, and any other string as an SQL condition. \<open>raw\<close> is the database's answer to a condition.
\<close>

definition Atoi :: "string \<Rightarrow> int option" where
  "Atoi s =
     (let (neg, ds) = (case s of c # r \<Rightarrow> if c = CHR ''-'' then (True, r) else if c = CHR ''+'' then (False, r) else (False, s)
                        | [] \<Rightarrow> (False, []))
      in if ds = [] then None
         else case parse_digits 0 ds of
                None \<Rightarrow> None
              | Some n \<Rightarrow>
                  (let i = (if neg then - int n else int n)
                   in if - (2 ^ 63) \<le> i \<and> i < 2 ^ 63 then Some i else None))"

type_synonym ('s, 'r) sql = "string \<Rightarrow> ('s, 'r) gorm \<Rightarrow> (gorm_error + 'r) \<times> ('s, 'r) gorm"

definition DB_First_cond :: "('s, 'r) sql \<Rightarrow> string \<Rightarrow> ('s, 'r) gorm \<Rightarrow> (gorm_error + 'r) \<times> ('s, 'r) gorm" where
  "DB_First_cond raw cond db =
     (case Atoi cond of
        Some i \<Rightarrow> if 0 \<le> i then DB_First (of_int i) db else (Inl ErrRecordNotFound, db)
      | None \<Rightarrow> raw cond db)"

lemma Atoi_dec_of_nat: "n < 2 ^ 63 \<Longrightarrow> Atoi (dec_of_nat n) = Some (int n)"
proof -
  assume n: "n < 2 ^ 63"
  obtain c r where cr: "dec_of_nat n = c # r" using dec_of_nat_nonempty [of n] by (cases "dec_of_nat n") auto
  then have "digit_val c \<noteq> None" using dec_of_nat_digits [of c n] by simp
  then have "c \<noteq> CHR ''-''" "c \<noteq> CHR ''+''" by (auto simp: digit_val_def)
  moreover have "parse_digits 0 (c # r) = Some n" using parse_digits_dec_of_nat [of n] cr by simp
  ultimately show ?thesis using n by (simp add: Atoi_def cr del: parse_digits.simps)
qed

lemma DB_First_cond_id:
  assumes "unat k < 2 ^ 63"
  shows "DB_First_cond raw (fmt_uint (k :: uint)) db = DB_First k db"
  using Atoi_dec_of_nat [OF assms] by (simp add: DB_First_cond_def fmt_uint_def)

text \<open>A raw condition is the \<open>WHERE\<close> clause of a \<open>SELECT\<close>: it changes no table.\<close>

definition sql_reads :: "('s, 'r) sql \<Rightarrow> bool" where
  "sql_reads raw \<longleftrightarrow>
     (\<forall>c D x D'. raw c D = (x, D') \<longrightarrow> D' = D\<lparr>gState := gState D'\<rparr> \<and> contents D' = contents D)"

lemma DB_First_cond_frame:
  assumes "sql_reads raw" and "gorm_ok cols D" and "DB_First_cond raw param D = (x, D')"
  shows "gorm_ok cols D' \<and> contents D' = contents D"
proof (cases "Atoi param")
  case None
  with assms(3) have "raw param D = (x, D')" by (simp add: DB_First_cond_def)
  with assms(1) have "D' = D\<lparr>gState := gState D'\<rparr>" "contents D' = contents D" unfolding sql_reads_def by blast+
  with assms(2) gorm_ok_state [where cols = cols and D = D and s = "gState D'"] show ?thesis by simp
next
  case (Some i)
  with assms(3) consider "D' = D" | "DB_First (of_int i) D = (x, D')"
    by (auto simp: DB_First_cond_def split: if_splits)
  then show ?thesis
  proof cases
    case 2
    from DB_First_frame [OF assms(2) 2] DB_ops_ok(2) [OF 2, of cols] assms(2) show ?thesis by simp
  qed (use assms(2) in simp)
qed

end
