(* ===== verification/Rest_Services.thy ===== *)
theory Rest_Services
  imports Rest_Model User_Service Menu_Service Order_Service
begin

text \<open>
  The REST services of \<open>practical5\<close>: the user service (\<open>user-service/handlers\<close>), the menu service
  (\<open>menu-service/handlers\<close>) and the order service (\<open>order-service/handlers\<close>), which validates an
  order by HTTP calls to the other two. The models of users and orders are the ones of the gRPC
  services, whose \<open>models\<close> packages are the same files.

  \<open>jerr\<close> is the text of \<open>Decode\<close>'s error for a body, \<open>raw\<close> the database's answer to an SQL
  condition. The handlers decode a body straight into the GORM model.
\<close>

subsection \<open>Users\<close>

definition zero_user :: User where
  "zero_user = \<lparr>ID = 0, CreatedAt = zero_time, UpdatedAt = zero_time, DeletedAt = None,
                Name = [], Email = [], IsCafeOwner = False\<rparr>"

definition user_model_fields :: "(string \<times> User decoder) list" where
  "user_model_fields =
     gorm_model_fields @
     [(''name'', field dec_string Name (\<lambda>x. Name_update (\<lambda>_. x))),
      (''email'', field dec_string Email (\<lambda>x. Email_update (\<lambda>_. x))),
      (''is_cafe_owner'', field dec_bool IsCafeOwner (\<lambda>x. IsCafeOwner_update (\<lambda>_. x)))]"

definition enc_User :: "User \<Rightarrow> json option" where
  "enc_User u =
     map_option (\<lambda>b. JObj (b @ [(''name'', JStr (Name u)), (''email'', JStr (Email u)),
                               (''is_cafe_owner'', JBool (IsCafeOwner u))])) (enc_gorm_model u)"

definition rest_CreateUser :: "(request_body \<Rightarrow> string) \<Rightarrow> request_body \<Rightarrow> 's user_db \<Rightarrow> response \<times> 's user_db" where
  "rest_CreateUser jerr body db =
     (case Decode user_model_fields zero_user body of
        (False, _) \<Rightarrow> (http_Error (jerr body) StatusBadRequest, db)
      | (True, user) \<Rightarrow>
          (case DB_Create user db of
             (Inl err, db') \<Rightarrow> (http_Error (gorm_error_text err) StatusInternalServerError, db')
           | (Inr user', db') \<Rightarrow> (json_reply StatusCreated (enc_User user'), db')))"

definition rest_GetUser :: "('s, User) sql \<Rightarrow> string \<Rightarrow> 's user_db \<Rightarrow> response \<times> 's user_db" where
  "rest_GetUser raw param db =
     (case DB_First_cond raw param db of
        (Inl err, db') \<Rightarrow> (http_Error ''User not found'' StatusNotFound, db')
      | (Inr user, db') \<Rightarrow> (json_reply StatusOK (enc_User user), db'))"

definition rest_GetUsers :: "'s user_db \<Rightarrow> response \<times> 's user_db" where
  "rest_GetUsers db =
     (case DB_Find db of
        (Inl err, db') \<Rightarrow> (http_Error (gorm_error_text err) StatusInternalServerError, db')
      | (Inr users, db') \<Rightarrow> (json_reply StatusOK (enc_array enc_User users), db'))"

definition rest_user_routes :: "(request_body \<Rightarrow> string) \<Rightarrow> ('s, User) sql \<Rightarrow> 's user_db routes" where
  "rest_user_routes jerr raw =
     [((''POST'', ''/users''), \<lambda>_ body. rest_CreateUser jerr body),
      ((''GET'', ''/users/{id}''), \<lambda>param _. rest_GetUser raw param),
      ((''GET'', ''/users''), \<lambda>_ _. rest_GetUsers)]"

subsection \<open>Menus\<close>

record Menu = gorm_model +
  MenuName :: string
  MenuDescription :: string
  MenuItems :: "MenuItem list option"

type_synonym 's menus_db = "('s, Menu) gorm"

definition zero_menu_item :: MenuItem where
  "zero_menu_item = \<lparr>ID = 0, CreatedAt = zero_time, UpdatedAt = zero_time, DeletedAt = None,
                     ItemName = [], Description = [], Price = 0\<rparr>"

definition zero_menu :: Menu where
  "zero_menu = \<lparr>ID = 0, CreatedAt = zero_time, UpdatedAt = zero_time, DeletedAt = None,
                MenuName = [], MenuDescription = [], MenuItems = None\<rparr>"

definition menu_item_model_fields :: "(string \<times> MenuItem decoder) list" where
  "menu_item_model_fields =
     gorm_model_fields @
     [(''name'', field dec_string ItemName (\<lambda>x. ItemName_update (\<lambda>_. x))),
      (''description'', field dec_string Description (\<lambda>x. Description_update (\<lambda>_. x))),
      (''price'', field dec_float64 Price (\<lambda>x. Price_update (\<lambda>_. x)))]"

definition menu_model_fields :: "(string \<times> Menu decoder) list" where
  "menu_model_fields =
     gorm_model_fields @
     [(''name'', field dec_string MenuName (\<lambda>x. MenuName_update (\<lambda>_. x))),
      (''description'', field dec_string MenuDescription (\<lambda>x. MenuDescription_update (\<lambda>_. x))),
      (''menu_items'', field (dec_slice_or_nil (dec_struct menu_item_model_fields) zero_menu_item) MenuItems
         (\<lambda>x. MenuItems_update (\<lambda>_. x)))]"

definition enc_MenuItem :: "MenuItem \<Rightarrow> json option" where
  "enc_MenuItem i =
     (case (enc_gorm_model i, enc_float64 (Price i)) of
        (Some b, Some p) \<Rightarrow>
          Some (JObj (b @ [(''name'', JStr (ItemName i)), (''description'', JStr (Description i)), (''price'', p)]))
      | _ \<Rightarrow> None)"

definition enc_Menu :: "Menu \<Rightarrow> json option" where
  "enc_Menu m =
     (case (enc_gorm_model m, case MenuItems m of None \<Rightarrow> Some JNull | Some is \<Rightarrow> enc_array enc_MenuItem is) of
        (Some b, Some items) \<Rightarrow>
          Some (JObj (b @ [(''name'', JStr (MenuName m)), (''description'', JStr (MenuDescription m)),
                           (''menu_items'', items)]))
      | _ \<Rightarrow> None)"

text \<open>\<open>GetMenu\<close> binds the parameter to \<open>id = ?\<close>: here \<open>raw\<close> is the answer for a string that is no integer.\<close>

definition rest_GetMenu :: "('s, Menu) sql \<Rightarrow> string \<Rightarrow> 's menus_db \<Rightarrow> response \<times> 's menus_db" where
  "rest_GetMenu raw param db =
     (case DB_First_cond raw param db of
        (Inl err, db') \<Rightarrow> (http_Error ''Menu not found'' StatusNotFound, db')
      | (Inr menu, db') \<Rightarrow> (json_reply StatusOK (enc_Menu menu), db'))"

definition rest_CreateMenu :: "(request_body \<Rightarrow> string) \<Rightarrow> request_body \<Rightarrow> 's menus_db \<Rightarrow> response \<times> 's menus_db" where
  "rest_CreateMenu jerr body db =
     (case Decode menu_model_fields zero_menu body of
        (False, _) \<Rightarrow> (http_Error (jerr body) StatusBadRequest, db)
      | (True, menu) \<Rightarrow>
          (case DB_Create menu db of
             (Inl err, db') \<Rightarrow> (http_Error (gorm_error_text err) StatusInternalServerError, db')
           | (Inr menu', db') \<Rightarrow> (json_reply StatusCreated (enc_Menu menu'), db')))"

definition rest_menu_routes :: "(request_body \<Rightarrow> string) \<Rightarrow> ('s, Menu) sql \<Rightarrow> 's menus_db routes" where
  "rest_menu_routes jerr raw =
     [((''GET'', ''/menu/{id}''), \<lambda>param _. rest_GetMenu raw param),
      ((''POST'', ''/menu''), \<lambda>_ body. rest_CreateMenu jerr body)]"

subsection \<open>Orders\<close>

record rest_item_request =
  rir_menu_item_id :: uint
  rir_quantity :: goint

record rest_order_request =
  ror_user_id :: uint
  ror_items :: "rest_item_request list"

definition rest_item_request_fields :: "(string \<times> rest_item_request decoder) list" where
  "rest_item_request_fields =
     [(''menu_item_id'', field dec_uint rir_menu_item_id (\<lambda>x. rir_menu_item_id_update (\<lambda>_. x))),
      (''quantity'', field dec_int rir_quantity (\<lambda>x. rir_quantity_update (\<lambda>_. x)))]"

definition rest_order_request_fields :: "(string \<times> rest_order_request decoder) list" where
  "rest_order_request_fields =
     [(''user_id'', field dec_uint ror_user_id (\<lambda>x. ror_user_id_update (\<lambda>_. x))),
      (''items'',
       field (dec_slice (dec_struct rest_item_request_fields) \<lparr>rir_menu_item_id = 0, rir_quantity = 0\<rparr>)
         ror_items (\<lambda>x. ror_items_update (\<lambda>_. x)))]"

definition zero_rest_order_request :: rest_order_request where
  "zero_rest_order_request = \<lparr>ror_user_id = 0, ror_items = []\<rparr>"

definition enc_OrderItem :: "OrderItem \<Rightarrow> json option" where
  "enc_OrderItem i =
     (case (enc_gorm_model i, enc_float64 (ItemPrice i)) of
        (Some b, Some p) \<Rightarrow>
          Some (JObj (b @ [(''order_id'', enc_uint (OrderID i)), (''menu_item_id'', enc_uint (MenuItemID i)),
                           (''quantity'', enc_int (Quantity i)), (''price'', p)]))
      | _ \<Rightarrow> None)"

text \<open>
  \<open>no_items\<close> is how an order without items writes them: a fresh order's slice is nil (\<open>null\<close>), a
  preloaded one is empty (\<open>[]\<close>).
\<close>

definition enc_Order :: "json \<Rightarrow> Order \<Rightarrow> json option" where
  "enc_Order no_items ord =
     (case (enc_gorm_model ord, if OrderItems ord = [] then Some no_items else enc_array enc_OrderItem (OrderItems ord)) of
        (Some b, Some items) \<Rightarrow>
          Some (JObj (b @ [(''user_id'', enc_uint (UserID ord)), (''status'', JStr (Status ord)),
                           (''order_items'', items)]))
      | _ \<Rightarrow> None)"

text \<open>
  \<open>http_get\<close> is \<open>http.Get\<close>: an error, or the status and the body as a JSON decoder reads it. The
  handler reads the price from the answer and ignores a decoding error.
\<close>

type_synonym 'w http_get = "string \<Rightarrow> 'w \<Rightarrow> (string + nat \<times> request_body) \<times> 'w"

definition price_fields :: "(string \<times> float64 decoder) list" where
  "price_fields = [(''price'', field dec_float64 (\<lambda>x. x) (\<lambda>x _. x))]"

fun rest_order_items ::
  "'w http_get \<Rightarrow> rest_item_request list \<Rightarrow> OrderItem list \<Rightarrow> 'w \<Rightarrow> (response + OrderItem list) \<times> 'w" where
  "rest_order_items http_get [] acc w = (Inr acc, w)"
| "rest_order_items http_get (item # items) acc w =
     (case http_get (''http://menu-service:8082/menu/'' @ fmt_uint (rir_menu_item_id item)) w of
        (Inl err, w') \<Rightarrow> (Inl (http_Error ''Menu item not found'' StatusBadRequest), w')
      | (Inr (st, reply), w') \<Rightarrow>
          if st \<noteq> StatusOK then (Inl (http_Error ''Menu item not found'' StatusBadRequest), w')
          else rest_order_items http_get items
                 (acc @ [new_order_item (rir_menu_item_id item) (rir_quantity item) (snd (Decode price_fields 0 reply))]) w')"

definition rest_CreateOrder ::
  "'w http_get \<Rightarrow> (request_body \<Rightarrow> string) \<Rightarrow> request_body \<Rightarrow> 'w \<times> 's order_db \<Rightarrow> response \<times> ('w \<times> 's order_db)" where
  "rest_CreateOrder http_get jerr body st =
     (case st of (w, db) \<Rightarrow>
      case Decode rest_order_request_fields zero_rest_order_request body of
        (False, _) \<Rightarrow> (http_Error (jerr body) StatusBadRequest, (w, db))
      | (True, req) \<Rightarrow>
          (case http_get (''http://user-service:8081/users/'' @ fmt_uint (ror_user_id req)) w of
             (Inl err, w1) \<Rightarrow> (http_Error ''User not found'' StatusBadRequest, (w1, db))
           | (Inr (code, _), w1) \<Rightarrow>
               if code \<noteq> StatusOK then (http_Error ''User not found'' StatusBadRequest, (w1, db))
               else
                 (case rest_order_items http_get (ror_items req) [] w1 of
                    (Inl r, w2) \<Rightarrow> (r, (w2, db))
                  | (Inr items, w2) \<Rightarrow>
                      (case DB_Create (new_order (ror_user_id req) items) db of
                         (Inl err, db') \<Rightarrow> (http_Error (gorm_error_text err) StatusInternalServerError, (w2, db'))
                       | (Inr order, db') \<Rightarrow> (json_reply StatusCreated (enc_Order JNull order), (w2, db'))))))"

definition rest_GetOrders :: "'w \<times> 's order_db \<Rightarrow> response \<times> ('w \<times> 's order_db)" where
  "rest_GetOrders st =
     (case st of (w, db) \<Rightarrow>
      case DB_Find db of
        (Inl err, db') \<Rightarrow> (http_Error (gorm_error_text err) StatusInternalServerError, (w, db'))
      | (Inr orders, db') \<Rightarrow> (json_reply StatusOK (enc_array (enc_Order (JArr [])) orders), (w, db')))"

definition rest_order_routes ::
  "'w http_get \<Rightarrow> (request_body \<Rightarrow> string) \<Rightarrow> ('w \<times> 's order_db) routes" where
  "rest_order_routes http_get jerr =
     [((''POST'', ''/orders''), \<lambda>_ body. rest_CreateOrder http_get jerr body),
      ((''GET'', ''/orders''), \<lambda>_ _. rest_GetOrders)]"

subsection \<open>Bodies decoded into models\<close>

lemma rest_CreateUser_Created:
  assumes "rest_CreateUser jerr body db = (r, db')" and "status r = StatusCreated"
  obtains u u' where "Decode user_model_fields zero_user body = (True, u)" and "DB_Create u db = (Inr u', db')"
    and "r = json_reply StatusCreated (enc_User u')"
proof -
  obtain ok u where d: "Decode user_model_fields zero_user body = (ok, u)" by fastforce
  with assms have "ok" by (cases ok) (auto simp: rest_CreateUser_def)
  with assms d that show thesis by (auto simp: rest_CreateUser_def split: prod.splits sum.splits)
qed

lemmas rest_body_eval =
  Decode_def user_model_fields_def gorm_model_fields_def zero_user_def lookup_field_def field_def fold_char_def

definition mallory_body :: request_body where
  "mallory_body = Some (JObj [(''name'', JStr ''Mallory''), (''email'', JStr ''m@cafe''), (''ID'', JInt 7)])"

definition ghost_body :: request_body where
  "ghost_body = Some (JObj [(''name'', JStr ''Ghost''), (''DeletedAt'', JStr ''2020-02-29T00:00:00Z'')])"

lemma parse_ghost:
  "parse_rfc3339 ''2020-02-29T00:00:00Z'' =
     Some \<lparr>year = 2020, month = 2, day = 29, hour = 0, minute = 0, second = 0, nanosecond = 0, offset = 0\<rparr>"
  by (simp add: parse_rfc3339_def digits_at_def digit_val_def days_in_def leap_year_def split_fraction_def
      parse_zone_def Let_def)

text \<open>
  C23: A user posted to the REST user service is stored with the data of the body and read back
  by \<open>GET /users/{id}\<close>. The identifier is the client's to choose: a non-zero \<open>ID\<close> in the body is
  the key the user is stored under.
\<close>

theorem rest_user_round_trip:
  assumes "gorm_ok user_cols db" and "gorm_up db" and "rest_CreateUser jerr body db = (r, db1)" and "status r = StatusCreated"
    and "Decode user_model_fields zero_user body = (True, u)" and "DeletedAt u = None"
    and "\<And>k. user_rows db1 k \<noteq> None \<Longrightarrow> unat k < 2 ^ 63"
  shows "\<exists>k u' db2. (ID u \<noteq> 0 \<longrightarrow> k = ID u) \<and> user_rows db k = None \<and> user_rows db1 = (user_rows db)(k \<mapsto> user_cols u) \<and>
    rest_GetUser raw (fmt_uint k) db1 = (json_reply StatusOK (enc_User u'), db2) \<and> ID u' = k \<and> user_cols u' = user_cols u"
proof -
  from assms(3,4) obtain v v' where "Decode user_model_fields zero_user body = (True, v)"
    and c: "DB_Create v db = (Inr v', db1)" by (rule rest_CreateUser_Created)
  with assms(5) have v: "v = u" by simp
  from DB_Create_law [OF assms(1) c] assms(6) v obtain t where
    t: "ID u \<noteq> 0 \<longrightarrow> ID v' = ID u" "contents db (ID v') = None" "user_cols t = user_cols u"
      "contents db1 = (contents db)(ID v' \<mapsto> t)" by auto
  from user_rows_upd [OF t(4)] t(3) have rows: "user_rows db1 = (user_rows db)(ID v' \<mapsto> user_cols u)" by simp
  then have "unat (ID v') < 2 ^ 63" using assms(7) [of "ID v'"] by simp
  then have "DB_First_cond raw (fmt_uint (ID v')) db1 = DB_First (ID v') db1" by (rule DB_First_cond_id)
  moreover obtain x db2 where x: "DB_First (ID v') db1 = (x, db2)" by fastforce
  moreover have "gorm_ok user_cols db1" "gorm_up db1" using DB_ops_ok(1) [OF c] DB_ops_up(1) [OF c] assms(1,2) by auto
  from DB_First_up [OF this x] t(3,4) obtain u' where "x = Inr u'" "user_cols u' = user_cols u" "ID u' = ID v'" by auto
  ultimately show ?thesis using t(1,2) rows
    by (intro exI [where x = "ID v'"] exI [where x = u'] exI [where x = db2])
      (simp add: rest_GetUser_def, simp add: user_rows_def)
qed

theorem rest_user_round_trip_witness:
  "\<exists>r db1 u' db2. rest_CreateUser (\<lambda>_. []) mallory_body user_mem = (r, db1) \<and>
    rest_GetUser (\<lambda>_ db. (Inl ErrRecordNotFound, db)) (fmt_uint (7 :: uint)) db1 = (json_reply StatusOK (enc_User u'), db2) \<and>
    user_cols u' = (''Mallory'', ''m@cafe'', False)"
proof -
  let ?u = "zero_user\<lparr>ID := 7, Name := ''Mallory'', Email := ''m@cafe''\<rparr>"
  have d: "Decode user_model_fields zero_user mallory_body = (True, ?u)"
    by (simp add: rest_body_eval mallory_body_def)
  obtain r db1 where c: "rest_CreateUser (\<lambda>_. []) mallory_body user_mem = (r, db1)" by fastforce
  have s: "status r = StatusCreated" and db1: "db1 = user_mem\<lparr>gState := (1, [?u])\<rparr>"
    using c unfolding rest_CreateUser_def d
    by (auto simp: DB_Create_def mem_create_def Let_def zero_user_def user_prep_def)
  have fit: "unat k < 2 ^ 63" if "user_rows db1 k \<noteq> None" for k
    using that by (auto simp: db1 user_rows_def contents_def mem_rows_def zero_user_def split: if_splits)
  have del: "DeletedAt ?u = None" by (simp add: zero_user_def)
  from rest_user_round_trip [OF user_mem_ok user_mem_up c s d del fit, of "\<lambda>_ db. (Inl ErrRecordNotFound, db)"]
  obtain k u' db2 where "ID ?u \<noteq> 0 \<longrightarrow> k = ID ?u"
    "rest_GetUser (\<lambda>_ db. (Inl ErrRecordNotFound, db)) (fmt_uint k) db1 = (json_reply StatusOK (enc_User u'), db2)"
    "user_cols u' = user_cols ?u" by blast
  with c show ?thesis by (auto simp: user_cols_def zero_user_def)
qed

text \<open>
  C25: A body with a \<open>DeletedAt\<close> time is answered with 201 Created, but no user is added: the row
  is inserted as deleted.
\<close>

theorem rest_deleted_user_invisible:
  assumes "gorm_ok user_cols db" and "rest_CreateUser jerr body db = (r, db1)" and "status r = StatusCreated"
    and "Decode user_model_fields zero_user body = (True, u)" and "DeletedAt u \<noteq> None"
  shows "user_rows db1 = user_rows db"
proof -
  from assms(2,3) obtain v v' where "Decode user_model_fields zero_user body = (True, v)"
    and c: "DB_Create v db = (Inr v', db1)" by (rule rest_CreateUser_Created)
  with assms(4,5) have "DeletedAt v \<noteq> None" by simp
  with DB_Create_law [OF assms(1) c] show ?thesis by (auto intro: user_rows_cong)
qed

theorem rest_deleted_user_invisible_witness:
  "\<exists>r db1. rest_CreateUser (\<lambda>_. []) ghost_body user_mem = (r, db1) \<and> status r = StatusCreated \<and>
    user_rows db1 = user_rows user_mem"
proof -
  obtain r db1 where c: "rest_CreateUser (\<lambda>_. []) ghost_body user_mem = (r, db1)" by fastforce
  obtain t where d: "Decode user_model_fields zero_user ghost_body = (True, zero_user\<lparr>Name := ''Ghost'', DeletedAt := Some t\<rparr>)"
    by (simp add: rest_body_eval ghost_body_def parse_ghost)
  have s: "status r = StatusCreated"
    using c unfolding rest_CreateUser_def d
    by (auto simp: DB_Create_def mem_create_def Let_def zero_user_def user_prep_def)
  from rest_deleted_user_invisible [OF user_mem_ok c s d] c s show ?thesis by simp
qed

end
