(* ===== verification/Monolith.thy ===== *)
theory Monolith
  imports Rest_Services
begin

text \<open>
  The monolith of \<open>practical5\<close> (\<open>student-cafe-monolith\<close>): the same cafe in one process over one
  database. Its user model has no owner flag; its menu items and orders are the models of the
  services it was split into.
\<close>

subsection \<open>Model and handlers\<close>

record MonoUser = gorm_model +
  mu_Name :: string
  mu_Email :: string

record ('u, 'm, 'o) mono =
  mono_users :: "('u, MonoUser) gorm"
  mono_items :: "('m, MenuItem) gorm"
  mono_orders :: "('o, Order) gorm"

definition zero_mono_user :: MonoUser where
  "zero_mono_user = \<lparr>ID = 0, CreatedAt = zero_time, UpdatedAt = zero_time, DeletedAt = None, mu_Name = [], mu_Email = []\<rparr>"

definition mono_user_fields :: "(string \<times> MonoUser decoder) list" where
  "mono_user_fields =
     gorm_model_fields @
     [(''name'', field dec_string mu_Name (\<lambda>x. mu_Name_update (\<lambda>_. x))),
      (''email'', field dec_string mu_Email (\<lambda>x. mu_Email_update (\<lambda>_. x)))]"

definition enc_MonoUser :: "MonoUser \<Rightarrow> json option" where
  "enc_MonoUser u =
     map_option (\<lambda>b. JObj (b @ [(''name'', JStr (mu_Name u)), (''email'', JStr (mu_Email u))])) (enc_gorm_model u)"

definition mono_CreateUser ::
  "(request_body \<Rightarrow> string) \<Rightarrow> request_body \<Rightarrow> ('u, 'm, 'o) mono \<Rightarrow> response \<times> ('u, 'm, 'o) mono" where
  "mono_CreateUser jerr body s =
     (case Decode mono_user_fields zero_mono_user body of
        (False, _) \<Rightarrow> (http_Error (jerr body) StatusBadRequest, s)
      | (True, user) \<Rightarrow>
          (case DB_Create user (mono_users s) of
             (Inl err, db') \<Rightarrow> (http_Error (gorm_error_text err) StatusInternalServerError, s\<lparr>mono_users := db'\<rparr>)
           | (Inr user', db') \<Rightarrow> (json_reply StatusCreated (enc_MonoUser user'), s\<lparr>mono_users := db'\<rparr>)))"

definition mono_GetUser ::
  "('u, MonoUser) sql \<Rightarrow> string \<Rightarrow> ('u, 'm, 'o) mono \<Rightarrow> response \<times> ('u, 'm, 'o) mono" where
  "mono_GetUser raw param s =
     (case DB_First_cond raw param (mono_users s) of
        (Inl err, db') \<Rightarrow> (http_Error ''User not found'' StatusNotFound, s\<lparr>mono_users := db'\<rparr>)
      | (Inr user, db') \<Rightarrow> (json_reply StatusOK (enc_MonoUser user), s\<lparr>mono_users := db'\<rparr>))"

definition mono_GetMenu :: "('u, 'm, 'o) mono \<Rightarrow> response \<times> ('u, 'm, 'o) mono" where
  "mono_GetMenu s =
     (case DB_Find (mono_items s) of
        (Inl err, db') \<Rightarrow> (http_Error (gorm_error_text err) StatusInternalServerError, s\<lparr>mono_items := db'\<rparr>)
      | (Inr items, db') \<Rightarrow> (json_reply StatusOK (enc_array enc_MenuItem items), s\<lparr>mono_items := db'\<rparr>))"

definition mono_CreateMenuItem ::
  "(request_body \<Rightarrow> string) \<Rightarrow> request_body \<Rightarrow> ('u, 'm, 'o) mono \<Rightarrow> response \<times> ('u, 'm, 'o) mono" where
  "mono_CreateMenuItem jerr body s =
     (case Decode menu_item_model_fields zero_menu_item body of
        (False, _) \<Rightarrow> (http_Error (jerr body) StatusBadRequest, s)
      | (True, item) \<Rightarrow>
          (case DB_Create item (mono_items s) of
             (Inl err, db') \<Rightarrow> (http_Error (gorm_error_text err) StatusInternalServerError, s\<lparr>mono_items := db'\<rparr>)
           | (Inr item', db') \<Rightarrow> (json_reply StatusCreated (enc_MenuItem item'), s\<lparr>mono_items := db'\<rparr>)))"

fun mono_order_items ::
  "rest_item_request list \<Rightarrow> OrderItem list \<Rightarrow> ('u, 'm, 'o) mono \<Rightarrow> (response + OrderItem list) \<times> ('u, 'm, 'o) mono" where
  "mono_order_items [] acc s = (Inr acc, s)"
| "mono_order_items (item # items) acc s =
     (case DB_First (rir_menu_item_id item) (mono_items s) of
        (Inl err, db') \<Rightarrow> (Inl (http_Error ''Menu item not found'' StatusBadRequest), s\<lparr>mono_items := db'\<rparr>)
      | (Inr menuItem, db') \<Rightarrow>
          mono_order_items items
            (acc @ [new_order_item (rir_menu_item_id item) (rir_quantity item) (Price menuItem)]) (s\<lparr>mono_items := db'\<rparr>))"

definition mono_CreateOrder ::
  "(request_body \<Rightarrow> string) \<Rightarrow> request_body \<Rightarrow> ('u, 'm, 'o) mono \<Rightarrow> response \<times> ('u, 'm, 'o) mono" where
  "mono_CreateOrder jerr body s =
     (case Decode rest_order_request_fields zero_rest_order_request body of
        (False, _) \<Rightarrow> (http_Error (jerr body) StatusBadRequest, s)
      | (True, req) \<Rightarrow>
          (case DB_First (ror_user_id req) (mono_users s) of
             (Inl err, db1) \<Rightarrow> (http_Error ''User not found'' StatusBadRequest, s\<lparr>mono_users := db1\<rparr>)
           | (Inr user, db1) \<Rightarrow>
               (case mono_order_items (ror_items req) [] (s\<lparr>mono_users := db1\<rparr>) of
                  (Inl r, s2) \<Rightarrow> (r, s2)
                | (Inr items, s2) \<Rightarrow>
                    (case DB_Create (new_order (ror_user_id req) items) (mono_orders s2) of
                       (Inl err, db3) \<Rightarrow>
                         (http_Error (gorm_error_text err) StatusInternalServerError, s2\<lparr>mono_orders := db3\<rparr>)
                     | (Inr order, db3) \<Rightarrow>
                         (json_reply StatusCreated (enc_Order JNull order), s2\<lparr>mono_orders := db3\<rparr>)))))"

definition mono_GetOrders :: "('u, 'm, 'o) mono \<Rightarrow> response \<times> ('u, 'm, 'o) mono" where
  "mono_GetOrders s =
     (case DB_Find (mono_orders s) of
        (Inl err, db') \<Rightarrow> (http_Error (gorm_error_text err) StatusInternalServerError, s\<lparr>mono_orders := db'\<rparr>)
      | (Inr orders, db') \<Rightarrow> (json_reply StatusOK (enc_array (enc_Order (JArr [])) orders), s\<lparr>mono_orders := db'\<rparr>))"

definition mono_routes :: "(request_body \<Rightarrow> string) \<Rightarrow> ('u, MonoUser) sql \<Rightarrow> ('u, 'm, 'o) mono routes" where
  "mono_routes jerr raw =
     [((''POST'', ''/api/users''), \<lambda>_ body. mono_CreateUser jerr body),
      ((''GET'', ''/api/users/{id}''), \<lambda>param _. mono_GetUser raw param),
      ((''GET'', ''/api/menu''), \<lambda>_ _. mono_GetMenu),
      ((''POST'', ''/api/menu''), \<lambda>_ body. mono_CreateMenuItem jerr body),
      ((''POST'', ''/api/orders''), \<lambda>_ body. mono_CreateOrder jerr body),
      ((''GET'', ''/api/orders''), \<lambda>_ _. mono_GetOrders)]"

subsection \<open>Specification of \<open>CreateOrder\<close>\<close>

fun price_items64 :: "(uint \<Rightarrow> float64 option) \<Rightarrow> rest_item_request list \<Rightarrow> OrderItem list option" where
  "price_items64 price [] = Some []"
| "price_items64 price (it # its) =
     (case price (rir_menu_item_id it) of
        None \<Rightarrow> None
      | Some p \<Rightarrow>
          map_option ((#) (new_order_item (rir_menu_item_id it) (rir_quantity it) p)) (price_items64 price its))"

definition place_order64 ::
  "(uint \<Rightarrow> bool) \<Rightarrow> (uint \<Rightarrow> float64 option) \<Rightarrow> rest_order_request \<Rightarrow> Order option" where
  "place_order64 known price req =
     (if known (ror_user_id req)
      then map_option (new_order (ror_user_id req)) (price_items64 price (ror_items req))
      else None)"

definition mono_user_cols :: "MonoUser \<Rightarrow> string \<times> string" where
  "mono_user_cols u = (mu_Name u, mu_Email u)"

definition mono_known :: "('u, 'm, 'o) mono \<Rightarrow> uint \<Rightarrow> bool" where
  "mono_known s k \<longleftrightarrow> contents (mono_users s) k \<noteq> None"

definition mono_price :: "('u, 'm, 'o) mono \<Rightarrow> uint \<Rightarrow> float64 option" where
  "mono_price s k = map_option Price (contents (mono_items s) k)"

definition mono_ok :: "('u, 'm, 'o) mono \<Rightarrow> bool" where
  "mono_ok s \<longleftrightarrow> gorm_ok mono_user_cols (mono_users s) \<and> gorm_ok menu_cols (mono_items s) \<and> gorm_ok order_cols (mono_orders s)"

definition mono_up :: "('u, 'm, 'o) mono \<Rightarrow> bool" where
  "mono_up s \<longleftrightarrow> mono_ok s \<and> gorm_up (mono_users s) \<and> gorm_up (mono_items s)"

lemma menu_cols_Price: "menu_cols a = menu_cols b \<Longrightarrow> Price a = Price b"
  by (simp add: menu_cols_def)

text \<open>The loop, on every branch: it prices the items from the table or stops with 400.\<close>

lemma mono_items_outcome:
  "gorm_ok menu_cols (mono_items s) \<Longrightarrow> mono_order_items its acc s = (x, s') \<Longrightarrow>
     (\<exists>db. s' = s\<lparr>mono_items := db\<rparr> \<and> contents db = contents (mono_items s)) \<and>
     (case x of
        Inr items \<Rightarrow> \<exists>new. price_items64 (mono_price s) its = Some new \<and> items = acc @ new
      | Inl r \<Rightarrow> r = http_Error ''Menu item not found'' StatusBadRequest)"
proof (induction its arbitrary: acc s)
  case Nil
  then show ?case by (auto intro!: exI [where x = "mono_items s"])
next
  case (Cons it its)
  obtain y db where y: "DB_First (rir_menu_item_id it) (mono_items s) = (y, db)" by fastforce
  note law = DB_First_law [OF Cons.prems(1) y]
  show ?case
  proof (cases y)
    case (Inl e)
    with Cons.prems(2) y law show ?thesis by (auto intro!: exI [where x = db])
  next
    case (Inr m)
    with law obtain t where t: "contents (mono_items s) (rir_menu_item_id it) = Some t" "Price m = Price t"
      by (auto dest: menu_cols_Price)
    have ok: "gorm_ok menu_cols (mono_items (s\<lparr>mono_items := db\<rparr>))"
      using DB_ops_ok(2) [OF y, of menu_cols] Cons.prems(1) by simp
    have price: "mono_price (s\<lparr>mono_items := db\<rparr>) = mono_price s" using law by (simp add: mono_price_def fun_eq_iff)
    from Cons.prems(2) y Inr have
      "mono_order_items its (acc @ [new_order_item (rir_menu_item_id it) (rir_quantity it) (Price m)]) (s\<lparr>mono_items := db\<rparr>) = (x, s')"
      by simp
    from Cons.IH [OF ok this] law t price show ?thesis
      by (cases x) (auto simp: mono_price_def)
  qed
qed

lemma mono_items_ok:
  "mono_order_items its acc s = (x, s') \<Longrightarrow> gorm_ok cols (mono_items s') \<longleftrightarrow> gorm_ok cols (mono_items s)"
proof (induction its arbitrary: acc s)
  case (Cons it its)
  obtain y db where y: "DB_First (rir_menu_item_id it) (mono_items s) = (y, db)" by fastforce
  with Cons DB_ops_ok(2) [OF y, of cols] show ?case by (auto split: sum.splits)
qed simp

lemma mono_items_live:
  assumes "gorm_ok menu_cols (mono_items s)" and "gorm_up (mono_items s)"
    and "price_items64 (mono_price s) its = Some new"
  shows "\<exists>s'. mono_order_items its acc s = (Inr (acc @ new), s')"
  using assms
proof (induction its arbitrary: acc s new)
  case Nil
  then show ?case by simp
next
  case (Cons it its)
  obtain y db where y: "DB_First (rir_menu_item_id it) (mono_items s) = (y, db)" by fastforce
  from Cons.prems(3) obtain p rest where "mono_price s (rir_menu_item_id it) = Some p"
    and rest: "price_items64 (mono_price s) its = Some rest"
      "new = new_order_item (rir_menu_item_id it) (rir_quantity it) p # rest"
    by (auto split: option.splits)
  then obtain t where t: "contents (mono_items s) (rir_menu_item_id it) = Some t" "p = Price t"
    by (auto simp: mono_price_def)
  with DB_First_up [OF Cons.prems(1,2) y] obtain m where m: "y = Inr m" "Price m = Price t"
    by (auto dest: menu_cols_Price)
  have "mono_price (s\<lparr>mono_items := db\<rparr>) = mono_price s"
    using DB_First_frame [OF Cons.prems(1) y] by (simp add: mono_price_def fun_eq_iff)
  moreover have "gorm_ok menu_cols db" "gorm_up db"
    using DB_ops_ok(2) [OF y, of menu_cols] DB_ops_up(2) [OF y] Cons.prems(1,2) by auto
  ultimately show ?case
    using Cons.IH [of "s\<lparr>mono_items := db\<rparr>" rest "acc @ [hd new]"] y m t rest by simp
qed

lemma mono_views [simp]:
  "mono_known (s\<lparr>mono_items := m\<rparr>) = mono_known s" "mono_known (s\<lparr>mono_orders := n\<rparr>) = mono_known s"
  "mono_price (s\<lparr>mono_users := u\<rparr>) = mono_price s" "mono_price (s\<lparr>mono_orders := n\<rparr>) = mono_price s"
  by (simp_all add: mono_known_def mono_price_def fun_eq_iff)

text \<open>The handler past the decoding, as one equation over the user lookup and the loop.\<close>

lemma mono_CreateOrder_eq:
  assumes "Decode rest_order_request_fields zero_rest_order_request body = (True, req)"
    and "DB_First (ror_user_id req) (mono_users s) = (u, db1)"
  shows "mono_CreateOrder jerr body s =
    (case u of
       Inl err \<Rightarrow> (http_Error ''User not found'' StatusBadRequest, s\<lparr>mono_users := db1\<rparr>)
     | Inr user \<Rightarrow>
         (case mono_order_items (ror_items req) [] (s\<lparr>mono_users := db1\<rparr>) of
            (Inl r, s2) \<Rightarrow> (r, s2)
          | (Inr items, s2) \<Rightarrow>
              (case DB_Create (new_order (ror_user_id req) items) (mono_orders s2) of
                 (Inl err, db3) \<Rightarrow> (http_Error (gorm_error_text err) StatusInternalServerError, s2\<lparr>mono_orders := db3\<rparr>)
               | (Inr order, db3) \<Rightarrow> (json_reply StatusCreated (enc_Order JNull order), s2\<lparr>mono_orders := db3\<rparr>))))"
  using assms by (simp add: mono_CreateOrder_def split: sum.splits)

text \<open>The two kinds of lookup leave users and prices alone.\<close>

lemma mono_user_lookup:
  assumes "mono_ok s" and u: "DB_First k (mono_users s) = (x, db)"
  shows "mono_ok (s\<lparr>mono_users := db\<rparr>)" and "mono_known (s\<lparr>mono_users := db\<rparr>) = mono_known s"
    and "x = Inr v \<Longrightarrow> mono_known s k"
proof -
  have ok: "gorm_ok mono_user_cols (mono_users s)" using assms(1) by (simp add: mono_ok_def)
  note frame = DB_First_frame [OF ok u] DB_ops_ok(2) [OF u, of mono_user_cols]
  show "mono_ok (s\<lparr>mono_users := db\<rparr>)" using assms(1) frame by (simp add: mono_ok_def)
  show "mono_known (s\<lparr>mono_users := db\<rparr>) = mono_known s" using frame by (simp add: mono_known_def fun_eq_iff)
  show "x = Inr v \<Longrightarrow> mono_known s k" using DB_First_law [OF ok u] by (auto simp: mono_known_def)
qed

lemma mono_item_lookups:
  assumes "mono_ok s" and y: "mono_order_items its [] s = (x, s')"
  shows "mono_ok s'" and "mono_known s' = mono_known s" and "mono_price s' = mono_price s" and "mono_orders s' = mono_orders s"
    and "x = Inr new \<Longrightarrow> price_items64 (mono_price s) its = Some new" and "x = Inl r \<Longrightarrow> status r = StatusBadRequest"
proof -
  have ok: "gorm_ok menu_cols (mono_items s)" using assms(1) by (simp add: mono_ok_def)
  from mono_items_outcome [OF ok y] obtain mdb where s': "s' = s\<lparr>mono_items := mdb\<rparr>" "contents mdb = contents (mono_items s)" by auto
  have "gorm_ok menu_cols mdb" using mono_items_ok [OF y, of menu_cols] ok s'(1) by simp
  then show "mono_ok s'" using assms(1) s' by (simp add: mono_ok_def)
  show "mono_known s' = mono_known s" "mono_orders s' = mono_orders s" by (simp_all add: s')
  show "mono_price s' = mono_price s" using s' by (simp add: mono_price_def fun_eq_iff)
  show "x = Inr new \<Longrightarrow> price_items64 (mono_price s) its = Some new" "x = Inl r \<Longrightarrow> status r = StatusBadRequest"
    using mono_items_outcome [OF ok y] by auto
qed

lemma mono_order_insert:
  assumes "mono_ok s" and z: "DB_Create (new_order uid its) (mono_orders s) = (x, db)"
  shows "mono_ok (s\<lparr>mono_orders := db\<rparr>)"
    and "case x of
      Inl e \<Rightarrow> order_rows db = order_rows (mono_orders s)
    | Inr ord \<Rightarrow> order_rows (mono_orders s) (ID ord) = None \<and>
        order_rows db = (order_rows (mono_orders s))(ID ord \<mapsto> order_cols (new_order uid its))"
proof -
  have ok: "gorm_ok order_cols (mono_orders s)" using assms(1) by (simp add: mono_ok_def)
  show "mono_ok (s\<lparr>mono_orders := db\<rparr>)" using assms(1) DB_ops_ok(1) [OF z, of order_cols] by (simp add: mono_ok_def)
  show "case x of
      Inl e \<Rightarrow> order_rows db = order_rows (mono_orders s)
    | Inr ord \<Rightarrow> order_rows (mono_orders s) (ID ord) = None \<and>
        order_rows db = (order_rows (mono_orders s))(ID ord \<mapsto> order_cols (new_order uid its))"
    using z DB_Create_Inl [OF ok] DB_Create_order [OF ok] by (cases x) (auto intro: order_rows_cong)
qed

text \<open>
  What the handler does on every branch: users and prices stay, and an order is stored exactly when
  the answer is 201, the one the specification prescribes.
\<close>

lemma mono_CreateOrder_effect:
  assumes ok: "mono_ok s" and c: "mono_CreateOrder jerr body s = (r, s')"
  shows "mono_ok s' \<and> mono_known s' = mono_known s \<and> mono_price s' = mono_price s \<and>
    (status r \<noteq> StatusCreated \<and> order_rows (mono_orders s') = order_rows (mono_orders s) \<or>
      status r = StatusCreated \<and>
      (\<exists>req ord k. Decode rest_order_request_fields zero_rest_order_request body = (True, req) \<and>
        place_order64 (mono_known s) (mono_price s) req = Some ord \<and> order_rows (mono_orders s) k = None \<and>
        order_rows (mono_orders s') = (order_rows (mono_orders s))(k \<mapsto> order_cols ord)))" (is ?thesis)
proof -
  obtain y req where d: "Decode rest_order_request_fields zero_rest_order_request body = (y, req)" by fastforce
  obtain u db1 where u: "DB_First (ror_user_id req) (mono_users s) = (u, db1)" by fastforce
  obtain x s2 where x: "mono_order_items (ror_items req) [] (s\<lparr>mono_users := db1\<rparr>) = (x, s2)" by fastforce
  note user = mono_user_lookup [OF ok u] and items = mono_item_lookups [OF mono_user_lookup(1) [OF ok u] x]
  have decoded: "mono_CreateOrder jerr body s = (case u of
      Inl err \<Rightarrow> (http_Error ''User not found'' StatusBadRequest, s\<lparr>mono_users := db1\<rparr>)
    | Inr user \<Rightarrow> (case x of Inl r \<Rightarrow> (r, s2) | Inr its \<Rightarrow>
        (case DB_Create (new_order (ror_user_id req) its) (mono_orders s2) of
           (Inl err, db3) \<Rightarrow> (http_Error (gorm_error_text err) StatusInternalServerError, s2\<lparr>mono_orders := db3\<rparr>)
         | (Inr order, db3) \<Rightarrow> (json_reply StatusCreated (enc_Order JNull order), s2\<lparr>mono_orders := db3\<rparr>))))" if y
    using mono_CreateOrder_eq [OF d [unfolded eqTrueI [OF that]] u, of jerr] by (simp add: x split: sum.splits)
  show ?thesis
  proof (cases "y \<and> (\<exists>v its. u = Inr v \<and> x = Inr its)")
    case False
    with c d ok user items decoded show ?thesis
      by (cases y; cases u; cases x) (auto simp: mono_CreateOrder_def)
  next
    case True
    then obtain v its where yes: y "u = Inr v" "x = Inr its" by blast
    from d yes(1) user(3) [OF yes(2)] items(5) [OF yes(3)]
    have place: "place_order64 (mono_known s) (mono_price s) req = Some (new_order (ror_user_id req) its)"
      by (simp add: place_order64_def)
    obtain z db3 where z: "DB_Create (new_order (ror_user_id req) its) (mono_orders s2) = (z, db3)" by fastforce
    note ins = mono_order_insert [OF items(1) z]
    have s': "s' = s2\<lparr>mono_orders := db3\<rparr>" "status r = (case z of Inl e \<Rightarrow> 500 | Inr ord \<Rightarrow> 201)"
      using c decoded [OF yes(1)] yes(2,3) z by (cases z; auto)+
    with ins d yes(1) place user items show ?thesis by (cases z) auto
  qed
qed

subsection \<open>Properties\<close>

text \<open>A user, an item at the price 3, and an order for two of it.\<close>

definition mono_prep :: "uint \<Rightarrow> MonoUser \<Rightarrow> MonoUser" where
  "mono_prep k r = r\<lparr>ID := k\<rparr>"

definition mono_user_mem :: "(MonoUser mem, MonoUser) gorm" where
  "mono_user_mem = mem_gorm mono_prep (\<lambda>r x. mu_Email r = mu_Email x)"

lemma mono_user_mem_ok [simp]: "gorm_ok mono_user_cols mono_user_mem" "gorm_up mono_user_mem"
  unfolding mono_user_mem_def
  by (rule mem_gorm_ok, simp add: mono_prep_def mono_user_cols_def) (rule mem_gorm_up)

definition mono_demo :: "(MonoUser mem, MenuItem mem, Order mem) mono" where
  "mono_demo =
     \<lparr>mono_users = mono_user_mem\<lparr>gState := (2, [zero_mono_user\<lparr>ID := 1, mu_Name := ''Alice''\<rparr>])\<rparr>,
      mono_items = menu_mem\<lparr>gState := (2, [zero_menu_item\<lparr>ID := 1, ItemName := ''Coffee'', Price := 0x4008000000000000\<rparr>])\<rparr>,
      mono_orders = order_mem\<rparr>"

definition mono_demo_body :: "int \<Rightarrow> request_body" where
  "mono_demo_body item =
     Some (JObj [(''user_id'', JInt 1),
       (''items'', JArr [JObj [(''menu_item_id'', JInt item), (''quantity'', JInt 2)]])])"

lemma mono_demo_up: "mono_up mono_demo"
  by (simp add: mono_up_def mono_ok_def mono_demo_def)

lemma mono_demo_decode:
  "0 \<le> i \<Longrightarrow> i < 2 ^ 64 \<Longrightarrow> Decode rest_order_request_fields zero_rest_order_request (mono_demo_body i) =
     (True, \<lparr>ror_user_id = 1, ror_items = [\<lparr>rir_menu_item_id = word_of_int i, rir_quantity = 2\<rparr>]\<rparr>)"
  by (simp add: Decode_def mono_demo_body_def rest_order_request_fields_def rest_item_request_fields_def
      zero_rest_order_request_def lookup_field_def field_def)

lemma mono_demo_views: "mono_known mono_demo 1" "mono_price mono_demo 1 = Some 0x4008000000000000" "mono_price mono_demo 9 = None"
  by (simp_all add: mono_known_def mono_price_def mono_demo_def contents_def mono_user_mem_def mem_gorm_def mem_rows_def
      zero_mono_user_def zero_menu_item_def)

lemma mono_demo_created:
  "mono_CreateOrder (\<lambda>_. []) (mono_demo_body 1) mono_demo = (r, s') \<Longrightarrow> status r = StatusCreated"
  by (auto simp: mono_CreateOrder_def mono_demo_decode mono_demo_def DB_First_def DB_Create_def mono_user_mem_def
      mem_gorm_def mem_first_def mem_rows_def mem_create_def Let_def new_order_def new_order_item_def
      zero_mono_user_def zero_menu_item_def split: if_splits)

text \<open>
  C14: The monolith's \<open>CreateOrder\<close> implements its specification: an accepted order is the one
  \<open>place_order64\<close> prescribes for the users and prices of the tables, stored under a fresh key,
  and the handler changes neither users nor prices.
\<close>

theorem mono_order_refines:
  assumes "mono_ok s" and "mono_CreateOrder jerr body s = (r, s')" and "status r = StatusCreated"
  shows "\<exists>req ord k. Decode rest_order_request_fields zero_rest_order_request body = (True, req) \<and>
    place_order64 (mono_known s) (mono_price s) req = Some ord \<and> order_rows (mono_orders s) k = None \<and>
    order_rows (mono_orders s') = (order_rows (mono_orders s))(k \<mapsto> order_cols ord) \<and>
    mono_known s' = mono_known s \<and> mono_price s' = mono_price s"
  using mono_CreateOrder_effect [OF assms(1,2)] assms(3) by blast

theorem mono_order_refines_witness:
  "\<exists>r s' k. mono_CreateOrder (\<lambda>_. []) (mono_demo_body 1) mono_demo = (r, s') \<and>
    order_rows (mono_orders s') k = Some (1, ''pending'', {#(1, 2, 0x4008000000000000)#})"
proof -
  obtain r s' where c: "mono_CreateOrder (\<lambda>_. []) (mono_demo_body 1) mono_demo = (r, s')" by fastforce
  from mono_order_refines [OF _ c mono_demo_created [OF c]] mono_demo_up mono_demo_decode [of 1] mono_demo_views obtain k where
    "order_rows (mono_orders s') k = Some (1, ''pending'', {#(1, 2, 0x4008000000000000)#})"
    by (fastforce simp: mono_up_def place_order64_def order_cols_def new_order_def new_order_item_def item_cols_def)
  with c show ?thesis by blast
qed

lemma mono_order_decides:
  assumes "mono_up s" and "Decode rest_order_request_fields zero_rest_order_request body = (True, req)"
  shows "case place_order64 (mono_known s) (mono_price s) req of
      None \<Rightarrow> \<exists>m s'. mono_CreateOrder jerr body s = (http_Error m StatusBadRequest, s') \<and> mono_orders s' = mono_orders s
    | Some ord \<Rightarrow> \<exists>y db' s'. DB_Create ord (mono_orders s) = (y, db') \<and> mono_orders s' = db' \<and>
        mono_CreateOrder jerr body s =
          (case y of
             Inl e \<Rightarrow> http_Error (gorm_error_text e) StatusInternalServerError
           | Inr r \<Rightarrow> json_reply StatusCreated (enc_Order JNull r), s')"
proof -
  obtain u db1 where u: "DB_First (ror_user_id req) (mono_users s) = (u, db1)" by fastforce
  obtain y s2 where y: "mono_order_items (ror_items req) [] (s\<lparr>mono_users := db1\<rparr>) = (y, s2)" by fastforce
  note eq = mono_CreateOrder_eq [OF assms(2) u, of jerr, unfolded y]
  from assms(1) have gu: "gorm_ok mono_user_cols (mono_users s)" "gorm_up (mono_users s)"
    and gm: "gorm_ok menu_cols (mono_items (s\<lparr>mono_users := db1\<rparr>))" "gorm_up (mono_items (s\<lparr>mono_users := db1\<rparr>))"
    by (auto simp: mono_up_def mono_ok_def)
  note user = DB_First_up [OF gu u] and items = mono_items_outcome [OF gm(1) y]
  from items have orders: "mono_orders s2 = mono_orders s" by auto
  show ?thesis
  proof (cases "mono_known s (ror_user_id req)")
    case False
    with user eq show ?thesis by (auto simp: place_order64_def mono_known_def split: option.splits)
  next
    case True
    then obtain v where v: "u = Inr v" using user by (auto simp: mono_known_def split: option.splits)
    show ?thesis
    proof (cases "price_items64 (mono_price s) (ror_items req)")
      case None
      with items have "y = Inl (http_Error ''Menu item not found'' StatusBadRequest)" by (cases y) auto
      with eq v orders True None show ?thesis by (auto simp: place_order64_def)
    next
      case (Some new)
      with mono_items_live [OF gm, of "ror_items req" new "[]"] y have "y = Inr new" by simp
      with eq v orders True Some show ?thesis
        by (cases "DB_Create (new_order (ror_user_id req) new) (mono_orders s)")
          (auto simp: place_order64_def split: sum.splits)
    qed
  qed
qed

text \<open>
  C15: The monolith decides every order: with tables that answer, a request the specification
  refuses is answered 400 and stores nothing, and one it accepts is decided by nothing but the
  insertion of the prescribed order (201, or 500 when it fails).
\<close>

theorem mono_order_decided:
  assumes "mono_up s" and "Decode rest_order_request_fields zero_rest_order_request body = (True, req)"
  shows "case place_order64 (mono_known s) (mono_price s) req of
      None \<Rightarrow> \<exists>m s'. mono_CreateOrder jerr body s = (http_Error m StatusBadRequest, s') \<and> mono_orders s' = mono_orders s
    | Some ord \<Rightarrow> \<exists>y db' s'. DB_Create ord (mono_orders s) = (y, db') \<and> mono_orders s' = db' \<and>
        mono_CreateOrder jerr body s =
          (case y of
             Inl e \<Rightarrow> http_Error (gorm_error_text e) StatusInternalServerError
           | Inr r \<Rightarrow> json_reply StatusCreated (enc_Order JNull r), s')"
  using assms by (rule mono_order_decides)

theorem mono_order_decided_witness:
  "\<exists>m s'. mono_CreateOrder (\<lambda>_. []) (mono_demo_body 9) mono_demo = (http_Error m StatusBadRequest, s') \<and>
    mono_orders s' = order_mem"
proof -
  have d: "Decode rest_order_request_fields zero_rest_order_request (mono_demo_body 9) =
     (True, \<lparr>ror_user_id = 1, ror_items = [\<lparr>rir_menu_item_id = 9, rir_quantity = 2\<rparr>]\<rparr>)"
    using mono_demo_decode [of 9] by simp
  have "place_order64 (mono_known mono_demo) (mono_price mono_demo)
      \<lparr>ror_user_id = 1, ror_items = [\<lparr>rir_menu_item_id = 9, rir_quantity = 2\<rparr>]\<rparr> = None"
    by (simp add: place_order64_def mono_demo_views)
  moreover have "mono_orders mono_demo = order_mem" by (simp add: mono_demo_def)
  ultimately show ?thesis using mono_order_decided [OF mono_demo_up d, of "\<lambda>_. []"] by auto
qed

end
