(* ===== verification/Grpc_Rest_Orders.thy ===== *)
theory Grpc_Rest_Orders
  imports Rest_Services Order_Validation
begin

text \<open>
  The order service's REST handlers over gRPC clients (\<open>practical6-example/order-service\<close>:
  \<open>handlers/order_handlers.go\<close> and \<open>grpc/clients.go\<close>). A request carries 64-bit identifiers, the
  lookups send them as 32 bits, and the order is stored with all 64.
\<close>

record 'w Clients =
  cl_UserClient :: "'w UserServiceClient"
  cl_MenuClient :: "'w MenuServiceClient"

definition NewClients :: "(string \<Rightarrow> string) \<Rightarrow> (string \<Rightarrow> string + 'w ClientConn) \<Rightarrow> string + 'w Clients" where
  "NewClients env dial =
     (let userServiceAddr = (if env ''USER_SERVICE_GRPC_ADDR'' = [] then ''user-service:9091'' else env ''USER_SERVICE_GRPC_ADDR'');
          menuServiceAddr = (if env ''MENU_SERVICE_GRPC_ADDR'' = [] then ''menu-service:9092'' else env ''MENU_SERVICE_GRPC_ADDR'')
      in case dial userServiceAddr of
           Inl err \<Rightarrow> Inl (''failed to connect to user service at '' @ userServiceAddr @ '': '' @ err)
         | Inr userConn \<Rightarrow>
             (case dial menuServiceAddr of
                Inl err \<Rightarrow> Inl (''failed to connect to menu service at '' @ menuServiceAddr @ '': '' @ err)
              | Inr menuConn \<Rightarrow>
                  Inr \<lparr>cl_UserClient = NewUserServiceClient userConn, cl_MenuClient = NewMenuServiceClient menuConn\<rparr>))"

text \<open>A response, or \<open>None\<close> when the handler panics on a reply without a menu item.\<close>

fun grpc_rest_items ::
  "'w Clients \<Rightarrow> rest_item_request list \<Rightarrow> OrderItem list \<Rightarrow> 'w \<Rightarrow> (response option + OrderItem list) \<times> 'w" where
  "grpc_rest_items cl [] acc w = (Inr acc, w)"
| "grpc_rest_items cl (item # items) acc w =
     (case mc_GetMenuItem (cl_MenuClient cl) \<lparr>gm_id = uint32_of_uint (rir_menu_item_id item)\<rparr> w of
        (Inl err, w') \<Rightarrow> (Inl (Some (http_Error ''Menu item not found'' StatusBadRequest)), w')
      | (Inr resp, w') \<Rightarrow>
          (case gm_menu_item resp of
             None \<Rightarrow> (Inl None, w')
           | Some menuItem \<Rightarrow>
               grpc_rest_items cl items
                 (acc @ [new_order_item (rir_menu_item_id item) (rir_quantity item) (mi_price menuItem)]) w'))"

definition grpc_rest_CreateOrder ::
  "'w Clients \<Rightarrow> (request_body \<Rightarrow> string) \<Rightarrow> request_body \<Rightarrow> 'w \<times> 's order_db
   \<Rightarrow> response option \<times> ('w \<times> 's order_db)" where
  "grpc_rest_CreateOrder cl jerr body st =
     (case st of (w, db) \<Rightarrow>
      case Decode rest_order_request_fields zero_rest_order_request body of
        (False, _) \<Rightarrow> (Some (http_Error (jerr body) StatusBadRequest), (w, db))
      | (True, req) \<Rightarrow>
          (case uc_GetUser (cl_UserClient cl) \<lparr>gu_id = uint32_of_uint (ror_user_id req)\<rparr> w of
             (Inl err, w1) \<Rightarrow> (Some (http_Error ''User not found'' StatusBadRequest), (w1, db))
           | (Inr _, w1) \<Rightarrow>
               (case grpc_rest_items cl (ror_items req) [] w1 of
                  (Inl r, w2) \<Rightarrow> (r, (w2, db))
                | (Inr items, w2) \<Rightarrow>
                    (case DB_Create (new_order (ror_user_id req) items) db of
                       (Inl err, db') \<Rightarrow> (Some (http_Error (gorm_error_text err) StatusInternalServerError), (w2, db'))
                     | (Inr order, db') \<Rightarrow> (Some (json_reply StatusCreated (enc_Order JNull order)), (w2, db'))))))"

definition grpc_rest_GetOrders :: "'w \<times> 's order_db \<Rightarrow> response \<times> ('w \<times> 's order_db)" where
  "grpc_rest_GetOrders st =
     (case st of (w, db) \<Rightarrow>
      case DB_Find db of
        (Inl err, db') \<Rightarrow> (http_Error (gorm_error_text err) StatusInternalServerError, (w, db'))
      | (Inr orders, db') \<Rightarrow> (json_reply StatusOK (enc_array (enc_Order (JArr [])) orders), (w, db')))"

subsection \<open>What the handler has checked\<close>

definition as_server :: "'w Clients \<Rightarrow> 'w OrderServer" where
  "as_server cl = \<lparr>UserClient = cl_UserClient cl, MenuClient = cl_MenuClient cl\<rparr>"

lemma as_server_clients [simp]:
  "UserClient (as_server cl) = cl_UserClient cl" "MenuClient (as_server cl) = cl_MenuClient cl"
  by (simp_all add: as_server_def)

text \<open>The items of an accepted order: the requested identifiers, and the price of their low 32 bits.\<close>

definition checked_item :: "(uint32 \<Rightarrow> float64 option) \<Rightarrow> rest_item_request \<Rightarrow> uint \<times> goint \<times> float64 \<Rightarrow> bool" where
  "checked_item price it c \<longleftrightarrow>
     (\<exists>p. price (uint32_of_uint (rir_menu_item_id it)) = Some p \<and> c = (rir_menu_item_id it, rir_quantity it, p))"

lemma grpc_rest_items_checked:
  assumes b: "order_backends (as_server cl) I known price" and "I w"
    and "grpc_rest_items cl its acc w = (Inr items, w')"
  shows "\<exists>new. items = acc @ new \<and> list_all2 (checked_item (price w)) its (map item_cols new) \<and> I w'"
  using assms(2,3)
proof (induction its arbitrary: acc w)
  case Nil
  then show ?case by simp
next
  case (Cons it its)
  obtain y w1 where y: "mc_GetMenuItem (cl_MenuClient cl) \<lparr>gm_id = uint32_of_uint (rir_menu_item_id it)\<rparr> w = (y, w1)"
    by fastforce
  then have y': "mc_GetMenuItem (MenuClient (as_server cl)) \<lparr>gm_id = uint32_of_uint (rir_menu_item_id it)\<rparr> w = (y, w1)" by simp
  from Cons.prems(2) y obtain m where m: "y = Inr m" by (cases y) auto
  from order_backends.menu_sound [OF b Cons.prems(1)] y' m obtain mi where
    mi: "gm_menu_item m = Some mi" "price w (uint32_of_uint (rir_menu_item_id it)) = Some (mi_price mi)" by blast
  from order_backends.menu_frame [OF b Cons.prems(1) y'] have f: "I w1" "price w1 = price w" by auto
  let ?i = "new_order_item (rir_menu_item_id it) (rir_quantity it) (mi_price mi)"
  from Cons.prems(2) y m mi have "grpc_rest_items cl its (acc @ [?i]) w1 = (Inr items, w')" by simp
  from Cons.IH [OF f(1) this] obtain new where
    "items = acc @ ?i # new" "list_all2 (checked_item (price w)) its (map item_cols new)" "I w'" by (auto simp: f(2))
  moreover have "checked_item (price w) it (item_cols ?i)"
    using mi(2) by (simp add: checked_item_def item_cols_def new_order_item_def)
  ultimately show ?case by (intro exI [where x = "?i # new"]) simp
qed

lemma grpc_rest_items_error:
  "grpc_rest_items cl its acc w = (Inl (Some r), w') \<Longrightarrow> status r = StatusBadRequest"
  by (induction its arbitrary: acc w) (auto split: prod.splits sum.splits option.splits)

lemma grpc_rest_items_no_panic:
  assumes b: "order_backends (as_server cl) I known price" and "I w"
  shows "grpc_rest_items cl its acc w \<noteq> (Inl None, w')"
  using assms(2)
proof (induction its arbitrary: acc w)
  case Nil
  then show ?case by simp
next
  case (Cons it its)
  obtain y w1 where y: "mc_GetMenuItem (MenuClient (as_server cl)) \<lparr>gm_id = uint32_of_uint (rir_menu_item_id it)\<rparr> w = (y, w1)"
    by fastforce
  show ?case
  proof (cases y)
    case (Inl e)
    with y show ?thesis by simp
  next
    case (Inr m)
    from order_backends.menu_sound [OF b Cons.prems] y Inr obtain mi where "gm_menu_item m = Some mi" by blast
    moreover have "I w1" using order_backends.menu_frame [OF b Cons.prems y] by simp
    ultimately show ?thesis using y Inr Cons.IH by simp
  qed
qed

end
