(* ===== verification/Cafe_Migration.thy ===== *)
theory Cafe_Migration
  imports Monolith Grpc_Rest_Orders Cafe_Demo
begin

text \<open>
  The same cafe three times: the monolith (\<open>practical5/student-cafe-monolith\<close>), the gRPC services
  and the REST order handlers over gRPC clients (\<open>practical6-example\<close>). The monolith works with
  64-bit identifiers and quantities, the messages of the services carry 32 bits; the theorems
  say when the split preserves the behaviour and where the narrower messages show.
\<close>

subsection \<open>Requests that fit the messages\<close>

definition narrow_request :: "rest_order_request \<Rightarrow> CreateOrderRequest" where
  "narrow_request req =
     \<lparr>co_user_id = uint32_of_uint (ror_user_id req),
      co_items = map (\<lambda>it. \<lparr>oir_menu_item_id = uint32_of_uint (rir_menu_item_id it),
                             oir_quantity = int32_of_int (rir_quantity it)\<rparr>) (ror_items req)\<rparr>"

definition item_fits :: "rest_item_request \<Rightarrow> bool" where
  "item_fits it \<longleftrightarrow> unat (rir_menu_item_id it) < 2 ^ 32 \<and>
     - (2 ^ 31) \<le> sint (rir_quantity it) \<and> sint (rir_quantity it) < 2 ^ 31"

definition request_fits :: "rest_order_request \<Rightarrow> bool" where
  "request_fits req \<longleftrightarrow> unat (ror_user_id req) < 2 ^ 32 \<and> (\<forall>it \<in> set (ror_items req). item_fits it)"

lemma sint_int32_of_int: "sint (int32_of_int x) = signed_take_bit 31 (sint x)"
proof -
  have "sint x = signed_take_bit 63 (Word.uint x)" by (simp add: sint_uint)
  then show ?thesis by (simp add: int32_of_int_def signed_ucast_eq signed_take_bit_signed_take_bit)
qed

lemma int_roundtrip:
  assumes "- (2 ^ 31) \<le> sint x" and "sint x < 2 ^ 31"
  shows "int_of_int32 (int32_of_int x) = x"
proof -
  have "sint (int_of_int32 (int32_of_int x)) = sint x"
    using assms by (simp add: go_conv sint_int32_of_int signed_take_bit_int_eq_self)
  then show ?thesis by (rule signed_word_eqI)
qed

lemma price_items_narrow:
  assumes "\<And>i. price i = price64 (uint_of_uint32 i)" and "\<forall>it \<in> set its. item_fits it"
  shows "price_items price (map (\<lambda>it. \<lparr>oir_menu_item_id = uint32_of_uint (rir_menu_item_id it),
      oir_quantity = int32_of_int (rir_quantity it)\<rparr>) its) = price_items64 price64 its"
  using assms(2)
proof (induction its)
  case (Cons it its)
  then have "uint_of_uint32 (uint32_of_uint (rir_menu_item_id it)) = rir_menu_item_id it"
    and "int_of_int32 (int32_of_int (rir_quantity it)) = rir_quantity it"
    by (auto simp: item_fits_def uint32_roundtrip_iff int_roundtrip)
  with Cons assms(1) show ?case by (auto simp: priced_item_def split: option.splits)
qed simp

lemma place_order_narrow:
  assumes "\<And>i. known i = known64 (uint_of_uint32 i)" and "\<And>i. price i = price64 (uint_of_uint32 i)"
    and "request_fits req"
  shows "place_order known price (narrow_request req) = place_order64 known64 price64 req"
proof -
  have "uint_of_uint32 (uint32_of_uint (ror_user_id req)) = ror_user_id req"
    using assms(3) by (simp add: request_fits_def uint32_roundtrip_iff)
  moreover have "\<forall>it \<in> set (ror_items req). item_fits it" using assms(3) by (simp add: request_fits_def)
  note price_items_narrow [of price price64, OF assms(2) this]
  ultimately show ?thesis using assms(1) by (simp add: place_order_def place_order64_def narrow_request_def)
qed

subsection \<open>The split preserves orders\<close>

text \<open>
  C13: Splitting the monolith preserved its behaviour on orders. With the same users and prices
  on both sides, a network that delivers and databases that answer, a request whose numbers fit
  the messages is refused by both (400 there, \<open>InvalidArgument\<close> here, nothing stored) or leads
  both to insert the same order.
\<close>

theorem split_preserves_orders:
  assumes "mono_up s" and "backends_up T w"
    and "\<And>i. known_user w i = mono_known s (uint_of_uint32 i)" and "\<And>i. menu_price w i = mono_price s (uint_of_uint32 i)"
    and "Decode rest_order_request_fields zero_rest_order_request body = (True, req)" and "request_fits req"
  shows "case place_order64 (mono_known s) (mono_price s) req of
      None \<Rightarrow>
        (\<exists>m s'. mono_CreateOrder jerr body s = (http_Error m StatusBadRequest, s') \<and> mono_orders s' = mono_orders s) \<and>
        (\<exists>m w'. OrderServer_CreateOrder (tp_err_text T) (order_server T) (narrow_request req) (w, db) =
           (Error (StatusError InvalidArgument m), (w', db)))
    | Some ord \<Rightarrow>
        (\<exists>y db' s'. DB_Create ord (mono_orders s) = (y, db') \<and> mono_orders s' = db' \<and>
           mono_CreateOrder jerr body s =
             (case y of
                Inl e \<Rightarrow> http_Error (gorm_error_text e) StatusInternalServerError
              | Inr r \<Rightarrow> json_reply StatusCreated (enc_Order JNull r), s')) \<and>
        (\<exists>w' y db'. DB_Create ord db = (y, db') \<and>
           OrderServer_CreateOrder (tp_err_text T) (order_server T) (narrow_request req) (w, db) =
             (case y of
                Inl e \<Rightarrow> Error (StatusError Internal (''failed to create order: '' @ gorm_error_text e))
              | Inr r \<Rightarrow> Return \<lparr>co_order = Some (order_modelToProto r)\<rparr>, (w', db')))"
proof -
  have place: "place_order (known_user w) (menu_price w) (narrow_request req) =
      place_order64 (mono_known s) (mono_price s) req"
    using assms(3,4,6) by (rule place_order_narrow)
  have ok: "backends_ok w" using assms(2) by (simp add: backends_up_def)
  show ?thesis
  proof (cases "place_order64 (mono_known s) (mono_price s) req")
    case None
    with place cafe_orders.CreateOrder_rejects [OF ok, of "narrow_request req" "tp_err_text T" T db]
      mono_order_decides [OF assms(1,5), of jerr]
    show ?thesis by simp
  next
    case (Some ord)
    with place have "place_order (known_user w) (menu_price w) (narrow_request req) = Some ord" by simp
    from cafe_orders_up.CreateOrder_complete [OF assms(2) this, of db "tp_err_text T"]
      mono_order_decides [OF assms(1,5), of jerr] Some
    show ?thesis by (simp only: option.case)
  qed
qed

lemma demo_views_agree:
  "known_user demo2 i = mono_known mono_demo (uint_of_uint32 i)"
  "menu_price demo2 i = mono_price mono_demo (uint_of_uint32 i)"
  by (simp_all add: known_user_def mono_known_def menu_price_def mono_price_def user_rows_def menu_rows_def contents_def
      demo2_def demo1_def demo0_def mono_demo_def mono_user_mem_def mem_gorm_def mem_rows_def alice_def coffee_def
      zero_mono_user_def zero_menu_item_def menu_cols_def)

theorem split_preserves_orders_witness:
  "\<exists>ord. place_order64 (mono_known mono_demo) (mono_price mono_demo)
      \<lparr>ror_user_id = 1, ror_items = [\<lparr>rir_menu_item_id = 1, rir_quantity = 2\<rparr>]\<rparr> = Some ord \<and>
    (\<exists>y db' s'. DB_Create ord (mono_orders mono_demo) = (y, db') \<and> mono_orders s' = db' \<and>
       mono_CreateOrder (\<lambda>_. []) (mono_demo_body 1) mono_demo =
         (case y of
            Inl e \<Rightarrow> http_Error (gorm_error_text e) StatusInternalServerError
          | Inr r \<Rightarrow> json_reply StatusCreated (enc_Order JNull r), s')) \<and>
    (\<exists>w' y db'. DB_Create ord order_mem = (y, db') \<and>
       OrderServer_CreateOrder (tp_err_text perfect) (order_server perfect)
         (narrow_request \<lparr>ror_user_id = 1, ror_items = [\<lparr>rir_menu_item_id = 1, rir_quantity = 2\<rparr>]\<rparr>) (demo2, order_mem) =
         (case y of
            Inl e \<Rightarrow> Error (StatusError Internal (''failed to create order: '' @ gorm_error_text e))
          | Inr r \<Rightarrow> Return \<lparr>co_order = Some (order_modelToProto r)\<rparr>, (w', db')))"
proof -
  let ?req = "\<lparr>ror_user_id = 1, ror_items = [\<lparr>rir_menu_item_id = 1, rir_quantity = 2\<rparr>]\<rparr>"
  have d: "Decode rest_order_request_fields zero_rest_order_request (mono_demo_body 1) = (True, ?req)"
    using mono_demo_decode [of 1] by simp
  have fits: "request_fits ?req" by (simp add: request_fits_def item_fits_def)
  obtain ord where "place_order64 (mono_known mono_demo) (mono_price mono_demo) ?req = Some ord"
    by (simp add: place_order64_def mono_demo_views)
  with split_preserves_orders [OF mono_demo_up demo_up(3) demo_views_agree d fits, of "\<lambda>_. []" order_mem]
  show ?thesis by simp
qed

subsection \<open>The REST handler over gRPC clients\<close>

definition cafe_clients :: "'n transport \<Rightarrow> ('u, 'm, 'o, 'n) cafe Clients" where
  "cafe_clients T =
     \<lparr>cl_UserClient = NewUserServiceClient (user_conn T), cl_MenuClient = NewMenuServiceClient (menu_conn T)\<rparr>"

lemma as_server_cafe: "as_server (cafe_clients T) = order_server T"
  by (simp add: as_server_def cafe_clients_def order_server_def)

lemma cafe_clients_backends: "order_backends (as_server (cafe_clients T)) backends_ok known_user menu_price"
  unfolding as_server_cafe by (rule cafe_orders.order_backends_axioms)

lemma cafe_clients_GetUser:
  "uc_GetUser (cl_UserClient (cafe_clients T)) = uc_GetUser (UserClient (order_server T))"
  by (simp add: cafe_clients_def order_server_def)

lemma grpc_rest_stored:
  assumes "backends_ok w" and "gorm_ok order_cols db"
    and "grpc_rest_CreateOrder (cafe_clients T) jerr body (w, db) = (Some r, (w', db'))" and "status r = StatusCreated"
  shows "\<exists>req items k. Decode rest_order_request_fields zero_rest_order_request body = (True, req) \<and>
    known_user w (uint32_of_uint (ror_user_id req)) \<and> list_all2 (checked_item (menu_price w)) (ror_items req) items \<and>
    order_rows db k = None \<and> order_rows db' = (order_rows db)(k \<mapsto> (ror_user_id req, ''pending'', mset items)) \<and>
    (unat (ror_user_id req) < 2 ^ 32 \<longrightarrow> user_rows (user_db w) (ror_user_id req) \<noteq> None)"
proof -
  obtain ok req where d: "Decode rest_order_request_fields zero_rest_order_request body = (ok, req)" by fastforce
  have ok: "ok" using assms(3,4) d by (cases ok) (auto simp: grpc_rest_CreateOrder_def)
  obtain u w1 where u: "uc_GetUser (cl_UserClient (cafe_clients T)) \<lparr>gu_id = uint32_of_uint (ror_user_id req)\<rparr> w = (u, w1)"
    by fastforce
  obtain y w2 where y: "grpc_rest_items (cafe_clients T) (ror_items req) [] w1 = (y, w2)" by fastforce
  from assms(3,4) d ok u obtain v where v: "u = Inr v" by (cases u) (auto simp: grpc_rest_CreateOrder_def)
  note u' = u [unfolded cafe_clients_GetUser v]
  from cafe_orders.user_sound [OF assms(1) u'] have known: "known_user w (uint32_of_uint (ror_user_id req))" .
  from cafe_orders.user_frame [OF assms(1) u'] have f: "backends_ok w1" "menu_price w1 = menu_price w" by auto
  have "y \<noteq> Inl x" for x
  proof
    assume "y = Inl x"
    with assms(3) d ok u v y have "x = Some r" by (auto simp: grpc_rest_CreateOrder_def)
    with \<open>y = Inl x\<close> y assms(4) show False by (auto dest: grpc_rest_items_error)
  qed
  then obtain its where its: "y = Inr its" by (cases y) auto
  from grpc_rest_items_checked [OF cafe_clients_backends f(1) y [unfolded its]] have
    items: "list_all2 (checked_item (menu_price w)) (ror_items req) (map item_cols its)" by (auto simp: f(2))
  from assms(3,4) d ok u v y its obtain ord where c: "DB_Create (new_order (ror_user_id req) its) db = (Inr ord, db')"
    by (auto simp: grpc_rest_CreateOrder_def split: prod.splits sum.splits)
  have "order_cols (new_order (ror_user_id req) its) = (ror_user_id req, ''pending'', mset (map item_cols its))"
    by (simp add: order_cols_def new_order_def)
  moreover have "unat (ror_user_id req) < 2 ^ 32 \<longrightarrow> user_rows (user_db w) (ror_user_id req) \<noteq> None"
    using known uint32_roundtrip_iff [of "ror_user_id req"] unfolding known_user_def by metis
  moreover note DB_Create_order [OF assms(2) c]
  ultimately show ?thesis using d ok known items by metis
qed

text \<open>
  C20: What the REST handler over gRPC clients has checked of an order it accepts, whatever the
  network does: the user and the items named by the low 32 bits of the identifiers exist, and
  each item has the price of the item so named; the order is stored with the identifiers as
  requested. So the order refers to stored records when its identifiers fit 32 bits.
\<close>

theorem grpc_rest_order_checked:
  assumes "backends_ok w" and "gorm_ok order_cols db"
    and "grpc_rest_CreateOrder (cafe_clients T) jerr body (w, db) = (Some r, (w', db'))" and "status r = StatusCreated"
  shows "\<exists>req items k. Decode rest_order_request_fields zero_rest_order_request body = (True, req) \<and>
    known_user w (uint32_of_uint (ror_user_id req)) \<and> list_all2 (checked_item (menu_price w)) (ror_items req) items \<and>
    order_rows db k = None \<and> order_rows db' = (order_rows db)(k \<mapsto> (ror_user_id req, ''pending'', mset items)) \<and>
    (unat (ror_user_id req) < 2 ^ 32 \<longrightarrow> user_rows (user_db w) (ror_user_id req) \<noteq> None)"
  using assms by (rule grpc_rest_stored)

text \<open>The same request with the identifiers of user 1 and item 1, and with \<open>2 ^ 32 + 1\<close> for the user.\<close>

definition wide_body :: "int \<Rightarrow> request_body" where
  "wide_body uid =
     Some (JObj [(''user_id'', JInt uid),
       (''items'', JArr [JObj [(''menu_item_id'', JInt 1), (''quantity'', JInt 2)]])])"

lemma wide_decode:
  "0 \<le> i \<Longrightarrow> i < 2 ^ 64 \<Longrightarrow> Decode rest_order_request_fields zero_rest_order_request (wide_body i) =
     (True, \<lparr>ror_user_id = word_of_int i, ror_items = [\<lparr>rir_menu_item_id = 1, rir_quantity = 2\<rparr>]\<rparr>)"
  by (simp add: Decode_def wide_body_def rest_order_request_fields_def rest_item_request_fields_def
      zero_rest_order_request_def lookup_field_def field_def)

lemma cafe_clients_calls [simp]:
  "uc_GetUser (cl_UserClient (cafe_clients T)) = rpc T ''/user.v1.UserService/GetUser'' user_db
     (\<lambda>s. user_db_update (\<lambda>_. s)) UserServer_GetUser"
  "mc_GetMenuItem (cl_MenuClient (cafe_clients T)) = rpc T ''/menu.v1.MenuService/GetMenuItem'' menu_db
     (\<lambda>s. menu_db_update (\<lambda>_. s)) MenuServer_GetMenuItem"
  by (simp_all add: cafe_clients_def NewUserServiceClient_def NewMenuServiceClient_def stubs)

lemma demo_lookups:
  "\<exists>p. rpc perfect ''/user.v1.UserService/GetUser'' user_db (\<lambda>s. user_db_update (\<lambda>_. s)) UserServer_GetUser
     \<lparr>gu_id = 1\<rparr> demo2 = (Inr p, demo2)"
  "\<exists>p i. rpc perfect ''/menu.v1.MenuService/GetMenuItem'' menu_db (\<lambda>s. menu_db_update (\<lambda>_. s)) MenuServer_GetMenuItem
     \<lparr>gm_id = 1\<rparr> demo2 = (Inr p, demo2) \<and> gm_menu_item p = Some i"
  by (simp_all add: demo_eval UserServer_GetUser_def MenuServer_GetMenuItem_def demo0_def demo1_def demo2_def
      alice_def coffee_def finish_def)

lemma wide_order_created:
  assumes "0 \<le> i" and "i < 2 ^ 64" and "uint32_of_uint (word_of_int i) = 1"
  shows "\<exists>r db'. grpc_rest_CreateOrder (cafe_clients perfect) jerr (wide_body i) (demo2, order_mem) =
    (Some r, (demo2, db')) \<and> status r = StatusCreated"
proof -
  from demo_lookups obtain p q m where
    "rpc perfect ''/user.v1.UserService/GetUser'' user_db (\<lambda>s. user_db_update (\<lambda>_. s)) UserServer_GetUser
       \<lparr>gu_id = 1\<rparr> demo2 = (Inr p, demo2)"
    "rpc perfect ''/menu.v1.MenuService/GetMenuItem'' menu_db (\<lambda>s. menu_db_update (\<lambda>_. s)) MenuServer_GetMenuItem
       \<lparr>gm_id = 1\<rparr> demo2 = (Inr q, demo2)" "gm_menu_item q = Some m" by blast
  then show ?thesis
    using wide_decode [OF assms(1,2)] assms(3)
    by (simp add: grpc_rest_CreateOrder_def DB_Create_def mem_create_def Let_def new_order_def)
qed

theorem grpc_rest_order_checked_witness:
  "\<exists>r db' items k. grpc_rest_CreateOrder (cafe_clients perfect) (\<lambda>_. []) (wide_body 1) (demo2, order_mem) =
      (Some r, (demo2, db')) \<and>
    order_rows db' = (order_rows order_mem)(k \<mapsto> (1, ''pending'', mset items)) \<and> user_rows (user_db demo2) 1 \<noteq> None"
proof -
  have ok: "backends_ok demo2" using demo_up(3) by (simp add: backends_up_def)
  obtain r db' where c: "grpc_rest_CreateOrder (cafe_clients perfect) (\<lambda>_. []) (wide_body 1) (demo2, order_mem) =
      (Some r, (demo2, db'))" "status r = StatusCreated"
    using wide_order_created [of 1 "\<lambda>_. []"] by auto
  have d: "Decode rest_order_request_fields zero_rest_order_request (wide_body 1) =
     (True, \<lparr>ror_user_id = 1, ror_items = [\<lparr>rir_menu_item_id = 1, rir_quantity = 2\<rparr>]\<rparr>)"
    using wide_decode [of 1] by simp
  from grpc_rest_order_checked [OF ok order_mem_ok c] obtain req items k where
    "Decode rest_order_request_fields zero_rest_order_request (wide_body 1) = (True, req)"
    "order_rows db' = (order_rows order_mem)(k \<mapsto> (ror_user_id req, ''pending'', mset items))"
    "unat (ror_user_id req) < 2 ^ 32 \<longrightarrow> user_rows (user_db demo2) (ror_user_id req) \<noteq> None" by blast
  with d c(1) show ?thesis by fastforce
qed

text \<open>
  Referential integrity fails for identifiers of more than 32 bits: the handler accepts an
  order for the user \<open>2 ^ 32 + 1\<close>, whom nobody registered, because it looked up user 1.
\<close>

theorem grpc_rest_order_truncates:
  "\<exists>r db' k items. grpc_rest_CreateOrder (cafe_clients perfect) (\<lambda>_. []) (wide_body (2 ^ 32 + 1)) (demo2, order_mem) =
      (Some r, (demo2, db')) \<and> status r = StatusCreated \<and>
    order_rows db' k = Some (2 ^ 32 + 1, ''pending'', items) \<and> user_rows (user_db demo2) (2 ^ 32 + 1) = None"
proof -
  have trunc: "uint32_of_uint (word_of_int (2 ^ 32 + 1)) = 1" by (simp add: uint32_of_uint_def)
  from wide_order_created [OF _ _ trunc, of "\<lambda>_. []"] obtain r db' where
    c: "grpc_rest_CreateOrder (cafe_clients perfect) (\<lambda>_. []) (wide_body (2 ^ 32 + 1)) (demo2, order_mem) =
      (Some r, (demo2, db'))" "status r = StatusCreated" by auto
  have ok: "backends_ok demo2" using demo_up(3) by (simp add: backends_up_def)
  have d: "Decode rest_order_request_fields zero_rest_order_request (wide_body (2 ^ 32 + 1)) =
     (True, \<lparr>ror_user_id = 2 ^ 32 + 1, ror_items = [\<lparr>rir_menu_item_id = 1, rir_quantity = 2\<rparr>]\<rparr>)"
    using wide_decode [of "2 ^ 32 + 1"] by simp
  obtain k items where "order_rows db' k = Some (2 ^ 32 + 1, ''pending'', items)"
    using grpc_rest_stored [OF ok order_mem_ok c] d by fastforce
  moreover have "user_rows (user_db demo2) (2 ^ 32 + 1) = None"
    by (simp add: user_rows_def contents_def demo2_def demo1_def mem_rows_def alice_def)
  ultimately show ?thesis using c by blast
qed

end
