(* ===== verification/Rest_Cafe.thy ===== *)
theory Rest_Cafe
  imports Rest_Services
begin

text \<open>
  The REST services of \<open>practical5\<close> composed: the order service's \<open>http.Get\<close> reaches the user and
  menu services through their routes. The network decides each call anew: the request gets through
  and its answer too, or the request is lost, or the service handles it and its answer is lost. The lemmas follow a call to the handler it reaches, the properties say what the
  handlers do with the bodies and answers they get.
\<close>

fun body_of :: "payload \<Rightarrow> request_body" where
  "body_of (PJson j) = Some j"
| "body_of (PText t) = None"
| "body_of PEmpty = None"

text \<open>
  \<open>rn_fate\<close> is the fate of a call, by its number and its URL: as it is an arbitrary function, calls
  to the same URL can fare differently in any pattern. \<open>peer_calls\<close> counts the calls made so far.
\<close>

datatype http_fate = Answered | RequestDropped string | AnswerDropped string

record ('u, 'm) rest_peers =
  peer_users :: "'u user_db"
  peer_menus :: "'m menus_db"
  peer_calls :: nat

record ('u, 'm) rest_net =
  rn_chi :: router
  rn_miss :: response
  rn_jerr :: "request_body \<Rightarrow> string"
  rn_user_sql :: "('u, User) sql"
  rn_menu_sql :: "('m, Menu) sql"
  rn_fate :: "nat \<Rightarrow> string \<Rightarrow> http_fate"

fun delivered :: "http_fate \<Rightarrow> 'a \<Rightarrow> string + 'a" where
  "delivered (AnswerDropped err) x = Inl err"
| "delivered _ x = Inr x"

definition count_call :: "('u, 'm) rest_peers \<Rightarrow> ('u, 'm) rest_peers" where
  "count_call w = w\<lparr>peer_calls := Suc (peer_calls w)\<rparr>"

definition peers_get :: "('u, 'm) rest_net \<Rightarrow> ('u, 'm) rest_peers http_get" where
  "peers_get N url w =
     (case rn_fate N (peer_calls w) url of
        RequestDropped err \<Rightarrow> (Inl err, count_call w)
      | fate \<Rightarrow>
          if take 24 url = ''http://user-service:8081'' then
            (case serve (rn_chi N) (rn_miss N) (rest_user_routes (rn_jerr N) (rn_user_sql N)) ''GET'' (drop 24 url) None
                    (peer_users w) of
               (r, db) \<Rightarrow> (delivered fate (status r, body_of (payload r)), (count_call w)\<lparr>peer_users := db\<rparr>))
          else if take 24 url = ''http://menu-service:8082'' then
            (case serve (rn_chi N) (rn_miss N) (rest_menu_routes (rn_jerr N) (rn_menu_sql N)) ''GET'' (drop 24 url) None
                    (peer_menus w) of
               (r, db) \<Rightarrow> (delivered fate (status r, body_of (payload r)), (count_call w)\<lparr>peer_menus := db\<rparr>))
          else (Inl ''no such host'', count_call w))"

lemma count_call_sels [simp]:
  "peer_users (count_call w) = peer_users w" "peer_menus (count_call w) = peer_menus w"
  "peer_calls (count_call w) = Suc (peer_calls w)"
  by (simp_all add: count_call_def)

lemma delivered_Inr [simp]: "delivered f x = Inr y \<longleftrightarrow> y = x \<and> (\<forall>err. f \<noteq> AnswerDropped err)"
  by (cases f) auto

subsection \<open>Routing of the two lookups\<close>

lemma segment_fmt_uint: "segment (fmt_uint i)"
  using dec_of_nat_digits [of "CHR ''/''" "unat i"]
  by (auto simp: segment_def fmt_uint_def digit_val_def)

lemmas route_match = matches_def param_pattern_def literal_def

lemma rest_user_get:
  assumes "chi_law chi" and "segment seg"
  shows "serve chi miss (rest_user_routes jerr raw) ''GET'' (''/users/'' @ seg) body db = rest_GetUser raw seg db"
proof -
  have d: "distinct (map fst (rest_user_routes jerr raw))" by (simp add: rest_user_routes_def)
  show ?thesis
    by (subst serve_param [OF assms(1) d, where x = seg])
      (use assms(2) in \<open>auto simp: rest_user_routes_def route_match\<close>)
qed

lemma rest_menu_get:
  assumes "chi_law chi" and "segment seg"
  shows "serve chi miss (rest_menu_routes jerr raw) ''GET'' (''/menu/'' @ seg) body db = rest_GetMenu raw seg db"
proof -
  have d: "distinct (map fst (rest_menu_routes jerr raw))" by (simp add: rest_menu_routes_def)
  show ?thesis
    by (subst serve_param [OF assms(1) d, where x = seg])
      (use assms(2) in \<open>auto simp: rest_menu_routes_def route_match\<close>)
qed

text \<open>The two URLs, split into host and path.\<close>

lemma user_url:
  "take 24 (''http://user-service:8081/users/'' @ x) = ''http://user-service:8081''"
  "drop 24 (''http://user-service:8081/users/'' @ x) = ''/users/'' @ x"
  using take_append [of 24 "''http://user-service:8081''" "''/users/'' @ x"]
    drop_append [of 24 "''http://user-service:8081''" "''/users/'' @ x"] by simp_all

lemma menu_url:
  "take 24 (''http://menu-service:8082/menu/'' @ x) = ''http://menu-service:8082''"
  "drop 24 (''http://menu-service:8082/menu/'' @ x) = ''/menu/'' @ x"
  using take_append [of 24 "''http://menu-service:8082''" "''/menu/'' @ x"]
    drop_append [of 24 "''http://menu-service:8082''" "''/menu/'' @ x"] by simp_all

lemma hosts_differ: "''http://menu-service:8082'' \<noteq> ''http://user-service:8081''"
  by simp

lemma peers_get_user_eq:
  assumes "chi_law (rn_chi N)"
  shows "peers_get N (''http://user-service:8081/users/'' @ fmt_uint i) w =
    (case rn_fate N (peer_calls w) (''http://user-service:8081/users/'' @ fmt_uint i) of
       RequestDropped err \<Rightarrow> (Inl err, count_call w)
     | fate \<Rightarrow> (case rest_GetUser (rn_user_sql N) (fmt_uint i) (peer_users w) of
         (r, db) \<Rightarrow> (delivered fate (status r, body_of (payload r)), (count_call w)\<lparr>peer_users := db\<rparr>)))"
  unfolding peers_get_def user_url rest_user_get [OF assms segment_fmt_uint] by (simp only: refl if_True)

lemma peers_get_menu_eq:
  assumes "chi_law (rn_chi N)"
  shows "peers_get N (''http://menu-service:8082/menu/'' @ fmt_uint i) w =
    (case rn_fate N (peer_calls w) (''http://menu-service:8082/menu/'' @ fmt_uint i) of
       RequestDropped err \<Rightarrow> (Inl err, count_call w)
     | fate \<Rightarrow> (case rest_GetMenu (rn_menu_sql N) (fmt_uint i) (peer_menus w) of
         (r, db) \<Rightarrow> (delivered fate (status r, body_of (payload r)), (count_call w)\<lparr>peer_menus := db\<rparr>)))"
  unfolding peers_get_def menu_url rest_menu_get [OF assms segment_fmt_uint]
  by (simp only: hosts_differ refl if_True if_False)

lemma peers_get_menu:
  assumes "chi_law (rn_chi N)" and "peers_get N (''http://menu-service:8082/menu/'' @ fmt_uint i) w = (Inr (st, b), w')"
  obtains r db where "rest_GetMenu (rn_menu_sql N) (fmt_uint i) (peer_menus w) = (r, db)"
    and "st = status r" and "b = body_of (payload r)" and "w' = (count_call w)\<lparr>peer_menus := db\<rparr>"
  using assms(2) unfolding peers_get_menu_eq [OF assms(1)] by (auto split: http_fate.splits prod.splits)

subsection \<open>The price an order snapshots\<close>

text \<open>What the menu service answers has no member the order service could read a price from.\<close>

lemma lookup_price:
  "lookup_field price_fields ''ID'' = None" "lookup_field price_fields ''CreatedAt'' = None"
  "lookup_field price_fields ''UpdatedAt'' = None" "lookup_field price_fields ''DeletedAt'' = None"
  "lookup_field price_fields ''name'' = None" "lookup_field price_fields ''description'' = None"
  "lookup_field price_fields ''menu_items'' = None"
  by (simp_all add: lookup_field_def price_fields_def fold_char_def)

lemma dec_Menu_price: "enc_Menu m = Some j \<Longrightarrow> dec_struct price_fields j 0 = (True, 0)"
  by (auto simp: enc_Menu_def enc_gorm_model_def lookup_price split: option.splits)

lemma GetMenu_price:
  assumes "rest_GetMenu raw p db = (r, db')" and "status r = StatusOK"
  shows "snd (Decode price_fields 0 (body_of (payload r))) = 0"
proof -
  from assms obtain m where "r = json_reply StatusOK (enc_Menu m)"
    by (auto simp: rest_GetMenu_def split: prod.splits sum.splits)
  then show ?thesis
    by (cases "enc_Menu m") (auto simp: json_reply_def Decode_def dest: dec_Menu_price)
qed

lemma rest_items_price:
  assumes "chi_law (rn_chi N)"
  shows "rest_order_items (peers_get N) its acc w = (Inr items, w') \<Longrightarrow> \<forall>i \<in> set acc. ItemPrice i = 0 \<Longrightarrow>
    (\<forall>i \<in> set items. ItemPrice i = 0) \<and>
    map (\<lambda>i. (MenuItemID i, Quantity i)) items =
      map (\<lambda>i. (MenuItemID i, Quantity i)) acc @ map (\<lambda>it. (rir_menu_item_id it, rir_quantity it)) its"
proof (induction its arbitrary: acc w)
  case Nil
  then show ?case by simp
next
  case (Cons it its)
  let ?url = "''http://menu-service:8082/menu/'' @ fmt_uint (rir_menu_item_id it)"
  obtain y w1 where y: "peers_get N ?url w = (y, w1)" by fastforce
  with Cons.prems(1) obtain b where b: "y = Inr (StatusOK, b)"
    by (auto simp del: append.simps split: sum.splits if_splits)
  from y b have "peers_get N ?url w = (Inr (StatusOK, b), w1)" by simp
  then obtain r db where "rest_GetMenu (rn_menu_sql N) (fmt_uint (rir_menu_item_id it)) (peer_menus w) = (r, db)"
    "StatusOK = status r" "b = body_of (payload r)" by (rule peers_get_menu [OF assms])
  then have zero: "snd (Decode price_fields 0 b) = 0" using GetMenu_price by metis
  let ?i = "new_order_item (rir_menu_item_id it) (rir_quantity it) 0"
  have "rest_order_items (peers_get N) its (acc @ [?i]) w1 = (Inr items, w')"
    using Cons.prems(1) y b zero by simp
  with Cons.IH [of "acc @ [?i]" w1] Cons.prems(2) show ?case by (auto simp: new_order_item_def)
qed

lemma rest_items_error:
  "rest_order_items get its acc w = (Inl x, w') \<Longrightarrow> status x = StatusBadRequest"
  by (induction its arbitrary: acc w) (auto split: prod.splits sum.splits if_splits)

lemma rest_CreateOrder_eq:
  assumes "Decode rest_order_request_fields zero_rest_order_request body = (True, req)"
  shows "rest_CreateOrder get jerr body (w, db) =
    (case get (''http://user-service:8081/users/'' @ fmt_uint (ror_user_id req)) w of
      (Inl err, w1) \<Rightarrow> (http_Error ''User not found'' StatusBadRequest, (w1, db))
    | (Inr (code, _), w1) \<Rightarrow>
        if code \<noteq> StatusOK then (http_Error ''User not found'' StatusBadRequest, (w1, db))
        else (case rest_order_items get (ror_items req) [] w1 of
            (Inl r, w2) \<Rightarrow> (r, (w2, db))
          | (Inr items, w2) \<Rightarrow>
              (case DB_Create (new_order (ror_user_id req) items) db of
                 (Inl err, db') \<Rightarrow> (http_Error (gorm_error_text err) StatusInternalServerError, (w2, db'))
               | (Inr order, db') \<Rightarrow> (json_reply StatusCreated (enc_Order JNull order), (w2, db')))))"
  using assms by (simp add: rest_CreateOrder_def)

lemma rest_CreateOrder_Created:
  assumes "rest_CreateOrder get jerr body (w, db) = (r, (w', db'))" and "status r = StatusCreated"
  obtains req b w1 items ord where "Decode rest_order_request_fields zero_rest_order_request body = (True, req)"
    and "get (''http://user-service:8081/users/'' @ fmt_uint (ror_user_id req)) w = (Inr (StatusOK, b), w1)"
    and "rest_order_items get (ror_items req) [] w1 = (Inr items, w')"
    and "DB_Create (new_order (ror_user_id req) items) db = (Inr ord, db')"
proof -
  obtain ok req where d: "Decode rest_order_request_fields zero_rest_order_request body = (ok, req)" by fastforce
  have ok: "ok" using assms(1,2) d by (cases ok) (auto simp: rest_CreateOrder_def)
  define url where "url = ''http://user-service:8081/users/'' @ fmt_uint (ror_user_id req)"
  obtain u w1 where u: "get url w = (u, w1)" by fastforce
  obtain y w2 where y: "rest_order_items get (ror_items req) [] w1 = (y, w2)" by fastforce
  note c = assms(1) [unfolded rest_CreateOrder_eq [OF d [unfolded eqTrueI [OF ok]]], folded url_def]
  from c u assms(2) obtain b where b: "u = Inr (StatusOK, b)"
    by (cases u) (auto split: if_splits)
  from c u b y assms(2) obtain items where items: "y = Inr items"
    by (cases y) (auto dest: rest_items_error)
  from c u b y items assms(2) obtain ord where "DB_Create (new_order (ror_user_id req) items) db = (Inr ord, db')" "w2 = w'"
    by (auto split: prod.splits sum.splits)
  with that [of req b w1 items ord] d ok u b y items show thesis unfolding url_def by simp
qed

text \<open>What the order service inserts for the items it has looked up.\<close>

lemma rest_items_cols:
  assumes "chi_law (rn_chi N)" and "rest_order_items (peers_get N) its [] w = (Inr items, w')"
  shows "order_cols (new_order uid items) =
    (uid, ''pending'', mset (map (\<lambda>it. (rir_menu_item_id it, rir_quantity it, 0)) its))"
proof -
  from rest_items_price [OF assms] have p: "\<And>i. i \<in> set items \<Longrightarrow> ItemPrice i = 0"
    and q: "map (\<lambda>i. (MenuItemID i, Quantity i)) items = map (\<lambda>it. (rir_menu_item_id it, rir_quantity it)) its"
    by auto
  have "map item_cols items = map (\<lambda>(m, q). (m, q, 0)) (map (\<lambda>i. (MenuItemID i, Quantity i)) items)"
    by (simp add: item_cols_def p)
  also have "\<dots> = map (\<lambda>it. (rir_menu_item_id it, rir_quantity it, 0)) its" by (simp add: q)
  finally show ?thesis by (simp add: order_cols_def new_order_def flip: mset_map)
qed

text \<open>
  C21: The price snapshot of the REST order service is always zero. Every order it accepts is
  stored for the requested user with the requested items and quantities, and each item has the
  price 0: \<open>GET /menu/{id}\<close> answers with a menu, which has no price, and the error of decoding is
  ignored.
\<close>

theorem rest_order_price_zero:
  assumes "chi_law (rn_chi N)" and "gorm_ok order_cols db"
    and "rest_CreateOrder (peers_get N) jerr body (w, db) = (r, (w', db'))" and "status r = StatusCreated"
  shows "\<exists>req k. Decode rest_order_request_fields zero_rest_order_request body = (True, req) \<and> order_rows db k = None \<and>
    order_rows db' = (order_rows db)(k \<mapsto> (ror_user_id req, ''pending'',
      mset (map (\<lambda>it. (rir_menu_item_id it, rir_quantity it, 0)) (ror_items req))))"
proof -
  from assms(3,4) obtain req b w1 items ord where
    d: "Decode rest_order_request_fields zero_rest_order_request body = (True, req)" and
    i: "rest_order_items (peers_get N) (ror_items req) [] w1 = (Inr items, w')" and
    c: "DB_Create (new_order (ror_user_id req) items) db = (Inr ord, db')"
    by (rule rest_CreateOrder_Created)
  from rest_items_cols [OF assms(1) i] DB_Create_order [OF assms(2) c] d show ?thesis by auto
qed

text \<open>A menu in memory, a user in memory, and an order for two pieces of menu 1.\<close>

definition rest_menu_prep :: "uint \<Rightarrow> Menu \<Rightarrow> Menu" where
  "rest_menu_prep k r = r\<lparr>ID := k\<rparr>"

definition rest_demo_menus :: "Menu mem menus_db" where
  "rest_demo_menus = (mem_gorm rest_menu_prep (\<lambda>_ _. False))
     \<lparr>gState := (2, [zero_menu\<lparr>ID := 1, MenuName := ''Lunch''\<rparr>])\<rparr>"

definition rest_demo_users :: "User mem user_db" where
  "rest_demo_users = user_mem\<lparr>gState := (2, [zero_user\<lparr>ID := 1, Name := ''Alice''\<rparr>])\<rparr>"

definition rest_demo_net :: "(User mem, Menu mem) rest_net" where
  "rest_demo_net =
     \<lparr>rn_chi = chi_ref, rn_miss = http_Error ''404 page not found'' StatusNotFound, rn_jerr = (\<lambda>_. ''bad JSON''),
      rn_user_sql = (\<lambda>_ db. (Inl (DBError ''syntax error''), db)),
      rn_menu_sql = (\<lambda>_ db. (Inl (DBError ''syntax error''), db)), rn_fate = (\<lambda>_ _. Answered)\<rparr>"

definition rest_demo_peers :: "nat \<Rightarrow> (User mem, Menu mem) rest_peers" where
  "rest_demo_peers n = \<lparr>peer_users = rest_demo_users, peer_menus = rest_demo_menus, peer_calls = n\<rparr>"

definition rest_demo_body :: request_body where
  "rest_demo_body =
     Some (JObj [(''user_id'', JInt 1),
       (''items'', JArr [JObj [(''menu_item_id'', JInt 1), (''quantity'', JInt 2)]])])"

lemma rest_demo_gets:
  "rest_GetMenu (rn_menu_sql rest_demo_net) (fmt_uint (1 :: uint)) rest_demo_menus =
     (json_reply StatusOK (enc_Menu (zero_menu\<lparr>ID := 1, MenuName := ''Lunch''\<rparr>)), rest_demo_menus)"
  "rest_GetUser (rn_user_sql rest_demo_net) (fmt_uint (1 :: uint)) rest_demo_users =
     (json_reply StatusOK (enc_User (zero_user\<lparr>ID := 1, Name := ''Alice''\<rparr>)), rest_demo_users)"
  by (simp_all add: rest_GetMenu_def rest_GetUser_def DB_First_cond_id DB_First_def rest_demo_menus_def
      rest_demo_users_def mem_gorm_def mem_first_def mem_rows_def zero_menu_def zero_user_def)

lemma rest_demo_law: "chi_law (rn_chi rest_demo_net)"
  by (simp add: rest_demo_net_def chi_ref_law)

lemma rest_demo_peers_get:
  "\<exists>b. peers_get rest_demo_net (''http://user-service:8081/users/'' @ fmt_uint (1 :: uint)) (rest_demo_peers n) =
     (Inr (StatusOK, b), rest_demo_peers (Suc n))"
  "\<exists>b. peers_get rest_demo_net (''http://menu-service:8082/menu/'' @ fmt_uint (1 :: uint)) (rest_demo_peers n) =
     (Inr (StatusOK, b), rest_demo_peers (Suc n))"
proof -
  have fate: "rn_fate rest_demo_net k url = Answered" for k url by (simp add: rest_demo_net_def)
  show "\<exists>b. peers_get rest_demo_net (''http://user-service:8081/users/'' @ fmt_uint (1 :: uint)) (rest_demo_peers n) =
     (Inr (StatusOK, b), rest_demo_peers (Suc n))"
    unfolding peers_get_user_eq [OF rest_demo_law] fate
    by (simp add: rest_demo_peers_def rest_demo_gets count_call_def)
  show "\<exists>b. peers_get rest_demo_net (''http://menu-service:8082/menu/'' @ fmt_uint (1 :: uint)) (rest_demo_peers n) =
     (Inr (StatusOK, b), rest_demo_peers (Suc n))"
    unfolding peers_get_menu_eq [OF rest_demo_law] fate
    by (simp add: rest_demo_peers_def rest_demo_gets count_call_def)
qed

lemma rest_demo_decode:
  "Decode rest_order_request_fields zero_rest_order_request rest_demo_body =
     (True, \<lparr>ror_user_id = 1, ror_items = [\<lparr>rir_menu_item_id = 1, rir_quantity = 2\<rparr>]\<rparr>)"
  by (simp add: Decode_def rest_demo_body_def rest_order_request_fields_def rest_item_request_fields_def
      zero_rest_order_request_def lookup_field_def field_def)

lemma rest_demo_order:
  "\<exists>r st'. rest_CreateOrder (peers_get rest_demo_net) jerr rest_demo_body (rest_demo_peers n, order_mem) = (r, st') \<and>
    status r = StatusCreated"
proof -
  obtain b where u: "peers_get rest_demo_net (''http://user-service:8081/users/'' @ fmt_uint (1 :: uint)) (rest_demo_peers n) =
     (Inr (StatusOK, b), rest_demo_peers (Suc n))" using rest_demo_peers_get by blast
  obtain c where m: "peers_get rest_demo_net (''http://menu-service:8082/menu/'' @ fmt_uint (1 :: uint)) (rest_demo_peers (Suc n)) =
     (Inr (StatusOK, c), rest_demo_peers (Suc (Suc n)))" using rest_demo_peers_get by blast
  have "\<exists>i. rest_order_items (peers_get rest_demo_net) [\<lparr>rir_menu_item_id = 1, rir_quantity = 2\<rparr>] [] (rest_demo_peers (Suc n)) =
    (Inr [i], rest_demo_peers (Suc (Suc n)))" using m by simp
  then obtain i where i: "rest_order_items (peers_get rest_demo_net) [\<lparr>rir_menu_item_id = 1, rir_quantity = 2\<rparr>] [] (rest_demo_peers (Suc n)) =
    (Inr [i], rest_demo_peers (Suc (Suc n)))" by blast
  have "\<exists>ord db. DB_Create (new_order 1 [i]) order_mem = (Inr ord, db)"
    by (simp add: DB_Create_def mem_create_def new_order_def Let_def)
  then obtain ord db where "DB_Create (new_order 1 [i]) order_mem = (Inr ord, db)" by blast
  with u i show ?thesis
    by (simp add: rest_CreateOrder_def rest_demo_decode del: rest_order_items.simps append.simps)
qed

theorem rest_order_price_zero_witness:
  "\<exists>r w' db' k. rest_CreateOrder (peers_get rest_demo_net) (\<lambda>_. []) rest_demo_body (rest_demo_peers 0, order_mem) = (r, (w', db')) \<and>
    order_rows db' k = Some (1, ''pending'', {#(1, 2, 0)#})"
proof -
  obtain r w' db' where c: "rest_CreateOrder (peers_get rest_demo_net) (\<lambda>_. []) rest_demo_body (rest_demo_peers 0, order_mem) = (r, (w', db'))"
    and st: "status r = StatusCreated" using rest_demo_order [of "\<lambda>_. []" 0] by auto
  from rest_order_price_zero [OF rest_demo_law order_mem_ok c st] rest_demo_decode obtain k where
    "order_rows db' = (order_rows order_mem)(k \<mapsto> (1, ''pending'', {#(1, 2, 0)#}))" by auto
  with c show ?thesis by fastforce
qed

end
