(* ===== verification/Service_Main.thy ===== *)
theory Service_Main
  imports Cafe_Demo Monolith
begin

text \<open>
  How the programs start: \<open>database.Connect\<close> and \<open>main\<close> of the three gRPC services
  (\<open>practical6-example\<close>), of the three REST services and of the monolith (\<open>practical5\<close>).

  \<open>env\<close> is \<open>os.Getenv\<close>, which answers with the empty string for a variable that is not set.
  \<open>open_db\<close> is \<open>gorm.Open\<close> on a connection string and \<open>migrate\<close> is \<open>AutoMigrate\<close> on the tables of
  some models; \<open>listen\<close> is the error of opening a port and \<open>sserve\<close> the error with which a gRPC
  server gives up at once.
\<close>

record 'd gorm_driver =
  open_db :: "string \<Rightarrow> string + 'd"
  migrate :: "string list \<Rightarrow> 'd \<Rightarrow> string option \<times> 'd"

definition AutoMigrate :: "'d gorm_driver \<Rightarrow> string list \<Rightarrow> 'd \<Rightarrow> string + 'd" where
  "AutoMigrate G models db = (case migrate G models db of (Some err, _) \<Rightarrow> Inl err | (None, db') \<Rightarrow> Inr db')"

definition env_or :: "(string \<Rightarrow> string) \<Rightarrow> string \<Rightarrow> string \<Rightarrow> string" where
  "env_or env key fallback = (if env key = [] then fallback else env key)"

definition local_dsn :: "string \<Rightarrow> string" where
  "local_dsn name = ''host=localhost user=postgres password=postgres dbname='' @ name @ '' port=5432 sslmode=disable''"

subsection \<open>Databases\<close>

definition user_Connect :: "'d gorm_driver \<Rightarrow> string \<Rightarrow> string + 'd" where
  "user_Connect G dsn = (case open_db G dsn of Inl err \<Rightarrow> Inl err | Inr db \<Rightarrow> AutoMigrate G [''User''] db)"

definition menu_Connect :: "'d gorm_driver \<Rightarrow> string \<Rightarrow> string + 'd" where
  "menu_Connect G dsn = (case open_db G dsn of Inl err \<Rightarrow> Inl err | Inr db \<Rightarrow> AutoMigrate G [''MenuItem''] db)"

definition order_Connect :: "'d gorm_driver \<Rightarrow> string \<Rightarrow> string + 'd" where
  "order_Connect G dsn = (case open_db G dsn of Inl err \<Rightarrow> Inl err | Inr db \<Rightarrow> AutoMigrate G [''Order'', ''OrderItem''] db)"

definition rest_user_Connect :: "'d gorm_driver \<Rightarrow> string \<Rightarrow> string + 'd" where
  "rest_user_Connect G dsn = (case open_db G dsn of Inl err \<Rightarrow> Inl err | Inr db \<Rightarrow> AutoMigrate G [''User''] db)"

definition rest_menu_Connect :: "'d gorm_driver \<Rightarrow> string \<Rightarrow> string + 'd" where
  "rest_menu_Connect G dsn = (case open_db G dsn of Inl err \<Rightarrow> Inl err | Inr db \<Rightarrow> AutoMigrate G [''MenuItem''] db)"

definition rest_order_Connect :: "'d gorm_driver \<Rightarrow> string \<Rightarrow> string + 'd" where
  "rest_order_Connect G dsn = (case open_db G dsn of Inl err \<Rightarrow> Inl err | Inr db \<Rightarrow> AutoMigrate G [''Order'', ''OrderItem''] db)"

definition mono_Connect :: "'d gorm_driver \<Rightarrow> string \<Rightarrow> string + 'd" where
  "mono_Connect G dsn =
     (case open_db G dsn of
        Inl err \<Rightarrow> Inl err
      | Inr db \<Rightarrow> AutoMigrate G [''User'', ''MenuItem'', ''Order'', ''OrderItem''] db)"

subsection \<open>The gRPC services\<close>

definition user_main ::
  "(string \<Rightarrow> string) \<Rightarrow> 's user_db gorm_driver \<Rightarrow> (string \<Rightarrow> string option) \<Rightarrow> (string \<Rightarrow> string option)
   \<Rightarrow> ('s user_db service_desc \<times> 's user_db) startup" where
  "user_main env G listen sserve =
     (case user_Connect G (env_or env ''DATABASE_URL'' (local_dsn ''user_db'')) of
        Inl err \<Rightarrow> Fatal (''Failed to connect to database: '' @ err)
      | Inr db \<Rightarrow>
          (let grpcPort = env_or env ''GRPC_PORT'' ''9091''; lis = '':'' @ grpcPort
           in case listen lis of
                Some err \<Rightarrow> Fatal (''Failed to listen on gRPC port '' @ grpcPort @ '': '' @ err)
              | None \<Rightarrow>
                  (case sserve lis of
                     Some err \<Rightarrow> Fatal (''gRPC server failed: '' @ err)
                   | None \<Rightarrow> Serving lis (UserService_ServiceDesc NewUserServer, db))))"

definition menu_main ::
  "(string \<Rightarrow> string) \<Rightarrow> 's menu_db gorm_driver \<Rightarrow> (string \<Rightarrow> string option) \<Rightarrow> (string \<Rightarrow> string option)
   \<Rightarrow> ('s menu_db service_desc \<times> 's menu_db) startup" where
  "menu_main env G listen sserve =
     (case menu_Connect G (env_or env ''DATABASE_URL'' (local_dsn ''menu_db'')) of
        Inl err \<Rightarrow> Fatal (''Failed to connect to database: '' @ err)
      | Inr db \<Rightarrow>
          (let grpcPort = env_or env ''GRPC_PORT'' ''9092''; lis = '':'' @ grpcPort
           in case listen lis of
                Some err \<Rightarrow> Fatal (''Failed to listen on gRPC port '' @ grpcPort @ '': '' @ err)
              | None \<Rightarrow>
                  (case sserve lis of
                     Some err \<Rightarrow> Fatal (''gRPC server failed: '' @ err)
                   | None \<Rightarrow> Serving lis (MenuService_ServiceDesc NewMenuServer, db))))"

definition order_main ::
  "(string \<Rightarrow> string) \<Rightarrow> (goerror \<Rightarrow> string) \<Rightarrow> (string \<Rightarrow> string + 'w ClientConn) \<Rightarrow> 's order_db gorm_driver
   \<Rightarrow> (string \<Rightarrow> string option) \<Rightarrow> (string \<Rightarrow> string option)
   \<Rightarrow> (('w \<times> 's order_db) service_desc \<times> 's order_db) startup" where
  "order_main env err_text dial G listen sserve =
     (case order_Connect G (env_or env ''DATABASE_URL'' (local_dsn ''order_db'')) of
        Inl err \<Rightarrow> Fatal (''Failed to connect to database: '' @ err)
      | Inr db \<Rightarrow>
          (let grpcPort = env_or env ''GRPC_PORT'' ''9093''; lis = '':'' @ grpcPort
           in case listen lis of
                Some err \<Rightarrow> Fatal (''Failed to listen on gRPC port '' @ grpcPort @ '': '' @ err)
              | None \<Rightarrow>
                  (let userServiceAddr = env_or env ''USER_SERVICE_GRPC_ADDR'' ''user-service:9091'';
                       menuServiceAddr = env_or env ''MENU_SERVICE_GRPC_ADDR'' ''menu-service:9092''
                   in case NewOrderServer dial userServiceAddr menuServiceAddr of
                        Inl err \<Rightarrow> Fatal (''Failed to create gRPC order server: '' @ err)
                      | Inr orderServer \<Rightarrow>
                          (case sserve lis of
                             Some err \<Rightarrow> Fatal (''gRPC server failed: '' @ err)
                           | None \<Rightarrow> Serving lis (OrderService_ServiceDesc (OrderServer_methods err_text orderServer), db)))))"

subsection \<open>The REST services and the monolith\<close>

text \<open>
  These \<open>main\<close>s ignore the error of \<open>ListenAndServe\<close>: the program then ends without a message.
\<close>

datatype 'a http_startup = HFatal string | HEnded | HServing string 'a

definition ListenAndServe :: "(string \<Rightarrow> string option) \<Rightarrow> string \<Rightarrow> 'a \<Rightarrow> 'a http_startup" where
  "ListenAndServe listen addr r = (case listen addr of Some err \<Rightarrow> HEnded | None \<Rightarrow> HServing addr r)"

definition rest_user_main ::
  "(string \<Rightarrow> string) \<Rightarrow> (request_body \<Rightarrow> string) \<Rightarrow> ('s, User) sql \<Rightarrow> 's user_db gorm_driver \<Rightarrow> (string \<Rightarrow> string option)
   \<Rightarrow> ('s user_db routes \<times> 's user_db) http_startup" where
  "rest_user_main env jerr raw G listen =
     (case rest_user_Connect G (env_or env ''DATABASE_URL'' (local_dsn ''user_db'')) of
        Inl err \<Rightarrow> HFatal (''Failed to connect to database: '' @ err)
      | Inr db \<Rightarrow> ListenAndServe listen ('':'' @ env_or env ''PORT'' ''8081'') (rest_user_routes jerr raw, db))"

definition rest_menu_main ::
  "(string \<Rightarrow> string) \<Rightarrow> (request_body \<Rightarrow> string) \<Rightarrow> ('s, Menu) sql \<Rightarrow> 's menus_db gorm_driver \<Rightarrow> (string \<Rightarrow> string option)
   \<Rightarrow> ('s menus_db routes \<times> 's menus_db) http_startup" where
  "rest_menu_main env jerr raw G listen =
     (case rest_menu_Connect G (env_or env ''DATABASE_URL'' (local_dsn ''menu_db'')) of
        Inl err \<Rightarrow> HFatal (''Failed to connect to database: '' @ err)
      | Inr db \<Rightarrow> ListenAndServe listen ('':'' @ env_or env ''PORT'' ''8082'') (rest_menu_routes jerr raw, db))"

definition rest_order_main ::
  "(string \<Rightarrow> string) \<Rightarrow> (request_body \<Rightarrow> string) \<Rightarrow> 'w http_get \<Rightarrow> 's order_db gorm_driver \<Rightarrow> (string \<Rightarrow> string option)
   \<Rightarrow> (('w \<times> 's order_db) routes \<times> 's order_db) http_startup" where
  "rest_order_main env jerr http_get G listen =
     (case rest_order_Connect G (env_or env ''DATABASE_URL'' (local_dsn ''order_db'')) of
        Inl err \<Rightarrow> HFatal (''Failed to connect to database: '' @ err)
      | Inr db \<Rightarrow> ListenAndServe listen ('':'' @ env_or env ''PORT'' ''8083'') (rest_order_routes http_get jerr, db))"

definition mono_main ::
  "(string \<Rightarrow> string) \<Rightarrow> (request_body \<Rightarrow> string) \<Rightarrow> ('u, MonoUser) sql \<Rightarrow> ('u, 'm, 'o) mono gorm_driver \<Rightarrow> (string \<Rightarrow> string option)
   \<Rightarrow> (('u, 'm, 'o) mono routes \<times> ('u, 'm, 'o) mono) http_startup" where
  "mono_main env jerr raw G listen =
     (case mono_Connect G (env_or env ''DATABASE_URL'' (local_dsn ''student_cafe'')) of
        Inl err \<Rightarrow> HFatal (''Failed to connect to database: '' @ err)
      | Inr db \<Rightarrow> ListenAndServe listen '':8080'' (mono_routes jerr raw, db))"

subsection \<open>The cafe as it starts\<close>

lemma env_or_unset [simp]: "env key = [] \<Longrightarrow> env_or env key x = x"
  by (simp add: env_or_def)

lemma user_main_serving:
  assumes "env ''GRPC_PORT'' = []" and "user_main env G listen sserve = Serving a (desc, db)"
  shows "a = '':9091'' \<and> desc = UserService_ServiceDesc NewUserServer"
  using assms by (auto simp: user_main_def Let_def split: sum.splits option.splits)

lemma menu_main_serving:
  assumes "env ''GRPC_PORT'' = []" and "menu_main env G listen sserve = Serving a (desc, db)"
  shows "a = '':9092'' \<and> desc = MenuService_ServiceDesc NewMenuServer"
  using assms by (auto simp: menu_main_def Let_def split: sum.splits option.splits)

lemma order_main_serving:
  assumes "env ''GRPC_PORT'' = []" and "env ''USER_SERVICE_GRPC_ADDR'' = []" and "env ''MENU_SERVICE_GRPC_ADDR'' = []"
    and "order_main env err_text dial G listen sserve = Serving a (desc, db)"
  obtains srv where "NewOrderServer dial ''user-service:9091'' ''menu-service:9092'' = Inr srv" and "a = '':9093''"
    and "desc = OrderService_ServiceDesc (OrderServer_methods err_text srv)"
  using assms by (auto simp: order_main_def Let_def split: sum.splits option.splits)

text \<open>A database driver that opens a given database, and a network with the three hosts.\<close>

definition mem_driver :: "'d \<Rightarrow> 'd gorm_driver" where
  "mem_driver db = \<lparr>open_db = (\<lambda>_. Inr db), migrate = (\<lambda>_ d. (None, d))\<rparr>"

definition demo_dial :: "string \<Rightarrow> string + demo_cafe ClientConn" where
  "demo_dial a =
     (if a = ''user-service:9091'' then Inr (user_conn perfect)
      else if a = ''menu-service:9092'' then Inr (menu_conn perfect)
      else if a = ''order-service:9093'' then Inr (order_conn perfect)
      else Inl ''no such host'')"

lemma demo_mains:
  "user_main (\<lambda>_. []) (mem_driver user_mem) (\<lambda>_. None) (\<lambda>_. None) =
     Serving '':9091'' (UserService_ServiceDesc NewUserServer, user_mem)"
  "menu_main (\<lambda>_. []) (mem_driver menu_mem) (\<lambda>_. None) (\<lambda>_. None) =
     Serving '':9092'' (MenuService_ServiceDesc NewMenuServer, menu_mem)"
  "order_main (\<lambda>_. []) (tp_err_text perfect) demo_dial (mem_driver order_mem) (\<lambda>_. None) (\<lambda>_. None) =
     Serving '':9093'' (OrderService_ServiceDesc (OrderServer_methods (tp_err_text perfect) (order_server perfect)), order_mem)"
  by (simp_all add: user_main_def menu_main_def order_main_def user_Connect_def menu_Connect_def order_Connect_def
      AutoMigrate_def mem_driver_def Let_def NewOrderServer_def demo_dial_def order_server_def)

text \<open>
  C26: The four programs fit together as shipped. When they start with an unset environment and the
  name of each service's host leads to the address on which that service listens, the gateway's
  clients and the order service's clients are connected to the right services: what the gateway
  serves is the composed cafe.
\<close>

theorem cafe_starts:
  assumes unset: "\<forall>v. env v = []"
    and user: "user_main env Gu listen_u sserve_u = Serving ua (ud, udb)"
    and menu: "menu_main env Gm listen_m sserve_m = Serving ma (md, mdb)"
    and order: "order_main env (tp_err_text T) dial Go listen_o sserve_o = Serving oa (od, odb)"
    and dial: "dial (''user-service'' @ ua) = Inr (connect T user_db (\<lambda>s. user_db_update (\<lambda>_. s)) ud)"
      "dial (''menu-service'' @ ma) = Inr (connect T menu_db (\<lambda>s. menu_db_update (\<lambda>_. s)) md)"
      "dial (''order-service'' @ oa) = Inr (connect T order_state put_order_state od)"
    and listen: "listen '':8080'' = None"
  shows "\<exists>rs. gateway_main env dial listen = Serving '':8080'' rs \<and> serve chi miss rs = cafe_http T chi miss"
proof -
  have u: "ua = '':9091''" "ud = UserService_ServiceDesc NewUserServer"
    using user_main_serving [OF _ user] unset by auto
  have m: "ma = '':9092''" "md = MenuService_ServiceDesc NewMenuServer"
    using menu_main_serving [OF _ menu] unset by auto
  have du: "dial ''user-service:9091'' = Inr (user_conn T)" using dial(1) by (simp add: u user_conn_def)
  have dm: "dial ''menu-service:9092'' = Inr (menu_conn T)" using dial(2) by (simp add: m menu_conn_def)
  obtain srv where srv: "NewOrderServer dial ''user-service:9091'' ''menu-service:9092'' = Inr srv"
    and o: "oa = '':9093''" "od = OrderService_ServiceDesc (OrderServer_methods (tp_err_text T) srv)"
    using order_main_serving [OF _ _ _ order] unset by auto
  have "srv = order_server T" using srv by (simp add: NewOrderServer_def du dm order_server_def)
  then have "dial ''order-service:9093'' = Inr (order_conn T)" using dial(3) by (simp add: o order_conn_def)
  then have "NewServiceClients env dial = Inr (gateway_clients T)"
    using unset du dm by (simp add: NewServiceClients_def getEnv_def gateway_clients_def)
  then show ?thesis using listen by (simp add: gateway_main_def cafe_http_def)
qed

theorem cafe_starts_witness:
  "\<exists>rs. gateway_main (\<lambda>_. []) demo_dial (\<lambda>_. None) = Serving '':8080'' rs \<and>
     serve chi_ref demo_miss rs = cafe_http perfect chi_ref demo_miss"
  by (rule cafe_starts [OF _ demo_mains])
    (simp_all add: demo_dial_def user_conn_def menu_conn_def order_conn_def)

end
