(* ===== verification/Proxy_Gateway.thy ===== *)
theory Proxy_Gateway
  imports Service_Main
begin

text \<open>
  \<open>practical5/api-gateway/main.go\<close>: a gateway that forwards every request under three prefixes to
  the REST services. Its patterns end in \<open>*\<close>; the router's choice among them is a parameter,
  \<open>wild\<close>, and \<open>wild_law\<close> is what the program relies on: a pattern matches every path that extends
  the text before the star, and a request goes to a pattern that matches.
\<close>

definition wild_matches :: "string \<Rightarrow> string \<Rightarrow> bool" where
  "wild_matches p path \<longleftrightarrow> p \<noteq> [] \<and> last p = CHR ''*'' \<and> take (length p - 1) path = butlast p"

definition wild_law :: "(string list \<Rightarrow> string \<Rightarrow> nat option) \<Rightarrow> bool" where
  "wild_law wild \<longleftrightarrow>
     (\<forall>ps path. case wild ps path of
        None \<Rightarrow> \<forall>p \<in> set ps. \<not> wild_matches p path
      | Some i \<Rightarrow> i < length ps \<and> wild_matches (ps ! i) path)"

text \<open>\<open>HandleFunc\<close> registers a handler for the methods the router knows.\<close>

definition chi_methods :: "string list" where
  "chi_methods = [''CONNECT'', ''DELETE'', ''GET'', ''HEAD'', ''OPTIONS'', ''PATCH'', ''POST'', ''PUT'', ''TRACE'']"

type_synonym 'w raw_handler = "string \<Rightarrow> string \<Rightarrow> request_body \<Rightarrow> 'w \<Rightarrow> response \<times> 'w"

text \<open>\<open>proxyTo\<close>, which does not use its second argument.\<close>

definition proxyTo :: "'w send \<Rightarrow> string \<Rightarrow> string \<Rightarrow> 'w raw_handler" where
  "proxyTo send targetURL stripPrefix m path body w =
     reverse_proxy send targetURL m (TrimPrefix path ''/api'') body w"

definition proxy_routes :: "'w send \<Rightarrow> (string \<times> 'w raw_handler) list" where
  "proxy_routes send =
     [(''/api/users*'', proxyTo send ''http://user-service:8081'' ''/users''),
      (''/api/menu*'', proxyTo send ''http://menu-service:8082'' ''/menu''),
      (''/api/orders*'', proxyTo send ''http://order-service:8083'' ''/orders'')]"

definition proxy_main :: "'w send \<Rightarrow> (string \<Rightarrow> string option) \<Rightarrow> (string \<times> 'w raw_handler) list http_startup" where
  "proxy_main send listen = ListenAndServe listen '':8080'' (proxy_routes send)"

text \<open>What the router does with such a table.\<close>

definition serve_wild ::
  "(string list \<Rightarrow> string \<Rightarrow> nat option) \<Rightarrow> response \<Rightarrow> (string \<times> 'w raw_handler) list \<Rightarrow> 'w raw_handler" where
  "serve_wild wild miss rs m path body w =
     (if m \<notin> set chi_methods then (miss, w)
      else case wild (map fst rs) path of
             None \<Rightarrow> (miss, w)
           | Some i \<Rightarrow> if i < length rs then snd (rs ! i) m path body w else (miss, w))"

definition wild_ref :: "string list \<Rightarrow> string \<Rightarrow> nat option" where
  "wild_ref ps path = map_option fst (find_index (\<lambda>p. if wild_matches p path then Some () else None) 0 ps)"

lemma wild_ref_law: "wild_law wild_ref"
  unfolding wild_law_def wild_ref_def
  by (auto simp: find_index_None split: option.splits if_splits dest!: find_index_Some)

lemma wild_cases:
  assumes "wild_law wild"
  shows "case wild ps path of None \<Rightarrow> \<forall>p \<in> set ps. \<not> wild_matches p path | Some i \<Rightarrow> i < length ps \<and> wild_matches (ps ! i) path"
  using assms unfolding wild_law_def by blast

lemma serve_wild_only:
  assumes "wild_law wild" and "m \<in> set chi_methods" and "i < length rs" and "wild_matches (fst (rs ! i)) path"
    and "\<And>j. j < length rs \<Longrightarrow> wild_matches (fst (rs ! j)) path \<Longrightarrow> j = i"
  shows "serve_wild wild miss rs m path body w = snd (rs ! i) m path body w"
proof (cases "wild (map fst rs) path")
  case None
  with wild_cases [OF assms(1), of "map fst rs" path] nth_mem [OF assms(3)] assms(4) show ?thesis by simp
next
  case (Some j)
  with wild_cases [OF assms(1), of "map fst rs" path] have "j < length rs \<and> wild_matches (fst (rs ! j)) path" by auto
  with assms(5) [of j] have "j = i" by simp
  with Some assms(2,3) show ?thesis by (simp add: serve_wild_def)
qed

lemma serve_wild_miss:
  assumes "wild_law wild" and "\<And>r. r \<in> set rs \<Longrightarrow> \<not> wild_matches (fst r) path"
  shows "serve_wild wild miss rs m path body w = (miss, w)"
proof (cases "wild (map fst rs) path")
  case (Some j)
  with wild_cases [OF assms(1), of "map fst rs" path] have "j < length rs \<and> wild_matches (fst (rs ! j)) path" by auto
  with assms(2) [of "rs ! j"] show ?thesis by auto
qed (simp add: serve_wild_def)

lemma reverse_proxy_reached:
  "send u m path body w = map_prod Some id x \<Longrightarrow> reverse_proxy send u m path body w = x"
  by (simp add: reverse_proxy_def split_beta)

lemma proxy_forwards:
  assumes "wild_law wild" and "m \<in> set chi_methods"
  shows "serve_wild wild miss (proxy_routes send) m (''/api/users'' @ rest) body w =
      reverse_proxy send ''http://user-service:8081'' m (''/users'' @ rest) body w" (is ?U)
    and "serve_wild wild miss (proxy_routes send) m (''/api/menu'' @ rest) body w =
      reverse_proxy send ''http://menu-service:8082'' m (''/menu'' @ rest) body w" (is ?M)
    and "serve_wild wild miss (proxy_routes send) m (''/api/orders'' @ rest) body w =
      reverse_proxy send ''http://order-service:8083'' m (''/orders'' @ rest) body w" (is ?O)
proof -
  note only = serve_wild_only [OF assms, where rs = "proxy_routes send" and miss = miss and body = body and w = w]
  show ?U
    by (subst only [where i = 0])
      (auto simp: proxy_routes_def wild_matches_def proxyTo_def TrimPrefix_def less_Suc_eq)
  show ?M
    by (subst only [where i = 1])
      (auto simp: proxy_routes_def wild_matches_def proxyTo_def TrimPrefix_def less_Suc_eq)
  show ?O
    by (subst only [where i = 2])
      (auto simp: proxy_routes_def wild_matches_def proxyTo_def TrimPrefix_def less_Suc_eq)
qed

text \<open>
  C39: The forwarding gateway is transparent. The three REST services and the gateway start with an
  unset environment, and each host leads to the service that listens there. A request for a path
  under \<open>/api/users\<close>, \<open>/api/menu\<close> or \<open>/api/orders\<close>, with any method the router knows, is answered
  by that service for the path without \<open>/api\<close>; every other path is a miss, and nothing is sent.
\<close>

theorem proxy_transparent:
  assumes wild: "wild_law wild" and m: "m \<in> set chi_methods" and unset: "\<forall>v. env v = []"
    and user: "rest_user_main env jerr rawu Gu lu = HServing ua us"
    and menu: "rest_menu_main env jerr rawm Gm lm = HServing ma ms"
    and order: "rest_order_main env jerr http_get Go lo = HServing oa os"
    and gate: "proxy_main send listen = HServing a rs"
    and net: "\<forall>m path body w. send (''http://user-service'' @ ua) m path body w = map_prod Some id (su m path body w)"
      "\<forall>m path body w. send (''http://menu-service'' @ ma) m path body w = map_prod Some id (sm m path body w)"
      "\<forall>m path body w. send (''http://order-service'' @ oa) m path body w = map_prod Some id (so m path body w)"
    and other: "\<forall>p \<in> set [''/api/users'', ''/api/menu'', ''/api/orders'']. take (length p) other \<noteq> p"
  shows "serve_wild wild miss rs m (''/api/users'' @ rest) body w = su m (''/users'' @ rest) body w \<and>
    serve_wild wild miss rs m (''/api/menu'' @ rest) body w = sm m (''/menu'' @ rest) body w \<and>
    serve_wild wild miss rs m (''/api/orders'' @ rest) body w = so m (''/orders'' @ rest) body w \<and>
    serve_wild wild miss rs m other body w = (miss, w)"
proof -
  have rs: "rs = proxy_routes send" using gate by (auto simp: proxy_main_def ListenAndServe_def split: option.splits)
  have addr: "ua = '':8081''" "ma = '':8082''" "oa = '':8083''"
    using user menu order unset
    by (auto simp: rest_user_main_def rest_menu_main_def rest_order_main_def ListenAndServe_def split: sum.splits option.splits)
  have "serve_wild wild miss rs m other body w = (miss, w)" unfolding rs
    by (rule serve_wild_miss [OF wild]) (use other in \<open>auto simp: proxy_routes_def wild_matches_def\<close>)
  with net show ?thesis
    unfolding rs addr proxy_forwards [OF wild m] by (simp add: reverse_proxy_reached)
qed

text \<open>Services that count requests and answer with their name and the path.\<close>

definition echo_service :: "string \<Rightarrow> nat raw_handler" where
  "echo_service name m path body w = (http_Error (name @ path) 200, Suc w)"

definition echo_hosts :: "nat send" where
  "echo_hosts target m path body w =
     (if target = ''http://user-service:8081'' then map_prod Some id (echo_service ''user'' m path body w)
      else if target = ''http://menu-service:8082'' then map_prod Some id (echo_service ''menu'' m path body w)
      else if target = ''http://order-service:8083'' then map_prod Some id (echo_service ''order'' m path body w)
      else (None, w))"

theorem proxy_transparent_witness:
  "serve_wild wild_ref demo_miss (proxy_routes echo_hosts) ''GET'' ''/api/menu/3'' None 0 = (http_Error ''menu/menu/3'' 200, 1) \<and>
   serve_wild wild_ref demo_miss (proxy_routes echo_hosts) ''GET'' ''/health'' None 0 = (demo_miss, 0)"
proof -
  let ?e = "\<lambda>_::string. []::string" and ?l = "\<lambda>_::string. None :: string option"
  have 1: "rest_user_main ?e (\<lambda>_. []) (\<lambda>_ db. (Inl ErrRecordNotFound, db)) (mem_driver user_mem) ?l = HServing '':8081'' (rest_user_routes (\<lambda>_. []) (\<lambda>_ db. (Inl ErrRecordNotFound, db)), user_mem)"
    by (simp add: rest_user_main_def rest_user_Connect_def AutoMigrate_def mem_driver_def ListenAndServe_def)
  have 2: "rest_menu_main ?e (\<lambda>_. []) (\<lambda>_ db. (Inl ErrRecordNotFound, db)) (mem_driver db) ?l = HServing '':8082'' (rest_menu_routes (\<lambda>_. []) (\<lambda>_ db. (Inl ErrRecordNotFound, db)), db)" for db :: "nat menus_db"
    by (simp add: rest_menu_main_def rest_menu_Connect_def AutoMigrate_def mem_driver_def ListenAndServe_def)
  have 3: "rest_order_main ?e (\<lambda>_. []) (\<lambda>_ w. (Inl [], w)) (mem_driver order_mem) ?l =
      HServing '':8083'' (rest_order_routes (\<lambda>_ w. (Inl [], w)) (\<lambda>_. []), order_mem)"
    by (simp add: rest_order_main_def rest_order_Connect_def AutoMigrate_def mem_driver_def ListenAndServe_def)
  have 4: "proxy_main echo_hosts ?l = HServing '':8080'' (proxy_routes echo_hosts)"
    by (simp add: proxy_main_def ListenAndServe_def)
  show ?thesis
    using proxy_transparent [OF wild_ref_law _ _ 1 2 3 4, of "''GET''" "echo_service ''user''" "echo_service ''menu''"
        "echo_service ''order''" "''/health''" demo_miss "''/3''" None 0]
    by (simp add: chi_methods_def echo_hosts_def echo_service_def)
qed

end
