(* ===== verification/Rest_System.thy ===== *)
theory Rest_System
  imports Rest_Cafe Proxy_Gateway
begin

text \<open>
  The whole of \<open>practical5\<close> after the split: the forwarding gateway in front of the three REST
  services, the order service calling the other two. The state is that of the services; any call,
  from the gateway or between services, can get lost, before or after the service has handled it.
  The invariant is what the order service guarantees of its orders by asking the other services:
  nothing in the databases relates them.
\<close>

subsection \<open>The services behind the gateway\<close>

type_synonym ('u, 'm, 'o) split_cafe = "('u, 'm) rest_peers \<times> 'o order_db"

definition answer_of :: "http_fate \<Rightarrow> response \<Rightarrow> response option" where
  "answer_of fate r = (case delivered fate r of Inl err \<Rightarrow> None | Inr r \<Rightarrow> Some r)"

definition split_hosts :: "('u, 'm) rest_net \<Rightarrow> (request_body \<Rightarrow> string) \<Rightarrow> ('u, 'm, 'o) split_cafe send" where
  "split_hosts N jerr target m path body st =
     (case rn_fate N (peer_calls (fst st)) (target @ path) of
        RequestDropped err \<Rightarrow> (None, (count_call (fst st), snd st))
      | fate \<Rightarrow>
          if target = ''http://user-service:8081'' then
            (case serve (rn_chi N) (rn_miss N) (rest_user_routes (rn_jerr N) (rn_user_sql N)) m path body (peer_users (fst st)) of
               (r, db) \<Rightarrow> (answer_of fate r, ((count_call (fst st))\<lparr>peer_users := db\<rparr>, snd st)))
          else if target = ''http://menu-service:8082'' then
            (case serve (rn_chi N) (rn_miss N) (rest_menu_routes (rn_jerr N) (rn_menu_sql N)) m path body (peer_menus (fst st)) of
               (r, db) \<Rightarrow> (answer_of fate r, ((count_call (fst st))\<lparr>peer_menus := db\<rparr>, snd st)))
          else if target = ''http://order-service:8083'' then
            (case serve (rn_chi N) (rn_miss N) (rest_order_routes (peers_get N) jerr) m path body (count_call (fst st), snd st) of
               (r, st') \<Rightarrow> (answer_of fate r, st'))
          else (None, (count_call (fst st), snd st)))"

definition split_http ::
  "(string list \<Rightarrow> string \<Rightarrow> nat option) \<Rightarrow> response \<Rightarrow> ('u, 'm) rest_net \<Rightarrow> (request_body \<Rightarrow> string)
   \<Rightarrow> string \<times> string \<times> request_body \<Rightarrow> ('u, 'm, 'o) split_cafe \<Rightarrow> response \<times> ('u, 'm, 'o) split_cafe" where
  "split_http wild miss N jerr q =
     (case q of (m, path, body) \<Rightarrow> serve_wild wild miss (proxy_routes (split_hosts N jerr)) m path body)"

definition split_history ::
  "(string list \<Rightarrow> string \<Rightarrow> nat option) \<Rightarrow> response \<Rightarrow> ('u, 'm) rest_net \<Rightarrow> (request_body \<Rightarrow> string)
   \<Rightarrow> (string \<times> string \<times> request_body) list \<Rightarrow> ('u, 'm, 'o) split_cafe \<Rightarrow> response list \<times> ('u, 'm, 'o) split_cafe" where
  "split_history wild miss N jerr = run_requests (split_http wild miss N jerr)"

subsection \<open>Users and menus are only added to\<close>

definition menu_head :: "Menu \<Rightarrow> string \<times> string" where
  "menu_head m = (MenuName m, MenuDescription m)"

definition peers_ok :: "('u, 'm) rest_peers \<Rightarrow> bool" where
  "peers_ok w \<longleftrightarrow> gorm_ok user_cols (peer_users w) \<and> gorm_ok menu_head (peer_menus w)"

definition peers_extend :: "('u, 'm) rest_peers \<Rightarrow> ('u, 'm) rest_peers \<Rightarrow> bool" where
  "peers_extend w w' \<longleftrightarrow> peers_ok w' \<and>
     contents (peer_users w) \<subseteq>\<^sub>m contents (peer_users w') \<and> contents (peer_menus w) \<subseteq>\<^sub>m contents (peer_menus w')"

lemma peers_ok_count [simp]: "peers_ok (count_call w) \<longleftrightarrow> peers_ok w"
  by (simp add: peers_ok_def)

lemma peers_extend_refl: "peers_ok w \<Longrightarrow> peers_extend w w"
  by (simp add: peers_extend_def)

lemma peers_extend_count [simp]: "peers_extend w (count_call w') \<longleftrightarrow> peers_extend w w'"
  by (simp add: peers_extend_def)

lemma peers_extend_trans: "peers_extend w w' \<Longrightarrow> peers_extend w' w'' \<Longrightarrow> peers_extend w w''"
  unfolding peers_extend_def by (elim conjE, intro conjI) (assumption | erule (1) map_le_trans)+

definition net_ok :: "('u, 'm) rest_net \<Rightarrow> bool" where
  "net_ok N \<longleftrightarrow> chi_law (rn_chi N) \<and> sql_reads (rn_user_sql N) \<and> sql_reads (rn_menu_sql N)"

lemma rest_user_extends:
  assumes "sql_reads raw" and ok: "gorm_ok user_cols db"
    and "serve chi miss (rest_user_routes jerr raw) m path body db = (r, db')"
  shows "gorm_ok user_cols db' \<and> contents db \<subseteq>\<^sub>m contents db'"
  using assms(3)
proof (cases rule: serve_cases)
  case (handled h x)
  then consider (create) "rest_CreateUser jerr body db = (r, db')" | (get) "rest_GetUser raw x db = (r, db')"
    | (list) "rest_GetUsers db = (r, db')"
    by (auto simp: rest_user_routes_def)
  then show ?thesis
  proof cases
    case create
    obtain y v where d: "Decode user_model_fields zero_user body = (y, v)" by fastforce
    obtain z D where c: "DB_Create v db = (z, D)" by fastforce
    have "db' = (if y then D else db)" using create by (cases y; cases z) (simp_all add: rest_CreateUser_def d c)
    with DB_Create_extends [OF ok c] DB_ops_ok(1) [OF c, of user_cols] ok show ?thesis by simp
  next
    case get
    obtain z D where f: "DB_First_cond raw x db = (z, D)" by fastforce
    have "db' = D" using get by (cases z) (simp_all add: rest_GetUser_def f)
    with DB_First_cond_frame [OF assms(1) ok f] show ?thesis by simp
  next
    case list
    obtain z D where f: "DB_Find db = (z, D)" by fastforce
    have "db' = D" using list by (cases z) (simp_all add: rest_GetUsers_def f)
    with DB_Find_frame [OF ok f] DB_ops_ok(3) [OF f, of user_cols] ok show ?thesis by simp
  qed
qed (use ok in simp)

lemma rest_menu_extends:
  assumes "sql_reads raw" and ok: "gorm_ok menu_head db"
    and "serve chi miss (rest_menu_routes jerr raw) m path body db = (r, db')"
  shows "gorm_ok menu_head db' \<and> contents db \<subseteq>\<^sub>m contents db'"
  using assms(3)
proof (cases rule: serve_cases)
  case (handled h x)
  then consider (create) "rest_CreateMenu jerr body db = (r, db')" | (get) "rest_GetMenu raw x db = (r, db')"
    by (auto simp: rest_menu_routes_def)
  then show ?thesis
  proof cases
    case create
    obtain y v where d: "Decode menu_model_fields zero_menu body = (y, v)" by fastforce
    obtain z D where c: "DB_Create v db = (z, D)" by fastforce
    have "db' = (if y then D else db)" using create by (cases y; cases z) (simp_all add: rest_CreateMenu_def d c)
    with DB_Create_extends [OF ok c] DB_ops_ok(1) [OF c, of menu_head] ok show ?thesis by simp
  next
    case get
    obtain z D where f: "DB_First_cond raw x db = (z, D)" by fastforce
    have "db' = D" using get by (cases z) (simp_all add: rest_GetMenu_def f)
    with DB_First_cond_frame [OF assms(1) ok f] show ?thesis by simp
  qed
qed (use ok in simp)

lemma peers_extend_users:
  "peers_ok w \<Longrightarrow> gorm_ok user_cols D \<and> contents (peer_users w) \<subseteq>\<^sub>m contents D \<Longrightarrow>
     peers_extend w ((count_call w)\<lparr>peer_users := D\<rparr>)"
  by (simp add: peers_extend_def peers_ok_def)

lemma peers_extend_menus:
  "peers_ok w \<Longrightarrow> gorm_ok menu_head D \<and> contents (peer_menus w) \<subseteq>\<^sub>m contents D \<Longrightarrow>
     peers_extend w ((count_call w)\<lparr>peer_menus := D\<rparr>)"
  by (simp add: peers_extend_def peers_ok_def)

lemma peers_get_extends:
  assumes "net_ok N" and "peers_ok w" and "peers_get N url w = (x, w')"
  shows "peers_extend w w'"
proof -
  let ?su = "serve (rn_chi N) (rn_miss N) (rest_user_routes (rn_jerr N) (rn_user_sql N)) ''GET'' (drop 24 url) None (peer_users w)"
  let ?sm = "serve (rn_chi N) (rn_miss N) (rest_menu_routes (rn_jerr N) (rn_menu_sql N)) ''GET'' (drop 24 url) None (peer_menus w)"
  obtain ru du rm dm where s: "?su = (ru, du)" "?sm = (rm, dm)" by (metis surj_pair)
  have sql: "sql_reads (rn_user_sql N)" "sql_reads (rn_menu_sql N)" using assms(1) by (simp_all add: net_ok_def)
  have "gorm_ok user_cols (peer_users w)" "gorm_ok menu_head (peer_menus w)" using assms(2) by (simp_all add: peers_ok_def)
  note u = peers_extend_users [OF assms(2) rest_user_extends [OF sql(1) this(1) s(1)]]
    and m = peers_extend_menus [OF assms(2) rest_menu_extends [OF sql(2) this(2) s(2)]]
  from assms(3) consider "w' = count_call w" | "w' = (count_call w)\<lparr>peer_users := du\<rparr>" | "w' = (count_call w)\<lparr>peer_menus := dm\<rparr>"
    unfolding peers_get_def s by (auto split: http_fate.splits if_splits)
  then show ?thesis using u m peers_extend_refl [OF assms(2)] by cases simp_all
qed

subsection \<open>What the lookups establish\<close>

lemma rest_GetUser_found:
  assumes ok: "gorm_ok user_cols db" and "rest_GetUser raw (fmt_uint k) db = (r, db')" and "status r = StatusOK"
    and "unat k < 2 ^ 63"
  shows "contents db k \<noteq> None"
proof -
  obtain x D where x: "DB_First k db = (x, D)" by fastforce
  from assms(2,3) DB_First_law [OF ok x] show ?thesis
    by (cases x) (auto simp: rest_GetUser_def DB_First_cond_id [OF assms(4)] x)
qed

lemma rest_GetMenu_found:
  assumes ok: "gorm_ok menu_head db" and "rest_GetMenu raw (fmt_uint k) db = (r, db')" and "status r = StatusOK"
    and "unat k < 2 ^ 63"
  shows "contents db k \<noteq> None"
proof -
  obtain x D where x: "DB_First k db = (x, D)" by fastforce
  from assms(2,3) DB_First_law [OF ok x] show ?thesis
    by (cases x) (auto simp: rest_GetMenu_def DB_First_cond_id [OF assms(4)] x)
qed

lemma peers_get_user_found:
  assumes "net_ok N" and "peers_ok w" and "unat i < 2 ^ 63"
    and "peers_get N (''http://user-service:8081/users/'' @ fmt_uint i) w = (Inr (StatusOK, b), w')"
  shows "contents (peer_users w) i \<noteq> None"
proof -
  have chi: "chi_law (rn_chi N)" using assms(1) by (simp add: net_ok_def)
  obtain r D where g: "rest_GetUser (rn_user_sql N) (fmt_uint i) (peer_users w) = (r, D)" by fastforce
  have "status r = StatusOK" using assms(4) unfolding peers_get_user_eq [OF chi] g by (simp split: http_fate.splits)
  with rest_GetUser_found [OF _ g _ assms(3)] assms(2) show ?thesis by (simp add: peers_ok_def)
qed

lemma peers_get_menu_found:
  assumes "net_ok N" and "peers_ok w" and "unat i < 2 ^ 63"
    and "peers_get N (''http://menu-service:8082/menu/'' @ fmt_uint i) w = (Inr (StatusOK, b), w')"
  shows "contents (peer_menus w) i \<noteq> None"
proof -
  have chi: "chi_law (rn_chi N)" using assms(1) by (simp add: net_ok_def)
  obtain r D where g: "rest_GetMenu (rn_menu_sql N) (fmt_uint i) (peer_menus w) = (r, D)" by fastforce
  have "status r = StatusOK" using assms(4) unfolding peers_get_menu_eq [OF chi] g by (simp split: http_fate.splits)
  with rest_GetMenu_found [OF _ g _ assms(3)] assms(2) show ?thesis by (simp add: peers_ok_def)
qed

text \<open>The loop over the items: every menu it has asked for stays stored.\<close>

definition menus_known :: "('u, 'm) rest_peers \<Rightarrow> rest_item_request list \<Rightarrow> bool" where
  "menus_known w its \<longleftrightarrow>
     (\<forall>it \<in> set its. unat (rir_menu_item_id it) < 2 ^ 63 \<longrightarrow> contents (peer_menus w) (rir_menu_item_id it) \<noteq> None)"

lemma contents_extended:
  "m \<subseteq>\<^sub>m m' \<Longrightarrow> m k \<noteq> None \<Longrightarrow> m' k \<noteq> None"
  by (auto simp: map_le_def dom_def)

lemma rest_items_effect:
  "rest_order_items (peers_get N) its acc w = (x, w') \<Longrightarrow> net_ok N \<Longrightarrow> peers_ok w \<Longrightarrow>
     peers_extend w w' \<and> (\<forall>items. x = Inr items \<longrightarrow> menus_known w' its)"
proof (induction its arbitrary: acc w)
  case Nil
  then show ?case by (simp add: menus_known_def peers_extend_refl)
next
  case (Cons it its)
  define url where "url = ''http://menu-service:8082/menu/'' @ fmt_uint (rir_menu_item_id it)"
  obtain y w1 where y: "peers_get N url w = (y, w1)" by fastforce
  have e1: "peers_extend w w1" by (rule peers_get_extends [OF Cons.prems(2,3) y])
  then have ok1: "peers_ok w1" by (simp add: peers_extend_def)
  note c = Cons.prems(1) [unfolded rest_order_items.simps, folded url_def, unfolded y]
  show ?case
  proof (cases "\<exists>b. y = Inr (StatusOK, b)")
    case False
    with c have "w' = w1" "\<forall>items. x \<noteq> Inr items" by (cases y; auto split: if_splits)+
    with e1 show ?thesis by simp
  next
    case True
    then obtain b where b: "y = Inr (StatusOK, b)" by blast
    obtain i where "rest_order_items (peers_get N) its (acc @ [i]) w1 = (x, w')"
      using c b by simp
    from Cons.IH [OF this Cons.prems(2) ok1] have e2: "peers_extend w1 w'" "\<forall>items. x = Inr items \<longrightarrow> menus_known w' its" by blast+
    have "unat (rir_menu_item_id it) < 2 ^ 63 \<Longrightarrow> contents (peer_menus w) (rir_menu_item_id it) \<noteq> None"
      using peers_get_menu_found [OF Cons.prems(2,3)] y b unfolding url_def by blast
    moreover have e: "peers_extend w w'" by (rule peers_extend_trans [OF e1 e2(1)])
    ultimately have "unat (rir_menu_item_id it) < 2 ^ 63 \<Longrightarrow> contents (peer_menus w') (rir_menu_item_id it) \<noteq> None"
      using contents_extended unfolding peers_extend_def by metis
    with e e2(2) show ?thesis by (simp add: menus_known_def)
  qed
qed

lemma peers_extend_known:
  "peers_extend w w' \<Longrightarrow> contents (peer_users w) k \<noteq> None \<Longrightarrow> contents (peer_users w') k \<noteq> None"
  "peers_extend w w' \<Longrightarrow> contents (peer_menus w) k \<noteq> None \<Longrightarrow> contents (peer_menus w') k \<noteq> None"
  unfolding peers_extend_def by (auto dest: map_le_Some)

subsection \<open>Orders\<close>

definition split_fine ::
  "('u, 'm) rest_peers \<Rightarrow> uint \<times> string \<times> (uint \<times> goint \<times> float64) multiset \<Rightarrow> bool" where
  "split_fine w d \<longleftrightarrow>
     (case d of (u, st, its) \<Rightarrow>
        st = ''pending'' \<and> (unat u < 2 ^ 63 \<longrightarrow> contents (peer_users w) u \<noteq> None) \<and>
        (\<forall>(i, q, p) \<in># its. p = 0 \<and> (unat i < 2 ^ 63 \<longrightarrow> contents (peer_menus w) i \<noteq> None)))"

lemma split_fine_extend: "split_fine w d \<Longrightarrow> peers_extend w w' \<Longrightarrow> split_fine w' d"
  using peers_extend_known unfolding split_fine_def prod.case_eq_if by blast

lemma split_fine_new:
  assumes "menus_known w its" and "unat u < 2 ^ 63 \<longrightarrow> contents (peer_users w) u \<noteq> None"
  shows "split_fine w (u, ''pending'', mset (map (\<lambda>it. (rir_menu_item_id it, rir_quantity it, 0)) its))"
  using assms by (auto simp: split_fine_def menus_known_def)

definition split_inv :: "('u, 'm, 'o) split_cafe \<Rightarrow> bool" where
  "split_inv st \<longleftrightarrow> peers_ok (fst st) \<and> gorm_ok order_cols (snd st) \<and>
     (\<forall>d \<in> ran (order_rows (snd st)). split_fine (fst st) d)"

lemma split_inv_peers: "split_inv (w, db) \<Longrightarrow> peers_extend w w' \<Longrightarrow> split_inv (w', db)"
  by (auto simp: split_inv_def peers_extend_def intro: split_fine_extend [unfolded peers_extend_def])

lemma split_inv_orders:
  "split_inv (w, db) \<Longrightarrow> gorm_ok order_cols db' \<Longrightarrow> order_rows db' = order_rows db \<Longrightarrow> split_inv (w, db')"
  by (simp add: split_inv_def)

lemma split_inv_store:
  assumes "split_inv (w, db)" and "gorm_ok order_cols db'" and "order_rows db' = (order_rows db)(k \<mapsto> d)" and "split_fine w d"
  shows "split_inv (w, db')"
proof -
  have "ran (order_rows db') \<subseteq> insert d (ran (order_rows db))" unfolding assms(3) by (auto simp: ran_def)
  with assms(1,2,4) show ?thesis by (auto simp: split_inv_def)
qed

text \<open>The insertion at the end of the handler, after lookups that all succeeded.\<close>

lemma rest_order_insert_inv:
  assumes net: "net_ok N" and inv: "split_inv (w, db)"
    and u: "peers_get N (''http://user-service:8081/users/'' @ fmt_uint (ror_user_id req)) w = (Inr (StatusOK, b), w1)"
    and y: "rest_order_items (peers_get N) (ror_items req) [] w1 = (Inr items, w2)"
    and z: "DB_Create (new_order (ror_user_id req) items) db = (x, db')"
  shows "split_inv (w2, db')"
proof -
  have pw: "peers_ok w" and ob: "gorm_ok order_cols db" using inv by (simp_all add: split_inv_def)
  have e1: "peers_extend w w1" by (rule peers_get_extends [OF net pw u])
  then have "peers_ok w1" by (simp add: peers_extend_def)
  note e2 = rest_items_effect [OF y net this]
  then have e: "peers_extend w w2" and known: "menus_known w2 (ror_items req)" by (auto intro: peers_extend_trans [OF e1])
  have i2: "split_inv (w2, db)" by (rule split_inv_peers [OF inv e])
  have o3: "gorm_ok order_cols db'" using DB_ops_ok(1) [OF z, of order_cols] ob by simp
  show ?thesis
  proof (cases x)
    case (Inl err)
    with z DB_Create_Inl [OF ob] have "order_rows db' = order_rows db" by (blast intro: order_rows_cong)
    with split_inv_orders [OF i2 o3] show ?thesis by simp
  next
    case (Inr ord)
    have "unat (ror_user_id req) < 2 ^ 63 \<longrightarrow> contents (peer_users w2) (ror_user_id req) \<noteq> None"
      using peers_get_user_found [OF net pw _ u] peers_extend_known(1) [OF e, of "ror_user_id req"] by simp
    then have "split_fine w2 (order_cols (new_order (ror_user_id req) items))"
      unfolding rest_items_cols [OF net [unfolded net_ok_def, THEN conjunct1] y] by (rule split_fine_new [OF known])
    with DB_Create_order [OF ob z [unfolded Inr]] split_inv_store [OF i2 o3] show ?thesis by blast
  qed
qed

lemma rest_CreateOrder_inv:
  assumes net: "net_ok N" and inv: "split_inv (w, db)" and c: "rest_CreateOrder (peers_get N) jerr body (w, db) = (r, st')"
  shows "split_inv st'"
proof -
  obtain ok req where d: "Decode rest_order_request_fields zero_rest_order_request body = (ok, req)" by fastforce
  define url where "url = ''http://user-service:8081/users/'' @ fmt_uint (ror_user_id req)"
  obtain u w1 where u: "peers_get N url w = (u, w1)" by fastforce
  obtain y w2 where y: "rest_order_items (peers_get N) (ror_items req) [] w1 = (y, w2)" by fastforce
  have e1: "peers_extend w w1" using peers_get_extends [OF net _ u] inv by (simp add: split_inv_def)
  then have "peers_ok w1" by (simp add: peers_extend_def)
  with rest_items_effect [OF y net] split_inv_peers [OF inv e1]
  have i1: "split_inv (w1, db)" and i2: "split_inv (w2, db)" by (auto intro: split_inv_peers)
  show ?thesis
  proof (cases ok)
    case False
    with c d inv show ?thesis by (simp add: rest_CreateOrder_def)
  next
    case True
    note c' = c [unfolded rest_CreateOrder_eq [OF d [unfolded eqTrueI [OF True]]], folded url_def, unfolded u]
    show ?thesis
    proof (cases "\<exists>b. u = Inr (StatusOK, b)")
      case False
      with c' have "st' = (w1, db)" by (cases u; auto split: if_splits)+
      with i1 show ?thesis by simp
    next
      case found: True
      then obtain b where b: "u = Inr (StatusOK, b)" by blast
      show ?thesis
      proof (cases y)
        case (Inl e)
        with c' b y i2 show ?thesis by simp
      next
        case (Inr items)
        obtain z db3 where z: "DB_Create (new_order (ror_user_id req) items) db = (z, db3)" by fastforce
        have "st' = (w2, db3)" using c' b y Inr z by (cases z) simp_all
        with rest_order_insert_inv [OF net inv u [unfolded b url_def] y [unfolded Inr] z] show ?thesis by simp
      qed
    qed
  qed
qed

lemma rest_GetOrders_inv:
  assumes "split_inv st" and "rest_GetOrders st = (r, st')"
  shows "split_inv st'"
proof -
  obtain w db where st: "st = (w, db)" by fastforce
  obtain x D where x: "DB_Find db = (x, D)" by fastforce
  have st': "st' = (w, D)" using assms(2) by (cases x) (simp_all add: rest_GetOrders_def st x)
  have ob: "gorm_ok order_cols db" using assms(1) st by (simp add: split_inv_def)
  have "order_rows D = order_rows db" by (rule order_rows_cong [OF DB_Find_frame [OF ob x]])
  with split_inv_orders [of w db D] assms(1) st st' DB_ops_ok(3) [OF x, of order_cols] ob show ?thesis by simp
qed

subsection \<open>Through the gateway\<close>

lemma split_hosts_inv:
  assumes net: "net_ok N" and inv: "split_inv st" and "split_hosts N jerr target m path body st = (x, st')"
  shows "split_inv st'"
proof -
  obtain w db where st: "st = (w, db)" by fastforce
  let ?su = "serve (rn_chi N) (rn_miss N) (rest_user_routes (rn_jerr N) (rn_user_sql N)) m path body (peer_users w)"
  let ?sm = "serve (rn_chi N) (rn_miss N) (rest_menu_routes (rn_jerr N) (rn_menu_sql N)) m path body (peer_menus w)"
  let ?so = "serve (rn_chi N) (rn_miss N) (rest_order_routes (peers_get N) jerr) m path body (count_call w, db)"
  obtain ru du rm dm ro so where s: "?su = (ru, du)" "?sm = (rm, dm)" "?so = (ro, so)" by (metis surj_pair)
  have sql: "sql_reads (rn_user_sql N)" "sql_reads (rn_menu_sql N)" using net by (simp_all add: net_ok_def)
  have pw: "peers_ok w" using inv st by (simp add: split_inv_def)
  have inv0: "split_inv (count_call w, db)"
    by (rule split_inv_peers [OF inv [unfolded st]]) (simp add: peers_extend_refl [OF pw])
  from pw have "gorm_ok user_cols (peer_users w)" "gorm_ok menu_head (peer_menus w)" by (simp_all add: peers_ok_def)
  note u = peers_extend_users [OF pw rest_user_extends [OF sql(1) this(1) s(1)]]
    and m = peers_extend_menus [OF pw rest_menu_extends [OF sql(2) this(2) s(2)]]
  have o: "split_inv so"
    using s(3)
  proof (cases rule: serve_cases)
    case (handled h y)
    then consider "rest_CreateOrder (peers_get N) jerr body (count_call w, db) = (ro, so)" | "rest_GetOrders (count_call w, db) = (ro, so)"
      by (auto simp: rest_order_routes_def)
    then show ?thesis
      by cases (use rest_CreateOrder_inv [OF net] rest_GetOrders_inv inv0 in blast)+
  qed (use inv0 in simp)
  from assms(3) consider "st' = (count_call w, db)" | "st' = ((count_call w)\<lparr>peer_users := du\<rparr>, db)"
    | "st' = ((count_call w)\<lparr>peer_menus := dm\<rparr>, db)" | "st' = so"
    unfolding split_hosts_def st fst_conv snd_conv s by (auto split: http_fate.splits if_splits)
  then show ?thesis
    using inv0 o split_inv_peers [OF inv [unfolded st] u] split_inv_peers [OF inv [unfolded st] m] by cases simp_all
qed

lemma split_http_inv:
  assumes net: "net_ok N" and h: "split_http wild miss N jerr q st = (r, st')" and inv: "split_inv st"
  shows "split_inv st'"
proof -
  obtain m path body where q: "q = (m, path, body)" by (cases q)
  have fwd: "split_inv (snd (proxyTo (split_hosts N jerr) t p m path body st))" for t p
  proof -
    obtain x s where "split_hosts N jerr t m (TrimPrefix path ''/api'') body st = (x, s)" by (rule prod.exhaust)
    with split_hosts_inv [OF net inv this] show ?thesis
      by (cases x) (simp_all add: proxyTo_def reverse_proxy_def)
  qed
  have all: "split_inv (snd (snd e m path body st))" if "e \<in> set (proxy_routes (split_hosts N jerr))" for e
    using that fwd by (auto simp: proxy_routes_def)
  from h have "st' = snd (serve_wild wild miss (proxy_routes (split_hosts N jerr)) m path body st)"
    by (simp add: split_http_def q)
  with inv all nth_mem show ?thesis unfolding serve_wild_def by (auto split: option.splits)
qed

lemma split_history_inv:
  assumes "net_ok N" and "split_history wild miss N jerr qs st = (rs, st')" and "split_inv st"
  shows "split_inv st'"
  using run_requests_inv [OF assms(2) [unfolded split_history_def], of split_inv] assms(1,3)
  by (blast intro: split_http_inv)

text \<open>
  C22: The split cafe keeps its orders consistent across three databases. After any history of requests
  to the forwarding gateway, with any calls of the gateway or of the order service lost on their way
  or answered in vain, each call on its own, and whatever pattern the gateway's router chooses,
  every stored order is pending, its user is stored by the user service and each of its items
  names a menu stored by the menu service, as far as the identifiers fit the 63 bits of a database
  key; and every item has the price 0.
\<close>

theorem split_cafe_integrity:
  assumes "net_ok N" and "peers_ok w" and "gorm_ok order_cols db" and "\<forall>k. order_rows db k = None"
    and "split_history wild miss N jerr qs (w, db) = (rs, (w', db'))" and "order_rows db' k = Some (u, st, its)"
  shows "st = ''pending'' \<and> (unat u < 2 ^ 63 \<longrightarrow> user_rows (peer_users w') u \<noteq> None) \<and>
    (\<forall>(i, q, p) \<in># its. p = 0 \<and> (unat i < 2 ^ 63 \<longrightarrow> contents (peer_menus w') i \<noteq> None))"
proof -
  have "split_inv (w, db)" using assms(2-4) by (simp add: split_inv_def ran_def)
  from split_history_inv [OF assms(1,5) this] assms(6) have "split_fine w' (u, st, its)"
    unfolding split_inv_def by (auto intro: ranI)
  then show ?thesis by (simp add: split_fine_def user_rows_def)
qed

lemma rest_demo_net_ok: "net_ok rest_demo_net"
  by (simp add: net_ok_def rest_demo_law) (simp add: rest_demo_net_def sql_reads_def)

lemma rest_demo_peers_ok: "peers_ok (rest_demo_peers n)"
proof -
  have "gorm_ok menu_head (mem_gorm rest_menu_prep (\<lambda>_ _. False))"
    by (rule mem_gorm_ok) (simp add: rest_menu_prep_def menu_head_def)
  then show ?thesis by (simp add: peers_ok_def rest_demo_peers_def rest_demo_users_def rest_demo_menus_def)
qed

theorem split_cafe_integrity_witness:
  "\<exists>rs w' db' k u its. split_history wild_ref demo_miss rest_demo_net (\<lambda>_. []) [(''POST'', ''/api/orders'', rest_demo_body)]
      (rest_demo_peers 0, order_mem) = (rs, (w', db')) \<and>
    order_rows db' k = Some (1, ''pending'', {#(1, 2, 0)#}) \<and>
    user_rows (peer_users w') 1 \<noteq> None \<and> contents (peer_menus w') 1 \<noteq> None"
proof -
  obtain r w' db' where c: "rest_CreateOrder (peers_get rest_demo_net) (\<lambda>_. []) rest_demo_body (rest_demo_peers 1, order_mem) = (r, (w', db'))"
    and st: "status r = StatusCreated" using rest_demo_order [of "\<lambda>_. []" 1] by auto
  obtain req b w1 items ord where
    d: "Decode rest_order_request_fields zero_rest_order_request rest_demo_body = (True, req)" and
    i: "rest_order_items (peers_get rest_demo_net) (ror_items req) [] w1 = (Inr items, w')" and
    o: "DB_Create (new_order (ror_user_id req) items) order_mem = (Inr ord, db')"
    by (rule rest_CreateOrder_Created [OF c st])
  have req: "req = \<lparr>ror_user_id = 1, ror_items = [\<lparr>rir_menu_item_id = 1, rir_quantity = 2\<rparr>]\<rparr>" using d rest_demo_decode by simp
  from rest_items_cols [OF rest_demo_law i, of "ror_user_id req"] DB_Create_order [OF order_mem_ok o]
  have k: "order_rows db' (ID ord) = Some (1, ''pending'', {#(1, 2, 0)#})" by (simp add: req)
  have serve: "serve (rn_chi rest_demo_net) (rn_miss rest_demo_net) (rest_order_routes (peers_get rest_demo_net) (\<lambda>_. [])) ''POST'' ''/orders''
      rest_demo_body (rest_demo_peers 1, order_mem) = (r, (w', db'))"
    using c by (simp add: serve_literal [OF rest_demo_law, where i = 0] rest_order_routes_def literal_def)
  have fate: "rn_fate rest_demo_net k url = Answered" for k url by (simp add: rest_demo_net_def)
  have count: "count_call (rest_demo_peers 0) = rest_demo_peers 1" by (simp add: rest_demo_peers_def count_call_def)
  have host: "split_hosts rest_demo_net (\<lambda>_. []) ''http://order-service:8083'' ''POST'' ''/orders'' rest_demo_body (rest_demo_peers 0, order_mem) =
      map_prod Some id (r, (w', db'))"
    using serve by (simp add: split_hosts_def fate count answer_of_def)
  have fwd: "serve_wild wild_ref demo_miss (proxy_routes (split_hosts rest_demo_net (\<lambda>_. []))) ''POST'' (''/api/orders'' @ []) rest_demo_body
      (rest_demo_peers 0, order_mem) = reverse_proxy (split_hosts rest_demo_net (\<lambda>_. [])) ''http://order-service:8083'' ''POST'' (''/orders'' @ [])
        rest_demo_body (rest_demo_peers 0, order_mem)"
    by (rule proxy_forwards(3) [OF wild_ref_law]) (simp add: chi_methods_def)
  have "reverse_proxy (split_hosts rest_demo_net (\<lambda>_. [])) ''http://order-service:8083'' ''POST'' ''/orders'' rest_demo_body
      (rest_demo_peers 0, order_mem) = (r, (w', db'))"
    by (rule reverse_proxy_reached) (rule host)
  then have "serve_wild wild_ref demo_miss (proxy_routes (split_hosts rest_demo_net (\<lambda>_. []))) ''POST'' ''/api/orders'' rest_demo_body
      (rest_demo_peers 0, order_mem) = (r, (w', db'))"
    using fwd by simp
  then have h: "split_history wild_ref demo_miss rest_demo_net (\<lambda>_. []) [(''POST'', ''/api/orders'', rest_demo_body)]
      (rest_demo_peers 0, order_mem) = ([r], (w', db'))"
    by (simp add: split_history_def split_http_def)
  have empty: "\<forall>k. order_rows order_mem k = None" by (simp add: order_rows_def contents_def mem_rows_def)
  from split_cafe_integrity [OF rest_demo_net_ok rest_demo_peers_ok order_mem_ok empty h k]
  have "user_rows (peer_users w') 1 \<noteq> None \<and> contents (peer_menus w') 1 \<noteq> None" by simp
  with h k show ?thesis by blast
qed

end
