(* ===== verification/Rest_Concurrent.thy ===== *)
theory Rest_Concurrent
  imports Rest_System Interleaving
begin

text \<open>
  The REST services of \<open>practical5\<close> under concurrent requests. An order makes an HTTP call for its
  user and one for each item before it is inserted, and any requests to the three services can run
  in between. It is a task that advances by one call; the equivalence with the handler and the
  contract \<open>interleaved\<close> give what holds in every interleaving.
\<close>

subsection \<open>Orders as tasks\<close>

datatype rest_task =
    RestValidating rest_order_request
  | RestPricing rest_order_request "rest_item_request list" "OrderItem list"
  | RestAnswered response

fun rest_task_step :: "'w http_get \<Rightarrow> rest_task \<Rightarrow> 'w \<times> 's order_db \<Rightarrow> rest_task \<times> ('w \<times> 's order_db)" where
  "rest_task_step get (RestValidating req) (w, db) =
     (case get (''http://user-service:8081/users/'' @ fmt_uint (ror_user_id req)) w of
        (Inl err, w') \<Rightarrow> (RestAnswered (http_Error ''User not found'' StatusBadRequest), (w', db))
      | (Inr (code, _), w') \<Rightarrow>
          if code \<noteq> StatusOK then (RestAnswered (http_Error ''User not found'' StatusBadRequest), (w', db))
          else (RestPricing req (ror_items req) [], (w', db)))"
| "rest_task_step get (RestPricing req (item # items) acc) (w, db) =
     (case get (''http://menu-service:8082/menu/'' @ fmt_uint (rir_menu_item_id item)) w of
        (Inl err, w') \<Rightarrow> (RestAnswered (http_Error ''Menu item not found'' StatusBadRequest), (w', db))
      | (Inr (st, reply), w') \<Rightarrow>
          if st \<noteq> StatusOK then (RestAnswered (http_Error ''Menu item not found'' StatusBadRequest), (w', db))
          else (RestPricing req items
                  (acc @ [new_order_item (rir_menu_item_id item) (rir_quantity item) (snd (Decode price_fields 0 reply))]),
                (w', db)))"
| "rest_task_step get (RestPricing req [] acc) (w, db) =
     (case DB_Create (new_order (ror_user_id req) acc) db of
        (Inl err, db') \<Rightarrow> (RestAnswered (http_Error (gorm_error_text err) StatusInternalServerError), (w, db'))
      | (Inr order, db') \<Rightarrow> (RestAnswered (json_reply StatusCreated (enc_Order JNull order)), (w, db')))"
| "rest_task_step get (RestAnswered r) (w, db) = (RestAnswered r, (w, db))"

lemma rest_answered_stays [simp]: "run_alone (rest_task_step get) n (RestAnswered r) st = (RestAnswered r, st)"
  by (rule run_alone_stays) (simp add: split_paired_all)

lemma rest_run_pricing:
  "run_alone (rest_task_step get) (Suc (length its)) (RestPricing req its acc) (w, db) =
     (case rest_order_items get its acc w of
        (Inl r, w') \<Rightarrow> (RestAnswered r, (w', db))
      | (Inr items, w') \<Rightarrow> rest_task_step get (RestPricing req [] items) (w', db))"
proof (induction its arbitrary: acc w)
  case Nil
  show ?case by (cases "rest_task_step get (RestPricing req [] acc) (w, db)") simp
next
  case (Cons it its)
  define url where "url = ''http://menu-service:8082/menu/'' @ fmt_uint (rir_menu_item_id it)"
  obtain x w1 where x: "get url w = (x, w1)" by fastforce
  have len: "Suc (length (it # its)) = Suc (Suc (length its))" by simp
  show ?case
    unfolding len run_alone.simps(2) [of _ "Suc (length its)"] rest_task_step.simps rest_order_items.simps url_def [symmetric] x
    by (auto simp: Cons.IH simp del: run_alone.simps(2) split: sum.split prod.split)
qed

text \<open>A task that runs alone is the handler; two steps more than the order has items end it.\<close>

lemma rest_run_is_handler:
  assumes "Decode rest_order_request_fields zero_rest_order_request body = (True, req)"
  shows "run_alone (rest_task_step get) (length (ror_items req) + 2) (RestValidating req) (w, db) =
    (case rest_CreateOrder get jerr body (w, db) of (r, st) \<Rightarrow> (RestAnswered r, st))"
proof -
  define url where "url = ''http://user-service:8081/users/'' @ fmt_uint (ror_user_id req)"
  obtain u w1 where u: "get url w = (u, w1)" by fastforce
  obtain y w2 where y: "rest_order_items get (ror_items req) [] w1 = (y, w2)" by fastforce
  have n: "length (ror_items req) + 2 = Suc (Suc (length (ror_items req)))" by simp
  show ?thesis
    unfolding n run_alone.simps(2) [of _ "Suc (length (ror_items req))"] rest_CreateOrder_eq [OF assms] rest_task_step.simps
      url_def [symmetric] u
    by (auto simp: y rest_run_pricing simp del: run_alone.simps(2) rest_task_step.simps(1,2) split: sum.split prod.split)
qed

subsection \<open>What an order in progress has established\<close>

fun rest_task_spec :: "('u, 'm, 'o) split_cafe \<Rightarrow> rest_task \<Rightarrow> bool" where
  "rest_task_spec st (RestValidating req) = True"
| "rest_task_spec st (RestPricing req its acc) =
     ((unat (ror_user_id req) < 2 ^ 63 \<longrightarrow> contents (peer_users (fst st)) (ror_user_id req) \<noteq> None) \<and>
      (\<exists>before. ror_items req = before @ its \<and> menus_known (fst st) before \<and>
         map item_cols acc = map (\<lambda>it. (rir_menu_item_id it, rir_quantity it, 0)) before))"
| "rest_task_spec st (RestAnswered r) =
     (status r = StatusCreated \<longrightarrow>
        (\<exists>ord. r = json_reply StatusCreated (enc_Order JNull ord) \<and> order_rows (snd st) (ID ord) = Some (order_cols ord)))"

definition split_grows :: "('u, 'm, 'o) split_cafe \<Rightarrow> ('u, 'm, 'o) split_cafe \<Rightarrow> bool" where
  "split_grows st st' \<longleftrightarrow> peers_extend (fst st) (fst st') \<and> order_rows (snd st) \<subseteq>\<^sub>m order_rows (snd st')"

lemma menus_known_extend: "menus_known w its \<Longrightarrow> peers_extend w w' \<Longrightarrow> menus_known w' its"
  unfolding menus_known_def using peers_extend_known(2) by blast

lemma rest_task_spec_grows:
  assumes "split_grows st st'" and "rest_task_spec st t"
  shows "rest_task_spec st' t"
proof (cases t)
  case (RestPricing req its acc)
  have e: "peers_extend (fst st) (fst st')" using assms(1) by (simp add: split_grows_def)
  from assms(2) RestPricing obtain before where "ror_items req = before @ its" "menus_known (fst st) before"
    "map item_cols acc = map (\<lambda>it. (rir_menu_item_id it, rir_quantity it, 0)) before" by auto
  moreover have "unat (ror_user_id req) < 2 ^ 63 \<longrightarrow> contents (peer_users (fst st')) (ror_user_id req) \<noteq> None"
    using assms(2) RestPricing peers_extend_known(1) [OF e] by simp
  ultimately show ?thesis using menus_known_extend [OF _ e] RestPricing by auto
next
  case (RestAnswered r)
  with assms show ?thesis by (fastforce simp: split_grows_def dest: map_le_Some)
qed simp

lemma split_grows_peers:
  "peers_extend w w' \<Longrightarrow> split_grows (w, db) (w', db)"
  by (simp add: split_grows_def)

text \<open>One lemma for each kind of step.\<close>

lemma rest_validate_step:
  assumes net: "net_ok N" and inv: "split_inv (w, db)"
    and st: "rest_task_step (peers_get N) (RestValidating req) (w, db) = (t', st')"
  shows "split_inv st' \<and> split_grows (w, db) st' \<and> rest_task_spec st' t'"
proof -
  define url where "url = ''http://user-service:8081/users/'' @ fmt_uint (ror_user_id req)"
  have pw: "peers_ok w" using inv by (simp add: split_inv_def)
  obtain u w1 where u: "peers_get N url w = (u, w1)" by fastforce
  have e: "peers_extend w w1" by (rule peers_get_extends [OF net pw u])
  note st' = st [unfolded rest_task_step.simps, folded url_def, unfolded u]
  have "st' = (w1, db)" using st' by (cases u) (auto split: if_splits)
  moreover have "rest_task_spec (w1, db) t'"
  proof (cases "\<exists>b. u = Inr (StatusOK, b)")
    case False
    with st' show ?thesis by (cases u) (auto split: if_splits)
  next
    case True
    then obtain b where b: "u = Inr (StatusOK, b)" by blast
    have "unat (ror_user_id req) < 2 ^ 63 \<Longrightarrow> contents (peer_users w) (ror_user_id req) \<noteq> None"
      by (rule peers_get_user_found [OF net pw]) (use u b in \<open>simp_all add: url_def\<close>)
    then have "unat (ror_user_id req) < 2 ^ 63 \<longrightarrow> contents (peer_users w1) (ror_user_id req) \<noteq> None"
      using peers_extend_known(1) [OF e] by simp
    with st' b show ?thesis by (auto simp: menus_known_def)
  qed
  ultimately show ?thesis using split_inv_peers [OF inv e] split_grows_peers [OF e] by simp
qed

lemma rest_price_step:
  assumes net: "net_ok N" and inv: "split_inv (w, db)" and spec: "rest_task_spec (w, db) (RestPricing req (it # its) acc)"
    and st: "rest_task_step (peers_get N) (RestPricing req (it # its) acc) (w, db) = (t', st')"
  shows "split_inv st' \<and> split_grows (w, db) st' \<and> rest_task_spec st' t'"
proof -
  define url where "url = ''http://menu-service:8082/menu/'' @ fmt_uint (rir_menu_item_id it)"
  have pw: "peers_ok w" using inv by (simp add: split_inv_def)
  obtain y w1 where y: "peers_get N url w = (y, w1)" by fastforce
  have e: "peers_extend w w1" by (rule peers_get_extends [OF net pw y])
  have g: "split_grows (w, db) (w1, db)" by (rule split_grows_peers [OF e])
  note st' = st [unfolded rest_task_step.simps, folded url_def, unfolded y]
  have "st' = (w1, db)" using st' by (cases y) (auto split: if_splits)
  moreover have "rest_task_spec (w1, db) t'"
  proof (cases "\<exists>b. y = Inr (StatusOK, b)")
    case False
    with st' show ?thesis by (cases y) (auto split: if_splits)
  next
    case True
    then obtain b where b: "y = Inr (StatusOK, b)" by blast
    have "peers_get N url w = (Inr (StatusOK, b), w1)" using y b by simp
    note call = this [unfolded url_def]
    obtain r D where "rest_GetMenu (rn_menu_sql N) (fmt_uint (rir_menu_item_id it)) (peer_menus w) = (r, D)"
      "StatusOK = status r" "b = body_of (payload r)"
      by (rule peers_get_menu [OF net [unfolded net_ok_def, THEN conjunct1] call])
    then have price: "snd (Decode price_fields 0 b) = 0" using GetMenu_price by metis
    have "unat (rir_menu_item_id it) < 2 ^ 63 \<Longrightarrow> contents (peer_menus w) (rir_menu_item_id it) \<noteq> None"
      by (rule peers_get_menu_found [OF net pw _ call])
    moreover from spec obtain before where before: "ror_items req = before @ it # its" "menus_known w before"
      "map item_cols acc = map (\<lambda>it. (rir_menu_item_id it, rir_quantity it, 0)) before" by auto
    ultimately have "menus_known w (before @ [it])" by (auto simp: menus_known_def)
    with before spec have "rest_task_spec (w, db)
        (RestPricing req its (acc @ [new_order_item (rir_menu_item_id it) (rir_quantity it) 0]))"
      by (auto simp: item_cols_def new_order_item_def intro!: exI [where x = "before @ [it]"])
    from rest_task_spec_grows [OF g this] st' b price show ?thesis by (simp del: rest_task_spec.simps)
  qed
  ultimately show ?thesis using split_inv_peers [OF inv e] g by simp
qed

lemma rest_store_step:
  assumes inv: "split_inv (w, db)" and spec: "rest_task_spec (w, db) (RestPricing req [] acc)"
    and st: "rest_task_step get (RestPricing req [] acc) (w, db) = (t', st')"
  shows "split_inv st' \<and> split_grows (w, db) st' \<and> rest_task_spec st' t'"
proof -
  obtain x D where x: "DB_Create (new_order (ror_user_id req) acc) db = (x, D)" by fastforce
  have ob: "gorm_ok order_cols db" and pw: "peers_ok w" using inv by (simp_all add: split_inv_def)
  have st': "st' = (w, D)" using st by (cases x) (simp_all add: x)
  have o3: "gorm_ok order_cols D" using DB_ops_ok(1) [OF x, of order_cols] ob by simp
  note e = peers_extend_refl [OF pw]
  show ?thesis
  proof (cases x)
    case (Inl err)
    with x DB_Create_Inl [OF ob] have "order_rows D = order_rows db" by (blast intro: order_rows_cong)
    with split_inv_orders [OF inv o3] st st' x Inl e show ?thesis by (auto simp: split_grows_def)
  next
    case (Inr ord)
    note new = DB_Create_order [OF ob x [unfolded Inr]]
    have cols: "order_cols (new_order (ror_user_id req) acc) =
        (ror_user_id req, ''pending'', mset (map (\<lambda>it. (rir_menu_item_id it, rir_quantity it, 0)) (ror_items req)))"
      using spec by (auto simp: order_cols_def new_order_def simp flip: mset_map)
    have "split_fine w (order_cols (new_order (ror_user_id req) acc))"
      unfolding cols using spec by (intro split_fine_new) auto
    from split_inv_store [OF inv o3 _ this] new have "split_inv (w, D)" by blast
    moreover have "order_rows db \<subseteq>\<^sub>m order_rows D" using new by (auto simp: map_le_def)
    moreover have "rest_task_spec (w, D) t'"
      using new st x Inr by (auto intro!: exI [where x = ord])
    ultimately show ?thesis using st' e by (simp add: split_grows_def)
  qed
qed

lemma rest_task_step_keeps:
  assumes "net_ok N" and "split_inv st" and "rest_task_spec st t" and "rest_task_step (peers_get N) t st = (t', st')"
  shows "split_inv st' \<and> split_grows st st' \<and> rest_task_spec st' t'"
proof -
  obtain w db where st: "st = (w, db)" by fastforce
  show ?thesis
  proof (cases t)
    case (RestValidating req)
    with rest_validate_step [OF assms(1)] assms(2,4) st show ?thesis by blast
  next
    case (RestPricing req its acc)
    show ?thesis
    proof (cases its)
      case Nil
      with rest_store_step RestPricing assms(2-4) st show ?thesis by blast
    next
      case (Cons it its')
      with rest_price_step [OF assms(1)] RestPricing assms(2-4) st show ?thesis by blast
    qed
  next
    case (RestAnswered r)
    with assms st show ?thesis by (auto simp: split_grows_def split_inv_def peers_extend_refl)
  qed
qed

interpretation rest_tasks: interleaved "rest_task_step (peers_get N)" "\<lambda>st. net_ok N \<and> split_inv st" split_grows rest_task_spec for N
proof (unfold_locales, goal_cases)
  case (1 st st' t)
  then show ?case by (rule rest_task_spec_grows)
next
  case (2 st t t' st')
  then show ?case using rest_task_step_keeps [of N st t t' st'] by blast
qed

subsection \<open>Every interleaving\<close>

text \<open>
  What else can happen to the services: any request to the user or the menu service, through the
  gateway or not, a listing of the orders, and a call that is lost on its way. The handlers make one
  database call each.
\<close>

definition rest_other :: "('u, 'm) rest_net \<Rightarrow> ('u, 'm, 'o) split_cafe \<Rightarrow> ('u, 'm, 'o) split_cafe \<Rightarrow> bool" where
  "rest_other N st st' \<longleftrightarrow>
     (\<exists>m path body r D. serve (rn_chi N) (rn_miss N) (rest_user_routes (rn_jerr N) (rn_user_sql N)) m path body (peer_users (fst st)) = (r, D) \<and>
        st' = ((count_call (fst st))\<lparr>peer_users := D\<rparr>, snd st)) \<or>
     (\<exists>m path body r D. serve (rn_chi N) (rn_miss N) (rest_menu_routes (rn_jerr N) (rn_menu_sql N)) m path body (peer_menus (fst st)) = (r, D) \<and>
        st' = ((count_call (fst st))\<lparr>peer_menus := D\<rparr>, snd st)) \<or>
     (\<exists>r. rest_GetOrders st = (r, st')) \<or> st' = (count_call (fst st), snd st)"

definition rest_starts :: "rest_task \<Rightarrow> bool" where
  "rest_starts t \<longleftrightarrow> (\<exists>req. t = RestValidating req)"

lemma rest_other_keeps:
  assumes net: "net_ok N" and inv: "split_inv st" and "rest_other N st st'"
  shows "split_inv st' \<and> split_grows st st'"
proof -
  obtain w db where st: "st = (w, db)" by fastforce
  have pw: "peers_ok w" and ob: "gorm_ok order_cols db" using inv st by (simp_all add: split_inv_def)
  have peers: "split_inv (w', db) \<and> split_grows (w, db) (w', db)" if "peers_extend w w'" for w'
    using split_inv_peers [OF inv [unfolded st] that] split_grows_peers [OF that] by simp
  have sql: "sql_reads (rn_user_sql N)" "sql_reads (rn_menu_sql N)" using net by (simp_all add: net_ok_def)
  have gu: "gorm_ok user_cols (peer_users w)" and gm: "gorm_ok menu_head (peer_menus w)" using pw by (simp_all add: peers_ok_def)
  from assms(3) [unfolded rest_other_def st fst_conv snd_conv] consider
    (users) m path body r D where "serve (rn_chi N) (rn_miss N) (rest_user_routes (rn_jerr N) (rn_user_sql N)) m path body (peer_users w) = (r, D)"
      "st' = ((count_call w)\<lparr>peer_users := D\<rparr>, db)"
  | (menus) m path body r D where "serve (rn_chi N) (rn_miss N) (rest_menu_routes (rn_jerr N) (rn_menu_sql N)) m path body (peer_menus w) = (r, D)"
      "st' = ((count_call w)\<lparr>peer_menus := D\<rparr>, db)"
  | (listing) r where "rest_GetOrders (w, db) = (r, st')"
  | (lost) "st' = (count_call w, db)" by blast
  then show ?thesis
  proof cases
    case users
    from peers [OF peers_extend_users [OF pw rest_user_extends [OF sql(1) gu users(1)]]] show ?thesis by (simp add: st users(2))
  next
    case menus
    from peers [OF peers_extend_menus [OF pw rest_menu_extends [OF sql(2) gm menus(1)]]] show ?thesis by (simp add: st menus(2))
  next
    case listing
    obtain x D where x: "DB_Find db = (x, D)" by fastforce
    have st': "st' = (w, D)" using listing by (cases x) (simp_all add: rest_GetOrders_def x)
    have "order_rows D = order_rows db" by (rule order_rows_cong [OF DB_Find_frame [OF ob x]])
    then have "split_grows (w, db) (w, D)" using peers_extend_refl [OF pw] by (simp add: split_grows_def)
    with rest_GetOrders_inv [OF inv [unfolded st] listing] show ?thesis by (simp add: st st')
  next
    case lost
    from peers [of "count_call w"] show ?thesis by (simp add: st lost peers_extend_refl [OF pw])
  qed
qed

text \<open>
  C17: Concurrent orders of the REST services. In every state that any interleaving of calls reaches
  from an empty table of orders, with any
  calls or answers lost, every stored order is pending, of a stored
  user and for stored menus as far as the identifiers fit a database key, at the price 0; and every
  order that was answered with 201 is stored with the data of the answer.
\<close>

theorem rest_concurrent_orders:
  assumes net: "net_ok N" and ok: "peers_ok w" "gorm_ok order_cols db" and empty: "\<forall>k. order_rows db k = None"
    and reach: "task_reach (rest_task_step (peers_get N)) rest_starts (rest_other N) ((w, db), []) ((w', db'), ts)"
  shows "(\<forall>k u st its. order_rows db' k = Some (u, st, its) \<longrightarrow>
      st = ''pending'' \<and> (unat u < 2 ^ 63 \<longrightarrow> user_rows (peer_users w') u \<noteq> None) \<and>
      (\<forall>(i, q, p) \<in># its. p = 0 \<and> (unat i < 2 ^ 63 \<longrightarrow> contents (peer_menus w') i \<noteq> None))) \<and>
    (\<forall>r. RestAnswered r \<in> set ts \<longrightarrow> status r = StatusCreated \<longrightarrow>
      (\<exists>ord. r = json_reply StatusCreated (enc_Order JNull ord) \<and> order_rows db' (ID ord) = Some (order_cols ord)))"
proof -
  have start: "net_ok N \<and> split_inv (w, db)" using net ok empty by (simp add: split_inv_def ran_def)
  have starts: "rest_starts t \<Longrightarrow> rest_task_spec st t" for st :: "('a, 'b, 'c) split_cafe" and t by (auto simp: rest_starts_def)
  have others: "net_ok N \<and> split_inv st \<Longrightarrow> rest_other N st st' \<Longrightarrow> (net_ok N \<and> split_inv st') \<and> split_grows st st'" for st st'
    using rest_other_keeps [of N st st'] by blast
  have none: "\<forall>t \<in> set []. rest_task_spec (w, db) t" by simp
  have "(net_ok N \<and> split_inv (w', db')) \<and> (\<forall>t \<in> set ts. rest_task_spec (w', db') t)"
  proof (rule rest_tasks.reach_keeps [where N = N, OF reach], goal_cases)
    case 1
    show ?case by (rule start)
  next
    case 2
    show ?case by (rule none)
  next
    case (3 st t)
    then show ?case by (rule starts)
  next
    case (4 st st')
    then show ?case by (rule others)
  qed
  then have inv: "split_inv (w', db')" and spec: "\<forall>t \<in> set ts. rest_task_spec (w', db') t" by blast+
  have "split_fine w' (u, st, its)" if "order_rows db' k = Some (u, st, its)" for k u st its
    using inv that by (auto simp: split_inv_def intro: ranI)
  moreover have "\<exists>ord. r = json_reply StatusCreated (enc_Order JNull ord) \<and> order_rows db' (ID ord) = Some (order_cols ord)"
    if "RestAnswered r \<in> set ts" and "status r = StatusCreated" for r
    using bspec [OF spec that(1)] that(2) by simp
  ultimately show ?thesis by (simp add: split_fine_def user_rows_def)
qed

theorem rest_concurrent_orders_witness:
  "\<exists>r w' db' ord. task_reach (rest_task_step (peers_get rest_demo_net)) rest_starts (rest_other rest_demo_net)
      ((rest_demo_peers 0, order_mem), []) ((w', db'), [RestAnswered r]) \<and>
    r = json_reply StatusCreated (enc_Order JNull ord) \<and> order_rows db' (ID ord) = Some (order_cols ord)"
proof -
  let ?reach = "task_reach (rest_task_step (peers_get rest_demo_net)) rest_starts (rest_other rest_demo_net)"
  obtain r w' db' where c: "rest_CreateOrder (peers_get rest_demo_net) (\<lambda>_. []) rest_demo_body (rest_demo_peers 0, order_mem) = (r, (w', db'))"
    and st: "status r = StatusCreated" using rest_demo_order [of "\<lambda>_. []" 0] by auto
  let ?req = "\<lparr>ror_user_id = 1, ror_items = [\<lparr>rir_menu_item_id = 1, rir_quantity = 2\<rparr>]\<rparr>"
  have "task_step (rest_task_step (peers_get rest_demo_net)) rest_starts (rest_other rest_demo_net)
      ((rest_demo_peers 0, order_mem), []) ((rest_demo_peers 0, order_mem), [] @ [RestValidating ?req])"
    by (rule task_starts) (simp add: rest_starts_def)
  from reach_step [OF reach_start this]
  have s: "?reach ((rest_demo_peers 0, order_mem), []) ((rest_demo_peers 0, order_mem), [] @ [RestValidating ?req])" by simp
  have run: "run_alone (rest_task_step (peers_get rest_demo_net)) (length (ror_items ?req) + 2) (RestValidating ?req)
      (rest_demo_peers 0, order_mem) = (RestAnswered r, (w', db'))"
    using rest_run_is_handler [OF rest_demo_decode, of "peers_get rest_demo_net" "rest_demo_peers 0" order_mem "\<lambda>_. []"] c by simp
  from run_alone_reach [OF s run]
  have reach: "?reach ((rest_demo_peers 0, order_mem), []) ((w', db'), [RestAnswered r])" by simp
  have empty: "\<forall>k. order_rows order_mem k = None" by (simp add: order_rows_def contents_def mem_rows_def)
  have "RestAnswered r \<in> set [RestAnswered r]" by simp
  then obtain ord where "r = json_reply StatusCreated (enc_Order JNull ord)" "order_rows db' (ID ord) = Some (order_cols ord)"
    using rest_concurrent_orders [OF rest_demo_net_ok rest_demo_peers_ok order_mem_ok empty reach] st by blast
  with reach show ?thesis by blast
qed

end
