(* ===== verification/Rest_Roundtrip.thy ===== *)
theory Rest_Roundtrip
  imports Rest_Services
begin

text \<open>
  The JSON of the REST services read back: a client that decodes a reply into the model it was
  encoded from (as the order service does with the replies of the other two) gets the stored
  record, time stamps to the nanosecond and prices to the bit.
\<close>

subsection \<open>Decimal fields of a fixed width\<close>

lemma length_dec_of_nat: "n < 10 ^ k \<Longrightarrow> 0 < k \<Longrightarrow> length (dec_of_nat n) \<le> k"
proof (induction n arbitrary: k rule: dec_of_nat.induct)
  case (1 n)
  show ?case
  proof (cases "n < 10")
    case True
    with 1 show ?thesis by (subst dec_of_nat.simps) simp
  next
    case False
    with 1 obtain j where k: "k = Suc j" "0 < j" by (cases k; cases "k - 1") auto
    with 1 False have "length (dec_of_nat (n div 10)) \<le> j" by (intro "1.IH") auto
    with False k show ?thesis by (subst dec_of_nat.simps) simp
  qed
qed

lemma parse_digits_zeros: "parse_digits 0 (replicate k (CHR ''0'') @ s) = parse_digits 0 s"
  by (induction k) (simp_all add: digit_val_def)

lemma parse_pad [simp]: "parse_digits 0 (pad k n) = Some n"
  by (simp add: pad_def Let_def parse_digits_zeros)

lemma length_pad: "n < 10 ^ k \<Longrightarrow> 0 < k \<Longrightarrow> length (pad k n) = k"
  using length_dec_of_nat by (simp add: pad_def Let_def)

lemma pad_digits: "c \<in> set (pad k n) \<Longrightarrow> digit_val c \<noteq> None"
proof -
  assume "c \<in> set (pad k n)"
  then have "c = CHR ''0'' \<or> c \<in> set (dec_of_nat n)" by (auto simp: pad_def Let_def)
  with dec_of_nat_digits [of c n] show ?thesis by (elim disjE) (simp_all add: digit_val_def)
qed

lemma length_2: "length s = 2 \<Longrightarrow> \<exists>a b. s = [a, b]"
  by (cases s; cases "tl s") auto

lemma length_4: "length s = 4 \<Longrightarrow> \<exists>a b c d. s = [a, b, c, d]"
  using length_2 [of "take 2 s"] length_2 [of "drop 2 s"] append_take_drop_id [of 2 s] by fastforce

lemma pad2: "n < 100 \<Longrightarrow> \<exists>a b. pad 2 n = [a, b] \<and> parse_digits 0 [a, b] = Some n"
  using length_2 [OF length_pad [of n 2]] parse_pad [of 2 n] by fastforce

lemma pad4: "n < 10000 \<Longrightarrow> \<exists>a b c d. pad 4 n = [a, b, c, d] \<and> parse_digits 0 [a, b, c, d] = Some n"
  using length_4 [OF length_pad [of n 4]] parse_pad [of 4 n] by fastforce

subsection \<open>Times\<close>

definition valid_time :: "gotime \<Rightarrow> bool" where
  "valid_time t \<longleftrightarrow>
     year t \<le> 9999 \<and> 1 \<le> month t \<and> month t \<le> 12 \<and> 1 \<le> day t \<and> day t \<le> days_in (year t) (month t) \<and>
     hour t \<le> 23 \<and> minute t \<le> 59 \<and> second t \<le> 59 \<and> nanosecond t < 10 ^ 9 \<and> \<bar>offset t\<bar> < 24 * 60"

lemma parse_format_zone:
  assumes "\<bar>off\<bar> < 24 * 60"
  shows "parse_zone (format_zone off) = Some off"
proof (cases "off = 0")
  case False
  let ?n = "nat \<bar>off\<bar>"
  have n: "?n div 60 \<le> 23" "?n mod 60 \<le> 59" using assms by (simp_all add: nat_less_iff less_mult_imp_div_less flip: less_Suc_eq_le)
  from n pad2 [of "?n div 60"] pad2 [of "?n mod 60"] obtain a b c d where
    p: "pad 2 (?n div 60) = [a, b]" "parse_digits 0 [a, b] = Some (?n div 60)"
      "pad 2 (?n mod 60) = [c, d]" "parse_digits 0 [c, d] = Some (?n mod 60)" by auto
  have "int (?n div 60 * 60 + ?n mod 60) = \<bar>off\<bar>" by simp
  with False n p show ?thesis
    by (auto simp: parse_zone_def format_zone_def digits_at_def simp del: parse_digits.simps)
qed (simp add: parse_zone_def format_zone_def)

lemma strip_zeros:
  "take (length s) (rev (dropWhile (\<lambda>c. c = z) (rev s)) @ replicate (length s) z) = s"
proof -
  let ?ds = "rev (dropWhile (\<lambda>c. c = z) (rev s))" and ?zs = "takeWhile (\<lambda>c. c = z) (rev s)"
  have "?zs = replicate (length ?zs) z" by (rule replicate_eqI [symmetric, THEN sym]) (auto dest: set_takeWhileD)
  then have zs: "rev ?zs = replicate (length ?zs) z" by (metis rev_replicate)
  have s: "s = ?ds @ rev ?zs" by (metis rev_append rev_rev_ident takeWhile_dropWhile_id)
  have l: "length s = length ?ds + length ?zs" by (subst s) simp
  have "take (length s) (?ds @ replicate (length s) z) = ?ds @ replicate (length ?zs) z"
    by (simp add: l take_replicate)
  with s zs show ?thesis by simp
qed

lemma format_zone_head: "\<exists>c r. format_zone off = c # r \<and> digit_val c = None \<and> c \<noteq> CHR ''.''"
  by (simp add: format_zone_def digit_val_def)

lemma split_format_nanos:
  assumes "n < 10 ^ 9"
  shows "split_fraction (format_nanos n @ format_zone off) = Some (n, format_zone off)"
proof (cases "n = 0")
  case True
  with format_zone_head [of off] show ?thesis by (auto simp: split_fraction_def format_nanos_def)
next
  case False
  let ?p = "pad 9 n" and ?z = "format_zone off"
  define ds where "ds = rev (dropWhile (\<lambda>c. c = CHR ''0'') (rev ?p))"
  have "length ?p = 9" using assms by (simp add: length_pad)
  with strip_zeros [of ?p "CHR ''0''"] have full: "take 9 (ds @ replicate 9 (CHR ''0'')) = ?p" by (simp add: ds_def)
  have "ds \<noteq> []"
  proof
    assume "ds = []"
    with full have "?p = replicate 9 (CHR ''0'') @ []" by simp
    then have "parse_digits 0 ?p = Some 0" by (simp only: parse_digits_zeros parse_digits.simps)
    with False show False by simp
  qed
  have "set ds \<subseteq> set ?p" by (auto simp: ds_def dest: set_dropWhileD)
  then have dig: "\<forall>c \<in> set ds. digit_val c \<noteq> None" using pad_digits [of _ 9 n] by blast
  obtain c r where z: "?z = c # r" "digit_val c = None" using format_zone_head [of off] by blast
  have "takeWhile (\<lambda>d. digit_val d \<noteq> None) (ds @ ?z) = ds" using dig z by (simp add: takeWhile_append2)
  with \<open>ds \<noteq> []\<close> full False show ?thesis
    by (simp add: split_fraction_def format_nanos_def flip: ds_def)
qed

lemma parse_format_time:
  assumes v: "valid_time t" and z: "split_fraction (f @ z) = Some (ns, format_zone (offset t))"
  shows "parse_rfc3339 (format_seconds t @ f @ z) = Some (t\<lparr>nanosecond := ns\<rparr>)"
proof -
  have d: "day t \<le> 31" using v by (auto simp: valid_time_def days_in_def split: if_splits)
  from v d pad4 [of "year t"] pad2 [of "month t"] pad2 [of "day t"] pad2 [of "hour t"] pad2 [of "minute t"] pad2 [of "second t"]
  obtain y1 y2 y3 y4 m1 m2 d1 d2 h1 h2 i1 i2 s1 s2 where
    "pad 4 (year t) = [y1, y2, y3, y4]" "parse_digits 0 [y1, y2, y3, y4] = Some (year t)"
    "pad 2 (month t) = [m1, m2]" "parse_digits 0 [m1, m2] = Some (month t)"
    "pad 2 (day t) = [d1, d2]" "parse_digits 0 [d1, d2] = Some (day t)"
    "pad 2 (hour t) = [h1, h2]" "parse_digits 0 [h1, h2] = Some (hour t)"
    "pad 2 (minute t) = [i1, i2]" "parse_digits 0 [i1, i2] = Some (minute t)"
    "pad 2 (second t) = [s1, s2]" "parse_digits 0 [s1, s2] = Some (second t)"
    unfolding valid_time_def by (auto simp del: parse_digits.simps)
  with v z parse_format_zone [of "offset t"] show ?thesis
    by (simp add: parse_rfc3339_def format_seconds_def digits_at_def valid_time_def del: parse_digits.simps)
qed

lemma time_round_trip: "valid_time t \<Longrightarrow> parse_rfc3339 (Format_RFC3339Nano t) = Some t"
  unfolding Format_RFC3339Nano_def
  by (subst parse_format_time [where ns = "nanosecond t"]) (simp_all add: split_format_nanos valid_time_def)

lemma time_round_trip_seconds: "valid_time t \<Longrightarrow> parse_rfc3339 (Format_RFC3339 t) = Some (t\<lparr>nanosecond := 0\<rparr>)"
  using parse_format_time [of t "[]" "format_zone (offset t)" 0] split_format_nanos [of 0 "offset t"]
  by (simp add: Format_RFC3339_def format_nanos_def)

subsection \<open>Records\<close>

definition valid_stamps :: "'a gorm_model_scheme \<Rightarrow> bool" where
  "valid_stamps r \<longleftrightarrow>
     valid_time (CreatedAt r) \<and> valid_time (UpdatedAt r) \<and> (case DeletedAt r of None \<Rightarrow> True | Some t \<Rightarrow> valid_time t)"

lemma dec_enc_uint [simp]: "dec_uint (enc_uint w) old = (True, w)"
  by (simp add: enc_uint_def)

lemma enc_valid_time: "valid_time t \<Longrightarrow> enc_time t = Some (JStr (Format_RFC3339Nano t))"
  by (simp add: enc_time_def valid_time_def)

text \<open>The members of \<open>gorm.Model\<close> set its four fields, whatever the struct holds.\<close>

lemma enc_gorm_members:
  assumes "valid_stamps r"
  obtains b where "enc_gorm_model r = Some b"
    and "\<And>fs ms s. dec_members (gorm_model_fields @ fs) (b @ ms) s =
      dec_members (gorm_model_fields @ fs) ms
        (s\<lparr>ID := ID r, CreatedAt := CreatedAt r, UpdatedAt := UpdatedAt r, DeletedAt := DeletedAt r\<rparr>)"
proof -
  let ?d = "case DeletedAt r of None \<Rightarrow> JNull | Some t \<Rightarrow> JStr (Format_RFC3339Nano t)"
  let ?b = "[(''ID'', enc_uint (ID r)), (''CreatedAt'', JStr (Format_RFC3339Nano (CreatedAt r))),
    (''UpdatedAt'', JStr (Format_RFC3339Nano (UpdatedAt r))), (''DeletedAt'', ?d)]"
  have "enc_gorm_model r = Some ?b"
    using assms by (auto simp: enc_gorm_model_def valid_stamps_def enc_valid_time split: option.splits)
  moreover have "dec_deleted_at ?d old = (True, DeletedAt r)" for old
    using assms by (auto simp: valid_stamps_def time_round_trip split: option.splits)
  then have "dec_members (gorm_model_fields @ fs) (?b @ ms) s =
      dec_members (gorm_model_fields @ fs) ms
        (s\<lparr>ID := ID r, CreatedAt := CreatedAt r, UpdatedAt := UpdatedAt r, DeletedAt := DeletedAt r\<rparr>)" for fs ms s
    using assms
    by (simp add: gorm_model_fields_def lookup_field_def field_def valid_stamps_def time_round_trip split_beta)
  ultimately show thesis by (rule that)
qed

lemma dec_enc_User:
  assumes "valid_stamps u"
  shows "\<exists>j. enc_User u = Some j \<and> (\<forall>z. dec_struct user_model_fields j z = (True, u))"
proof -
  obtain b where b: "enc_gorm_model u = Some b"
    "\<And>fs ms s. dec_members (gorm_model_fields @ fs) (b @ ms) s = dec_members (gorm_model_fields @ fs) ms
        ((s :: User)\<lparr>ID := ID u, CreatedAt := CreatedAt u, UpdatedAt := UpdatedAt u, DeletedAt := DeletedAt u\<rparr>)"
    by (rule enc_gorm_members [OF assms]) blast
  show ?thesis
    by (simp add: enc_User_def user_model_fields_def b)
      (simp add: gorm_model_fields_def lookup_field_def field_def)
qed

lemma dec_enc_MenuItem:
  assumes "valid_stamps i" and "float_finite (Price i)"
  shows "\<exists>j. enc_MenuItem i = Some j \<and> (\<forall>z. dec_struct menu_item_model_fields j z = (True, i))"
proof -
  obtain b where b: "enc_gorm_model i = Some b"
    "\<And>fs ms s. dec_members (gorm_model_fields @ fs) (b @ ms) s = dec_members (gorm_model_fields @ fs) ms
        ((s :: MenuItem)\<lparr>ID := ID i, CreatedAt := CreatedAt i, UpdatedAt := UpdatedAt i, DeletedAt := DeletedAt i\<rparr>)"
    by (rule enc_gorm_members [OF assms(1)]) blast
  show ?thesis using assms(2)
    by (simp add: enc_MenuItem_def menu_item_model_fields_def enc_float64_def b)
      (simp add: gorm_model_fields_def lookup_field_def field_def)
qed

lemma dec_enc_array:
  assumes "\<forall>x \<in> set xs. \<exists>j. enc x = Some j \<and> (\<forall>z. d j z = (True, x))"
  shows "\<exists>js. enc_array enc xs = Some (JArr js) \<and> (\<forall>z olds. dec_elems d z olds js = (True, xs))"
  using assms
proof (induction xs)
  case Nil
  then show ?case by (simp add: enc_array_def)
next
  case (Cons x xs)
  then obtain j js where "enc x = Some j" "\<And>z. d j z = (True, x)" "those (map enc xs) = Some js"
    "\<And>z olds. dec_elems d z olds js = (True, xs)"
    by (auto simp: enc_array_def)
  then show ?case by (simp add: enc_array_def)
qed

lemma dec_enc_Menu:
  assumes "valid_stamps m" and items: "\<forall>is. MenuItems m = Some is \<longrightarrow> (\<forall>i \<in> set is. valid_stamps i \<and> float_finite (Price i))"
  shows "\<exists>j. enc_Menu m = Some j \<and> (\<forall>z. dec_struct menu_model_fields j z = (True, m))"
proof -
  obtain b where b: "enc_gorm_model m = Some b"
    "\<And>fs ms s. dec_members (gorm_model_fields @ fs) (b @ ms) s = dec_members (gorm_model_fields @ fs) ms
        ((s :: Menu)\<lparr>ID := ID m, CreatedAt := CreatedAt m, UpdatedAt := UpdatedAt m, DeletedAt := DeletedAt m\<rparr>)"
    by (rule enc_gorm_members [OF assms(1)]) blast
  obtain v where v: "(case MenuItems m of None \<Rightarrow> Some JNull | Some is \<Rightarrow> enc_array enc_MenuItem is) = Some v"
    "\<And>old. dec_slice_or_nil (dec_struct menu_item_model_fields) zero_menu_item v old = (True, MenuItems m)"
  proof (cases "MenuItems m")
    case None
    then show thesis using that [of JNull] by simp
  next
    case (Some its)
    with items dec_enc_MenuItem have "\<forall>i \<in> set its. \<exists>j. enc_MenuItem i = Some j \<and> (\<forall>z. dec_struct menu_item_model_fields j z = (True, i))"
      by blast
    from dec_enc_array [OF this] Some show thesis using that by fastforce
  qed
  show ?thesis
    by (simp add: enc_Menu_def menu_model_fields_def v(1) b)
      (simp add: gorm_model_fields_def lookup_field_def field_def v(2))
qed

subsection \<open>Moving a record between services\<close>

text \<open>Rows as GORM returns them: valid time stamps, and live.\<close>

definition row_sound :: "('s, 'a gorm_model_scheme) gorm \<Rightarrow> uint \<Rightarrow> bool" where
  "row_sound D k \<longleftrightarrow> (\<forall>r D'. DB_First k D = (Inr r, D') \<longrightarrow> valid_stamps r \<and> DeletedAt r = None)"

text \<open>
  C24: What the REST user service answers can be posted as it is. The body of \<open>GET /users/{id}\<close> sent
  to the \<open>POST /users\<close> of another instance, and accepted there, adds exactly that user, under the
  same identifier and with the same data.
\<close>

theorem rest_user_copied:
  assumes ok: "gorm_ok user_cols db" "gorm_ok user_cols db2"
    and k: "k \<noteq> 0" "unat k < 2 ^ 63" "row_sound db k"
    and get: "rest_GetUser raw (fmt_uint k) db = (r, db')" "status r = StatusOK" "payload r = PJson j"
    and post: "rest_CreateUser jerr (Some j) db2 = (r2, db2')" "status r2 = StatusCreated"
  shows "\<exists>d. user_rows db k = Some d \<and> user_rows db2 k = None \<and> user_rows db2' = (user_rows db2)(k \<mapsto> d)"
proof -
  obtain x d1 where x: "DB_First k db = (x, d1)" by fastforce
  have g: "rest_GetUser raw (fmt_uint k) db = (case x of Inl err \<Rightarrow> http_Error ''User not found'' StatusNotFound
      | Inr u \<Rightarrow> json_reply StatusOK (enc_User u), d1)"
    by (cases x) (simp_all add: rest_GetUser_def DB_First_cond_id [OF k(2)] x)
  with get(1,2) obtain u where u: "x = Inr u" "r = json_reply StatusOK (enc_User u)" by (cases x) auto
  have live: "valid_stamps u" "DeletedAt u = None" using k(3) x u(1) unfolding row_sound_def by auto
  from dec_enc_User [OF live(1)] u(2) get(3) have "dec_struct user_model_fields j zero_user = (True, u)"
    by (auto simp: json_reply_def)
  then have d: "Decode user_model_fields zero_user (Some j) = (True, u)" by (simp add: Decode_def)
  from post obtain v v' where "Decode user_model_fields zero_user (Some j) = (True, v)" and c: "DB_Create v db2 = (Inr v', db2')"
    by (rule rest_CreateUser_Created)
  with d have v: "v = u" by simp
  from DB_First_Inr [OF ok(1)] x u(1) obtain t where t: "ID u = k" "contents db k = Some t" "user_cols u = user_cols t"
    by blast
  from DB_Create_law [OF ok(2) c] v live(2) t(1) k(1) obtain t2 where
    "contents db2 k = None" "user_cols t2 = user_cols u" "contents db2' = (contents db2)(k \<mapsto> t2)" by auto
  with t user_rows_upd [of db2' db2 k t2] show ?thesis
    by (intro exI [where x = "user_cols t"]) (simp add: user_rows_def)
qed

definition seventh_user :: User where
  "seventh_user = zero_user\<lparr>ID := 7, CreatedAt := zero_time\<lparr>nanosecond := 120, offset := -300\<rparr>, Name := ''Grace''\<rparr>"

lemma seventh_user_valid: "valid_stamps seventh_user"
  by (simp add: seventh_user_def valid_stamps_def valid_time_def zero_user_def zero_time_def days_in_def)

theorem rest_user_copied_witness:
  "\<exists>j db' r2 db2'. rest_GetUser (\<lambda>_ db. (Inl ErrRecordNotFound, db)) (fmt_uint (7 :: uint)) (user_mem\<lparr>gState := (8, [seventh_user])\<rparr>) =
      (json_reply StatusOK (Some j), db') \<and>
    rest_CreateUser (\<lambda>_. []) (Some j) user_mem = (r2, db2') \<and> user_rows db2' 7 = Some (''Grace'', '''', False)"
proof -
  let ?db = "user_mem\<lparr>gState := (8, [seventh_user])\<rparr>" and ?raw = "\<lambda>_ db. (Inl ErrRecordNotFound, db)"
  have id: "ID seventh_user = 7" "DeletedAt seventh_user = None" by (simp_all add: seventh_user_def zero_user_def)
  have f: "DB_First 7 ?db = (Inr seventh_user, ?db)" using id by (simp add: DB_First_def mem_first_def mem_rows_def)
  have sound: "row_sound ?db 7" using f id seventh_user_valid by (auto simp: row_sound_def)
  obtain j where j: "enc_User seventh_user = Some j" "dec_struct user_model_fields j zero_user = (True, seventh_user)"
    using dec_enc_User [OF seventh_user_valid] by blast
  have g: "rest_GetUser ?raw (fmt_uint (7 :: uint)) ?db = (json_reply StatusOK (Some j), ?db)"
    using f j(1) by (simp add: rest_GetUser_def DB_First_cond_id)
  obtain r2 db2' where c: "rest_CreateUser (\<lambda>_. []) (Some j) user_mem = (r2, db2')" by fastforce
  have s: "status r2 = StatusCreated"
    using c by (auto simp: rest_CreateUser_def Decode_def j(2) DB_Create_def mem_create_def Let_def id split: if_splits)
  have fit: "(7 :: uint) \<noteq> 0" "unat (7 :: uint) < 2 ^ 63" and ok: "gorm_ok user_cols ?db" by simp_all
  have p: "status (json_reply StatusOK (Some j)) = StatusOK" "payload (json_reply StatusOK (Some j)) = PJson j"
    by (simp_all add: json_reply_def)
  from rest_user_copied [OF ok user_mem_ok fit sound g p c s] have "user_rows db2' 7 = user_rows ?db 7" by auto
  then have "user_rows db2' 7 = Some (''Grace'', '''', False)"
    by (simp add: user_rows_def contents_def mem_rows_def id user_cols_def) (simp add: seventh_user_def zero_user_def)
  with g c show ?thesis by blast
qed

end
