(* ===== verification/Monolith_System.thy ===== *)
theory Monolith_System
  imports Monolith
begin

text \<open>
  The monolith as a server: what holds in its three tables along every history of HTTP requests. The
  orders it stores refer to users and menu items of the other two tables, which no foreign key of
  the models enforces; the handlers do.
\<close>

definition mono_http ::
  "router \<Rightarrow> response \<Rightarrow> (request_body \<Rightarrow> string) \<Rightarrow> ('u, MonoUser) sql \<Rightarrow> string \<times> string \<times> request_body
   \<Rightarrow> ('u, 'm, 'o) mono \<Rightarrow> response \<times> ('u, 'm, 'o) mono" where
  "mono_http chi miss jerr raw q = (case q of (m, path, body) \<Rightarrow> serve chi miss (mono_routes jerr raw) m path body)"

definition mono_history ::
  "router \<Rightarrow> response \<Rightarrow> (request_body \<Rightarrow> string) \<Rightarrow> ('u, MonoUser) sql \<Rightarrow> (string \<times> string \<times> request_body) list
   \<Rightarrow> ('u, 'm, 'o) mono \<Rightarrow> response list \<times> ('u, 'm, 'o) mono" where
  "mono_history chi miss jerr raw = run_requests (mono_http chi miss jerr raw)"

subsection \<open>The invariant\<close>

definition mono_order_fine :: "('u, 'm, 'o) mono \<Rightarrow> uint \<times> string \<times> (uint \<times> goint \<times> float64) multiset \<Rightarrow> bool" where
  "mono_order_fine s d \<longleftrightarrow>
     (case d of (u, st, its) \<Rightarrow>
        st = ''pending'' \<and> mono_known s u \<and> (\<forall>(i, q, p) \<in># its. mono_price s i = Some p))"

definition mono_inv :: "('u, 'm, 'o) mono \<Rightarrow> bool" where
  "mono_inv s \<longleftrightarrow> mono_ok s \<and> (\<forall>d \<in> ran (order_rows (mono_orders s)). mono_order_fine s d)"

lemma price_items64_fine:
  "price_items64 price its = Some new \<Longrightarrow> \<forall>(i, q, p) \<in> set (map item_cols new). price i = Some p"
  by (induction its arbitrary: new) (auto simp: item_cols_def new_order_item_def split: option.splits)

lemma place_order64_fine:
  assumes "place_order64 (mono_known s) (mono_price s) req = Some ord"
  shows "mono_order_fine s (order_cols ord)"
  using assms price_items64_fine [of "mono_price s" "ror_items req"]
  by (fastforce simp: place_order64_def mono_order_fine_def order_cols_def new_order_def split: if_splits)

text \<open>Users and prices that stay, or are added to, keep the orders fine.\<close>

definition mono_grows :: "('u, 'm, 'o) mono \<Rightarrow> ('u, 'm, 'o) mono \<Rightarrow> bool" where
  "mono_grows s s' \<longleftrightarrow> mono_ok s' \<and> (\<forall>k. mono_known s k \<longrightarrow> mono_known s' k) \<and> mono_price s \<subseteq>\<^sub>m mono_price s'"

lemma mono_order_fine_grows: "mono_order_fine s d \<Longrightarrow> mono_grows s s' \<Longrightarrow> mono_order_fine s' d"
  by (fastforce simp: mono_order_fine_def mono_grows_def dest: map_le_Some)

lemma mono_inv_grows:
  "mono_inv s \<Longrightarrow> mono_grows s s' \<Longrightarrow> order_rows (mono_orders s') = order_rows (mono_orders s) \<Longrightarrow> mono_inv s'"
  by (auto simp: mono_inv_def mono_grows_def intro: mono_order_fine_grows)

lemma mono_grows_users:
  assumes "mono_ok s" and "gorm_ok mono_user_cols D" and "contents (mono_users s) \<subseteq>\<^sub>m contents D"
  shows "mono_grows s (s\<lparr>mono_users := D\<rparr>)"
  using assms by (auto simp: mono_grows_def mono_ok_def mono_known_def dest: map_le_Some)

lemma mono_grows_items:
  assumes "mono_ok s" and "gorm_ok menu_cols D" and "contents (mono_items s) \<subseteq>\<^sub>m contents D"
  shows "mono_grows s (s\<lparr>mono_items := D\<rparr>)"
  using assms unfolding mono_grows_def mono_ok_def
  by (auto simp: mono_price_def map_le_def dom_def)

subsection \<open>Every handler keeps it\<close>

text \<open>The handlers other than \<open>CreateOrder\<close> make one call to one table and leave the orders alone.\<close>

definition mono_extends :: "('u, 'm, 'o) mono \<Rightarrow> ('u, 'm, 'o) mono \<Rightarrow> bool" where
  "mono_extends s s' \<longleftrightarrow> mono_grows s s' \<and> order_rows (mono_orders s') = order_rows (mono_orders s)"

lemma mono_extends_refl: "mono_ok s \<Longrightarrow> mono_extends s s"
  by (simp add: mono_extends_def mono_grows_def)

lemma mono_extends_users:
  assumes "mono_ok s" and "gorm_ok mono_user_cols D" and "contents (mono_users s) \<subseteq>\<^sub>m contents D"
  shows "mono_extends s (s\<lparr>mono_users := D\<rparr>)"
  using mono_grows_users [OF assms] by (simp add: mono_extends_def)

lemma mono_extends_items:
  assumes "mono_ok s" and "gorm_ok menu_cols D" and "contents (mono_items s) \<subseteq>\<^sub>m contents D"
  shows "mono_extends s (s\<lparr>mono_items := D\<rparr>)"
  using mono_grows_items [OF assms] by (simp add: mono_extends_def)

lemma mono_extends_orders:
  assumes "mono_ok s" and "gorm_ok order_cols D" and "contents D = contents (mono_orders s)"
  shows "mono_extends s (s\<lparr>mono_orders := D\<rparr>)"
  using assms order_rows_cong [OF assms(3)] by (simp add: mono_extends_def mono_grows_def mono_ok_def)

lemma mono_CreateUser_extends:
  assumes "mono_ok s" and "mono_CreateUser jerr body s = (r, s')"
  shows "mono_extends s s'"
proof -
  have ok: "gorm_ok mono_user_cols (mono_users s)" using assms(1) by (simp add: mono_ok_def)
  obtain y v where d: "Decode mono_user_fields zero_mono_user body = (y, v)" by fastforce
  obtain x D where c: "DB_Create v (mono_users s) = (x, D)" by fastforce
  have s': "s' = (if y then s\<lparr>mono_users := D\<rparr> else s)"
    using assms(2) by (cases y; cases x) (simp_all add: mono_CreateUser_def d c)
  have "gorm_ok mono_user_cols D" using DB_ops_ok(1) [OF c, of mono_user_cols] ok by simp
  from mono_extends_users [OF assms(1) this DB_Create_extends [OF ok c]] mono_extends_refl [OF assms(1)] s'
  show ?thesis by (cases y) simp_all
qed

lemma mono_CreateMenuItem_extends:
  assumes "mono_ok s" and "mono_CreateMenuItem jerr body s = (r, s')"
  shows "mono_extends s s'"
proof -
  have ok: "gorm_ok menu_cols (mono_items s)" using assms(1) by (simp add: mono_ok_def)
  obtain y v where d: "Decode menu_item_model_fields zero_menu_item body = (y, v)" by fastforce
  obtain x D where c: "DB_Create v (mono_items s) = (x, D)" by fastforce
  have s': "s' = (if y then s\<lparr>mono_items := D\<rparr> else s)"
    using assms(2) by (cases y; cases x) (simp_all add: mono_CreateMenuItem_def d c)
  have "gorm_ok menu_cols D" using DB_ops_ok(1) [OF c, of menu_cols] ok by simp
  from mono_extends_items [OF assms(1) this DB_Create_extends [OF ok c]] mono_extends_refl [OF assms(1)] s'
  show ?thesis by (cases y) simp_all
qed

lemma mono_GetUser_extends:
  assumes "sql_reads raw" and "mono_ok s" and "mono_GetUser raw param s = (r, s')"
  shows "mono_extends s s'"
proof -
  have ok: "gorm_ok mono_user_cols (mono_users s)" using assms(2) by (simp add: mono_ok_def)
  obtain x D where f: "DB_First_cond raw param (mono_users s) = (x, D)" by fastforce
  have "s' = s\<lparr>mono_users := D\<rparr>" using assms(3) by (cases x) (simp_all add: mono_GetUser_def f)
  with mono_extends_users [OF assms(2), of D] DB_First_cond_frame [OF assms(1) ok f] show ?thesis by simp
qed

lemma mono_GetMenu_extends:
  assumes "mono_ok s" and "mono_GetMenu s = (r, s')"
  shows "mono_extends s s'"
proof -
  have ok: "gorm_ok menu_cols (mono_items s)" using assms(1) by (simp add: mono_ok_def)
  obtain x D where f: "DB_Find (mono_items s) = (x, D)" by fastforce
  have "s' = s\<lparr>mono_items := D\<rparr>" using assms(2) by (cases x) (simp_all add: mono_GetMenu_def f)
  with mono_extends_items [OF assms(1), of D] DB_Find_frame [OF ok f] DB_ops_ok(3) [OF f, of menu_cols] ok
  show ?thesis by simp
qed

lemma mono_GetOrders_extends:
  assumes "mono_ok s" and "mono_GetOrders s = (r, s')"
  shows "mono_extends s s'"
proof -
  have ok: "gorm_ok order_cols (mono_orders s)" using assms(1) by (simp add: mono_ok_def)
  obtain x D where f: "DB_Find (mono_orders s) = (x, D)" by fastforce
  have "s' = s\<lparr>mono_orders := D\<rparr>" using assms(2) by (cases x) (simp_all add: mono_GetOrders_def f)
  with mono_extends_orders [OF assms(1), of D] DB_Find_frame [OF ok f] DB_ops_ok(3) [OF f, of order_cols] ok
  show ?thesis by simp
qed

lemmas mono_handlers_extend =
  mono_CreateUser_extends mono_CreateMenuItem_extends mono_GetUser_extends mono_GetMenu_extends mono_GetOrders_extends

lemma mono_inv_extends: "mono_inv s \<Longrightarrow> mono_extends s s' \<Longrightarrow> mono_inv s'"
  by (auto simp: mono_extends_def dest: mono_inv_grows)

lemma mono_inv_ok: "mono_inv s \<Longrightarrow> mono_ok s"
  by (simp add: mono_inv_def)

text \<open>An order the specification prescribes keeps the invariant.\<close>

lemma mono_inv_store:
  assumes "mono_inv s" and "mono_grows s s'" and "place_order64 (mono_known s) (mono_price s) req = Some ord"
    and "order_rows (mono_orders s') = (order_rows (mono_orders s))(k \<mapsto> order_cols ord)"
  shows "mono_inv s'"
proof -
  have "ran (order_rows (mono_orders s')) \<subseteq> insert (order_cols ord) (ran (order_rows (mono_orders s)))"
    unfolding assms(4) by (auto simp: ran_def)
  with assms(1) place_order64_fine [OF assms(3)]
  have "\<forall>d \<in> ran (order_rows (mono_orders s')). mono_order_fine s d" unfolding mono_inv_def by blast
  with mono_order_fine_grows [OF _ assms(2)] assms(2) show ?thesis unfolding mono_inv_def mono_grows_def by blast
qed

lemma mono_inv_CreateOrder:
  assumes "mono_inv s" and "mono_CreateOrder jerr body s = (r, s')"
  shows "mono_inv s'"
proof -
  note e = mono_CreateOrder_effect [OF mono_inv_ok [OF assms(1)] assms(2)]
  then have g: "mono_grows s s'" by (simp add: mono_grows_def)
  from e mono_inv_grows [OF assms(1) g] mono_inv_store [OF assms(1) g] show ?thesis by blast
qed

lemma mono_inv_http:
  assumes "sql_reads raw" and "mono_http chi miss jerr raw q s = (r, s')" and "mono_inv s"
  shows "mono_inv s'"
proof -
  obtain m path body where q: "q = (m, path, body)" by (cases q)
  from assms(2) have "serve chi miss (mono_routes jerr raw) m path body s = (r, s')" by (simp add: mono_http_def q)
  then show ?thesis
  proof (cases rule: serve_cases)
    case (handled h x)
    from handled assms(1,3) show ?thesis
      by (auto simp: mono_routes_def intro: mono_inv_CreateOrder
          intro: mono_inv_extends mono_handlers_extend mono_inv_ok)
  qed (use assms(3) in simp)
qed

lemma mono_inv_history:
  assumes "sql_reads raw" and "mono_history chi miss jerr raw qs s = (rs, s')" and "mono_inv s"
  shows "mono_inv s'"
  using run_requests_inv [OF assms(2) [unfolded mono_history_def], of mono_inv] assms(1,3)
  by (blast intro: mono_inv_http)

subsection \<open>Referential integrity\<close>

text \<open>
  Referential integrity of the monolith: after any history of requests to a monolith that started
  without orders, and whatever the router, every stored order is pending, belongs to a user of the
  users table, and holds for each item the price that the menu table has for it.
\<close>

theorem mono_referential_integrity:
  assumes "sql_reads raw" and "mono_ok s" and "\<forall>k. order_rows (mono_orders s) k = None"
    and "mono_history chi miss jerr raw qs s = (rs, s')"
    and "order_rows (mono_orders s') k = Some (u, st, its)"
  shows "st = ''pending'' \<and> mono_known s' u \<and> (\<forall>(i, q, p) \<in># its. mono_price s' i = Some p)"
proof -
  have "mono_inv s" using assms(2,3) by (simp add: mono_inv_def ran_def)
  from mono_inv_history [OF assms(1,4) this] assms(5) have "mono_order_fine s' (u, st, its)"
    unfolding mono_inv_def by (blast intro: ranI)
  then show ?thesis by (simp add: mono_order_fine_def)
qed

definition no_sql :: "('s, 'r) sql" where
  "no_sql c D = (Inl ErrRecordNotFound, D)"

theorem mono_referential_integrity_witness:
  "\<exists>rs s' k. mono_history chi_ref (http_Error ''404 page not found'' 404) (\<lambda>_. []) no_sql
      [(''POST'', ''/api/orders'', mono_demo_body 1)] mono_demo = (rs, s') \<and>
    order_rows (mono_orders s') k = Some (1, ''pending'', {#(1, 2, 0x4008000000000000)#}) \<and>
    mono_known s' 1 \<and> mono_price s' 1 = Some 0x4008000000000000"
proof -
  obtain r s' where c: "mono_CreateOrder (\<lambda>_. []) (mono_demo_body 1) mono_demo = (r, s')" by fastforce
  have ok: "mono_ok mono_demo" using mono_demo_up by (simp add: mono_up_def)
  have empty: "\<forall>k. order_rows (mono_orders mono_demo) k = None"
    by (simp add: mono_demo_def order_rows_def contents_def mem_rows_def)
  have sql: "sql_reads (no_sql :: (MonoUser mem, MonoUser) sql)" by (simp add: sql_reads_def no_sql_def)
  have h: "mono_history chi_ref (http_Error ''404 page not found'' 404) (\<lambda>_. []) no_sql
      [(''POST'', ''/api/orders'', mono_demo_body 1)] mono_demo = ([r], s')"
    using c by (simp add: mono_history_def mono_http_def serve_literal [OF chi_ref_law, where i = 4] mono_routes_def literal_def)
  from mono_CreateOrder_effect [OF ok c] mono_demo_created [OF c] mono_demo_decode [of 1] mono_demo_views obtain k where
    k: "order_rows (mono_orders s') k = Some (1, ''pending'', {#(1, 2, 0x4008000000000000)#})"
    by (fastforce simp: place_order64_def order_cols_def new_order_def new_order_item_def item_cols_def)
  from mono_referential_integrity [OF sql ok empty h k] have "mono_known s' 1 \<and> mono_price s' 1 = Some 0x4008000000000000" by simp
  with h k show ?thesis by blast
qed

end
