(* ===== verification/Monolith_Concurrent.thy ===== *)
theory Monolith_Concurrent
  imports Monolith_System Interleaving
begin

text \<open>
  The monolith under concurrent requests. \<open>net/http\<close> runs each handler in a goroutine of its own;
  they share nothing but the database, whose calls are atomic. \<open>CreateOrder\<close> makes several: a lookup
  of the user, one of each item, and the insertion, which is no transaction together. It is a task
  here that advances by one database call; the other handlers make one call each.
\<close>

subsection \<open>Orders as tasks\<close>

datatype mono_task =
    MonoValidating rest_order_request
  | MonoPricing rest_order_request "rest_item_request list" "OrderItem list"
  | MonoAnswered response

fun mono_task_step :: "mono_task \<Rightarrow> ('u, 'm, 'o) mono \<Rightarrow> mono_task \<times> ('u, 'm, 'o) mono" where
  "mono_task_step (MonoValidating req) s =
     (case DB_First (ror_user_id req) (mono_users s) of
        (Inl err, db) \<Rightarrow> (MonoAnswered (http_Error ''User not found'' StatusBadRequest), s\<lparr>mono_users := db\<rparr>)
      | (Inr user, db) \<Rightarrow> (MonoPricing req (ror_items req) [], s\<lparr>mono_users := db\<rparr>))"
| "mono_task_step (MonoPricing req (item # items) acc) s =
     (case DB_First (rir_menu_item_id item) (mono_items s) of
        (Inl err, db) \<Rightarrow> (MonoAnswered (http_Error ''Menu item not found'' StatusBadRequest), s\<lparr>mono_items := db\<rparr>)
      | (Inr menuItem, db) \<Rightarrow>
          (MonoPricing req items (acc @ [new_order_item (rir_menu_item_id item) (rir_quantity item) (Price menuItem)]),
           s\<lparr>mono_items := db\<rparr>))"
| "mono_task_step (MonoPricing req [] acc) s =
     (case DB_Create (new_order (ror_user_id req) acc) (mono_orders s) of
        (Inl err, db) \<Rightarrow>
          (MonoAnswered (http_Error (gorm_error_text err) StatusInternalServerError), s\<lparr>mono_orders := db\<rparr>)
      | (Inr order, db) \<Rightarrow> (MonoAnswered (json_reply StatusCreated (enc_Order JNull order)), s\<lparr>mono_orders := db\<rparr>))"
| "mono_task_step (MonoAnswered r) s = (MonoAnswered r, s)"

lemma mono_answered_stays [simp]: "run_alone mono_task_step n (MonoAnswered r) s = (MonoAnswered r, s)"
  by (rule run_alone_stays) simp

lemma mono_run_pricing:
  "run_alone mono_task_step (Suc (length its)) (MonoPricing req its acc) s =
     (case mono_order_items its acc s of
        (Inl r, s') \<Rightarrow> (MonoAnswered r, s')
      | (Inr items, s') \<Rightarrow> mono_task_step (MonoPricing req [] items) s')"
proof (induction its arbitrary: acc s)
  case Nil
  show ?case by (cases "mono_task_step (MonoPricing req [] acc) s") simp
next
  case (Cons it its)
  obtain x db where x: "DB_First (rir_menu_item_id it) (mono_items s) = (x, db)" by fastforce
  show ?case by (cases x) (simp_all add: x Cons.IH del: run_alone.simps(2) add: run_alone.simps(2) [of _ "Suc (length its)"])
qed

text \<open>A task that runs alone is the handler, and as many steps as the order has items, and two, end it.\<close>

lemma mono_run_is_handler:
  assumes "Decode rest_order_request_fields zero_rest_order_request body = (True, req)"
  shows "run_alone mono_task_step (length (ror_items req) + 2) (MonoValidating req) s =
    (case mono_CreateOrder jerr body s of (r, s') \<Rightarrow> (MonoAnswered r, s'))"
proof -
  obtain u db1 where u: "DB_First (ror_user_id req) (mono_users s) = (u, db1)" by fastforce
  obtain y s2 where y: "mono_order_items (ror_items req) [] (s\<lparr>mono_users := db1\<rparr>) = (y, s2)" by fastforce
  have n: "length (ror_items req) + 2 = Suc (Suc (length (ror_items req)))" by simp
  show ?thesis
    unfolding n run_alone.simps(2) [of _ "Suc (length (ror_items req))"] mono_CreateOrder_eq [OF assms u] y
    by (auto simp: u y mono_run_pricing simp del: run_alone.simps split: sum.splits prod.splits)
qed

subsection \<open>The system\<close>

type_synonym ('u, 'm, 'o) mono_system = "('u, 'm, 'o) mono \<times> mono_task list"

text \<open>
  A body that does not decode is answered without a database call and is not a step; \<open>raw\<close> is the
  database's answer to an SQL condition.
\<close>

inductive mono_step ::
  "(request_body \<Rightarrow> string) \<Rightarrow> ('u, MonoUser) sql \<Rightarrow> ('u, 'm, 'o) mono_system \<Rightarrow> ('u, 'm, 'o) mono_system \<Rightarrow> bool"
  for jerr raw where
  create_user: "mono_CreateUser jerr body s = (r, s') \<Longrightarrow> mono_step jerr raw (s, ts) (s', ts)"
| get_user: "mono_GetUser raw param s = (r, s') \<Longrightarrow> mono_step jerr raw (s, ts) (s', ts)"
| get_menu: "mono_GetMenu s = (r, s') \<Longrightarrow> mono_step jerr raw (s, ts) (s', ts)"
| create_menu_item: "mono_CreateMenuItem jerr body s = (r, s') \<Longrightarrow> mono_step jerr raw (s, ts) (s', ts)"
| get_orders: "mono_GetOrders s = (r, s') \<Longrightarrow> mono_step jerr raw (s, ts) (s', ts)"
| start_order: "Decode rest_order_request_fields zero_rest_order_request body = (True, req) \<Longrightarrow>
    mono_step jerr raw (s, ts) (s, ts @ [MonoValidating req])"
| advance_order: "i < length ts \<Longrightarrow> mono_task_step (ts ! i) s = (t, s') \<Longrightarrow>
    mono_step jerr raw (s, ts) (s', ts[i := t])"

inductive mono_reach ::
  "(request_body \<Rightarrow> string) \<Rightarrow> ('u, MonoUser) sql \<Rightarrow> ('u, 'm, 'o) mono_system \<Rightarrow> ('u, 'm, 'o) mono_system \<Rightarrow> bool"
  for jerr raw c where
  start: "mono_reach jerr raw c c"
| step: "mono_reach jerr raw c c' \<Longrightarrow> mono_step jerr raw c' c'' \<Longrightarrow> mono_reach jerr raw c c''"

text \<open>What an order in progress has established of the tables.\<close>

fun mono_task_spec :: "('u, 'm, 'o) mono \<Rightarrow> mono_task \<Rightarrow> bool" where
  "mono_task_spec s (MonoPricing req its acc) =
     (mono_known s (ror_user_id req) \<and>
      (\<exists>before. ror_items req = before @ its \<and> price_items64 (mono_price s) before = Some acc))"
| "mono_task_spec s t = True"

lemma price_items64_grows:
  "price_items64 p its = Some new \<Longrightarrow> p \<subseteq>\<^sub>m p' \<Longrightarrow> price_items64 p' its = Some new"
  by (induction its arbitrary: new) (auto dest: map_le_Some split: option.splits)

lemma price_items64_snoc:
  "price_items64 p xs = Some acc \<Longrightarrow> p (rir_menu_item_id it) = Some v \<Longrightarrow>
     price_items64 p (xs @ [it]) = Some (acc @ [new_order_item (rir_menu_item_id it) (rir_quantity it) v])"
  by (induction xs arbitrary: acc) (auto split: option.splits)

lemma mono_task_spec_grows: "mono_task_spec s t \<Longrightarrow> mono_grows s s' \<Longrightarrow> mono_task_spec s' t"
  by (cases t) (auto simp: mono_grows_def intro: price_items64_grows)

lemma mono_task_places:
  "mono_task_spec s (MonoPricing req [] acc) \<Longrightarrow>
     place_order64 (mono_known s) (mono_price s) req = Some (new_order (ror_user_id req) acc)"
  by (simp add: place_order64_def)

subsection \<open>One step of an order\<close>

definition mono_places :: "('u, 'm, 'o) mono \<Rightarrow> ('u, 'm, 'o) mono \<Rightarrow> bool" where
  "mono_places s s' \<longleftrightarrow>
     (\<exists>req ord k. place_order64 (mono_known s) (mono_price s) req = Some ord \<and> order_rows (mono_orders s) k = None \<and>
        order_rows (mono_orders s') = (order_rows (mono_orders s))(k \<mapsto> order_cols ord))"

lemma mono_validate_step:
  assumes "mono_ok s" and st: "mono_task_step (MonoValidating req) s = (t', s')"
  shows "mono_extends s s' \<and> mono_task_spec s' t'"
proof -
  have ok: "gorm_ok mono_user_cols (mono_users s)" using assms(1) by (simp add: mono_ok_def)
  obtain u db where u: "DB_First (ror_user_id req) (mono_users s) = (u, db)" by fastforce
  have s': "s' = s\<lparr>mono_users := db\<rparr>" using st by (cases u) (simp_all add: u)
  have "gorm_ok mono_user_cols db" "contents db = contents (mono_users s)"
    using DB_ops_ok(2) [OF u, of mono_user_cols] DB_First_frame [OF ok u] ok by simp_all
  with mono_extends_users [OF assms(1), of db] have e: "mono_extends s s'" by (simp add: s')
  show ?thesis
  proof (cases u)
    case (Inr v)
    with DB_First_law [OF ok u] have "mono_known s (ror_user_id req)" by (auto simp: mono_known_def)
    with e st Inr show ?thesis by (auto simp: u mono_extends_def mono_grows_def)
  qed (use e st u in auto)
qed

lemma mono_price_step:
  assumes "mono_ok s" and spec: "mono_task_spec s (MonoPricing req (it # its) acc)"
    and st: "mono_task_step (MonoPricing req (it # its) acc) s = (t', s')"
  shows "mono_extends s s' \<and> mono_task_spec s' t'"
proof -
  have ok: "gorm_ok menu_cols (mono_items s)" using assms(1) by (simp add: mono_ok_def)
  obtain x db where x: "DB_First (rir_menu_item_id it) (mono_items s) = (x, db)" by fastforce
  have s': "s' = s\<lparr>mono_items := db\<rparr>" using st by (cases x) (simp_all add: x)
  have "gorm_ok menu_cols db" "contents db = contents (mono_items s)"
    using DB_ops_ok(2) [OF x, of menu_cols] DB_First_frame [OF ok x] ok by simp_all
  with mono_extends_items [OF assms(1), of db] have e: "mono_extends s s'" by (simp add: s')
  show ?thesis
  proof (cases x)
    case (Inr m)
    with DB_First_law [OF ok x] have p: "mono_price s (rir_menu_item_id it) = Some (Price m)"
      by (auto simp: mono_price_def dest: menu_cols_Price)
    from spec obtain before where b: "mono_known s (ror_user_id req)" "ror_items req = before @ it # its"
      "price_items64 (mono_price s) before = Some acc" by auto
    from b(1,2) price_items64_snoc [OF b(3) p]
    have "mono_task_spec s (MonoPricing req its (acc @ [new_order_item (rir_menu_item_id it) (rir_quantity it) (Price m)]))"
      by (auto intro: exI [where x = "before @ [it]"])
    with mono_task_spec_grows e st Inr show ?thesis by (auto simp: x mono_extends_def simp del: mono_task_spec.simps)
  qed (use e st x in auto)
qed

lemma mono_store_step:
  assumes "mono_ok s" and spec: "mono_task_spec s (MonoPricing req [] acc)"
    and st: "mono_task_step (MonoPricing req [] acc) s = (t', s')"
  shows "mono_grows s s' \<and> mono_task_spec s' t' \<and>
    (order_rows (mono_orders s') = order_rows (mono_orders s) \<or>
     (\<exists>k. order_rows (mono_orders s) k = None \<and> order_rows (mono_orders s') =
        (order_rows (mono_orders s))(k \<mapsto> order_cols (new_order (ror_user_id req) acc))))"
proof -
  have ok: "gorm_ok order_cols (mono_orders s)" using assms(1) by (simp add: mono_ok_def)
  obtain x db where x: "DB_Create (new_order (ror_user_id req) acc) (mono_orders s) = (x, db)" by fastforce
  have s': "s' = s\<lparr>mono_orders := db\<rparr>" "mono_task_spec s' t'" using st by (cases x; auto simp: x)+
  have "gorm_ok order_cols db" using DB_ops_ok(1) [OF x, of order_cols] ok by simp
  with assms(1) s' have g: "mono_grows s s' \<and> mono_task_spec s' t'" by (simp add: mono_grows_def mono_ok_def)
  show ?thesis
  proof (cases x)
    case (Inl e)
    with x DB_Create_Inl [OF ok] have "order_rows db = order_rows (mono_orders s)" by (blast intro: order_rows_cong)
    with g s'(1) show ?thesis by simp
  next
    case (Inr r)
    with x have "DB_Create (new_order (ror_user_id req) acc) (mono_orders s) = (Inr r, db)" by simp
    from DB_Create_order [OF ok this] g s'(1) show ?thesis by auto
  qed
qed

lemma mono_task_step_effect:
  assumes "mono_ok s" and "mono_task_spec s t" and "mono_task_step t s = (t', s')"
  shows "mono_grows s s'" and "mono_task_spec s' t'"
    and "order_rows (mono_orders s') = order_rows (mono_orders s) \<or> mono_places s s'"
proof -
  have "mono_grows s s' \<and> mono_task_spec s' t' \<and>
    (order_rows (mono_orders s') = order_rows (mono_orders s) \<or> mono_places s s')"
  proof (cases "(t, s)" rule: mono_task_step.cases)
    case 1
    with assms mono_validate_step show ?thesis by (fastforce simp: mono_extends_def)
  next
    case 2
    with assms mono_price_step show ?thesis by (fastforce simp: mono_extends_def)
  next
    case (3 req acc)
    with assms mono_store_step [of s req acc t' s'] mono_task_places [of s req acc] show ?thesis
      unfolding mono_places_def by blast
  next
    case 4
    with assms mono_extends_refl show ?thesis by (auto simp: mono_extends_def)
  qed
  then show "mono_grows s s'" and "mono_task_spec s' t'"
    and "order_rows (mono_orders s') = order_rows (mono_orders s) \<or> mono_places s s'" by blast+
qed

subsection \<open>Every interleaving\<close>

interpretation mono_tasks: interleaved mono_task_step mono_ok mono_grows mono_task_spec
proof
  fix s s' :: "('u, 'm, 'o) mono" and t
  show "mono_grows s s' \<Longrightarrow> mono_task_spec s t \<Longrightarrow> mono_task_spec s' t" by (rule mono_task_spec_grows)
next
  fix s s' :: "('u, 'm, 'o) mono" and t t'
  assume "mono_ok s" "mono_task_spec s t" "mono_task_step t s = (t', s')"
  from mono_task_step_effect [OF this] show "mono_ok s' \<and> mono_grows s s' \<and> mono_task_spec s' t'"
    by (simp add: mono_grows_def)
qed

lemma mono_step_effect:
  assumes "sql_reads raw" and "mono_step jerr raw (s, ts) (s', ts')" and "mono_ok s" and "\<forall>t \<in> set ts. mono_task_spec s t"
  shows "mono_grows s s'" and "\<forall>t \<in> set ts'. mono_task_spec s' t"
    and "order_rows (mono_orders s') = order_rows (mono_orders s) \<or> mono_places s s'"
proof -
  have "mono_grows s s' \<and> (\<forall>t \<in> set ts'. mono_task_spec s' t) \<and>
    (order_rows (mono_orders s') = order_rows (mono_orders s) \<or> mono_places s s')" (is ?P)
  proof -
  have same: ?P if "mono_extends s s'" and "ts' = ts"
    using that assms(4) mono_task_spec_grows by (auto simp: mono_extends_def)
  show ?P using assms(2)
  proof cases
    case (start_order body req)
    with assms(3,4) mono_extends_refl show ?thesis by (auto simp: mono_extends_def)
  next
    case (advance_order i t)
    have "mono_task_spec s (ts ! i)" using assms(4) advance_order by simp
    note e = mono_task_step_effect [OF assms(3) this advance_order(3)]
    from mono_tasks.advance_all [OF assms(3,4) advance_order(2,3)]
    have "\<forall>u \<in> set ts'. mono_task_spec s' u" by (simp add: advance_order(1))
    with e show ?thesis by blast
  qed (rule same, rule mono_handlers_extend, (rule assms | assumption)+)+
  qed
  then show "mono_grows s s'" and "\<forall>t \<in> set ts'. mono_task_spec s' t"
    and "order_rows (mono_orders s') = order_rows (mono_orders s) \<or> mono_places s s'" by blast+
qed

definition mono_system_inv :: "('u, 'm, 'o) mono_system \<Rightarrow> bool" where
  "mono_system_inv c \<longleftrightarrow> mono_inv (fst c) \<and> (\<forall>t \<in> set (snd c). mono_task_spec (fst c) t)"

lemma mono_system_inv_step:
  assumes "sql_reads raw" and "mono_step jerr raw c c'" and "mono_system_inv c"
  shows "mono_system_inv c'"
proof -
  obtain s ts s' ts' where c: "c = (s, ts)" "c' = (s', ts')" by (cases c, cases c')
  from assms(3) c have i: "mono_inv s" "\<forall>t \<in> set ts. mono_task_spec s t" by (simp_all add: mono_system_inv_def)
  note e = mono_step_effect [OF assms(1) assms(2) [unfolded c] mono_inv_ok [OF i(1)] i(2)]
  from e(3) mono_inv_grows [OF i(1) e(1)] mono_inv_store [OF i(1) e(1)] have "mono_inv s'"
    unfolding mono_places_def by blast
  with e(2) c show ?thesis by (simp add: mono_system_inv_def)
qed

lemma mono_system_inv_reach:
  "mono_reach jerr raw c c' \<Longrightarrow> sql_reads raw \<Longrightarrow> mono_system_inv c \<Longrightarrow> mono_system_inv c'"
  by (induction rule: mono_reach.induct) (auto dest: mono_system_inv_step)

subsection \<open>Orders of concurrent clients\<close>

text \<open>
  C16: Concurrent orders of the monolith take effect at one instant each. In every interleaving of the
  database calls of its handlers, a step leaves the stored orders as they are or adds, under a fresh
  key, the order that the specification prescribes for some request at the users and prices of that
  moment; and after it every stored order is pending, of a stored user, at the prices of the menu.
\<close>

theorem mono_concurrent_orders:
  assumes sql: "sql_reads raw" and ok: "mono_ok s0" and empty: "\<forall>k. order_rows (mono_orders s0) k = None"
    and reach: "mono_reach jerr raw (s0, []) (s, ts)" and st: "mono_step jerr raw (s, ts) (s', ts')"
  shows "(order_rows (mono_orders s') = order_rows (mono_orders s) \<or>
      (\<exists>req ord k. place_order64 (mono_known s) (mono_price s) req = Some ord \<and> order_rows (mono_orders s) k = None \<and>
         order_rows (mono_orders s') = (order_rows (mono_orders s))(k \<mapsto> order_cols ord))) \<and>
    (\<forall>k u st its. order_rows (mono_orders s') k = Some (u, st, its) \<longrightarrow>
       st = ''pending'' \<and> mono_known s' u \<and> (\<forall>(i, q, p) \<in># its. mono_price s' i = Some p))"
proof -
  have "mono_system_inv (s0, [])" using ok empty by (simp add: mono_system_inv_def mono_inv_def ran_def)
  then have i: "mono_system_inv (s, ts)" by (rule mono_system_inv_reach [OF reach sql])
  then have "mono_ok s" "\<forall>t \<in> set ts. mono_task_spec s t" by (simp_all add: mono_system_inv_def mono_inv_def)
  note e = mono_step_effect(3) [OF sql st this]
  have "mono_inv s'" using mono_system_inv_step [OF sql st i] by (simp add: mono_system_inv_def)
  then have "mono_order_fine s' (u, st, its)" if "order_rows (mono_orders s') k = Some (u, st, its)" for k u st its
    using that unfolding mono_inv_def by (blast intro: ranI)
  then have "\<forall>k u st its. order_rows (mono_orders s') k = Some (u, st, its) \<longrightarrow>
       st = ''pending'' \<and> mono_known s' u \<and> (\<forall>(i, q, p) \<in># its. mono_price s' i = Some p)"
    by (simp add: mono_order_fine_def)
  with e show ?thesis unfolding mono_places_def by blast
qed

text \<open>The demonstration order, one database call at a time.\<close>

definition mono_demo_req :: rest_order_request where
  "mono_demo_req = \<lparr>ror_user_id = 1, ror_items = [\<lparr>rir_menu_item_id = 1, rir_quantity = 2\<rparr>]\<rparr>"

lemma mono_demo_steps:
  "mono_task_step (MonoValidating mono_demo_req) mono_demo =
     (MonoPricing mono_demo_req [\<lparr>rir_menu_item_id = 1, rir_quantity = 2\<rparr>] [], mono_demo)"
  "mono_task_step (MonoPricing mono_demo_req [\<lparr>rir_menu_item_id = 1, rir_quantity = 2\<rparr>] []) mono_demo =
     (MonoPricing mono_demo_req [] [new_order_item 1 2 0x4008000000000000], mono_demo)"
  by (simp_all add: mono_demo_req_def mono_demo_def DB_First_def mono_user_mem_def mem_gorm_def mem_first_def mem_rows_def
      zero_mono_user_def zero_menu_item_def)

lemma mono_demo_reach:
  "mono_reach jerr raw (mono_demo, []) (mono_demo, [MonoPricing mono_demo_req [] [new_order_item 1 2 0x4008000000000000]])"
proof -
  have d: "Decode rest_order_request_fields zero_rest_order_request (mono_demo_body 1) = (True, mono_demo_req)"
    using mono_demo_decode [of 1] by (simp add: mono_demo_req_def)
  have 1: "mono_step jerr raw (mono_demo, []) (mono_demo, [MonoValidating mono_demo_req])"
    using mono_step.start_order [OF d, of jerr raw mono_demo "[]"] by simp
  have 2: "mono_step jerr raw (mono_demo, [MonoValidating mono_demo_req])
      (mono_demo, [MonoPricing mono_demo_req [\<lparr>rir_menu_item_id = 1, rir_quantity = 2\<rparr>] []])"
    using mono_step.advance_order [of 0 "[MonoValidating mono_demo_req]" mono_demo] mono_demo_steps(1) by simp
  have 3: "mono_step jerr raw (mono_demo, [MonoPricing mono_demo_req [\<lparr>rir_menu_item_id = 1, rir_quantity = 2\<rparr>] []])
      (mono_demo, [MonoPricing mono_demo_req [] [new_order_item 1 2 0x4008000000000000]])"
    using mono_step.advance_order [of 0 "[MonoPricing mono_demo_req [\<lparr>rir_menu_item_id = 1, rir_quantity = 2\<rparr>] []]" mono_demo]
      mono_demo_steps(2) by simp
  show ?thesis by (rule mono_reach.step [OF mono_reach.step [OF mono_reach.step [OF mono_reach.start 1] 2] 3])
qed

theorem mono_concurrent_orders_witness:
  "\<exists>t s' k. mono_step (\<lambda>_. []) no_sql (mono_demo, [MonoPricing mono_demo_req [] [new_order_item 1 2 0x4008000000000000]]) (s', [t]) \<and>
    order_rows (mono_orders s') k = Some (1, ''pending'', {#(1, 2, 0x4008000000000000)#}) \<and>
    mono_known s' 1 \<and> mono_price s' 1 = Some 0x4008000000000000"
proof -
  let ?t = "MonoPricing mono_demo_req [] [new_order_item 1 2 0x4008000000000000]"
  let ?o = "new_order 1 [new_order_item 1 2 0x4008000000000000]"
  obtain r db where c: "DB_Create ?o order_mem = (Inr r, db)"
    by (auto simp: DB_Create_def mem_create_def Let_def new_order_def)
  have m: "mono_orders mono_demo = order_mem" by (simp add: mono_demo_def)
  obtain t s' where st: "mono_task_step ?t mono_demo = (t, s')" by fastforce
  with c m have s': "s' = mono_demo\<lparr>mono_orders := db\<rparr>" by (simp add: mono_demo_req_def)
  have k: "order_rows (mono_orders s') (ID r) = Some (1, ''pending'', {#(1, 2, 0x4008000000000000)#})"
    using DB_Create_order [OF order_mem_ok c] s'
    by (simp add: order_cols_def new_order_def new_order_item_def item_cols_def)
  have step: "mono_step (\<lambda>_. []) no_sql (mono_demo, [?t]) (s', [t])"
    using mono_step.advance_order [of 0 "[?t]" mono_demo t s'] st by simp
  have ok: "mono_ok mono_demo" using mono_demo_up by (simp add: mono_up_def)
  have empty: "\<forall>k. order_rows (mono_orders mono_demo) k = None"
    by (simp add: mono_demo_def order_rows_def contents_def mem_rows_def)
  have sql: "sql_reads (no_sql :: (MonoUser mem, MonoUser) sql)" by (simp add: sql_reads_def no_sql_def)
  from mono_concurrent_orders [OF sql ok empty mono_demo_reach step] k
  have "mono_known s' 1 \<and> mono_price s' 1 = Some 0x4008000000000000" by fastforce
  with step k show ?thesis by blast
qed

end
