(* ===== verification/Order_Service_5a.thy ===== *)
theory Order_Service_5a
  imports Order_Service
begin

text \<open>
  The order service of \<open>practical5a\<close> (\<open>order-service/grpc/server.go\<close>), from which that of
  \<open>practical6-example\<close> was made by exporting the two client fields, so that tests can inject them.
  The models, the messages and the database package are the same files. Here \<open>CreateOrder\<close> is
  written over the \<open>order\<close> variable that its loop appends to; the equivalence with the later
  server shows that the change of interface kept every answer, call and stored order.
\<close>

subsection \<open>The server\<close>

record 'w OrderServer_5a =
  userClient :: "'w UserServiceClient"
  menuClient :: "'w MenuServiceClient"

definition NewOrderServer_5a ::
  "(string \<Rightarrow> string + 'w ClientConn) \<Rightarrow> string \<Rightarrow> string \<Rightarrow> string + 'w OrderServer_5a" where
  "NewOrderServer_5a dial userServiceAddr menuServiceAddr =
     (case dial userServiceAddr of
        Inl err \<Rightarrow> Inl (''failed to connect to user service: '' @ err)
      | Inr userConn \<Rightarrow>
          (case dial menuServiceAddr of
             Inl err \<Rightarrow> Inl (''failed to connect to menu service: '' @ err)
           | Inr menuConn \<Rightarrow>
               Inr \<lparr>userClient = NewUserServiceClient userConn, menuClient = NewMenuServiceClient menuConn\<rparr>))"

definition modelToProto_5a :: "Order \<Rightarrow> OrderProto" where
  "modelToProto_5a order =
     (let protoItems =
        map (\<lambda>item.
          \<lparr>oi_id = uint32_of_uint (ID item), oi_order_id = uint32_of_uint (OrderID item),
           oi_menu_item_id = uint32_of_uint (MenuItemID item), oi_quantity = int32_of_int (Quantity item),
           oi_price = ItemPrice item, oi_created_at = Format_RFC3339 (CreatedAt item),
           oi_updated_at = Format_RFC3339 (UpdatedAt item)\<rparr>) (OrderItems order)
      in \<lparr>o_id = uint32_of_uint (ID order), o_user_id = uint32_of_uint (UserID order), o_status = Status order,
          o_order_items = protoItems, o_created_at = Format_RFC3339 (CreatedAt order),
          o_updated_at = Format_RFC3339 (UpdatedAt order)\<rparr>)"

text \<open>The loop, with the order it appends to.\<close>

fun append_items_5a ::
  "(goerror \<Rightarrow> string) \<Rightarrow> 'w OrderServer_5a \<Rightarrow> OrderItemRequest list \<Rightarrow> Order \<Rightarrow> 'w \<Rightarrow> Order outcome \<times> 'w" where
  "append_items_5a err_text srv [] order w = (Return order, w)"
| "append_items_5a err_text srv (item # items) order w =
     (case mc_GetMenuItem (menuClient srv) \<lparr>gm_id = oir_menu_item_id item\<rparr> w of
        (Inl err, w') \<Rightarrow>
          (Error (StatusError InvalidArgument
             (''menu item '' @ fmt_uint (oir_menu_item_id item) @ '' not found: '' @ err_text err)), w')
      | (Inr menuItemResp, w') \<Rightarrow>
          (case gm_menu_item menuItemResp of
             None \<Rightarrow> (Panic, w')
           | Some menuItem \<Rightarrow>
               (let orderItem = \<lparr>ID = 0, CreatedAt = zero_time, UpdatedAt = zero_time, DeletedAt = None,
                      OrderID = 0, MenuItemID = uint_of_uint32 (oir_menu_item_id item),
                      Quantity = int_of_int32 (oir_quantity item), ItemPrice = mi_price menuItem\<rparr>
                in append_items_5a err_text srv items (order\<lparr>OrderItems := OrderItems order @ [orderItem]\<rparr>) w')))"

definition CreateOrder_5a ::
  "(goerror \<Rightarrow> string) \<Rightarrow> 'w OrderServer_5a \<Rightarrow> CreateOrderRequest \<Rightarrow> 'w \<times> 's order_db
   \<Rightarrow> CreateOrderResponse outcome \<times> ('w \<times> 's order_db)" where
  "CreateOrder_5a err_text srv req st =
     (case st of (w, db) \<Rightarrow>
      case uc_GetUser (userClient srv) \<lparr>gu_id = co_user_id req\<rparr> w of
        (Inl err, w1) \<Rightarrow>
          (Error (StatusError InvalidArgument (''user not found: '' @ err_text err)), (w1, db))
      | (Inr _, w1) \<Rightarrow>
          (let order = \<lparr>ID = 0, CreatedAt = zero_time, UpdatedAt = zero_time, DeletedAt = None,
                        UserID = uint_of_uint32 (co_user_id req), Status = ''pending'', OrderItems = []\<rparr>
           in case append_items_5a err_text srv (co_items req) order w1 of
                (Error err, w2) \<Rightarrow> (Error err, (w2, db))
              | (Panic, w2) \<Rightarrow> (Panic, (w2, db))
              | (Return order', w2) \<Rightarrow>
                  (case DB_Create order' db of
                     (Inl err, db') \<Rightarrow>
                       (Error (StatusError Internal (''failed to create order: '' @ gorm_error_text err)), (w2, db'))
                   | (Inr stored, db') \<Rightarrow> (Return \<lparr>co_order = Some (modelToProto_5a stored)\<rparr>, (w2, db')))))"

definition GetOrders_5a ::
  "unit \<Rightarrow> 'w \<times> 's order_db \<Rightarrow> GetOrdersResponse outcome \<times> ('w \<times> 's order_db)" where
  "GetOrders_5a req st =
     (case st of (w, db) \<Rightarrow>
      case DB_Find db of
        (Inl err, db') \<Rightarrow>
          (Error (StatusError Internal (''failed to get orders: '' @ gorm_error_text err)), (w, db'))
      | (Inr orders, db') \<Rightarrow> (Return \<lparr>gos_orders = map modelToProto_5a orders\<rparr>, (w, db')))"

definition GetOrder_5a ::
  "GetOrderRequest \<Rightarrow> 'w \<times> 's order_db \<Rightarrow> GetOrderResponse outcome \<times> ('w \<times> 's order_db)" where
  "GetOrder_5a req st =
     (case st of (w, db) \<Rightarrow>
      case DB_First (uint_of_uint32 (go_id req)) db of
        (Inl err, db') \<Rightarrow> (Error (StatusError NotFound ''order not found''), (w, db'))
      | (Inr order, db') \<Rightarrow> (Return \<lparr>go_order = Some (modelToProto_5a order)\<rparr>, (w, db')))"

subsection \<open>The later server\<close>

definition exported :: "'w OrderServer_5a \<Rightarrow> 'w OrderServer" where
  "exported srv = \<lparr>UserClient = userClient srv, MenuClient = menuClient srv\<rparr>"

lemma modelToProto_5a_eq: "modelToProto_5a = order_modelToProto"
  by (simp add: fun_eq_iff modelToProto_5a_def order_modelToProto_def item_modelToProto_def Let_def)

lemma append_items_5a_eq:
  "append_items_5a err_text srv its order w =
     (case OrderServer_items err_text (menuClient srv) its (OrderItems order) w of
        (Return items, w') \<Rightarrow> (Return (order\<lparr>OrderItems := items\<rparr>), w')
      | (Error e, w') \<Rightarrow> (Error e, w')
      | (Panic, w') \<Rightarrow> (Panic, w'))"
  by (induction err_text srv its order w rule: append_items_5a.induct)
    (auto simp: new_order_item_def split: sum.splits option.splits prod.splits outcome.splits)

lemma CreateOrder_5a_eq: "CreateOrder_5a err_text srv req st = OrderServer_CreateOrder err_text (exported srv) req st"
  by (simp add: CreateOrder_5a_def OrderServer_CreateOrder_def append_items_5a_eq modelToProto_5a_eq exported_def
      new_order_def split: prod.splits sum.splits outcome.splits)

lemma GetOrders_5a_eq: "GetOrders_5a req st = OrderServer_GetOrders req st"
  by (simp add: GetOrders_5a_def OrderServer_GetOrders_def modelToProto_5a_eq split: prod.splits sum.splits)

lemma GetOrder_5a_eq: "GetOrder_5a req st = OrderServer_GetOrder req st"
  by (simp add: GetOrder_5a_def OrderServer_GetOrder_def modelToProto_5a_eq split: prod.splits sum.splits)

lemma NewOrderServer_exported: "map_sum id exported (NewOrderServer_5a dial ua ma) = NewOrderServer dial ua ma"
  by (simp add: NewOrderServer_5a_def NewOrderServer_def exported_def split: sum.split)

end
