(* ===== verification/Practical5a.thy ===== *)
theory Practical5a
  imports Order_Service_5a Service_Main
begin

text \<open>
  The three services of \<open>practical5a\<close>, the stage before \<open>practical6-example\<close>: the servers of users
  and menus (\<open>grpc/server.go\<close>), \<open>database.Connect\<close> and \<open>main\<close>, each translated from the files of
  that stage; the server of orders is in \<open>Order_Service_5a\<close>. The models, messages and generated
  stubs are those of \<open>practical6-example\<close>. The programs are shown equal to the later ones, and from
  that follow the properties of this stage: the orders it places and the records it gives back.
\<close>

subsection \<open>The servers of users and menus\<close>

definition user_modelToProto_5a :: "User \<Rightarrow> UserProto" where
  "user_modelToProto_5a user =
     \<lparr>user_id = uint32_of_uint (ID user),
      user_name = Name user,
      user_email = Email user,
      user_is_cafe_owner = IsCafeOwner user,
      user_created_at = Format_RFC3339 (CreatedAt user),
      user_updated_at = Format_RFC3339 (UpdatedAt user)\<rparr>"

definition UserServer_CreateUser_5a ::
  "CreateUserRequest \<Rightarrow> 's user_db \<Rightarrow> CreateUserResponse outcome \<times> 's user_db" where
  "UserServer_CreateUser_5a req db =
     (let user = \<lparr>ID = 0, CreatedAt = zero_time, UpdatedAt = zero_time, DeletedAt = None,
                  Name = cu_name req, Email = cu_email req, IsCafeOwner = cu_is_cafe_owner req\<rparr>
      in case DB_Create user db of
           (Inl err, db') \<Rightarrow>
             (Error (StatusError Internal (''failed to create user: '' @ gorm_error_text err)), db')
         | (Inr user', db') \<Rightarrow> (Return \<lparr>cu_user = Some (user_modelToProto_5a user')\<rparr>, db'))"

definition UserServer_GetUser_5a ::
  "GetUserRequest \<Rightarrow> 's user_db \<Rightarrow> GetUserResponse outcome \<times> 's user_db" where
  "UserServer_GetUser_5a req db =
     (case DB_First (uint_of_uint32 (gu_id req)) db of
        (Inl ErrRecordNotFound, db') \<Rightarrow> (Error (StatusError NotFound ''user not found''), db')
      | (Inl err, db') \<Rightarrow>
          (Error (StatusError Internal (''failed to get user: '' @ gorm_error_text err)), db')
      | (Inr user, db') \<Rightarrow> (Return \<lparr>gu_user = Some (user_modelToProto_5a user)\<rparr>, db'))"

definition UserServer_GetUsers_5a ::
  "unit \<Rightarrow> 's user_db \<Rightarrow> GetUsersResponse outcome \<times> 's user_db" where
  "UserServer_GetUsers_5a req db =
     (case DB_Find db of
        (Inl err, db') \<Rightarrow>
          (Error (StatusError Internal (''failed to get users: '' @ gorm_error_text err)), db')
      | (Inr users, db') \<Rightarrow> (Return \<lparr>gus_users = map user_modelToProto_5a users\<rparr>, db'))"

definition NewUserServer_5a :: "'s user_db UserServiceServer" where
  "NewUserServer_5a =
     \<lparr>us_CreateUser = UserServer_CreateUser_5a,
      us_GetUser = UserServer_GetUser_5a,
      us_GetUsers = UserServer_GetUsers_5a\<rparr>"

definition menu_modelToProto_5a :: "MenuItem \<Rightarrow> MenuItemProto" where
  "menu_modelToProto_5a item =
     \<lparr>mi_id = uint32_of_uint (ID item),
      mi_name = ItemName item,
      mi_description = Description item,
      mi_price = Price item,
      mi_created_at = Format_RFC3339 (CreatedAt item),
      mi_updated_at = Format_RFC3339 (UpdatedAt item)\<rparr>"

definition MenuServer_GetMenuItem_5a ::
  "GetMenuItemRequest \<Rightarrow> 's menu_db \<Rightarrow> GetMenuItemResponse outcome \<times> 's menu_db" where
  "MenuServer_GetMenuItem_5a req db =
     (case DB_First (uint_of_uint32 (gm_id req)) db of
        (Inl ErrRecordNotFound, db') \<Rightarrow> (Error (StatusError NotFound ''menu item not found''), db')
      | (Inl err, db') \<Rightarrow>
          (Error (StatusError Internal (''failed to get menu item: '' @ gorm_error_text err)), db')
      | (Inr item, db') \<Rightarrow> (Return \<lparr>gm_menu_item = Some (menu_modelToProto_5a item)\<rparr>, db'))"

definition MenuServer_GetMenu_5a ::
  "unit \<Rightarrow> 's menu_db \<Rightarrow> GetMenuResponse outcome \<times> 's menu_db" where
  "MenuServer_GetMenu_5a req db =
     (case DB_Find db of
        (Inl err, db') \<Rightarrow>
          (Error (StatusError Internal (''failed to get menu: '' @ gorm_error_text err)), db')
      | (Inr items, db') \<Rightarrow> (Return \<lparr>gms_menu_items = map menu_modelToProto_5a items\<rparr>, db'))"

definition MenuServer_CreateMenuItem_5a ::
  "CreateMenuItemRequest \<Rightarrow> 's menu_db \<Rightarrow> CreateMenuItemResponse outcome \<times> 's menu_db" where
  "MenuServer_CreateMenuItem_5a req db =
     (let item = \<lparr>ID = 0, CreatedAt = zero_time, UpdatedAt = zero_time, DeletedAt = None,
                  ItemName = cm_name req, Description = cm_description req, Price = cm_price req\<rparr>
      in case DB_Create item db of
           (Inl err, db') \<Rightarrow>
             (Error (StatusError Internal (''failed to create menu item: '' @ gorm_error_text err)), db')
         | (Inr item', db') \<Rightarrow> (Return \<lparr>cm_menu_item = Some (menu_modelToProto_5a item')\<rparr>, db'))"

definition NewMenuServer_5a :: "'s menu_db MenuServiceServer" where
  "NewMenuServer_5a =
     \<lparr>ms_GetMenuItem = MenuServer_GetMenuItem_5a,
      ms_GetMenu = MenuServer_GetMenu_5a,
      ms_CreateMenuItem = MenuServer_CreateMenuItem_5a\<rparr>"

subsection \<open>Databases and programs\<close>

definition user_Connect_5a :: "'d gorm_driver \<Rightarrow> string \<Rightarrow> string + 'd" where
  "user_Connect_5a G dsn = (case open_db G dsn of Inl err \<Rightarrow> Inl err | Inr db \<Rightarrow> AutoMigrate G [''User''] db)"

definition menu_Connect_5a :: "'d gorm_driver \<Rightarrow> string \<Rightarrow> string + 'd" where
  "menu_Connect_5a G dsn = (case open_db G dsn of Inl err \<Rightarrow> Inl err | Inr db \<Rightarrow> AutoMigrate G [''MenuItem''] db)"

definition order_Connect_5a :: "'d gorm_driver \<Rightarrow> string \<Rightarrow> string + 'd" where
  "order_Connect_5a G dsn = (case open_db G dsn of Inl err \<Rightarrow> Inl err | Inr db \<Rightarrow> AutoMigrate G [''Order'', ''OrderItem''] db)"

definition OrderServer_methods_5a ::
  "(goerror \<Rightarrow> string) \<Rightarrow> 'w OrderServer_5a \<Rightarrow> ('w \<times> 's order_db) OrderServiceServer" where
  "OrderServer_methods_5a err_text srv =
     \<lparr>os_CreateOrder = CreateOrder_5a err_text srv, os_GetOrders = GetOrders_5a, os_GetOrder = GetOrder_5a\<rparr>"

definition user_main_5a ::
  "(string \<Rightarrow> string) \<Rightarrow> 's user_db gorm_driver \<Rightarrow> (string \<Rightarrow> string option) \<Rightarrow> (string \<Rightarrow> string option)
   \<Rightarrow> ('s user_db service_desc \<times> 's user_db) startup" where
  "user_main_5a env G listen sserve =
     (case user_Connect_5a G (env_or env ''DATABASE_URL'' (local_dsn ''user_db'')) of
        Inl err \<Rightarrow> Fatal (''Failed to connect to database: '' @ err)
      | Inr db \<Rightarrow>
          (let grpcPort = env_or env ''GRPC_PORT'' ''9091''; lis = '':'' @ grpcPort
           in case listen lis of
                Some err \<Rightarrow> Fatal (''Failed to listen on gRPC port '' @ grpcPort @ '': '' @ err)
              | None \<Rightarrow>
                  (case sserve lis of
                     Some err \<Rightarrow> Fatal (''gRPC server failed: '' @ err)
                   | None \<Rightarrow> Serving lis (UserService_ServiceDesc NewUserServer_5a, db))))"

definition menu_main_5a ::
  "(string \<Rightarrow> string) \<Rightarrow> 's menu_db gorm_driver \<Rightarrow> (string \<Rightarrow> string option) \<Rightarrow> (string \<Rightarrow> string option)
   \<Rightarrow> ('s menu_db service_desc \<times> 's menu_db) startup" where
  "menu_main_5a env G listen sserve =
     (case menu_Connect_5a G (env_or env ''DATABASE_URL'' (local_dsn ''menu_db'')) of
        Inl err \<Rightarrow> Fatal (''Failed to connect to database: '' @ err)
      | Inr db \<Rightarrow>
          (let grpcPort = env_or env ''GRPC_PORT'' ''9092''; lis = '':'' @ grpcPort
           in case listen lis of
                Some err \<Rightarrow> Fatal (''Failed to listen on gRPC port '' @ grpcPort @ '': '' @ err)
              | None \<Rightarrow>
                  (case sserve lis of
                     Some err \<Rightarrow> Fatal (''gRPC server failed: '' @ err)
                   | None \<Rightarrow> Serving lis (MenuService_ServiceDesc NewMenuServer_5a, db))))"

definition order_main_5a ::
  "(string \<Rightarrow> string) \<Rightarrow> (goerror \<Rightarrow> string) \<Rightarrow> (string \<Rightarrow> string + 'w ClientConn) \<Rightarrow> 's order_db gorm_driver
   \<Rightarrow> (string \<Rightarrow> string option) \<Rightarrow> (string \<Rightarrow> string option)
   \<Rightarrow> (('w \<times> 's order_db) service_desc \<times> 's order_db) startup" where
  "order_main_5a env err_text dial G listen sserve =
     (case order_Connect_5a G (env_or env ''DATABASE_URL'' (local_dsn ''order_db'')) of
        Inl err \<Rightarrow> Fatal (''Failed to connect to database: '' @ err)
      | Inr db \<Rightarrow>
          (let grpcPort = env_or env ''GRPC_PORT'' ''9093''; lis = '':'' @ grpcPort
           in case listen lis of
                Some err \<Rightarrow> Fatal (''Failed to listen on gRPC port '' @ grpcPort @ '': '' @ err)
              | None \<Rightarrow>
                  (let userServiceAddr = env_or env ''USER_SERVICE_GRPC_ADDR'' ''user-service:9091'';
                       menuServiceAddr = env_or env ''MENU_SERVICE_GRPC_ADDR'' ''menu-service:9092''
                   in case NewOrderServer_5a dial userServiceAddr menuServiceAddr of
                        Inl err \<Rightarrow> Fatal (''Failed to create gRPC order server: '' @ err)
                      | Inr orderServer \<Rightarrow>
                          (case sserve lis of
                             Some err \<Rightarrow> Fatal (''gRPC server failed: '' @ err)
                           | None \<Rightarrow> Serving lis (OrderService_ServiceDesc (OrderServer_methods_5a err_text orderServer), db)))))"

subsection \<open>The later programs\<close>

lemma modelToProtos_5a [simp]:
  "user_modelToProto_5a = user_modelToProto" "menu_modelToProto_5a = menu_modelToProto"
  by (simp_all add: fun_eq_iff user_modelToProto_5a_def user_modelToProto_def menu_modelToProto_5a_def menu_modelToProto_def)

lemma user_methods_5a [simp]:
  "UserServer_CreateUser_5a = UserServer_CreateUser" "UserServer_GetUser_5a = UserServer_GetUser"
  "UserServer_GetUsers_5a = UserServer_GetUsers"
  by (unfold UserServer_CreateUser_5a_def UserServer_GetUser_5a_def UserServer_GetUsers_5a_def UserServer_defs
      modelToProtos_5a, (rule refl)+)

lemma menu_methods_5a [simp]:
  "MenuServer_GetMenuItem_5a = MenuServer_GetMenuItem" "MenuServer_GetMenu_5a = MenuServer_GetMenu"
  "MenuServer_CreateMenuItem_5a = MenuServer_CreateMenuItem"
  by (unfold MenuServer_GetMenuItem_5a_def MenuServer_GetMenu_5a_def MenuServer_CreateMenuItem_5a_def MenuServer_defs
      modelToProtos_5a, (rule refl)+)

lemma servers_5a [simp]: "NewUserServer_5a = NewUserServer" "NewMenuServer_5a = NewMenuServer"
  by (simp_all add: NewUserServer_5a_def NewUserServer_def NewMenuServer_5a_def NewMenuServer_def)

lemma connect_5a [simp]:
  "user_Connect_5a = user_Connect" "menu_Connect_5a = menu_Connect" "order_Connect_5a = order_Connect"
  by (simp_all add: fun_eq_iff user_Connect_5a_def user_Connect_def menu_Connect_5a_def menu_Connect_def
      order_Connect_5a_def order_Connect_def)

lemma OrderServer_5a_eq [simp]: "OrderServer_methods_5a err_text srv = OrderServer_methods err_text (exported srv)"
  by (simp add: OrderServer_methods_5a_def OrderServer_methods_def fun_eq_iff CreateOrder_5a_eq GetOrders_5a_eq GetOrder_5a_eq)

text \<open>
  The three programs: with every environment, database, network and client they stop with the same
  message as those of \<open>practical6-example\<close> or serve the same methods at the same address.
\<close>

lemma mains_5a:
  "user_main_5a env Gu listen sserve = user_main env Gu listen sserve"
  "menu_main_5a env Gm listen sserve = menu_main env Gm listen sserve"
  "order_main_5a env err_text dial Go listen sserve = order_main env err_text dial Go listen sserve"
proof -
  show "order_main_5a env err_text dial Go listen sserve = order_main env err_text dial Go listen sserve"
    by (simp add: order_main_5a_def order_main_def NewOrderServer_exported [symmetric] Let_def split: sum.split option.split)
  show "user_main_5a env Gu listen sserve = user_main env Gu listen sserve"
    unfolding user_main_5a_def user_main_def servers_5a connect_5a by (rule refl)
  show "menu_main_5a env Gm listen sserve = menu_main env Gm listen sserve"
    unfolding menu_main_5a_def menu_main_def servers_5a connect_5a by (rule refl)
qed

text \<open>
  C18: The stage before implements the specification as well. When the three services of
  \<open>practical5a\<close> start with an unset environment, and the host names of the user and the menu service
  lead to them, then whatever the network does to a call of the order service: an order it accepts is
  the one \<open>place_order\<close> prescribes for the users and prices of that moment, stored under a fresh key
  and answered with that key and that data; a request that \<open>place_order\<close> refuses gets an error and
  stores nothing.
\<close>

theorem practical5a_places_orders:
  assumes unset: "\<forall>v. env v = []"
    and user: "user_main_5a env Gu listen_u sserve_u = Serving ua (ud, udb)"
    and menu: "menu_main_5a env Gm listen_m sserve_m = Serving ma (md, mdb)"
    and order: "order_main_5a env (tp_err_text T) dial Go listen_o sserve_o = Serving oa (od, odb)"
    and dial: "dial (''user-service'' @ ua) = Inr (connect T user_db (\<lambda>s. user_db_update (\<lambda>_. s)) ud)"
      "dial (''menu-service'' @ ma) = Inr (connect T menu_db (\<lambda>s. menu_db_update (\<lambda>_. s)) md)"
    and ok: "backends_ok w" "gorm_ok order_cols (order_db w)"
    and call: "oc_CreateOrder (NewOrderServiceClient (connect T order_state put_order_state od)) req w = (x, w')"
  shows "(\<forall>p. x = Inr p \<longrightarrow> (\<exists>ord k. place_order (known_user w) (menu_price w) req = Some ord \<and>
      k \<noteq> 0 \<and> order_rows (order_db w) k = None \<and> order_rows (order_db w') = (order_rows (order_db w))(k \<mapsto> order_cols ord) \<and>
      map_option proto_order_data (co_order p) = Some (uint32_of_uint k, narrow_order (order_cols ord)))) \<and>
    (place_order (known_user w) (menu_price w) req = None \<longrightarrow>
      (\<exists>e. x = Inl e) \<and> order_rows (order_db w') = order_rows (order_db w))"
proof -
  have u: "ua = '':9091''" "ud = UserService_ServiceDesc NewUserServer"
    using user_main_serving [OF _ user [unfolded mains_5a]] unset by auto
  have m: "ma = '':9092''" "md = MenuService_ServiceDesc NewMenuServer"
    using menu_main_serving [OF _ menu [unfolded mains_5a]] unset by auto
  obtain srv where srv: "NewOrderServer dial ''user-service:9091'' ''menu-service:9092'' = Inr srv"
    and o: "od = OrderService_ServiceDesc (OrderServer_methods (tp_err_text T) srv)"
    using order_main_serving [OF _ _ _ order [unfolded mains_5a]] unset by auto
  have "dial ''user-service:9091'' = Inr (user_conn T)" "dial ''menu-service:9092'' = Inr (menu_conn T)"
    using dial by (simp_all add: u m user_conn_def menu_conn_def)
  with srv have "srv = order_server T" by (simp add: NewOrderServer_def order_server_def)
  with call have "oc_CreateOrder (NewOrderServiceClient (order_conn T)) req w = (x, w')" by (simp add: o order_conn_def)
  from CreateOrder_call [OF ok this] show ?thesis .
qed

theorem practical5a_places_orders_witness:
  "\<exists>k. k \<noteq> 0 \<and> order_rows (order_db demo2) k = None \<and> order_rows (order_db demo3) k \<noteq> None"
proof -
  let ?od = "OrderService_ServiceDesc (OrderServer_methods (tp_err_text perfect) (order_server perfect))"
  have ok: "backends_ok demo2" using demo_up(3) by (simp add: backends_up_def)
  have call: "oc_CreateOrder (NewOrderServiceClient (connect perfect order_state put_order_state ?od)) demo_request demo2 =
      (Inr \<lparr>co_order = Some (order_modelToProto two_coffees)\<rparr>, demo3)"
    using demo_order_call by (simp add: order_conn_def)
  note placed = practical5a_places_orders [OF _ demo_mains(1-3) [folded mains_5a] _ _ ok demo_up(5) call]
  show ?thesis using placed by (fastforce simp: demo_dial_def user_conn_def menu_conn_def)
qed



end
