(* ===== verification/Consul.thy ===== *)
theory Consul
  imports Chi
begin

text \<open>
  Service discovery. Consul and its client library are not part of the repository: an agent is a
  parameter, a record of the calls the programs make with the state they act on. What the
  programs rely on is \<open>consul_law\<close>: a registration that succeeds replaces the registration with
  the same identifier and leaves the checks of the others alone; the check of a new identifier starts
  critical, and passes only once the agent has run it, which it does by itself (a change of the state
  that leaves the registrations alone). A registration that fails has the same effect or none. A
  query for healthy instances answers, when it answers, with the registered instances of the name
  whose check passes. \<open>mem_consul\<close> is an agent that obeys the law.
\<close>

record registration =
  reg_ID :: string
  reg_Name :: string
  reg_Port :: nat
  reg_Address :: string
  check_HTTP :: string
  check_Interval :: string
  check_Timeout :: string

type_synonym instance_addr = "string \<times> nat"

text \<open>
  \<open>cNewClient\<close> is the error of \<open>consulapi.NewClient\<close> for an agent address (empty for the default),
  \<open>cRegister\<close> is \<open>Agent().ServiceRegister\<close>, \<open>cHealth\<close> is \<open>Health().Service(name, "", true, nil)\<close>,
  \<open>cServices\<close> the registrations by identifier, and \<open>cPasses\<close> whether the agent has the check of an
  identifier down as passing.
\<close>

record 'c consul =
  cState :: 'c
  cNewClient :: "string \<Rightarrow> string option"
  cRegister :: "registration \<Rightarrow> 'c \<Rightarrow> string option \<times> 'c"
  cHealth :: "string \<Rightarrow> 'c \<Rightarrow> string + instance_addr list"
  cServices :: "'c \<Rightarrow> string \<Rightarrow> registration option"
  cPasses :: "'c \<Rightarrow> string \<Rightarrow> bool"

definition consul_registered :: "'c consul \<Rightarrow> registration \<Rightarrow> 'c \<Rightarrow> 'c \<Rightarrow> bool" where
  "consul_registered C r c c' \<longleftrightarrow>
     cServices C c' = (cServices C c)(reg_ID r \<mapsto> r) \<and>
     (\<forall>i. i \<noteq> reg_ID r \<longrightarrow> cPasses C c' i = cPasses C c i) \<and>
     (cServices C c (reg_ID r) = None \<longrightarrow> \<not> cPasses C c' (reg_ID r))"

definition consul_law :: "'c consul \<Rightarrow> bool" where
  "consul_law C \<longleftrightarrow>
     (\<forall>r c c'. cRegister C r c = (None, c') \<longrightarrow> consul_registered C r c c') \<and>
     (\<forall>r c err c'. cRegister C r c = (Some err, c') \<longrightarrow>
        cServices C c' = cServices C c \<and> cPasses C c' = cPasses C c \<or> consul_registered C r c c') \<and>
     (\<forall>n c xs. cHealth C n c = Inr xs \<longrightarrow>
        set xs = {(reg_Address r, reg_Port r) | i r. cServices C c i = Some r \<and> reg_Name r = n \<and> cPasses C c i})"

text \<open>\<open>fmt.Sprintf("http://%s:%d", addr, port)\<close>\<close>

definition http_url :: "instance_addr \<Rightarrow> string" where
  "http_url a = ''http://'' @ fst a @ '':'' @ dec_of_nat (snd a)"

lemma consul_law_state [simp]: "consul_law (C\<lparr>cState := c\<rparr>) = consul_law C"
  by (simp add: consul_law_def consul_registered_def)

lemma consul_register:
  assumes "consul_law C" and "cRegister C r c = (None, c')"
  shows "cServices C c' = (cServices C c)(reg_ID r \<mapsto> r)" 
    and "i \<noteq> reg_ID r \<Longrightarrow> cPasses C c' i = cPasses C c i"
    and "cServices C c (reg_ID r) = None \<Longrightarrow> \<not> cPasses C c' (reg_ID r)"
  using assms unfolding consul_law_def consul_registered_def by blast+

lemma consul_register_any:
  assumes "consul_law C" and "cRegister C r c = (x, c')"
  shows "cServices C c' = cServices C c \<or> cServices C c' = (cServices C c)(reg_ID r \<mapsto> r)"
  using assms unfolding consul_law_def consul_registered_def by (cases x) blast+

lemma consul_health:
  assumes "consul_law C" and "cHealth C n c = Inr xs"
  shows "set xs = {(reg_Address r, reg_Port r) | i r. cServices C c i = Some r \<and> reg_Name r = n \<and> cPasses C c i}"
  using assms unfolding consul_law_def by blast

subsection \<open>Registering and finding a service\<close>

text \<open>
  The programs share two routines: one that looks up an instance of a name, and one that registers
  the program. \<open>finder\<close> and \<open>registrar\<close> state what each promises; \<open>discovered\<close> is a program that
  can be found by another. \<open>url_of\<close> is what the caller makes of the address of an instance.
\<close>

locale finder =
  fixes find_instance :: "'c consul \<Rightarrow> string \<Rightarrow> string + string"
    and agent :: string
    and url_of :: "string \<Rightarrow> string + string"
  assumes finds: "find_instance C name = Inr u \<longleftrightarrow>
      cNewClient C agent = None \<and> (\<exists>a as. cHealth C name (cState C) = Inr (a # as) \<and> url_of (http_url a) = Inr u)"
begin

lemma found_registered:
  assumes "consul_law C" and "find_instance C name = Inr u"
  obtains i r where "cServices C (cState C) i = Some r" and "reg_Name r = name"
    and "cPasses C (cState C) i" and "url_of (http_url (reg_Address r, reg_Port r)) = Inr u"
proof -
  from assms(2) obtain a as where h: "cHealth C name (cState C) = Inr (a # as)" and u: "url_of (http_url a) = Inr u"
    unfolding finds by blast
  have "a \<in> set (a # as)" by simp
  then obtain i r where "cServices C (cState C) i = Some r" "reg_Name r = name"
    "cPasses C (cState C) i" "a = (reg_Address r, reg_Port r)"
    unfolding consul_health [OF assms(1) h] by blast
  with u that show ?thesis by blast
qed

lemma unregistered_not_found:
  assumes "consul_law C"
    and "\<And>i r. cServices C (cState C) i = Some r \<Longrightarrow> reg_Name r = name \<Longrightarrow> \<not> cPasses C (cState C) i"
  shows "\<exists>err. find_instance C name = Inl err"
proof (cases "find_instance C name")
  case (Inr u)
  from found_registered [OF assms(1) this] assms(2) show ?thesis by blast
qed blast

lemma sole_found:
  assumes law: "consul_law C" and client: "cNewClient C agent = None"
    and r: "cServices C (cState C) i = Some r" "cPasses C (cState C) i"
    and sole: "\<And>j r'. cServices C (cState C) j = Some r' \<Longrightarrow> reg_Name r' = reg_Name r \<Longrightarrow>
      reg_Address r' = reg_Address r \<and> reg_Port r' = reg_Port r"
    and answers: "cHealth C (reg_Name r) (cState C) = Inr xs"
    and url: "url_of (http_url (reg_Address r, reg_Port r)) = Inr u"
  shows "find_instance C (reg_Name r) = Inr u"
proof -
  have "(reg_Address r, reg_Port r) \<in> set xs"
    unfolding consul_health [OF law answers] using r by blast
  moreover have "b = (reg_Address r, reg_Port r)" if "b \<in> set xs" for b
    using that sole unfolding consul_health [OF law answers] by auto
  ultimately obtain as where "xs = (reg_Address r, reg_Port r) # as" by (cases xs) auto
  with answers url client show ?thesis by (simp add: finds)
qed

end

locale registrar =
  fixes register :: "'c consul \<Rightarrow> 'c consul"
    and agent :: string
    and registration :: registration
  assumes registers: "cNewClient C agent = None \<Longrightarrow> cRegister C registration (cState C) = (None, c) \<Longrightarrow>
      register C = C\<lparr>cState := c\<rparr>"
begin

lemma register_effect:
  assumes "consul_law C" and "cNewClient C agent = None" and "cRegister C registration (cState C) = (None, c)"
  shows "cServices C (cState (register C)) = (cServices C (cState C))(reg_ID registration \<mapsto> registration)"
    and "i \<noteq> reg_ID registration \<Longrightarrow> cPasses C (cState (register C)) i = cPasses C (cState C) i"
    and "cServices C (cState C) (reg_ID registration) = None \<Longrightarrow> \<not> cPasses C (cState (register C)) (reg_ID registration)"
  using registers [OF assms(2,3)] consul_register [OF assms(1,3)] by simp_all

end

text \<open>
  A program that has registered is found at its own address, by every program that asks the same
  agent, once its check passes, if it is the only one of its name; before that nobody finds it.
\<close>

locale discovered = registrar register agent registration + finder find_instance agent' url_of
  for register :: "'c consul \<Rightarrow> 'c consul" and agent registration
    and find_instance :: "'c consul \<Rightarrow> string \<Rightarrow> string + string" and agent' url_of
begin

lemma registered_then_found:
  assumes law: "consul_law C" and client: "cNewClient C agent = None" "cNewClient C agent' = None"
    and reg: "cRegister C registration (cState C) = (None, c)"
    and sole: "\<And>i r. cServices C (cState C) i = Some r \<Longrightarrow> reg_Name r = reg_Name registration \<Longrightarrow>
      reg_Address r = reg_Address registration \<and> reg_Port r = reg_Port registration"
    and moved: "cServices C c' = cServices C c" and pass: "cPasses C c' (reg_ID registration)"
    and answers: "cHealth C (reg_Name registration) c' = Inr xs"
    and url: "url_of (http_url (reg_Address registration, reg_Port registration)) = Inr u"
  shows "find_instance ((register C)\<lparr>cState := c'\<rparr>) (reg_Name registration) = Inr u"
proof -
  have C': "(register C)\<lparr>cState := c'\<rparr> = C\<lparr>cState := c'\<rparr>" by (simp add: registers [OF client(1) reg])
  note eff = consul_register [OF law reg]
  show ?thesis unfolding C'
    by (rule sole_found [where i = "reg_ID registration" and xs = xs])
      (use law client sole pass answers url in \<open>auto simp: moved eff split: if_splits\<close>)
qed

lemma registered_not_yet_found:
  assumes law: "consul_law C" and client: "cNewClient C agent = None"
    and reg: "cRegister C registration (cState C) = (None, c)"
    and new: "cServices C (cState C) (reg_ID registration) = None"
    and only: "\<And>i r. cServices C (cState C) i = Some r \<Longrightarrow> reg_Name r \<noteq> reg_Name registration"
  shows "\<exists>err. find_instance (register C) (reg_Name registration) = Inl err"
proof (rule unregistered_not_found)
  note eff = consul_register [OF law reg]
  show "consul_law (register C)" by (simp add: registers [OF client reg] law)
  show "\<not> cPasses (register C) (cState (register C)) i"
    if "cServices (register C) (cState (register C)) i = Some r" and "reg_Name r = reg_Name registration" for i r
    using that only eff(3) [OF new] by (auto simp: registers [OF client reg] eff(1) split: if_splits)
qed

end

subsection \<open>An agent in memory\<close>

text \<open>The state: the registrations, and the identifiers whose check passes.\<close>

definition mem_consul :: "(registration list \<times> string list) consul" where
  "mem_consul =
     \<lparr>cState = ([], []), cNewClient = (\<lambda>_. None),
      cRegister = (\<lambda>r (c, up). (None, (r # filter (\<lambda>x. reg_ID x \<noteq> reg_ID r) c, filter (\<lambda>i. i \<noteq> reg_ID r) up))),
      cHealth = (\<lambda>n (c, up). Inr (map (\<lambda>r. (reg_Address r, reg_Port r))
        (filter (\<lambda>r. reg_Name r = n \<and> reg_ID r \<in> set up \<and> find (\<lambda>x. reg_ID x = reg_ID r) c = Some r) c))),
      cServices = (\<lambda>(c, up) i. find (\<lambda>x. reg_ID x = i) c), cPasses = (\<lambda>(c, up) i. i \<in> set up)\<rparr>"

lemma find_filter_other: "i \<noteq> j \<Longrightarrow> find (\<lambda>x. reg_ID x = i) (filter (\<lambda>x. reg_ID x \<noteq> j) c) = find (\<lambda>x. reg_ID x = i) c"
  by (induction c) auto

lemma mem_consul_law: "consul_law mem_consul"
proof -
  have "find (\<lambda>x. reg_ID x = i) c = Some r \<Longrightarrow> r \<in> set c \<and> reg_ID r = i" for i c r
    by (auto simp: find_Some_iff in_set_conv_nth)
  then show ?thesis
    by (auto simp: consul_law_def consul_registered_def mem_consul_def fun_eq_iff find_filter_other image_iff split: prod.splits)
qed

end
