(* ===== verification/Discovery_Gateway.thy ===== *)
theory Discovery_Gateway
  imports Consul
begin

text \<open>
  \<open>practical2\<close>: a gateway that finds its services through Consul (\<open>api-gateway/main.go\<close>), and the
  two services behind it (\<open>services/users-service/main.go\<close>, \<open>services/products-service/main.go\<close>).

  \<open>parse_url\<close> is \<open>url.Parse\<close> on the address of an instance. The gateway runs behind Go's default mux,
  which hands every clean path to it.
\<close>

subsection \<open>The gateway\<close>

definition discoverService :: "'c consul \<Rightarrow> (string \<Rightarrow> string + string) \<Rightarrow> string \<Rightarrow> string + string" where
  "discoverService C parse_url name =
     (case cNewClient C [] of
        Some err \<Rightarrow> Inl err
      | None \<Rightarrow>
          (case cHealth C name (cState C) of
             Inl err \<Rightarrow> Inl (''could not query Consul for service '' @ [CHR 0x27] @ name @ [CHR 0x27] @ '': '' @ err)
           | Inr [] \<Rightarrow> Inl (''no healthy instances of service '' @ [CHR 0x27] @ name @ [CHR 0x27] @ '' found in Consul'')
           | Inr (service # _) \<Rightarrow> parse_url (http_url service)))"

definition routeRequest ::
  "'c consul \<Rightarrow> (string \<Rightarrow> string + string) \<Rightarrow> 'w send \<Rightarrow> string \<Rightarrow> string \<Rightarrow> request_body \<Rightarrow> 'w \<Rightarrow> response \<times> 'w" where
  "routeRequest C parse_url send m path body w =
     (let pathSegments = Split (TrimPrefix path ''/'') (CHR ''/'')
      in if length pathSegments < 3 \<or> pathSegments ! 0 \<noteq> ''api''
         then (http_Error ''Invalid request path'' StatusBadRequest, w)
         else
           (let serviceName = pathSegments ! 1 @ ''-service''
            in case discoverService C parse_url serviceName of
                 Inl err \<Rightarrow> (http_Error err StatusServiceUnavailable, w)
               | Inr serviceURL \<Rightarrow>
                   reverse_proxy send serviceURL m (''/'' @ Join (tl pathSegments) ''/'') body w))"

text \<open>\<open>main\<close>: \<open>listen\<close> is the error of \<open>http.ListenAndServe\<close>.\<close>

definition discovery_main ::
  "'c consul \<Rightarrow> (string \<Rightarrow> string + string) \<Rightarrow> 'w send \<Rightarrow> (string \<Rightarrow> string option)
   \<Rightarrow> (string \<Rightarrow> string \<Rightarrow> request_body \<Rightarrow> 'w \<Rightarrow> response \<times> 'w) startup" where
  "discovery_main C parse_url send listen =
     (case listen '':8080'' of
        Some err \<Rightarrow> Fatal (''Failed to start API Gateway: '' @ err)
      | None \<Rightarrow> Serving '':8080'' (routeRequest C parse_url send))"

subsection \<open>The two services\<close>

text \<open>
  A body written with \<open>Fprintf\<close> gets the content type \<open>net/http\<close> detects: for the texts of these
  services, which start with a letter and are no markup, plain text unless a byte is binary.
\<close>

definition binary_byte :: "char \<Rightarrow> bool" where
  "binary_byte c \<longleftrightarrow> (let n = (of_char c :: nat) in n \<le> 8 \<or> n = 11 \<or> 14 \<le> n \<and> n \<le> 26 \<or> 28 \<le> n \<and> n \<le> 31)"

definition text_reply :: "string \<Rightarrow> response" where
  "text_reply s =
     \<lparr>status = StatusOK,
      content_type = (if \<exists>c \<in> set (take 512 s). binary_byte c then ''application/octet-stream'' else ''text/plain; charset=utf-8''),
      payload = PText s\<rparr>"

definition quoted :: "string \<Rightarrow> string" where
  "quoted s = [CHR 0x27] @ s @ [CHR 0x27]"

definition getUserHandler :: "'w http_handler" where
  "getUserHandler userID body w =
     (text_reply (''Response from '' @ quoted ''users-service'' @ '': Details for user '' @ userID @ newline), w)"

definition getProductHandler :: "'w http_handler" where
  "getProductHandler productID body w =
     (text_reply (''Response from '' @ quoted ''products-service'' @ '': Details for product '' @ productID @ newline), w)"

definition users_healthCheckHandler :: "'w http_handler" where
  "users_healthCheckHandler param body w = (text_reply (''Service is healthy'' @ newline), w)"

definition products_healthCheckHandler :: "'w http_handler" where
  "products_healthCheckHandler param body w = (text_reply (''Service is healthy'' @ newline), w)"

text \<open>\<open>hostname\<close> is \<open>os.Hostname()\<close>, an error or a name.\<close>

definition service_registration :: "string \<Rightarrow> nat \<Rightarrow> string \<Rightarrow> registration" where
  "service_registration name port host =
     \<lparr>reg_ID = name @ ''-'' @ host, reg_Name = name, reg_Port = port, reg_Address = ''localhost'',
      check_HTTP = http_url (host, port) @ ''/health'', check_Interval = ''10s'', check_Timeout = ''1s''\<rparr>"

definition users_registerServiceWithConsul :: "'c consul \<Rightarrow> string + string \<Rightarrow> string option \<times> 'c consul" where
  "users_registerServiceWithConsul C hostname =
     (case cNewClient C [] of
        Some err \<Rightarrow> (Some err, C)
      | None \<Rightarrow>
          (case hostname of
             Inl err \<Rightarrow> (Some err, C)
           | Inr host \<Rightarrow>
               (case cRegister C (service_registration ''users-service'' 8081 host) (cState C) of
                  (x, c) \<Rightarrow> (x, C\<lparr>cState := c\<rparr>))))"

definition products_registerServiceWithConsul :: "'c consul \<Rightarrow> string + string \<Rightarrow> string option \<times> 'c consul" where
  "products_registerServiceWithConsul C hostname =
     (case cNewClient C [] of
        Some err \<Rightarrow> (Some err, C)
      | None \<Rightarrow>
          (case hostname of
             Inl err \<Rightarrow> (Some err, C)
           | Inr host \<Rightarrow>
               (case cRegister C (service_registration ''products-service'' 8082 host) (cState C) of
                  (x, c) \<Rightarrow> (x, C\<lparr>cState := c\<rparr>))))"

definition users_routes :: "'w routes" where
  "users_routes =
     [((''GET'', ''/health''), users_healthCheckHandler),
      ((''GET'', ''/users/{id}''), getUserHandler)]"

definition products_routes :: "'w routes" where
  "products_routes =
     [((''GET'', ''/health''), products_healthCheckHandler),
      ((''GET'', ''/products/{id}''), getProductHandler)]"

definition users_main ::
  "'c consul \<Rightarrow> string + string \<Rightarrow> (string \<Rightarrow> string option) \<Rightarrow> 'w routes startup \<times> 'c consul" where
  "users_main C hostname listen =
     (case users_registerServiceWithConsul C hostname of
        (Some err, C') \<Rightarrow> (Fatal (''Failed to register service with Consul: '' @ err), C')
      | (None, C') \<Rightarrow>
          (case listen '':8081'' of
             Some err \<Rightarrow> (Fatal (''Failed to start server for service '' @ quoted ''users-service'' @ '': '' @ err), C')
           | None \<Rightarrow> (Serving '':8081'' users_routes, C')))"

definition products_main ::
  "'c consul \<Rightarrow> string + string \<Rightarrow> (string \<Rightarrow> string option) \<Rightarrow> 'w routes startup \<times> 'c consul" where
  "products_main C hostname listen =
     (case products_registerServiceWithConsul C hostname of
        (Some err, C') \<Rightarrow> (Fatal (''Failed to register service with Consul: '' @ err), C')
      | (None, C') \<Rightarrow>
          (case listen '':8082'' of
             Some err \<Rightarrow> (Fatal (''Failed to start server for service '' @ quoted ''products-service'' @ '': '' @ err), C')
           | None \<Rightarrow> (Serving '':8082'' products_routes, C')))"


subsection \<open>The interfaces of the three programs\<close>

interpretation gateway_finder: finder "\<lambda>C. discoverService C parse_url" "[]" parse_url for parse_url
  by unfold_locales (auto simp: discoverService_def split: option.splits sum.splits list.splits)

interpretation users_found:
  discovered "\<lambda>C. snd (users_registerServiceWithConsul C (Inr host))" "[]" "service_registration ''users-service'' 8081 host"
    "\<lambda>C. discoverService C parse_url" "[]" parse_url
  for host parse_url
  by unfold_locales (simp add: users_registerServiceWithConsul_def)

interpretation products_found:
  discovered "\<lambda>C. snd (products_registerServiceWithConsul C (Inr host))" "[]" "service_registration ''products-service'' 8082 host"
    "\<lambda>C. discoverService C parse_url" "[]" parse_url
  for host parse_url
  by unfold_locales (simp add: products_registerServiceWithConsul_def)

text \<open>The segments of the paths the gateway routes.\<close>

lemma api_segments:
  "CHR ''/'' \<notin> set svc \<Longrightarrow>
   Split (TrimPrefix (''/api/'' @ svc @ ''/'' @ rest) ''/'') (CHR ''/'') = ''api'' # svc # Split rest (CHR ''/'')"
  using Split_append_sep [of "CHR ''/''" svc rest] by (simp add: TrimPrefix_def)

lemma api_segments_iff:
  "length (Split s (CHR ''/'')) \<ge> 3 \<and> Split s (CHR ''/'') ! 0 = ''api'' \<longleftrightarrow>
   (\<exists>svc rest. CHR ''/'' \<notin> set svc \<and> s = ''api/'' @ svc @ ''/'' @ rest)" (is "?L \<longleftrightarrow> ?R")
proof
  assume ?L
  then obtain svc x xs where sp: "Split s (CHR ''/'') = ''api'' # svc # x # xs"
    by (auto simp: numeral_eq_Suc Suc_le_length_iff)
  have "s = ''api'' @ ''/'' @ svc @ ''/'' @ Join (x # xs) ''/''"
    using Join_Split [of s "CHR ''/''"] unfolding sp by (simp add: Join_Cons)
  moreover have "CHR ''/'' \<notin> set svc" using Split_segments [of svc s "CHR ''/''"] sp by simp
  ultimately show ?R by auto
next
  assume ?R
  then obtain svc rest where "CHR ''/'' \<notin> set svc" "s = ''api/'' @ svc @ ''/'' @ rest" by blast
  with api_segments [of svc rest] have "Split s (CHR ''/'') = ''api'' # svc # Split rest (CHR ''/'')"
    by (simp add: TrimPrefix_def)
  then show ?L using Split_nonempty [of rest "CHR ''/''"] by (cases "Split rest (CHR ''/'')") auto
qed

lemma routeRequest_api:
  assumes "CHR ''/'' \<notin> set svc"
  shows "routeRequest C parse_url send m (''/api/'' @ svc @ ''/'' @ rest) body w =
    (case discoverService C parse_url (svc @ ''-service'') of
       Inl err \<Rightarrow> (http_Error err StatusServiceUnavailable, w)
     | Inr u \<Rightarrow> reverse_proxy send u m (''/'' @ svc @ ''/'' @ rest) body w)"
proof -
  have "Join (svc # Split rest (CHR ''/'')) ''/'' = svc @ ''/'' @ rest"
    using Join_Split [of rest "CHR ''/''"] by (simp add: Join_Cons)
  moreover have "\<not> length (''api'' # svc # Split rest (CHR ''/'')) < 3"
    using Split_nonempty [of rest "CHR ''/''"] by (cases "Split rest (CHR ''/'')") auto
  ultimately show ?thesis
    unfolding routeRequest_def api_segments [OF assms] by (simp add: Let_def split: sum.split)
qed

lemma users_route:
  assumes "chi_law chi" and "segment i"
  shows "serve chi miss users_routes ''GET'' (''/users/'' @ i) body w = getUserHandler i body w"
  by (rule serve_param [OF assms(1), where p = "''/users/{id}''"])
    (use assms(2) in \<open>auto simp: users_routes_def matches_def param_pattern_def literal_def segment_def\<close>)

lemma products_route:
  assumes "chi_law chi" and "segment i"
  shows "serve chi miss products_routes ''GET'' (''/products/'' @ i) body w = getProductHandler i body w"
  by (rule serve_param [OF assms(1), where p = "''/products/{id}''"])
    (use assms(2) in \<open>auto simp: products_routes_def matches_def param_pattern_def literal_def segment_def\<close>)

text \<open>A service that is serving has registered, and is found at its own address.\<close>

lemma users_main_serving:
  assumes "users_main C (Inr host) listen = (Serving addr rs, C')"
  obtains c where "rs = users_routes" and "cNewClient C [] = None" and "C' = C\<lparr>cState := c\<rparr>"
    and "cRegister C (service_registration ''users-service'' 8081 host) (cState C) = (None, c)"
  using assms by (auto simp: users_main_def users_registerServiceWithConsul_def split: option.splits prod.splits)

lemma products_main_serving:
  assumes "products_main C (Inr host) listen = (Serving addr rs, C')"
  obtains c where "rs = products_routes" and "cNewClient C [] = None" and "C' = C\<lparr>cState := c\<rparr>"
    and "cRegister C (service_registration ''products-service'' 8082 host) (cState C) = (None, c)"
  using assms by (auto simp: products_main_def products_registerServiceWithConsul_def split: option.splits prod.splits)

lemma service_registration_simps [simp]:
  "reg_Name (service_registration n p h) = n" "reg_Address (service_registration n p h) = ''localhost''"
  "reg_Port (service_registration n p h) = p" "check_HTTP (service_registration n p h) = http_url (h, p) @ ''/health''"
  by (simp_all add: service_registration_def)

lemma api_path_unique:
  assumes "CHR ''/'' \<notin> set svc" and "CHR ''/'' \<notin> set svc'" and "''api/'' @ svc @ ''/'' @ rest = ''api/'' @ svc' @ ''/'' @ rest'"
  shows "svc = svc' \<and> rest = rest'"
  using assms Split_append_sep [of "CHR ''/''" svc rest] Split_append_sep [of "CHR ''/''" svc' rest'] by auto

text \<open>An agent with one users service, and a network that answers with the address it was asked at.\<close>

definition one_user_agent :: "(registration list \<times> string list) consul" where
  "one_user_agent = mem_consul\<lparr>cState := ([service_registration ''users-service'' 8081 ''h1''], [''users-service-h1''])\<rparr>"

definition echo_send :: "nat send" where
  "echo_send target m path body w = (Some (text_reply (target @ path)), Suc w)"

lemma one_user_agent_law: "consul_law one_user_agent"
  by (simp add: one_user_agent_def mem_consul_law)

lemma one_user_found: "discoverService one_user_agent Inr ''users-service'' = Inr ''http://localhost:8081''"
  by (simp add: discoverService_def one_user_agent_def mem_consul_def service_registration_def http_url_def
      dec_of_nat.simps digit_char_def)

subsection \<open>Properties\<close>

text \<open>
  C38: What the discovering gateway does with a request, whatever the agent answers. A path that is
  not \<open>/api/<service>/<rest>\<close> is answered 400. Otherwise the request goes to the address of an
  instance that is registered under \<open><service>-service\<close> and passes its check, with \<open>/api\<close> removed
  from the path, and the answer is that of the instance (502 if it cannot be reached); or no
  instance could be found and the answer is 503. In the first and last case nothing is sent.
\<close>

theorem discovery_routing:
  assumes "consul_law C" and "routeRequest C parse_url send m path body w = (r, w')"
  shows "(\<nexists>svc rest. CHR ''/'' \<notin> set svc \<and> TrimPrefix path ''/'' = ''api/'' @ svc @ ''/'' @ rest) \<and>
      r = http_Error ''Invalid request path'' 400 \<and> w' = w \<or>
    (\<exists>svc rest. CHR ''/'' \<notin> set svc \<and> TrimPrefix path ''/'' = ''api/'' @ svc @ ''/'' @ rest \<and>
      ((\<exists>err. discoverService C parse_url (svc @ ''-service'') = Inl err \<and> r = http_Error err 503 \<and> w' = w) \<or>
       (\<exists>i reg u. cServices C (cState C) i = Some reg \<and> reg_Name reg = svc @ ''-service'' \<and>
          cPasses C (cState C) i \<and> parse_url (http_url (reg_Address reg, reg_Port reg)) = Inr u \<and>
          (r, w') = reverse_proxy send u m (''/'' @ svc @ ''/'' @ rest) body w)))"
proof (cases "\<exists>svc rest. CHR ''/'' \<notin> set svc \<and> TrimPrefix path ''/'' = ''api/'' @ svc @ ''/'' @ rest")
  case False
  with api_segments_iff [of "TrimPrefix path ''/''"] assms(2) show ?thesis
    by (auto simp: routeRequest_def Let_def not_le)
next
  case True
  then obtain svc rest where svc: "CHR ''/'' \<notin> set svc" and path: "TrimPrefix path ''/'' = ''api/'' @ svc @ ''/'' @ rest"
    by blast
  have "TrimPrefix (''/api/'' @ svc @ ''/'' @ rest) ''/'' = TrimPrefix path ''/''"
    unfolding path by (simp add: TrimPrefix_def)
  then have "routeRequest C parse_url send m path body w =
      routeRequest C parse_url send m (''/api/'' @ svc @ ''/'' @ rest) body w"
    by (simp add: routeRequest_def)
  with assms(2) have r: "(r, w') = (case discoverService C parse_url (svc @ ''-service'') of
       Inl err \<Rightarrow> (http_Error err StatusServiceUnavailable, w)
     | Inr u \<Rightarrow> reverse_proxy send u m (''/'' @ svc @ ''/'' @ rest) body w)"
    unfolding routeRequest_api [OF svc] by simp
  show ?thesis
  proof (cases "discoverService C parse_url (svc @ ''-service'')")
    case (Inl err)
    with r svc path show ?thesis by auto
  next
    case (Inr u)
    from gateway_finder.found_registered [OF assms(1) this] obtain i reg where
      "cServices C (cState C) i = Some reg" "reg_Name reg = svc @ ''-service''"
      "cPasses C (cState C) i" "parse_url (http_url (reg_Address reg, reg_Port reg)) = Inr u" .
    with r Inr svc path show ?thesis by fastforce
  qed
qed

theorem discovery_routing_witness:
  "\<exists>i reg u. cServices one_user_agent (cState one_user_agent) i = Some reg \<and> reg_Name reg = ''users-service'' \<and>
     u = http_url (reg_Address reg, reg_Port reg) \<and>
     routeRequest one_user_agent Inr echo_send ''GET'' ''/api/users/7'' None 0 =
       reverse_proxy echo_send u ''GET'' ''/users/7'' None 0"
proof -
  let ?r = "routeRequest one_user_agent Inr echo_send ''GET'' ''/api/users/7'' None 0"
  have p: "TrimPrefix ''/api/users/7'' ''/'' = ''api/'' @ ''users'' @ ''/'' @ ''7''" by (simp add: TrimPrefix_def)
  have u: "svc = ''users'' \<and> rest = ''7''" if "CHR ''/'' \<notin> set svc" "TrimPrefix ''/api/users/7'' ''/'' = ''api/'' @ svc @ ''/'' @ rest"
    for svc rest using api_path_unique [of "''users''" svc "''7''" rest] that unfolding p by auto
  have "\<exists>svc rest. CHR ''/'' \<notin> set svc \<and> TrimPrefix ''/api/users/7'' ''/'' = ''api/'' @ svc @ ''/'' @ rest"
    by (intro exI [of _ "''users''"] exI [of _ "''7''"] conjI p) simp
  with discovery_routing [OF one_user_agent_law, of Inr echo_send "''GET''" "''/api/users/7''" None 0 "fst ?r" "snd ?r"]
  show ?thesis using u one_user_found by fastforce
qed


text \<open>A network of the two services, started on the hosts \<open>h1\<close> and \<open>h2\<close> with an agent in memory.\<close>

definition two_services :: "nat send" where
  "two_services target m path body w =
     (if target = ''http://localhost:8081'' then map_prod Some id (serve chi_ref bad_gateway users_routes m path body w)
      else if target = ''http://localhost:8082'' then map_prod Some id (serve chi_ref bad_gateway products_routes m path body w)
      else (None, w))"

definition two_agent :: "(registration list \<times> string list) consul" where
  "two_agent =
     snd (products_registerServiceWithConsul (snd (users_registerServiceWithConsul mem_consul (Inr ''h1''))) (Inr ''h2''))"

definition two_passing :: "registration list \<times> string list" where
  "two_passing = (fst (cState two_agent), [''users-service-h1'', ''products-service-h2''])"


end
