(* ===== verification/Kube_Cafe.thy ===== *)
theory Kube_Cafe
  imports Consul
begin

text \<open>
  \<open>practical4/student-cafe\<close>: an order service (\<open>order-service/main.go\<close>) and a food catalogue
  (\<open>food-catalog-service/main.go\<close>) that find each other through Consul and keep their data in
  memory. The state of the order service is its map of orders, with the agent it asks and the
  generator behind \<open>uuid.GenerateUUID\<close>, a parameter that answers with an error or an identifier.

  Both programs register in a goroutine of their own, so a registration can happen before, between
  or after any requests: \<open>kube_step\<close> has the registrations and the changes the agent makes by itself.
  This theory has the programs and what one request does; \<open>Kube_Concurrent\<close> has the requests that
  \<open>net/http\<close> serves concurrently.
\<close>

record KubeOrder =
  kID :: string
  kItemIDs :: "string list option"
  kStatus :: string

record ('c, 'g) kube =
  agent :: "'c consul"
  orders :: "string \<rightharpoonup> KubeOrder"
  uuids :: 'g

type_synonym 'g uuid = "'g \<Rightarrow> (string + string) \<times> 'g"

definition kube_order_fields :: "(string \<times> KubeOrder decoder) list" where
  "kube_order_fields =
     [(''id'', field dec_string kID (\<lambda>x. kID_update (\<lambda>_. x))),
      (''item_ids'', field (dec_slice_or_nil dec_string []) kItemIDs (\<lambda>x. kItemIDs_update (\<lambda>_. x))),
      (''status'', field dec_string kStatus (\<lambda>x. kStatus_update (\<lambda>_. x)))]"

definition zero_kube_order :: KubeOrder where
  "zero_kube_order = \<lparr>kID = [], kItemIDs = None, kStatus = []\<rparr>"

definition enc_KubeOrder :: "KubeOrder \<Rightarrow> json" where
  "enc_KubeOrder ord =
     JObj [(''id'', JStr (kID ord)),
           (''item_ids'', case kItemIDs ord of None \<Rightarrow> JNull | Some is \<Rightarrow> JArr (map JStr is)),
           (''status'', JStr (kStatus ord))]"

subsection \<open>The order service\<close>

definition kube_registration :: "string \<Rightarrow> nat \<Rightarrow> registration" where
  "kube_registration name port =
     (let serviceAddress = name @ ''.student-cafe.svc.cluster.local''
      in \<lparr>reg_ID = name, reg_Name = name, reg_Port = port, reg_Address = serviceAddress,
          check_HTTP = http_url (serviceAddress, port) @ ''/health'', check_Interval = ''10s'', check_Timeout = ''1s''\<rparr>)"

definition order_registerServiceWithConsul :: "'c consul \<Rightarrow> 'c consul" where
  "order_registerServiceWithConsul C =
     (case cNewClient C ''consul-server:8500'' of
        Some err \<Rightarrow> C
      | None \<Rightarrow> C\<lparr>cState := snd (cRegister C (kube_registration ''order-service'' 8081) (cState C))\<rparr>)"

definition findService :: "'c consul \<Rightarrow> string \<Rightarrow> string + string" where
  "findService C serviceName =
     (case cNewClient C ''consul-server:8500'' of
        Some err \<Rightarrow> Inl err
      | None \<Rightarrow>
          (case cHealth C serviceName (cState C) of
             Inl err \<Rightarrow> Inl err
           | Inr [] \<Rightarrow> Inl (''could not find any healthy instance of '' @ serviceName)
           | Inr (s # _) \<Rightarrow> Inr (http_url s)))"

definition kube_health :: "('c, 'g) kube http_handler" where
  "kube_health param body s = (\<lparr>status = StatusOK, content_type = [], payload = PEmpty\<rparr>, s)"

text \<open>The handler of \<open>POST /orders\<close>: the error of \<open>GenerateUUID\<close>, which comes with \<open>""\<close>, is dropped.\<close>

definition GenerateUUID :: "'g uuid \<Rightarrow> 'g \<Rightarrow> string \<times> 'g" where
  "GenerateUUID uuid g = (case uuid g of (Inl err, g') \<Rightarrow> ([], g') | (Inr u, g') \<Rightarrow> (u, g'))"

definition kube_create_order :: "(request_body \<Rightarrow> string) \<Rightarrow> 'g uuid \<Rightarrow> ('c, 'g) kube http_handler" where
  "kube_create_order jerr uuid param body s =
     (case Decode kube_order_fields zero_kube_order body of
        (False, _) \<Rightarrow> (http_Error (jerr body) StatusBadRequest, s)
      | (True, newOrder) \<Rightarrow>
          (case findService (agent s) ''food-catalog-service'' of
             Inl err \<Rightarrow> (http_Error ''Food catalog service not available'' StatusInternalServerError, s)
           | Inr catalogAddr \<Rightarrow>
               (case GenerateUUID uuid (uuids s) of (orderID, g) \<Rightarrow>
                  (let newOrder' = newOrder\<lparr>kID := orderID, kStatus := ''received''\<rparr>
                   in (json_reply StatusCreated (Some (enc_KubeOrder newOrder')),
                       s\<lparr>orders := (orders s)(orderID \<mapsto> newOrder'), uuids := g\<rparr>)))))"

definition kube_order_routes :: "(request_body \<Rightarrow> string) \<Rightarrow> 'g uuid \<Rightarrow> ('c, 'g) kube routes" where
  "kube_order_routes jerr uuid =
     [((''GET'', ''/health''), kube_health),
      ((''POST'', ''/orders''), kube_create_order jerr uuid)]"

text \<open>\<open>main\<close> ignores the error of \<open>ListenAndServe\<close>: it returns, and the process ends (\<open>None\<close>).\<close>

definition kube_order_main ::
  "(request_body \<Rightarrow> string) \<Rightarrow> 'g uuid \<Rightarrow> (string \<Rightarrow> string option) \<Rightarrow> (string \<times> ('c, 'g) kube routes) option" where
  "kube_order_main jerr uuid listen =
     (case listen '':8081'' of Some err \<Rightarrow> None | None \<Rightarrow> Some ('':8081'', kube_order_routes jerr uuid))"

subsection \<open>The food catalogue\<close>

record FoodItem =
  fID :: string
  fName :: string
  fPrice :: float64

text \<open>The prices are the doubles 2.5, 5 and 3.25.\<close>

definition foodItems :: "FoodItem list" where
  "foodItems =
     [\<lparr>fID = ''1'', fName = ''Coffee'', fPrice = 0x4004000000000000\<rparr>,
      \<lparr>fID = ''2'', fName = ''Sandwich'', fPrice = 0x4014000000000000\<rparr>,
      \<lparr>fID = ''3'', fName = ''Muffin'', fPrice = 0x400A000000000000\<rparr>]"

definition enc_FoodItem :: "FoodItem \<Rightarrow> json option" where
  "enc_FoodItem i =
     map_option (\<lambda>p. JObj [(''id'', JStr (fID i)), (''name'', JStr (fName i)), (''price'', p)]) (enc_float64 (fPrice i))"

definition catalog_registerServiceWithConsul :: "'c consul \<Rightarrow> 'c consul" where
  "catalog_registerServiceWithConsul C =
     (case cNewClient C ''consul-server:8500'' of
        Some err \<Rightarrow> C
      | None \<Rightarrow> C\<lparr>cState := snd (cRegister C (kube_registration ''food-catalog-service'' 8080) (cState C))\<rparr>)"

definition catalog_health :: "'w http_handler" where
  "catalog_health param body w = (\<lparr>status = StatusOK, content_type = [], payload = PEmpty\<rparr>, w)"

definition catalog_items :: "'w http_handler" where
  "catalog_items param body w = (json_reply StatusOK (enc_array enc_FoodItem foodItems), w)"

definition catalog_routes :: "'w routes" where
  "catalog_routes = [((''GET'', ''/health''), catalog_health), ((''GET'', ''/items''), catalog_items)]"

definition catalog_main :: "(string \<Rightarrow> string option) \<Rightarrow> (string \<times> 'w routes) option" where
  "catalog_main listen = (case listen '':8080'' of Some err \<Rightarrow> None | None \<Rightarrow> Some ('':8080'', catalog_routes))"

subsection \<open>The two programs together\<close>

inductive kube_step :: "('c, 'g) kube \<Rightarrow> ('c, 'g) kube \<Rightarrow> bool" where
  order_registers: "kube_step s (s\<lparr>agent := order_registerServiceWithConsul (agent s)\<rparr>)"
| catalog_registers: "kube_step s (s\<lparr>agent := catalog_registerServiceWithConsul (agent s)\<rparr>)"
| agent_moves: "cServices (agent s) c = cServices (agent s) (cState (agent s)) \<Longrightarrow>
    kube_step s (s\<lparr>agent := (agent s)\<lparr>cState := c\<rparr>\<rparr>)"

interpretation kube_finder: finder findService "''consul-server:8500''" Inr
  by unfold_locales (auto simp: findService_def split: option.splits sum.splits list.splits)

interpretation catalog_found:
  discovered catalog_registerServiceWithConsul "''consul-server:8500''" "kube_registration ''food-catalog-service'' 8080"
    findService "''consul-server:8500''" Inr
  by unfold_locales (simp add: catalog_registerServiceWithConsul_def)

interpretation order_registrar:
  registrar order_registerServiceWithConsul "''consul-server:8500''" "kube_registration ''order-service'' 8081"
  by unfold_locales (simp add: order_registerServiceWithConsul_def)

lemma kube_registration_simps [simp]:
  "reg_ID (kube_registration n p) = n" "reg_Name (kube_registration n p) = n" "reg_Port (kube_registration n p) = p"
  "reg_Address (kube_registration n p) = n @ ''.student-cafe.svc.cluster.local''"
  by (simp_all add: kube_registration_def Let_def)

text \<open>What a request does: it stores the order it answers with, or answers with an error and stores nothing.\<close>

lemma kube_create_order_cases:
  assumes "kube_create_order jerr uuid param body s = (r, s')"
  obtains (refused) "status r \<noteq> 201" and "s' = s"
  | (stored) ord g u where "GenerateUUID uuid (uuids s) = (kID ord, g)" and "kStatus ord = ''received''"
      and "findService (agent s) ''food-catalog-service'' = Inr u"
      and "r = json_reply 201 (Some (enc_KubeOrder ord))"
      and "s' = s\<lparr>orders := (orders s)(kID ord \<mapsto> ord), uuids := g\<rparr>"
proof (cases "fst (Decode kube_order_fields zero_kube_order body)")
  case False
  with assms have "status r \<noteq> 201 \<and> s' = s" by (auto simp: kube_create_order_def split: prod.splits)
  with refused show ?thesis by blast
next
  case True
  then obtain o1 where o1: "Decode kube_order_fields zero_kube_order body = (True, o1)" by (metis prod.collapse)
  show ?thesis
  proof (cases "findService (agent s) ''food-catalog-service''")
    case (Inl e)
    with assms o1 have "status r \<noteq> 201 \<and> s' = s" by (auto simp: kube_create_order_def)
    with refused show ?thesis by blast
  next
    case (Inr u)
    obtain i g where g: "GenerateUUID uuid (uuids s) = (i, g)" by fastforce
    with assms o1 Inr stored [of "o1\<lparr>kID := i, kStatus := ''received''\<rparr>" g u] show ?thesis
      by (simp add: kube_create_order_def Let_def)
  qed
qed

abbreviation catalog_registered :: "('c, 'g) kube \<Rightarrow> bool" where
  "catalog_registered s \<equiv>
     cServices (agent s) (cState (agent s)) ''food-catalog-service'' = Some (kube_registration ''food-catalog-service'' 8080)"

definition kube_fresh :: "('c, 'g) kube \<Rightarrow> bool" where
  "kube_fresh s \<longleftrightarrow> consul_law (agent s) \<and> cServices (agent s) (cState (agent s)) = Map.empty \<and> orders s = Map.empty"

definition kube_inv :: "('c, 'g) kube \<Rightarrow> bool" where
  "kube_inv s \<longleftrightarrow> consul_law (agent s) \<and>
     (\<forall>i r. cServices (agent s) (cState (agent s)) i = Some r \<longrightarrow>
        r = kube_registration ''order-service'' 8081 \<or>
        r = kube_registration ''food-catalog-service'' 8080 \<and> i = ''food-catalog-service'') \<and>
     (\<forall>k ord. orders s k = Some ord \<longrightarrow> kID ord = k \<and> kStatus ord = ''received'') \<and>
     (orders s \<noteq> Map.empty \<longrightarrow> catalog_registered s)"

lemma kube_inv_register:
  assumes inv: "kube_inv s" and r: "r = kube_registration ''order-service'' 8081 \<or> r = kube_registration ''food-catalog-service'' 8080"
  shows "kube_inv (s\<lparr>agent := (agent s)\<lparr>cState := snd (cRegister (agent s) r (cState (agent s)))\<rparr>\<rparr>)"
proof -
  obtain x c where c: "cRegister (agent s) r (cState (agent s)) = (x, c)" by fastforce
  from inv have "consul_law (agent s)" by (simp add: kube_inv_def)
  from consul_register_any [OF this c] show ?thesis
  proof
    assume "cServices (agent s) c = cServices (agent s) (cState (agent s))"
    with inv c show ?thesis by (simp add: kube_inv_def)
  next
    assume "cServices (agent s) c = (cServices (agent s) (cState (agent s)))(reg_ID r \<mapsto> r)"
    with inv c r show ?thesis by (auto simp: kube_inv_def)
  qed
qed

lemma kube_step_inv: "kube_step s s' \<Longrightarrow> kube_inv s \<Longrightarrow> kube_inv s'"
  by (induction rule: kube_step.induct)
    (auto simp: order_registerServiceWithConsul_def catalog_registerServiceWithConsul_def kube_inv_register split: option.split,
     auto simp: kube_inv_def)

lemma kube_fresh_inv: "kube_fresh s \<Longrightarrow> kube_inv s"
  by (simp add: kube_fresh_def kube_inv_def)

text \<open>
  What \<open>GenerateUUID\<close> promises: it succeeds with an identifier it has not issued before.
  \<open>counter_uuid\<close> is such a generator, \<open>broken_uuid\<close> one whose source of randomness fails.
\<close>

definition uuid_law :: "'g uuid \<Rightarrow> ('g \<Rightarrow> string set) \<Rightarrow> bool" where
  "uuid_law uuid issued \<longleftrightarrow> (\<forall>g. \<exists>u g'. uuid g = (Inr u, g') \<and> u \<notin> issued g \<and> issued g' = insert u (issued g))"

definition counter_uuid :: "nat uuid" where
  "counter_uuid n = (Inr (dec_of_nat n), Suc n)"

definition broken_uuid :: "nat uuid" where
  "broken_uuid n = (Inl ''failed to read random bytes'', n)"

lemma counter_uuid_law: "uuid_law counter_uuid (\<lambda>n. dec_of_nat ` {..<n})"
  by (auto simp: uuid_law_def counter_uuid_def lessThan_Suc)

definition kube0 :: "(registration list \<times> string list, nat) kube" where
  "kube0 = \<lparr>agent = mem_consul, orders = Map.empty, uuids = 0\<rparr>"

text \<open>The catalogue has registered and the agent has run its check.\<close>

definition kube1 :: "(registration list \<times> string list, nat) kube" where
  "kube1 = kube0\<lparr>agent := (catalog_registerServiceWithConsul (agent kube0))
     \<lparr>cState := ([kube_registration ''food-catalog-service'' 8080], [''food-catalog-service''])\<rparr>\<rparr>"

definition muffin_body :: request_body where
  "muffin_body = Some (JObj [(''id'', JStr ''mine''), (''item_ids'', JArr [JStr ''3'']), (''status'', JStr ''paid'')])"

definition kube_coffee_body :: request_body where
  "kube_coffee_body = Some (JObj [(''item_ids'', JArr [JStr ''1''])])"

definition received :: "string \<Rightarrow> string list \<Rightarrow> KubeOrder" where
  "received k is = \<lparr>kID = k, kItemIDs = Some is, kStatus = ''received''\<rparr>"

lemma kube_bodies:
  "Decode kube_order_fields zero_kube_order muffin_body = (True, \<lparr>kID = ''mine'', kItemIDs = Some [''3''], kStatus = ''paid''\<rparr>)"
  "Decode kube_order_fields zero_kube_order kube_coffee_body = (True, \<lparr>kID = [], kItemIDs = Some [''1''], kStatus = []\<rparr>)"
  by (simp_all add: Decode_def muffin_body_def kube_coffee_body_def kube_order_fields_def zero_kube_order_def lookup_field_def field_def)

lemma kube1_found: "findService (agent kube1) ''food-catalog-service'' = Inr (http_url (''food-catalog-service.student-cafe.svc.cluster.local'', 8080))"
  by (simp add: findService_def kube1_def kube0_def catalog_registerServiceWithConsul_def mem_consul_def)

lemma kube_muffin:
  "kube_create_order (\<lambda>_. []) counter_uuid [] muffin_body kube1 =
   (json_reply 201 (Some (enc_KubeOrder (received ''0'' [''3'']))), kube1\<lparr>orders := [''0'' \<mapsto> received ''0'' [''3'']], uuids := 1\<rparr>)"
  using kube1_found
  by (simp add: kube_create_order_def kube_bodies GenerateUUID_def counter_uuid_def kube1_def kube0_def received_def Let_def
      dec_of_nat.simps digit_char_def)

lemma kube0_fresh: "kube_fresh kube0"
  by (simp add: kube_fresh_def kube0_def mem_consul_law) (simp add: mem_consul_def fun_eq_iff)

text \<open>
  C36: When the source of randomness fails, the error is dropped and the identifier is empty: of two
  orders accepted so, both answered 201, only the second is kept.
\<close>

theorem kube_uuid_failure_loses_order:
  assumes "kube_create_order jerr uuid [] b1 s = (r1, s1)" and "kube_create_order jerr uuid [] b2 s1 = (r2, s2)"
    and "status r1 = 201" and "status r2 = 201"
    and "uuid (uuids s) = (Inl e1, g1)" and "uuid g1 = (Inl e2, g2)"
  shows "\<exists>o1 o2. r1 = json_reply 201 (Some (enc_KubeOrder o1)) \<and> r2 = json_reply 201 (Some (enc_KubeOrder o2)) \<and>
    kID o1 = [] \<and> kID o2 = [] \<and> orders s2 = (orders s)([] \<mapsto> o2)"
  using assms(1)
proof (cases rule: kube_create_order_cases)
  case (stored o1 g u)
  with assms(5) have 1: "kID o1 = []" "uuids s1 = g1" by (auto simp: GenerateUUID_def)
  note s1 = stored(4,5)
  from assms(2) show ?thesis
  proof (cases rule: kube_create_order_cases)
    case (stored o2 g' u')
    with assms(6) 1 s1 have "kID o2 = []" "orders s2 = (orders s)([] \<mapsto> o2)" by (auto simp: GenerateUUID_def)
    with 1 s1 stored(4) show ?thesis by blast
  qed (use assms(4) in simp)
qed (use assms(3) in simp)

theorem kube_uuid_failure_loses_order_witness:
  "\<exists>o1 o2. json_reply 201 (Some (enc_KubeOrder (received [] [''3'']))) = json_reply 201 (Some (enc_KubeOrder o1)) \<and>
     kID o1 = [] \<and> [[] \<mapsto> received [] [''1'']] = Map.empty([] \<mapsto> o2)"
proof -
  let ?s1 = "kube1\<lparr>orders := [[] \<mapsto> received [] [''3'']]\<rparr>" and ?s2 = "kube1\<lparr>orders := [[] \<mapsto> received [] [''1'']]\<rparr>"
  have 1: "kube_create_order (\<lambda>_. []) broken_uuid [] muffin_body kube1 =
      (json_reply 201 (Some (enc_KubeOrder (received [] [''3'']))), ?s1)"
    using kube1_found
    by (simp add: kube_create_order_def kube_bodies GenerateUUID_def broken_uuid_def kube1_def kube0_def received_def Let_def)
  have 2: "kube_create_order (\<lambda>_. []) broken_uuid [] kube_coffee_body ?s1 =
      (json_reply 201 (Some (enc_KubeOrder (received [] [''1'']))), ?s2)"
    using kube1_found
    by (simp add: kube_create_order_def kube_bodies GenerateUUID_def broken_uuid_def kube1_def kube0_def received_def Let_def)
  have "orders kube1 = Map.empty" by (simp add: kube1_def kube0_def)
  with kube_uuid_failure_loses_order [OF 1 2] show ?thesis by (fastforce simp: broken_uuid_def)
qed

text \<open>
  C34: Once the catalogue has registered and the agent has seen its check pass, a well-formed order is
  accepted: it is stored and answered with the generated identifier, status \<open>received\<close> and the items
  of the body, whatever identifier and status the client sent.
\<close>

theorem kube_order_accepted:
  assumes law: "consul_law (agent s)" and client: "cNewClient (agent s) ''consul-server:8500'' = None"
    and reg: "cRegister (agent s) (kube_registration ''food-catalog-service'' 8080) (cState (agent s)) = (None, c)"
    and sole: "\<forall>i r. cServices (agent s) (cState (agent s)) i = Some r \<longrightarrow> reg_Name r = ''food-catalog-service'' \<longrightarrow>
      r = kube_registration ''food-catalog-service'' 8080"
    and moved: "cServices (agent s) c' = cServices (agent s) c" and pass: "cPasses (agent s) c' ''food-catalog-service''"
    and answers: "cHealth (agent s) ''food-catalog-service'' c' = Inr xs"
    and body: "Decode kube_order_fields zero_kube_order body = (True, ord)" and uuid: "uuid (uuids s) = (Inr u, g)"
    and s': "s' = s\<lparr>agent := (catalog_registerServiceWithConsul (agent s))\<lparr>cState := c'\<rparr>\<rparr>"
  shows "kube_create_order jerr uuid param body s' =
    (json_reply 201 (Some (enc_KubeOrder \<lparr>kID = u, kItemIDs = kItemIDs ord, kStatus = ''received''\<rparr>)),
     s'\<lparr>orders := (orders s)(u \<mapsto> \<lparr>kID = u, kItemIDs = kItemIDs ord, kStatus = ''received''\<rparr>), uuids := g\<rparr>)"
proof -
  let ?r = "kube_registration ''food-catalog-service'' 8080"
  have upd: "ord\<lparr>kID := u, kStatus := ''received''\<rparr> = \<lparr>kID = u, kItemIDs = kItemIDs ord, kStatus = ''received''\<rparr>"
    by (cases ord) simp
  have "findService ((catalog_registerServiceWithConsul (agent s))\<lparr>cState := c'\<rparr>) (reg_Name ?r) =
      Inr (http_url (reg_Address ?r, reg_Port ?r))"
    by (rule catalog_found.registered_then_found [OF law client client reg, where xs = xs])
      (use sole moved pass answers in auto)
  then show ?thesis using body uuid by (simp add: s' kube_create_order_def GenerateUUID_def Let_def upd)
qed

theorem kube_order_accepted_witness:
  "kube_create_order (\<lambda>_. []) counter_uuid [] muffin_body kube1 =
   (json_reply 201 (Some (enc_KubeOrder (received ''0'' [''3'']))),
    kube1\<lparr>orders := [''0'' \<mapsto> received ''0'' [''3'']], uuids := 1\<rparr>)"
proof -
  let ?r = "kube_registration ''food-catalog-service'' 8080" and ?up = "[''food-catalog-service'']"
  have law: "consul_law (agent kube0)" by (simp add: kube0_def mem_consul_law)
  have reg: "cRegister (agent kube0) ?r (cState (agent kube0)) = (None, ([?r], []))" by (simp add: kube0_def mem_consul_def)
  have u: "counter_uuid (uuids kube0) = (Inr ''0'', 1)"
    by (simp add: counter_uuid_def kube0_def dec_of_nat.simps digit_char_def)
  have h: "cServices (agent kube0) ([?r], ?up) = cServices (agent kube0) ([?r], [])"
    "cPasses (agent kube0) ([?r], ?up) ''food-catalog-service''"
    "cHealth (agent kube0) ''food-catalog-service'' ([?r], ?up) = Inr [(reg_Address ?r, 8080)]"
    by (simp_all add: kube0_def mem_consul_def)
  from kube_order_accepted [where s = kube0 and uuid = counter_uuid and jerr = "\<lambda>_. []" and param = "[]",
      OF law _ reg _ h kube_bodies(1) u kube1_def]
  show ?thesis by (simp add: received_def) (simp add: kube0_def mem_consul_def)
qed

end
