(* ===== verification/Kube_Concurrent.thy ===== *)
theory Kube_Concurrent
  imports Kube_Cafe Interleaving
begin

text \<open>
  Concurrent orders of \<open>practical4\<close>: \<open>net/http\<close> runs the handler of \<open>POST /orders\<close> in a goroutine
  per request, and all of them write the global map \<open>orders\<close> without a lock. A task is a request
  between its calls: to Consul, to \<open>uuid.GenerateUUID\<close>, and the assignment \<open>orders[orderID] =
  newOrder\<close>, which is not atomic. Go's runtime tests the map's flag \<open>hashWriting\<close> before it writes,
  toggles it (a load and a store), writes, tests it again and clears it; a goroutine that sees another
  one writing aborts the program with \<open>fatal error: concurrent map writes\<close>, which no \<open>recover\<close> stops.
  None of these steps excludes another goroutine: the test is best effort, and two assignments can
  overlap unnoticed. What is left of the map then is not defined: it is the parameter \<open>torn\<close> here.

  The state is the process: \<open>None\<close> once it is aborted, otherwise the service with the flag. Two
  components are no part of the program: \<open>writers\<close> counts the assignments under way, and
  \<open>overlapped\<close> says whether two ever were at once.
\<close>

record ('c, 'g) running =
  srv :: "('c, 'g) kube"
  hashWriting :: bool
  writers :: nat
  overlapped :: bool

type_synonym ('c, 'g) process = "('c, 'g) running option"

type_synonym torn_map = "(string \<rightharpoonup> KubeOrder) \<Rightarrow> KubeOrder \<Rightarrow> (string \<rightharpoonup> KubeOrder)"

datatype kube_task =
    KubeFinding KubeOrder
  | KubeNaming KubeOrder
  | KubeTesting KubeOrder
  | KubeLoading KubeOrder
  | KubeMarking bool KubeOrder
  | KubeWriting KubeOrder
  | KubeClearing KubeOrder
  | KubeAnswered response

fun kube_task_step :: "torn_map \<Rightarrow> 'g uuid \<Rightarrow> kube_task \<Rightarrow> ('c, 'g) process \<Rightarrow> kube_task \<times> ('c, 'g) process" where
  "kube_task_step torn uuid t None = (t, None)"
| "kube_task_step torn uuid (KubeFinding newOrder) (Some p) =
     (case findService (agent (srv p)) ''food-catalog-service'' of
        Inl err \<Rightarrow> (KubeAnswered (http_Error ''Food catalog service not available'' StatusInternalServerError), Some p)
      | Inr catalogAddr \<Rightarrow> (KubeNaming newOrder, Some p))"
| "kube_task_step torn uuid (KubeNaming newOrder) (Some p) =
     (case GenerateUUID uuid (uuids (srv p)) of (orderID, g) \<Rightarrow>
        (KubeTesting (newOrder\<lparr>kID := orderID, kStatus := ''received''\<rparr>), Some (p\<lparr>srv := (srv p)\<lparr>uuids := g\<rparr>\<rparr>)))"
| "kube_task_step torn uuid (KubeTesting newOrder) (Some p) =
     (if hashWriting p then (KubeTesting newOrder, None) else (KubeLoading newOrder, Some p))"
| "kube_task_step torn uuid (KubeLoading newOrder) (Some p) = (KubeMarking (\<not> hashWriting p) newOrder, Some p)"
| "kube_task_step torn uuid (KubeMarking flag newOrder) (Some p) =
     (KubeWriting newOrder,
      Some (p\<lparr>hashWriting := flag, writers := writers p + 1, overlapped := overlapped p \<or> writers p \<noteq> 0\<rparr>))"
| "kube_task_step torn uuid (KubeWriting newOrder) (Some p) =
     (KubeClearing newOrder,
      Some (p\<lparr>srv := (srv p)\<lparr>orders :=
        if overlapped p then torn (orders (srv p)) newOrder else (orders (srv p))(kID newOrder \<mapsto> newOrder)\<rparr>\<rparr>))"
| "kube_task_step torn uuid (KubeClearing newOrder) (Some p) =
     (if \<not> hashWriting p then (KubeClearing newOrder, None)
      else (KubeAnswered (json_reply StatusCreated (Some (enc_KubeOrder newOrder))),
            Some (p\<lparr>hashWriting := False, writers := writers p - 1\<rparr>)))"
| "kube_task_step torn uuid (KubeAnswered r) (Some p) = (KubeAnswered r, Some p)"

text \<open>A request starts with the decoding of its body, which reads nothing else.\<close>

definition kube_starts :: "kube_task \<Rightarrow> bool" where
  "kube_starts t \<longleftrightarrow>
     (\<exists>body newOrder. Decode kube_order_fields zero_kube_order body = (True, newOrder) \<and> t = KubeFinding newOrder)"

text \<open>What else happens to the process: the two registrations, and the moves of the agent.\<close>

definition kube_other :: "('c, 'g) process \<Rightarrow> ('c, 'g) process \<Rightarrow> bool" where
  "kube_other P P' \<longleftrightarrow> (\<exists>p s. P = Some p \<and> P' = Some (p\<lparr>srv := s\<rparr>) \<and> kube_step (srv p) s)"

text \<open>A process with no assignment under way.\<close>

definition kube_idle :: "('c, 'g) kube \<Rightarrow> ('c, 'g) process" where
  "kube_idle s = Some \<lparr>srv = s, hashWriting = False, writers = 0, overlapped = False\<rparr>"

lemma kube_run_is_handler:
  assumes "Decode kube_order_fields zero_kube_order body = (True, newOrder)"
    and "kube_create_order jerr uuid param body s = (r, s')"
  shows "run_alone (kube_task_step torn uuid) 7 (KubeFinding newOrder) (kube_idle s) = (KubeAnswered r, kube_idle s')"
  using assms by (auto simp: kube_create_order_def kube_idle_def numeral_eq_Suc Let_def split: sum.splits prod.splits)

subsection \<open>What a task knows\<close>

definition kube_named :: "('g \<Rightarrow> string set) \<Rightarrow> ('c, 'g) kube \<Rightarrow> KubeOrder \<Rightarrow> bool" where
  "kube_named issued s ord \<longleftrightarrow> catalog_registered s \<and> kStatus ord = ''received'' \<and> kID ord \<in> issued (uuids s)"

definition kube_stored :: "('c, 'g) kube \<Rightarrow> response \<Rightarrow> KubeOrder \<Rightarrow> bool" where
  "kube_stored s r ord \<longleftrightarrow> r = json_reply StatusCreated (Some (enc_KubeOrder ord)) \<and> orders s (kID ord) = Some ord"

fun kube_knows :: "('g \<Rightarrow> string set) \<Rightarrow> ('c, 'g) running \<Rightarrow> kube_task \<Rightarrow> bool" where
  "kube_knows issued p (KubeFinding ord) = True"
| "kube_knows issued p (KubeNaming ord) = catalog_registered (srv p)"
| "kube_knows issued p (KubeTesting ord) = (kube_named issued (srv p) ord \<and> orders (srv p) (kID ord) = None)"
| "kube_knows issued p (KubeLoading ord) = (kube_named issued (srv p) ord \<and> orders (srv p) (kID ord) = None)"
| "kube_knows issued p (KubeMarking b ord) = (kube_named issued (srv p) ord \<and> orders (srv p) (kID ord) = None)"
| "kube_knows issued p (KubeWriting ord) =
     (writers p = 1 \<and> kube_named issued (srv p) ord \<and> orders (srv p) (kID ord) = None)"
| "kube_knows issued p (KubeClearing ord) =
     (writers p = 1 \<and> kube_named issued (srv p) ord \<and> orders (srv p) (kID ord) = Some ord)"
| "kube_knows issued p (KubeAnswered r) = (status r = StatusCreated \<longrightarrow> (\<exists>ord. kube_named issued (srv p) ord \<and> kube_stored (srv p) r ord))"

text \<open>As long as no two assignments overlap:\<close>

definition kube_task_spec :: "('g \<Rightarrow> string set) \<Rightarrow> ('c, 'g) process \<Rightarrow> kube_task \<Rightarrow> bool" where
  "kube_task_spec issued P t \<longleftrightarrow> (\<forall>p. P = Some p \<longrightarrow> \<not> overlapped p \<longrightarrow> kube_knows issued p t)"

definition kube_process_ok :: "('g \<Rightarrow> string set) \<Rightarrow> ('c, 'g) process \<Rightarrow> bool" where
  "kube_process_ok issued P \<longleftrightarrow>
     (\<forall>p. P = Some p \<longrightarrow> \<not> overlapped p \<longrightarrow> kube_inv (srv p) \<and> dom (orders (srv p)) \<subseteq> issued (uuids (srv p)))"

text \<open>The identifier an order has from its naming to its answer; the first member of the answer.\<close>

definition answered_id :: "response \<Rightarrow> string option" where
  "answered_id r = (case payload r of PJson (JObj ((n, JStr k) # ms)) \<Rightarrow> Some k | _ \<Rightarrow> None)"

fun kube_holds :: "kube_task \<Rightarrow> string option" where
  "kube_holds (KubeTesting ord) = Some (kID ord)"
| "kube_holds (KubeLoading ord) = Some (kID ord)"
| "kube_holds (KubeMarking b ord) = Some (kID ord)"
| "kube_holds (KubeWriting ord) = Some (kID ord)"
| "kube_holds (KubeClearing ord) = Some (kID ord)"
| "kube_holds (KubeAnswered r) = (if status r = StatusCreated then answered_id r else None)"
| "kube_holds t = None"

fun kube_writes :: "kube_task \<Rightarrow> bool" where
  "kube_writes (KubeWriting ord) = True"
| "kube_writes (KubeClearing ord) = True"
| "kube_writes t = False"

text \<open>Two tasks are compatible when they hold different identifiers and are not both in an assignment.\<close>

definition kube_compat :: "('c, 'g) process \<Rightarrow> kube_task \<Rightarrow> kube_task \<Rightarrow> bool" where
  "kube_compat P t u \<longleftrightarrow>
     (\<forall>p. P = Some p \<longrightarrow> \<not> overlapped p \<longrightarrow>
        (kube_holds t = None \<or> kube_holds t \<noteq> kube_holds u) \<and> \<not> (kube_writes t \<and> kube_writes u))"

lemma answered_id_json [simp]: "answered_id (json_reply c (Some (enc_KubeOrder ord))) = Some (kID ord)"
  by (simp add: answered_id_def json_reply_def enc_KubeOrder_def)

lemma GenerateUUID_law:
  assumes "uuid_law uuid issued" and "GenerateUUID uuid g = (u, g')"
  shows "u \<notin> issued g \<and> issued g' = insert u (issued g)"
proof -
  from assms(1) obtain v h where "uuid g = (Inr v, h)" "v \<notin> issued g" "issued h = insert v (issued g)"
    unfolding uuid_law_def by blast
  with assms(2) show ?thesis by (simp add: GenerateUUID_def)
qed

lemma kube_found_registered:
  assumes inv: "kube_inv s" and "findService (agent s) ''food-catalog-service'' = Inr u"
  shows "catalog_registered s"
proof -
  have law: "consul_law (agent s)" using inv by (simp add: kube_inv_def)
  from kube_finder.found_registered [OF law assms(2)] obtain i r where
    r: "cServices (agent s) (cState (agent s)) i = Some r" "reg_Name r = ''food-catalog-service''" .
  from inv r(1) have "r = kube_registration ''order-service'' 8081 \<or>
      r = kube_registration ''food-catalog-service'' 8080 \<and> i = ''food-catalog-service''"
    unfolding kube_inv_def by blast
  with r show ?thesis by auto
qed

lemma kube_holds_issued: "kube_knows issued p u \<Longrightarrow> kube_holds u = Some k \<Longrightarrow> k \<in> issued (uuids (srv p))"
  by (cases u) (auto simp: kube_named_def kube_stored_def split: if_splits)

text \<open>An overlap is never undone, and no step of a running process changes the agent.\<close>

lemma kube_step_overlapped:
  "kube_task_step torn uuid t (Some p) = (t', Some p') \<Longrightarrow> overlapped p \<Longrightarrow> overlapped p'"
  by (cases t) (auto split: sum.splits prod.splits if_splits)

lemma kube_step_own:
  assumes law: "uuid_law uuid issued" and ok: "kube_process_ok issued P" and spec: "kube_task_spec issued P t"
    and st: "kube_task_step torn uuid t P = (t', P')"
  shows "kube_process_ok issued P' \<and> kube_task_spec issued P' t'"
proof (cases "\<exists>p p'. P = Some p \<and> P' = Some p' \<and> \<not> overlapped p'")
  case False
  have "P' = Some p' \<Longrightarrow> overlapped p'" for p'
    using False st by (cases P) auto
  then show ?thesis by (auto simp: kube_process_ok_def kube_task_spec_def)
next
  case True
  then obtain p p' where P: "P = Some p" "P' = Some p'" and quiet: "\<not> overlapped p'" by blast
  have no: "\<not> overlapped p" using kube_step_overlapped [of torn uuid t p t' p'] st quiet P by blast
  have inv: "kube_inv (srv p)" "dom (orders (srv p)) \<subseteq> issued (uuids (srv p))" and know: "kube_knows issued p t"
    using ok spec no P by (simp_all add: kube_process_ok_def kube_task_spec_def)
  have "kube_inv (srv p') \<and> dom (orders (srv p')) \<subseteq> issued (uuids (srv p')) \<and> kube_knows issued p' t'"
  proof (cases t)
    case (KubeFinding ord)
    with st P inv kube_found_registered [OF inv(1)] show ?thesis by (auto split: sum.splits)
  next
    case (KubeNaming ord)
    obtain u g where u: "GenerateUUID uuid (uuids (srv p)) = (u, g)" by fastforce
    note fresh = GenerateUUID_law [OF law u]
    from KubeNaming st P u have p': "p' = p\<lparr>srv := (srv p)\<lparr>uuids := g\<rparr>\<rparr>"
      "t' = KubeTesting (ord\<lparr>kID := u, kStatus := ''received''\<rparr>)" by simp_all
    have "kube_inv (srv p')" using inv(1) by (simp add: p' kube_inv_def)
    with KubeNaming know fresh inv(2) show ?thesis by (auto simp: p' kube_named_def)
  next
    case (KubeMarking b ord)
    with st P have p': "p' = p\<lparr>hashWriting := b, writers := writers p + 1, overlapped := overlapped p \<or> writers p \<noteq> 0\<rparr>"
      and t': "t' = KubeWriting ord" by simp_all
    with quiet inv know KubeMarking show ?thesis by (simp add: p' t')
  next
    case (KubeWriting ord)
    with st P no have p': "p' = p\<lparr>srv := (srv p)\<lparr>orders := (orders (srv p))(kID ord \<mapsto> ord)\<rparr>\<rparr>"
      and t': "t' = KubeClearing ord" by simp_all
    have "kube_inv (srv p')" using inv(1) know KubeWriting by (auto simp: p' kube_inv_def kube_named_def)
    with inv(2) know KubeWriting show ?thesis by (auto simp: p' t' kube_named_def)
  next
    case (KubeClearing ord)
    with st P have p': "p' = p\<lparr>hashWriting := False, writers := writers p - 1\<rparr>"
      and t': "t' = KubeAnswered (json_reply StatusCreated (Some (enc_KubeOrder ord)))" by (simp_all split: if_splits)
    have "kube_named issued (srv p') ord \<and> kube_stored (srv p') (json_reply StatusCreated (Some (enc_KubeOrder ord))) ord"
      using know KubeClearing by (simp add: p' kube_stored_def)
    then have "kube_knows issued p' t'" unfolding t' kube_knows.simps by blast
    with inv show ?thesis by (simp add: p')
  qed (use st P inv know in \<open>auto split: if_splits\<close>)
  then show ?thesis using P by (simp add: kube_process_ok_def kube_task_spec_def)
qed

lemma kube_knows_frame: "kube_knows issued p u \<Longrightarrow> srv p' = srv p \<Longrightarrow> \<not> kube_writes u \<Longrightarrow> kube_knows issued p' u"
  by (cases u) auto

lemma kube_stored_kept: "kube_stored s r ord \<Longrightarrow> orders s \<subseteq>\<^sub>m m \<Longrightarrow> kube_stored (s\<lparr>orders := m\<rparr>) r ord"
  by (auto simp: kube_stored_def map_le_def dom_def)

lemma kube_step_other:
  assumes law: "uuid_law uuid issued" and spec: "kube_task_spec issued P t" "kube_task_spec issued P u"
    and comp: "kube_compat P t u" and st: "kube_task_step torn uuid t P = (t', P')"
  shows "kube_task_spec issued P' u \<and> kube_compat P' t' u"
proof (cases "\<exists>p p'. P = Some p \<and> P' = Some p' \<and> \<not> overlapped p'")
  case False
  have "P' = Some p' \<Longrightarrow> overlapped p'" for p'
    using False st by (cases P) auto
  then show ?thesis by (auto simp: kube_compat_def kube_task_spec_def)
next
  case True
  then obtain p p' where P: "P = Some p" "P' = Some p'" and quiet: "\<not> overlapped p'" by blast
  have no: "\<not> overlapped p" using kube_step_overlapped [of torn uuid t p t' p'] st quiet P by blast
  have know: "kube_knows issued p t" "kube_knows issued p u"
    and comp: "kube_holds t = None \<or> kube_holds t \<noteq> kube_holds u" "\<not> (kube_writes t \<and> kube_writes u)"
    using spec comp no P by (simp_all add: kube_compat_def kube_task_spec_def)
  have "kube_knows issued p' u \<and> (kube_holds t' = None \<or> kube_holds t' \<noteq> kube_holds u) \<and> \<not> (kube_writes t' \<and> kube_writes u)"
  proof (cases t)
    case (KubeNaming ord)
    obtain k g where k: "GenerateUUID uuid (uuids (srv p)) = (k, g)" by fastforce
    note fresh = GenerateUUID_law [OF law k]
    have "kube_holds u \<noteq> Some k" using kube_holds_issued [OF know(2)] fresh by blast
    moreover have "kube_knows issued (p\<lparr>srv := (srv p)\<lparr>uuids := g\<rparr>\<rparr>) u"
      using know(2) fresh by (cases u) (auto simp: kube_named_def kube_stored_def)
    ultimately show ?thesis using KubeNaming st P k by auto
  next
    case (KubeMarking b ord)
    with st P quiet have "writers p = 0" "srv p' = srv p" "t' = KubeWriting ord" by auto
    moreover have "\<not> kube_writes u" using know(2) \<open>writers p = 0\<close> by (cases u) auto
    ultimately show ?thesis using kube_knows_frame [OF know(2)] comp KubeMarking by simp
  next
    case (KubeWriting ord)
    with st P no have p': "p' = p\<lparr>srv := (srv p)\<lparr>orders := (orders (srv p))(kID ord \<mapsto> ord)\<rparr>\<rparr>"
      and t': "t' = KubeClearing ord" by simp_all
    have u: "kube_holds u \<noteq> Some (kID ord)" "\<not> kube_writes u" using comp KubeWriting by auto
    have le: "orders (srv p) \<subseteq>\<^sub>m (orders (srv p))(kID ord \<mapsto> ord)" using know(1) KubeWriting by (auto simp: map_le_def)
    have "kube_knows issued p' u"
    proof (cases u)
      case (KubeAnswered r)
      with know(2) kube_stored_kept [OF _ le] show ?thesis by (fastforce simp: p' kube_named_def)
    qed (use u know(2) in \<open>auto simp: p' kube_named_def\<close>)
    with u show ?thesis by (simp add: t')
  next
    case (KubeClearing ord)
    with st P comp have "srv p' = srv p" "t' = KubeAnswered (json_reply StatusCreated (Some (enc_KubeOrder ord)))"
      by (auto split: if_splits)
    with kube_knows_frame [OF know(2)] comp KubeClearing show ?thesis by simp
  qed (use st P know comp in \<open>auto split: sum.splits if_splits\<close>)
  then show ?thesis using P by (simp add: kube_compat_def kube_task_spec_def)
qed

lemma kube_compat_sym: "kube_compat P t u \<Longrightarrow> kube_compat P u t"
  by (auto simp: kube_compat_def)

lemma kube_compat_third:
  assumes "kube_task_step torn uuid t P = (t', P')" and "kube_compat P u v"
  shows "kube_compat P' u v"
proof (cases P)
  case (Some p)
  with assms kube_step_overlapped [of torn uuid t p t'] show ?thesis unfolding kube_compat_def by blast
qed (use assms in simp)

interpretation kube_tasks:
  interference_free "kube_task_step torn uuid" "\<lambda>P. uuid_law uuid issued \<and> kube_process_ok issued P"
    "kube_task_spec issued" kube_compat for torn uuid issued
proof (unfold_locales, goal_cases)
  case (1 P t u)
  then show ?case by (rule kube_compat_sym)
next
  case (2 P t t' P')
  then show ?case using kube_step_own by blast
next
  case (3 P t u t' P')
  then show ?case using kube_step_other by blast
next
  case (4 t P t' P' u v)
  then show ?case by (rule kube_compat_third)
qed

text \<open>The registrations and the agent touch neither the orders nor the identifiers.\<close>

lemma kube_register_catalog:
  assumes "consul_law (agent s)" and "catalog_registered s"
    and "r = kube_registration ''order-service'' 8081 \<or> r = kube_registration ''food-catalog-service'' 8080"
  shows "catalog_registered (s\<lparr>agent := (agent s)\<lparr>cState := snd (cRegister (agent s) r (cState (agent s)))\<rparr>\<rparr>)"
  using consul_register_any [OF assms(1) prod.collapse [symmetric], of r "cState (agent s)"] assms(2,3) by auto

lemma kube_step_silent:
  assumes "kube_step s s'" and "consul_law (agent s)"
  shows "orders s' = orders s \<and> uuids s' = uuids s \<and> (catalog_registered s \<longrightarrow> catalog_registered s')"
  using assms
proof (induction rule: kube_step.induct)
  case (order_registers s)
  then show ?case using kube_register_catalog
    by (auto simp: order_registerServiceWithConsul_def split: option.split)
next
  case (catalog_registers s)
  then show ?case using kube_register_catalog
    by (auto simp: catalog_registerServiceWithConsul_def split: option.split)
qed simp

lemma kube_other_keeps:
  assumes ok: "kube_process_ok issued P" and "kube_other P P'"
  shows "kube_process_ok issued P' \<and> (\<forall>t. kube_task_spec issued P t \<longrightarrow> kube_task_spec issued P' t) \<and>
    (\<forall>t u. kube_compat P t u \<longrightarrow> kube_compat P' t u)"
proof -
  obtain p s where P: "P = Some p" "P' = Some (p\<lparr>srv := s\<rparr>)" and st: "kube_step (srv p) s"
    using assms(2) unfolding kube_other_def by blast
  show ?thesis
  proof (cases "overlapped p")
    case True
    with P show ?thesis by (simp add: kube_process_ok_def kube_task_spec_def kube_compat_def)
  next
    case False
    with ok P have inv: "kube_inv (srv p)" "dom (orders (srv p)) \<subseteq> issued (uuids (srv p))" by (simp_all add: kube_process_ok_def)
    then have "consul_law (agent (srv p))" by (simp add: kube_inv_def)
    note k = kube_step_silent [OF st this] kube_step_inv [OF st inv(1)]
    have "kube_knows issued (p\<lparr>srv := s\<rparr>) t" if "kube_knows issued p t" for t
      using that k by (cases t) (auto simp: kube_named_def kube_stored_def)
    with k inv P show ?thesis by (auto simp: kube_process_ok_def kube_task_spec_def kube_compat_def)
  qed
qed

subsection \<open>Every interleaving\<close>

text \<open>
  C32: Concurrent orders of the Kubernetes order service, as long as no two assignments to its map
  overlap in time. In every state that any interleaving of requests, registrations and moves of the
  agent reaches from an empty start, with fresh identifiers: every order is stored under its own
  identifier with status \<open>received\<close>, the food catalogue has registered if there is one, every order
  that was answered with 201 is stored as it was answered, and no two requests got the same order.
  So nothing short of an overlap in the map loses an order; the handler does nothing to prevent one.
\<close>

theorem kube_concurrent_orders:
  assumes law: "uuid_law uuid issued" and fresh: "kube_fresh s"
    and reach: "task_reach (kube_task_step torn uuid) kube_starts kube_other (kube_idle s, []) (Some p, ts)"
    and apart: "\<not> overlapped p"
  shows "(\<forall>k ord. orders (srv p) k = Some ord \<longrightarrow> kID ord = k \<and> kStatus ord = ''received'' \<and>
      cServices (agent (srv p)) (cState (agent (srv p))) ''food-catalog-service'' = Some (kube_registration ''food-catalog-service'' 8080)) \<and>
    (\<forall>r. KubeAnswered r \<in> set ts \<longrightarrow> status r = StatusCreated \<longrightarrow>
      (\<exists>ord. r = json_reply StatusCreated (Some (enc_KubeOrder ord)) \<and> orders (srv p) (kID ord) = Some ord)) \<and>
    (\<forall>i j r. i < j \<longrightarrow> j < length ts \<longrightarrow> ts ! i = KubeAnswered r \<longrightarrow> status r = StatusCreated \<longrightarrow> ts ! j \<noteq> KubeAnswered r)"
proof -
  have start: "uuid_law uuid issued \<and> kube_process_ok issued (kube_idle s)"
    using law kube_fresh_inv [OF fresh] fresh by (simp add: kube_process_ok_def kube_fresh_def kube_idle_def)
  have "(uuid_law uuid issued \<and> kube_process_ok issued (Some p)) \<and>
    (\<forall>t \<in> set ts. kube_task_spec issued (Some p) t) \<and> any_two (kube_compat (Some p)) ts"
  proof (rule kube_tasks.reach_keeps [where uuid = uuid and issued = issued, OF reach start], goal_cases)
    case (3 P t u)
    then show ?case by (auto simp: kube_starts_def kube_compat_def kube_task_spec_def)
  next
    case (4 P P')
    then show ?case using kube_other_keeps by blast
  qed simp_all
  then have inv: "kube_inv (srv p)" and spec: "\<forall>t \<in> set ts. kube_knows issued p t" and two: "any_two (kube_compat (Some p)) ts"
    using apart by (auto simp: kube_process_ok_def kube_task_spec_def)
  have stored: "\<exists>ord. r = json_reply StatusCreated (Some (enc_KubeOrder ord)) \<and> orders (srv p) (kID ord) = Some ord"
    if "KubeAnswered r \<in> set ts" and "status r = StatusCreated" for r
    using bspec [OF spec that(1)] that(2) by (auto simp: kube_stored_def)
  have once: "ts ! j \<noteq> KubeAnswered r"
    if "i < j" "j < length ts" and r: "ts ! i = KubeAnswered r" "status r = StatusCreated" for i j r
  proof
    assume j: "ts ! j = KubeAnswered r"
    have "KubeAnswered r \<in> set ts" using that(2) j nth_mem [of j ts] by simp
    from stored [OF this r(2)] have "kube_holds (KubeAnswered r) \<noteq> None" by auto
    moreover have "kube_compat (Some p) (ts ! i) (ts ! j)" using two that(1,2) by (simp add: any_two_def)
    ultimately show False using r(1) j apart by (simp add: kube_compat_def)
  qed
  have "\<forall>k ord. orders (srv p) k = Some ord \<longrightarrow> kID ord = k \<and> kStatus ord = ''received'' \<and>
      cServices (agent (srv p)) (cState (agent (srv p))) ''food-catalog-service'' = Some (kube_registration ''food-catalog-service'' 8080)"
    using inv by (auto simp: kube_inv_def)
  with stored once show ?thesis by blast
qed

lemma kube_start_step:
  "Decode kube_order_fields zero_kube_order body = (True, ord) \<Longrightarrow>
     task_reach adv kube_starts other c (P, ts) \<Longrightarrow> task_reach adv kube_starts other c (P, ts @ [KubeFinding ord])"
  by (erule reach_step) (rule task_starts, auto simp: kube_starts_def)

lemma kube_other_moves:
  assumes "kube_step (srv p) s" and "task_reach adv starts kube_other c (Some p, ts)"
  shows "task_reach adv starts kube_other c (Some (p\<lparr>srv := s\<rparr>), ts)"
  by (rule reach_step [OF assms(2)], rule others_move) (use assms(1) in \<open>auto simp: kube_other_def\<close>)

text \<open>The catalogue registers and its check passes; then one order is placed.\<close>

definition torn_off :: torn_map where "torn_off m ord = Map.empty"

lemma kube1_reached: "task_reach adv starts kube_other (kube_idle kube0, []) (kube_idle kube1, [])"
proof -
  let ?p = "\<lparr>srv = kube0, hashWriting = False, writers = 0, overlapped = False\<rparr>"
  let ?s = "kube0\<lparr>agent := catalog_registerServiceWithConsul (agent kube0)\<rparr>"
  have "task_reach adv starts kube_other (kube_idle kube0, []) (Some ?p, [])" by (simp add: kube_idle_def reach_start)
  from kube_other_moves [OF _ this, of ?s]
  have "task_reach adv starts kube_other (kube_idle kube0, []) (Some (?p\<lparr>srv := ?s\<rparr>), [])"
    by (simp add: kube_step.catalog_registers)
  moreover have "kube_step ?s kube1"
    using kube_step.agent_moves [of ?s "([kube_registration ''food-catalog-service'' 8080], [''food-catalog-service''])"]
    by (simp add: kube1_def kube0_def catalog_registerServiceWithConsul_def mem_consul_def)
  ultimately show ?thesis using kube_other_moves [of "?p\<lparr>srv := ?s\<rparr>" kube1] by (simp add: kube_idle_def)
qed

theorem kube_concurrent_orders_witness:
  "\<exists>p ord. task_reach (kube_task_step torn_off counter_uuid) kube_starts kube_other (kube_idle kube0, [])
      (Some p, [KubeAnswered (json_reply StatusCreated (Some (enc_KubeOrder (received ''0'' [''3'']))))]) \<and>
    enc_KubeOrder (received ''0'' [''3'']) = enc_KubeOrder ord \<and> orders (srv p) (kID ord) = Some ord"
proof -
  let ?reach = "task_reach (kube_task_step torn_off counter_uuid) kube_starts kube_other (kube_idle kube0, [])"
  let ?r = "json_reply StatusCreated (Some (enc_KubeOrder (received ''0'' [''3''])))"
  obtain p where p: "kube_idle (kube1\<lparr>orders := [''0'' \<mapsto> received ''0'' [''3'']], uuids := 1\<rparr>) = Some p" "\<not> overlapped p"
    by (simp add: kube_idle_def)
  from run_alone_reach [OF kube_start_step [OF kube_bodies(1) kube1_reached] kube_run_is_handler [OF kube_bodies(1) kube_muffin]] p
  have reach: "?reach (Some p, [KubeAnswered ?r])" by simp
  have "KubeAnswered ?r \<in> set [KubeAnswered ?r]" "status ?r = StatusCreated" by simp_all
  with kube_concurrent_orders [OF counter_uuid_law kube0_fresh reach p(2)]
  obtain ord where "?r = json_reply StatusCreated (Some (enc_KubeOrder ord))" "orders (srv p) (kID ord) = Some ord" by blast
  with reach show ?thesis by (auto simp: json_reply_def)
qed

text \<open>
  C33: The map of orders is not safe for concurrent use. From every state of the running process in
  which no assignment is under way and the catalogue is found, two well-formed orders sent at the
  same time can abort the program, and every order it holds in memory is lost.
\<close>

theorem kube_map_race:
  assumes found: "findService (agent (srv p)) ''food-catalog-service'' = Inr addr" and idle: "\<not> hashWriting p"
    and b1: "Decode kube_order_fields zero_kube_order b1 = (True, o1)"
    and b2: "Decode kube_order_fields zero_kube_order b2 = (True, o2)"
  shows "\<exists>ts'. task_reach (kube_task_step torn uuid) kube_starts kube_other (Some p, ts) (None, ts')"
proof -
  let ?reach = "task_reach (kube_task_step torn uuid) kube_starts kube_other (Some p, ts)"
  obtain u1 g1 where u1: "GenerateUUID uuid (uuids (srv p)) = (u1, g1)" by fastforce
  obtain u2 g2 where u2: "GenerateUUID uuid g1 = (u2, g2)" by fastforce
  obtain n1 p1 where first: "run_alone (kube_task_step torn uuid) 5 (KubeFinding o1) (Some p) = (KubeWriting n1, Some p1)"
    and p1: "hashWriting p1" "agent (srv p1) = agent (srv p)" "uuids (srv p1) = g1"
    using found u1 idle by (simp add: numeral_eq_Suc)
  from run_alone_reach [OF kube_start_step [OF b1 reach_start] first]
  have "?reach (Some p1, ts @ [KubeWriting n1])" .
  note two = kube_start_step [OF b2 this]
  obtain n2 where "run_alone (kube_task_step torn uuid) 3 (KubeFinding o2) (Some p1) = (KubeTesting n2, None)"
    using found u2 p1 by (simp add: numeral_eq_Suc)
  from run_alone_reach [OF two this] show ?thesis by blast
qed

theorem kube_map_race_witness:
  "\<exists>ts'. task_reach (kube_task_step torn_off counter_uuid) kube_starts kube_other (kube_idle kube1, []) (None, ts')"
  unfolding kube_idle_def by (rule kube_map_race [OF _ _ kube_bodies]) (simp_all add: kube1_found)

text \<open>
  C35: The runtime's check does not protect the orders. From every state of the running process in
  which no assignment is under way and the catalogue is found, three well-formed orders sent at the
  same time can make two assignments overlap without either being noticed: both requests are answered
  with 201 while the process runs on, and what the map then holds is not defined.
\<close>

theorem kube_overlap_unnoticed:
  assumes found: "findService (agent (srv p)) ''food-catalog-service'' = Inr addr" and idle: "\<not> hashWriting p"
    and bodies: "Decode kube_order_fields zero_kube_order b1 = (True, o1)"
      "Decode kube_order_fields zero_kube_order b2 = (True, o2)" "Decode kube_order_fields zero_kube_order b3 = (True, o3)"
  shows "\<exists>p' r1 r2 t. task_reach (kube_task_step torn uuid) kube_starts kube_other (Some p, [])
      (Some p', [KubeAnswered r1, KubeAnswered r2, t]) \<and> overlapped p' \<and> status r1 = 201 \<and> status r2 = 201"
proof -
  let ?adv = "kube_task_step torn uuid"
  let ?reach = "\<lambda>P ts. task_reach ?adv kube_starts kube_other (Some p, []) (P, ts)"
  obtain u1 g1 where u1: "GenerateUUID uuid (uuids (srv p)) = (u1, g1)" by fastforce
  obtain u2 g2 where u2: "GenerateUUID uuid g1 = (u2, g2)" by fastforce
  obtain u3 g3 where u3: "GenerateUUID uuid g2 = (u3, g3)" by fastforce
  have start: "?reach (Some p) [KubeFinding o1, KubeFinding o2, KubeFinding o3]"
    using kube_start_step [OF bodies(3) kube_start_step [OF bodies(2) kube_start_step [OF bodies(1) reach_start]],
      of ?adv kube_other "Some p" "[]"] by simp
  txt \<open>Two requests have passed the test of the flag and loaded it, before either sets it.\<close>
  obtain n1 p1 where 1: "run_alone ?adv 4 (KubeFinding o1) (Some p) = (KubeMarking True n1, Some p1)"
    "\<not> hashWriting p1" "agent (srv p1) = agent (srv p)" "uuids (srv p1) = g1" "writers p1 = writers p"
    using found u1 idle by (simp add: numeral_eq_Suc)
  obtain n2 p2 where 2: "run_alone ?adv 4 (KubeFinding o2) (Some p1) = (KubeMarking True n2, Some p2)"
    "\<not> hashWriting p2" "agent (srv p2) = agent (srv p)" "uuids (srv p2) = g2" "writers p2 = writers p"
    using found u2 1 by (simp add: numeral_eq_Suc)
  have r2: "?reach (Some p2) [KubeMarking True n1, KubeMarking True n2, KubeFinding o3]"
    using run_at_reach [OF run_at_reach [OF start, of 0 4 "KubeMarking True n1" "Some p1"], of 1 4 "KubeMarking True n2" "Some p2"] 1(1) 2(1)
    by simp
  txt \<open>Both write; the first clears the flag; the third sets it; the second clears it.\<close>
  obtain p3 where 3: "run_alone ?adv 2 (KubeMarking True n1) (Some p2) = (KubeClearing n1, Some p3)"
    "hashWriting p3" "agent (srv p3) = agent (srv p)" "uuids (srv p3) = g2" "writers p3 = Suc (writers p)"
    using 2 by (simp add: numeral_eq_Suc)
  obtain p4 where 4: "run_alone ?adv 2 (KubeMarking True n2) (Some p3) = (KubeClearing n2, Some p4)"
    "hashWriting p4" "agent (srv p4) = agent (srv p)" "uuids (srv p4) = g2" "overlapped p4"
    using 3 by (simp add: numeral_eq_Suc)
  obtain ra p5 where 5: "run_alone ?adv 1 (KubeClearing n1) (Some p4) = (KubeAnswered ra, Some p5)" "status ra = 201"
    "\<not> hashWriting p5" "agent (srv p5) = agent (srv p)" "uuids (srv p5) = g2" "overlapped p5"
    using 4 by simp
  obtain n3 p6 where 6: "run_alone ?adv 5 (KubeFinding o3) (Some p5) = (KubeWriting n3, Some p6)" "hashWriting p6" "overlapped p6"
    using found u3 5 by (simp add: numeral_eq_Suc)
  obtain rb p7 where 7: "run_alone ?adv 1 (KubeClearing n2) (Some p6) = (KubeAnswered rb, Some p7)" "status rb = 201" "overlapped p7"
    using 6 by simp
  have "?reach (Some p4) [KubeClearing n1, KubeClearing n2, KubeFinding o3]"
    using run_at_reach [OF run_at_reach [OF r2, of 0 2 "KubeClearing n1" "Some p3"], of 1 2 "KubeClearing n2" "Some p4"] 3(1) 4(1)
    by simp
  from run_at_reach [OF run_at_reach [OF run_at_reach [OF this, of 0 1 "KubeAnswered ra" "Some p5"],
      of 2 5 "KubeWriting n3" "Some p6"], of 1 1 "KubeAnswered rb" "Some p7"] 5(1) 6(1) 7(1)
  have "?reach (Some p7) [KubeAnswered ra, KubeAnswered rb, KubeWriting n3]" by simp
  with 5(2) 7(2,3) show ?thesis by blast
qed

theorem kube_overlap_unnoticed_witness:
  "\<exists>p' r1 r2 t. task_reach (kube_task_step torn_off counter_uuid) kube_starts kube_other (kube_idle kube1, [])
      (Some p', [KubeAnswered r1, KubeAnswered r2, t]) \<and> overlapped p' \<and> status r1 = 201 \<and> status r2 = 201"
  unfolding kube_idle_def
  by (rule kube_overlap_unnoticed [OF _ _ kube_bodies(1,2) kube_bodies(1)]) (simp_all add: kube1_found)

end
