(* ===== verification/Spec2Isabelle.thy ===== *)
theory Spec2Isabelle
  imports Cafe_Spec Cafe_Getters Cafe_Migration Rest_Concurrent Rest_Roundtrip Monolith_Concurrent Practical5a
    Discovery_Gateway Kube_Concurrent
begin

text \<open>
  \<^bold>\<open>The student cafe: a monolith, its split into services, and their gateways.\<close>

  The repository holds the programs of a course on microservices, all under \<open>src/practicals\<close>. The
  largest, \<open>practical6-example\<close>, is a cafe of four programs: a user, a menu and an order service
  that speak gRPC, each with a PostgreSQL database, and an HTTP gateway in front of them; placing
  an order makes the order service call the other two. \<open>practical5\<close> has the monolith the cafe was
  split from, the first split into REST services and a forwarding gateway. \<open>practical2\<close> and
  \<open>practical4\<close> are smaller systems whose services find each other through Consul.

  \<^bold>\<open>Foundations.\<close> \<open>Go_Prelude\<close>: Go's integers as words with their conversions, decimal numerals,
  \<open>strings.Split\<close> and friends, errors, and the outcome of a method (a return, an error, a panic).
  \<open>Go_Json\<close>: \<open>encoding/json\<close> on the values the programs use, with the partly decoded value that a
  failed decoding leaves behind, HTTP responses, and time. \<open>Gorm\<close>: a database handle as a record of
  the calls the programs make, and the law \<open>gorm_ok\<close> they rely on; \<open>Gorm_Memory\<close> has a table in
  memory that obeys it. \<open>Chi\<close>: route tables, the law \<open>chi_law\<close> of a router and a router that obeys
  it, proxies. \<open>Consul\<close>: an agent as a record of calls with the law \<open>consul_law\<close>, the locales
  \<open>finder\<close>, \<open>registrar\<close> and \<open>discovered\<close> for the routines that look up and register services, and
  an agent in memory. \<open>Interleaving\<close>: handlers that run concurrently as tasks that advance by one
  call, and the locales \<open>interference_free\<close> and \<open>interleaved\<close> for what such tasks keep; the order
  handlers of all four cafes interpret them.

  \<^bold>\<open>The gRPC cafe\<close> (\<open>practical6-example\<close>).
  \<^item> \<open>Cafe_Protos\<close>: the messages, client stubs, method handlers and service descriptors of
    \<open>student-cafe-protos/gen/go\<close>. \<open>Cafe_Getters\<close>: the accessors of the messages, and what a client
    reads through them of the reply to an order.
  \<^item> \<open>Service_Contract\<close>: the locales \<open>record_service\<close>, \<open>precise_service\<close> and \<open>listing_service\<close>, the
    contract a service over one table keeps; interpreted in \<open>User_Service\<close>, \<open>Menu_Service\<close> and
    \<open>Order_Service\<close> (\<open>*/grpc/server.go\<close>, \<open>*/models\<close>) on the methods of the code, and the source
    of their read-back, listing and distinct-key properties.
  \<^item> \<open>Order_Validation\<close>: the specification \<open>place_order\<close>, and the locales \<open>order_backends\<close> and
    \<open>live_backends\<close> for what \<open>CreateOrder\<close> relies on.
  \<^item> \<open>Cafe_World\<close>: the three services over a transport that may lose requests or replies; each stub
    call is shown to be a call of the method. \<open>Cafe_System\<close>: the step relation \<open>cafe_step\<close>, in
    which an order in progress advances one remote call at a time (\<open>order_task_step\<close>) between
    other requests, and its invariant.
  \<^item> \<open>Gateway\<close> (\<open>api-gateway\<close>): clients, handlers, JSON, error translation, routes, \<open>main\<close>.
    \<open>Cafe_Http\<close> composes it with the services, \<open>Cafe_Demo\<close> is a concrete run that the witnesses
    use, \<open>Cafe_Boundary\<close> has the answers to lookups and orders on every branch and at the edges.
  \<^item> \<open>Cafe_Requests\<close>: the cafe as its clients see it. A request is a run of \<open>cafe_step\<close>; an order takes
    effect in the one step that stores it; a valid order in progress completes whatever runs in
    between; the three listings are complete.
  \<^item> \<open>Cafe_Spec\<close>: the abstract cafe, three tables and the replies each request may get in them
    (\<open>served\<close>, \<open>cafe_answers\<close>), and that every history of HTTP requests refines it.
  \<^item> \<open>Order_Service_5a\<close> and \<open>Practical5a\<close>: the services of \<open>practical5a\<close>, the stage before the client
    fields of the order service were exported. They are shown equal to the later ones, and that is
    how their own properties are proved: they place orders as \<open>place_order\<close> prescribes, and what they
    store can be read back.
  \<^item> \<open>Service_Main\<close>: \<open>database.Connect\<close> and \<open>main\<close> of all services and the monolith, and that the
    four programs fit together as shipped.

  \<^bold>\<open>The earlier cafes\<close> (\<open>practical5\<close>, and the handlers left over in \<open>practical6-example\<close>).
  \<open>Rest_Model\<close> and \<open>Rest_Services\<close>: the REST services, whose bodies are decoded straight into GORM
  models; \<open>Rest_Roundtrip\<close>: their JSON, time stamps included, is decoded to the record it was encoded
  from, so a record can be moved from one instance to another; \<open>Rest_Cafe\<close> composes the order
  service with the other two. \<open>Grpc_Rest_Orders\<close>: the REST
  order handlers over gRPC clients. \<open>Monolith\<close>: all handlers over one database, with its own
  specification \<open>place_order64\<close>; \<open>Monolith_System\<close>: its invariant along every history of requests
  through \<open>mono_routes\<close>; \<open>Monolith_Concurrent\<close>: its handlers in goroutines of their own, with an
  order as a task (\<open>mono_task_step\<close>) that makes one database call at a time. \<open>Cafe_Migration\<close>: the
  monolith and the gRPC order service accept the same orders where 32-bit identifiers suffice.
  \<open>Proxy_Gateway\<close>: the forwarding gateway. \<open>Rest_System\<close>: the gateway in front of the three REST
  services, and what holds of the orders across their databases, when any call, by its place in the
  history, may be lost before or after the service has handled it; \<open>Rest_Concurrent\<close>: the same when
  orders are in progress (\<open>rest_task_step\<close>, one HTTP call at a time) between other requests.

  \<^bold>\<open>Service discovery.\<close> \<open>Discovery_Gateway\<close>: the gateway and the two services of \<open>practical2\<close>. The
  check of a fresh registration is critical until the agent has run it, so a service is found only
  some time after it has started. \<open>Kube_Cafe\<close>: the order service and the catalogue of
  \<open>practical4/student-cafe\<close>, with the registrations and the moves of the agent (\<open>kube_step\<close>).
  \<open>Kube_Concurrent\<close>: concurrent requests to the order service (\<open>kube_task_step\<close>), whose handlers write
  a global map without a lock. An assignment is several steps: the runtime tests the map's flag,
  toggles it by a load and a store, writes, tests the flag again and clears it. Shown are: no answered
  order is lost as long as no two assignments overlap; two requests at the same time can abort the
  process; and three can make two assignments overlap unnoticed.

  \<^bold>\<open>What is shown.\<close> This theory has the properties of the composed gRPC cafe: referential
  integrity in every reachable state, no panic, refinement of \<open>place_order\<close>, rejection of invalid and
  acceptance of valid orders, and the round trips through the gateway. The properties of a component stand in its theory. Several of
  them state what the code does where it departs from its comments: orders priced at 0 by the REST
  order service, identifiers truncated before a lookup, quantities that become negative, keys and
  deletion times taken from the client, orders that replace each other when no identifier can be
  generated, and failures of the network that are reported as mistakes of the client.

  \<^bold>\<open>Loops and fuel.\<close> Every loop of the code is structural recursion over a list. \<open>run_task\<close> takes
  a number of steps; two more than the number of items are enough for the handler
  (\<open>run_task_is_CreateOrder\<close>), and from any moment of an interleaving for a valid order
  (\<open>valid_order_completes\<close>). The order tasks of the earlier cafes run alone by \<open>run_alone\<close>, with the
  same number of steps for the monolith and the REST services (\<open>mono_run_is_handler\<close>,
  \<open>rest_run_is_handler\<close>) and seven for the Kubernetes service (\<open>kube_run_is_handler\<close>).

  \<^bold>\<open>Parameters.\<close> Code outside the repository is an argument of the definitions: GORM and PostgreSQL,
  the gRPC transport, the chi router, \<open>httputil.ReverseProxy\<close>'s network, Consul, \<open>go-uuid\<close>, the
  environment and the listener. Each law a theorem assumes about one of them is a named definition,
  and a concrete instance in the same theory satisfies it. The laws of GORM take a column to return
  the value it was given. Prices are \<open>float64\<close> in columns of PostgreSQL's unlimited \<open>numeric\<close>, which
  keeps the shortest decimal of every finite number and so returns the same bits, but for one value:
  a price of minus zero comes back as zero. Prices of minus zero are outside the model.

  \<^bold>\<open>Not modelled.\<close> Logging and the chi middleware; contexts and cancellation; protobuf's wire format
  and reflection; HTTP headers other than the content type; the escaping of raw
  paths; SQL conditions written into the path of the REST services (a parameter answers them);
  connection pools and transactions. What the order map of \<open>practical4\<close> holds after an overlap that the
  runtime's check has missed has no meaning in Go and is a parameter. The gateway of \<open>practical5a\<close> does not type-check, so there is
  no program to model; the REST handlers left over in \<open>practical5a\<close> and \<open>practical6-example\<close> are never
  called and, but for the order handlers of \<open>Grpc_Rest_Orders\<close>, the files of \<open>practical5\<close>. Tests,
  shell scripts, Docker and Kubernetes files and the React client are not part of the development.
\<close>

section \<open>The composed services\<close>

text \<open>
  C1: Referential integrity across the services. In every state the system can reach from an
  empty start, under any interleaving of requests and orders in progress and with any calls or
  replies lost, every stored order is pending, belongs to a stored user, and each of its items
  names a stored menu item and carries that item's price.
\<close>

theorem referential_integrity:
  assumes "fresh_system s" and "cafe_reach T s s'"
    and "order_rows (order_db (world s')) k = Some (uid, st, items)"
  shows "st = ''pending'' \<and> user_rows (user_db (world s')) uid \<noteq> None \<and>
    (\<forall>(m, q, p) \<in># items. \<exists>n d. menu_rows (menu_db (world s')) m = Some (n, d, p))"
proof -
  have "orders_valid (world s')"
    using system_inv_reach [OF assms(2) system_inv_fresh [OF assms(1)]] by (simp add: system_inv_def)
  with assms(3) have "order_valid (world s') (uid, st, items)" unfolding orders_valid_def by blast
  then show ?thesis unfolding order_valid_def item_on_menu_def prod.case by fast
qed

theorem referential_integrity_witness:
  "user_rows (user_db demo3) 1 \<noteq> None \<and>
   (\<exists>n d. menu_rows (menu_db demo3) 1 = Some (n, d, 0x4008000000000000))"
  using referential_integrity [OF demo0_fresh cafe_reach_trans [OF demo_run(2,1)], of 1] demo_rows(3) by simp

text \<open>
  C6: No order handler ever dereferences a missing menu item: in every reachable state, the
  orders that are finished returned a response or an error, never a panic.
\<close>

theorem orders_never_panic:
  assumes "fresh_system s" and "cafe_reach T s s'" and "Finished x \<in> set (tasks s')"
  shows "x \<noteq> Panic"
  using system_inv_reach [OF assms(2) system_inv_fresh [OF assms(1)]] assms(3)
  unfolding system_inv_def by fastforce

theorem orders_never_panic_witness:
  "Return \<lparr>co_order = Some (order_modelToProto two_coffees)\<rparr> \<noteq> (Panic :: CreateOrderResponse outcome)"
  using orders_never_panic [OF demo0_fresh cafe_reach_trans [OF demo_run(2,1)]] by simp

text \<open>
  C2: The order service implements its specification. Whatever the network does, a request it
  accepts is one \<open>place_order\<close> accepts against the users and prices the other services know;
  the order stored, under a fresh non-zero key, is the one \<open>place_order\<close> prescribes; the reply
  carries that key and that data; and the users and prices are left alone.
\<close>

theorem CreateOrder_implements_place_order:
  assumes "backends_ok w" and "gorm_ok order_cols (order_db w)"
    and "OrderServer_CreateOrder (tp_err_text T) (order_server T) req (w, order_db w) = (Return p, (w', db'))"
  shows "\<exists>ord k. place_order (known_user w) (menu_price w) req = Some ord \<and>
    k \<noteq> 0 \<and> order_rows (order_db w) k = None \<and> order_rows db' = (order_rows (order_db w))(k \<mapsto> order_cols ord) \<and>
    map_option proto_order_data (co_order p) = Some (uint32_of_uint k, narrow_order (order_cols ord)) \<and>
    known_user w' = known_user w \<and> menu_price w' = menu_price w"
  using cafe_orders.CreateOrder_refines [OF assms] cafe_orders.CreateOrder_frame [OF assms(1,3)] by metis

theorem CreateOrder_implements_place_order_witness:
  "\<exists>ord k. place_order (known_user demo2) (menu_price demo2) demo_request = Some ord \<and> k \<noteq> 0 \<and>
    order_rows order_mem k = None \<and>
    order_rows (order_mem\<lparr>gState := (2, [two_coffees])\<rparr>) = (order_rows order_mem)(k \<mapsto> order_cols ord)"
proof -
  have db: "order_db demo2 = order_mem" by (simp add: demo2_def demo1_def demo0_def)
  have ok: "backends_ok demo2" using demo_up(3) by (simp add: backends_up_def)
  note c = demo_CreateOrder [folded demo_request_def, folded db]
  from CreateOrder_implements_place_order [OF ok demo_up(5) c] show ?thesis unfolding db by blast
qed

text \<open>
  C3: A request for an unknown user, or with an unknown menu item anywhere among its items, is
  rejected with \<open>InvalidArgument\<close> and never reaches the order database, whatever the network
  does.
\<close>

theorem invalid_order_rejected:
  assumes "backends_ok w"
    and "\<not> known_user w (co_user_id req) \<or> (\<exists>it \<in> set (co_items req). menu_price w (oir_menu_item_id it) = None)"
  shows "\<exists>m w'. OrderServer_CreateOrder (tp_err_text T) (order_server T) req (w, db) =
    (Error (StatusError InvalidArgument m), (w', db))"
  using cafe_orders.CreateOrder_rejects [OF assms(1)] assms(2) by (simp add: place_order_None)

theorem invalid_order_rejected_witness:
  "\<exists>m w'. OrderServer_CreateOrder (tp_err_text perfect) (order_server perfect)
     \<lparr>co_user_id = 1, co_items = [\<lparr>oir_menu_item_id = 9, oir_quantity = 1\<rparr>]\<rparr> (demo2, order_mem) =
   (Error (StatusError InvalidArgument m), (w', order_mem))"
proof -
  have ok: "backends_ok demo2" using demo_up(3) by (simp add: backends_up_def)
  have "menu_price demo2 9 = None"
    by (simp add: menu_price_def menu_rows_def contents_def demo2_def mem_rows_def coffee_def uint_of_uint32_def)
  then show ?thesis by (intro invalid_order_rejected [OF ok]) simp
qed

text \<open>
  C4: A valid request is accepted: with a network that delivers and databases that answer, the
  outcome is decided by nothing but the insertion of the order \<open>place_order\<close> prescribes, and a
  failed insertion is an \<open>Internal\<close> error.
\<close>

theorem valid_order_accepted:
  assumes "backends_up T w" and "place_order (known_user w) (menu_price w) req = Some ord"
  shows "\<exists>w' y db'. DB_Create ord db = (y, db') \<and>
    OrderServer_CreateOrder (tp_err_text T) (order_server T) req (w, db) =
      (case y of
         Inl e \<Rightarrow> Error (StatusError Internal (''failed to create order: '' @ gorm_error_text e))
       | Inr r \<Rightarrow> Return \<lparr>co_order = Some (order_modelToProto r)\<rparr>, (w', db'))"
  using assms by (rule cafe_orders_up.CreateOrder_complete)

theorem valid_order_accepted_witness:
  "\<exists>ord w' y db'. place_order (known_user demo2) (menu_price demo2) demo_request = Some ord \<and>
    DB_Create ord order_mem = (y, db') \<and>
    OrderServer_CreateOrder (tp_err_text perfect) (order_server perfect) demo_request (demo2, order_mem) =
      (case y of
         Inl e \<Rightarrow> Error (StatusError Internal (''failed to create order: '' @ gorm_error_text e))
       | Inr r \<Rightarrow> Return \<lparr>co_order = Some (order_modelToProto r)\<rparr>, (w', db'))"
proof -
  obtain ord where "place_order (known_user demo2) (menu_price demo2) demo_request = Some ord" using demo_place_order by blast
  from this valid_order_accepted [OF demo_up(3) this, of order_mem] show ?thesis by blast
qed

section \<open>The system behind its gateway\<close>

text \<open>
  C8: A user registered through the gateway is found through the gateway. After a successful
  \<open>POST /api/users\<close>, and any further activity of the system, \<open>GET /api/users/{id}\<close> with the
  identifier of the reply answers 200 with the data of the posted body, as long as identifiers
  fit 32 bits and the services answer.
\<close>

theorem http_user_round_trip:
  assumes "chi_law chi" and "backends_ok w"
    and "cafe_http T chi miss ''POST'' ''/api/users'' body w = (r, w1)" and "status r = StatusCreated"
    and "cafe_reach T \<lparr>world = w1, tasks = ts\<rparr> \<lparr>world = w2, tasks = ts'\<rparr>"
    and "keys_fit (user_rows (user_db w2))" and "backends_up T w2"
  shows "\<exists>req u u' w3. Decode user_body_fields zero_user_body body = (True, req) \<and>
    r = json_reply StatusCreated (Some (enc_UserProto u)) \<and>
    cafe_http T chi miss ''GET'' (''/api/users/'' @ fmt_uint (user_id u)) body' w2 =
      (json_reply StatusOK (Some (enc_UserProto u')), w3) \<and>
    proto_user_data u' = (user_id u, ub_name req, ub_email req, ub_is_cafe_owner req)"
proof -
  have "Handlers_CreateUser (gateway_clients T) body w = (r, w1)" "status r < 400"
    using assms(3,4) by (simp_all add: cafe_http_routes(1) [OF assms(1)])
  then obtain req p n db where req: "Decode user_body_fields zero_user_body body = (True, req)"
    and c: "UserServer_CreateUser \<lparr>cu_name = ub_name req, cu_email = ub_email req,
           cu_is_cafe_owner = ub_is_cafe_owner req\<rparr> (user_db w) = (Return p, db)"
    and w1: "w1 = w\<lparr>net := n, user_db := db\<rparr>"
    and r: "r = json_reply StatusCreated (enc_ptr (\<lambda>u. Some (enc_UserProto u)) (cu_user p))"
    by (rule CreateUser_reply)
  from assms(2) have ok: "gorm_ok user_cols (user_db w)" by (simp add: backends_ok_def)
  from CreateUser_Return [OF ok c] obtain k u where u: "cu_user p = Some u"
    "proto_user_data u = (uint32_of_uint k, ub_name req, ub_email req, ub_is_cafe_owner req)"
    "user_rows db = (user_rows (user_db w))(k \<mapsto> (ub_name req, ub_email req, ub_is_cafe_owner req))" by auto
  have "backends_ok w1" using assms(2) CreateUser_keeps_ok [OF c] by (simp add: w1 backends_ok_def)
  with cafe_reach_grows [OF assms(5)] have "grows w1 w2" by simp
  moreover have "user_rows (user_db w1) k = Some (ub_name req, ub_email req, ub_is_cafe_owner req)"
    by (simp add: w1 u(3))
  ultimately have k: "user_rows (user_db w2) k = Some (ub_name req, ub_email req, ub_is_cafe_owner req)"
    by (blast intro: user_grows)
  have "unat k < 2 ^ 32" using assms(6) k unfolding keys_fit_def by blast
  then have key: "uint_of_uint32 (user_id u) = k"
    using u(2) by (simp add: proto_user_data_def uint32_roundtrip_iff)
  from gateway_GetUser [OF assms(7), of "user_id u"] k key obtain u' w3 where
    "Handlers_GetUser (gateway_clients T) (fmt_uint (user_id u)) w2 = (json_reply StatusOK (Some (enc_UserProto u')), w3)"
    "proto_user_data u' = (user_id u, ub_name req, ub_email req, ub_is_cafe_owner req)" by auto
  moreover from r u(1) have "r = json_reply StatusCreated (Some (enc_UserProto u))" by (simp add: enc_ptr_def)
  ultimately show ?thesis unfolding cafe_http_routes(7) [OF assms(1) segment_fmt] using req by blast
qed

theorem http_user_round_trip_witness:
  "\<exists>(u :: UserProto) u' w3. cafe_http perfect chi_ref demo_miss ''GET'' (''/api/users/'' @ fmt_uint (user_id (u :: UserProto))) None demo3 =
      (json_reply StatusOK (Some (enc_UserProto u')), w3) \<and>
    proto_user_data u' = (user_id u, ''Alice'', ''alice@cafe'', False)"
proof -
  have reach: "cafe_reach perfect \<lparr>world = demo1, tasks = []\<rparr>
     \<lparr>world = demo3, tasks = [Finished (Return \<lparr>co_order = Some (order_modelToProto two_coffees)\<rparr>)]\<rparr>"
    by (rule cafe_reach_trans [OF demo_run(2) cafe_reach.step [OF cafe_reach.start demo_steps(2)]])
  have ok: "backends_ok demo0" using demo_up(1) by (simp add: backends_up_def)
  have d: "Decode user_body_fields zero_user_body alice_body =
      (True, \<lparr>ub_name = ''Alice'', ub_email = ''alice@cafe'', ub_is_cafe_owner = False\<rparr>)"
    by (simp add: Decode_def alice_body_def user_body_fields_def zero_user_body_def lookup_field_def field_def)
  have st: "status (json_reply StatusCreated (Some (enc_UserProto (user_modelToProto alice)))) = StatusCreated" by simp
  from http_user_round_trip [OF chi_ref_law ok demo_post_user st reach demo_fit(1) demo_up(4), of None]
  obtain req u u' w3 where "Decode user_body_fields zero_user_body alice_body = (True, req)" and
    g: "cafe_http perfect chi_ref demo_miss ''GET'' (''/api/users/'' @ fmt_uint (user_id (u :: UserProto))) None demo3 =
      (json_reply StatusOK (Some (enc_UserProto u')), w3)" and
    u': "proto_user_data u' = (user_id u, ub_name req, ub_email req, ub_is_cafe_owner req)" by blast
  with d have "proto_user_data u' = (user_id u, ''Alice'', ''alice@cafe'', False)" by auto
  with g show ?thesis by blast
qed

text \<open>
  C9: A menu item added through the gateway is found through the gateway, with the price of the
  posted body bit for bit, whatever else the system did in between.
\<close>

theorem http_menu_round_trip:
  assumes "chi_law chi" and "backends_ok w"
    and "cafe_http T chi miss ''POST'' ''/api/menu'' body w = (r, w1)" and "status r = StatusCreated"
    and "cafe_reach T \<lparr>world = w1, tasks = ts\<rparr> \<lparr>world = w2, tasks = ts'\<rparr>"
    and "keys_fit (menu_rows (menu_db w2))" and "backends_up T w2"
  shows "\<exists>req u u' w3. Decode menu_body_fields zero_menu_body body = (True, req) \<and>
    r = json_reply StatusCreated (enc_MenuItemProto u) \<and>
    cafe_http T chi miss ''GET'' (''/api/menu/'' @ fmt_uint (mi_id u)) body' w2 =
      (json_reply StatusOK (enc_MenuItemProto u'), w3) \<and>
    proto_menu_data u' = (mi_id u, mb_name req, mb_description req, mb_price req)"
proof -
  have "Handlers_CreateMenuItem (gateway_clients T) body w = (r, w1)" "status r < 400"
    using assms(3,4) by (simp_all add: cafe_http_routes(2) [OF assms(1)])
  then obtain req p n db where req: "Decode menu_body_fields zero_menu_body body = (True, req)"
    and c: "MenuServer_CreateMenuItem \<lparr>cm_name = mb_name req, cm_description = mb_description req,
           cm_price = mb_price req\<rparr> (menu_db w) = (Return p, db)"
    and w1: "w1 = w\<lparr>net := n, menu_db := db\<rparr>"
    and r: "r = json_reply StatusCreated (enc_ptr enc_MenuItemProto (cm_menu_item p))"
    by (rule CreateMenuItem_reply)
  from assms(2) have ok: "gorm_ok menu_cols (menu_db w)" by (simp add: backends_ok_def)
  from CreateMenuItem_Return [OF ok c] obtain k u where u: "cm_menu_item p = Some u"
    "proto_menu_data u = (uint32_of_uint k, mb_name req, mb_description req, mb_price req)"
    "menu_rows db = (menu_rows (menu_db w))(k \<mapsto> (mb_name req, mb_description req, mb_price req))" by auto
  have "backends_ok w1" using assms(2) CreateMenuItem_keeps_ok [OF c] by (simp add: w1 backends_ok_def)
  with cafe_reach_grows [OF assms(5)] have "menu_rows (menu_db w1) \<subseteq>\<^sub>m menu_rows (menu_db w2)"
    by (simp add: grows_def)
  moreover have "menu_rows (menu_db w1) k = Some (mb_name req, mb_description req, mb_price req)"
    by (simp add: w1 u(3))
  ultimately have k: "menu_rows (menu_db w2) k = Some (mb_name req, mb_description req, mb_price req)"
    by (rule map_le_Some)
  have "unat k < 2 ^ 32" using assms(6) k unfolding keys_fit_def by blast
  then have key: "uint_of_uint32 (mi_id u) = k"
    using u(2) by (simp add: proto_menu_data_def uint32_roundtrip_iff)
  from gateway_GetMenuItem [OF assms(7), of "mi_id u"] k key obtain u' w3 where
    "Handlers_GetMenuItem (gateway_clients T) (fmt_uint (mi_id u)) w2 = (json_reply StatusOK (enc_MenuItemProto u'), w3)"
    "proto_menu_data u' = (mi_id u, mb_name req, mb_description req, mb_price req)" by auto
  moreover from r u(1) have "r = json_reply StatusCreated (enc_MenuItemProto u)" by (simp add: enc_ptr_def)
  ultimately show ?thesis unfolding cafe_http_routes(8) [OF assms(1) segment_fmt] using req by blast
qed

theorem http_menu_round_trip_witness:
  "\<exists>u u' w3. cafe_http perfect chi_ref demo_miss ''GET'' (''/api/menu/'' @ fmt_uint (mi_id (u :: MenuItemProto))) None demo3 =
      (json_reply StatusOK (enc_MenuItemProto u'), w3) \<and>
    proto_menu_data u' = (mi_id u, ''Coffee'', [], 0x4008000000000000)"
proof -
  have ok: "backends_ok demo1" using demo_up(2) by (simp add: backends_up_def)
  have d: "Decode menu_body_fields zero_menu_body coffee_body =
      (True, \<lparr>mb_name = ''Coffee'', mb_description = [], mb_price = 0x4008000000000000\<rparr>)"
    by (simp add: Decode_def coffee_body_def menu_body_fields_def zero_menu_body_def lookup_field_def field_def float64_3)
  have st: "status (json_reply StatusCreated (enc_MenuItemProto (menu_modelToProto coffee))) = StatusCreated" by simp
  from http_menu_round_trip [OF chi_ref_law ok demo_post_menu st demo_run(2) demo_fit(2) demo_up(4), of None]
  obtain req u u' w3 where "Decode menu_body_fields zero_menu_body coffee_body = (True, req)" and
    g: "cafe_http perfect chi_ref demo_miss ''GET'' (''/api/menu/'' @ fmt_uint (mi_id (u :: MenuItemProto))) None demo3 =
      (json_reply StatusOK (enc_MenuItemProto u'), w3)" and
    u': "proto_menu_data u' = (mi_id u, mb_name req, mb_description req, mb_price req)" by blast
  with d have "proto_menu_data u' = (mi_id u, ''Coffee'', [], 0x4008000000000000)" by auto
  with g show ?thesis by blast
qed

text \<open>
  C7: An order placed through the gateway is found through the gateway. Its stored data is the
  order the request denotes, at the prices of the menu when it was placed, whatever the system
  did in between.
\<close>

theorem http_order_round_trip:
  assumes "chi_law chi" and "backends_ok w" and "gorm_ok order_cols (order_db w)"
    and "cafe_http T chi miss ''POST'' ''/api/orders'' body w = (r, w1)" and "status r = StatusCreated"
    and "system_inv \<lparr>world = w1, tasks = ts\<rparr>"
    and "cafe_reach T \<lparr>world = w1, tasks = ts\<rparr> \<lparr>world = w2, tasks = ts'\<rparr>"
    and "keys_fit (order_rows (order_db w2))" and "reliable T" and "gorm_up (order_db w2)"
  shows "\<exists>req ord u u' w3. Decode order_body_fields zero_order_body body = (True, req) \<and>
    place_order (known_user w) (menu_price w)
      \<lparr>co_user_id = ob_user_id req, co_items = map to_order_item (ob_items req)\<rparr> = Some ord \<and>
    r = json_reply StatusCreated (enc_OrderProto u) \<and>
    cafe_http T chi miss ''GET'' (''/api/orders/'' @ fmt_uint (o_id u)) body' w2 =
      (json_reply StatusOK (enc_OrderProto u'), w3) \<and>
    proto_order_data u' = (o_id u, narrow_order (order_cols ord))"
proof -
  have "Handlers_CreateOrder (gateway_clients T) body w = (r, w1)" "status r < 400"
    using assms(4,5) by (simp_all add: cafe_http_routes(3) [OF assms(1)])
  then obtain req ord k u where req: "Decode order_body_fields zero_order_body body = (True, req)"
    and ord: "place_order (known_user w) (menu_price w)
        \<lparr>co_user_id = ob_user_id req, co_items = map to_order_item (ob_items req)\<rparr> = Some ord"
    and rows: "order_rows (order_db w1) = (order_rows (order_db w))(k \<mapsto> order_cols ord)"
    and r: "r = json_reply StatusCreated (enc_OrderProto u)"
    and u: "proto_order_data u = (uint32_of_uint k, narrow_order (order_cols ord))"
    by (rule gateway_order_stored [OF assms(2,3)])
  have "order_rows (order_db w1) k = Some (order_cols ord)" by (simp add: rows)
  moreover have "order_rows (order_db w1) \<subseteq>\<^sub>m order_rows (order_db w2)"
    and inv2: "system_inv \<lparr>world = w2, tasks = ts'\<rparr>"
    using cafe_reach_orders [OF assms(7,6)] by simp_all
  ultimately have k: "order_rows (order_db w2) k = Some (order_cols ord)" by (blast dest: map_le_Some)
  have "unat k < 2 ^ 32" using assms(8) k unfolding keys_fit_def by blast
  then have key: "uint_of_uint32 (o_id u) = k"
    using u by (simp add: proto_order_data_def uint32_roundtrip_iff)
  have ok2: "gorm_ok order_cols (order_db w2)" using inv2 by (simp add: system_inv_def)
  from gateway_GetOrder [OF assms(9) ok2 assms(10), of "o_id u"] k key obtain u' w3 where
    "Handlers_GetOrder (gateway_clients T) (fmt_uint (o_id u)) w2 = (json_reply StatusOK (enc_OrderProto u'), w3)"
    "proto_order_data u' = (o_id u, narrow_order (order_cols ord))" by (auto simp: order_rows32_def)
  then show ?thesis unfolding cafe_http_routes(9) [OF assms(1) segment_fmt] using req ord r by blast
qed

theorem http_order_round_trip_witness:
  "\<exists>ord (u :: OrderProto) u' w3.
    place_order (known_user demo2) (menu_price demo2) demo_request = Some ord \<and>
    cafe_http perfect chi_ref demo_miss ''GET'' (''/api/orders/'' @ fmt_uint (o_id u)) None demo3 =
      (json_reply StatusOK (enc_OrderProto u'), w3) \<and>
    proto_order_data u' = (o_id u, narrow_order (order_cols ord))"
proof -
  have ok: "backends_ok demo2" using demo_up(3) by (simp add: backends_up_def)
  have st: "status (json_reply StatusCreated (enc_OrderProto (order_modelToProto two_coffees))) = StatusCreated" by simp
  have inv: "system_inv \<lparr>world = demo3, tasks = [Finished (Return \<lparr>co_order = Some (order_modelToProto two_coffees)\<rparr>)]\<rparr>"
    by (rule system_inv_reach [OF cafe_reach_trans [OF demo_run(2,1)] system_inv_fresh [OF demo0_fresh]])
  from http_order_round_trip [OF chi_ref_law ok demo_up(5) demo_post_order st inv cafe_reach.start
      demo_fit(3) reliable_perfect demo_up(7), of None]
  obtain req ord u u' w3 where "Decode order_body_fields zero_order_body order_two_body = (True, req)" and
    po: "place_order (known_user demo2) (menu_price demo2)
      \<lparr>co_user_id = ob_user_id req, co_items = map to_order_item (ob_items req)\<rparr> = Some ord" and
    g: "cafe_http perfect chi_ref demo_miss ''GET'' (''/api/orders/'' @ fmt_uint (o_id (u :: OrderProto))) None demo3 =
      (json_reply StatusOK (enc_OrderProto u'), w3)" and
    u': "proto_order_data u' = (o_id u, narrow_order (order_cols ord))" by blast
  with demo_decode_order have "\<lparr>co_user_id = ob_user_id req, co_items = map to_order_item (ob_items req)\<rparr> = demo_request"
    by (auto simp: demo_request_def to_order_item_def)
  with po g u' show ?thesis by metis
qed

end
